(* ===== verification/Prelude.thy ===== *)
theory Prelude
  imports Complex_Main "HOL-Library.AList"
begin

section \<open>The part of JavaScript the SDK's code computes with\<close>

text \<open>
  The shared ground of the component theories: JavaScript values, the string operations the
  sources call (\<open>trim\<close>, \<open>toLowerCase\<close>, \<open>split\<close>, \<open>join\<close>, \<open>startsWith\<close>), object property
  access and object spread, and the two "absent value" operators (\<open>??\<close> and truthiness).

  Strings are Isabelle's \<^typ>\<open>string\<close>: a \<^typ>\<open>char\<close> is a code unit below 256.  Node decodes
  HTTP header values as Latin-1, so every header string is of this form; code units from 256 up
  are outside the model.  Within the range, \<open>trim\<close> and \<open>toLowerCase\<close> are the exact functions.

  An object is the association list of its own properties in insertion order, with distinct
  keys; assignment is \<^const>\<open>AList.update\<close>, which overwrites in place or appends, as JavaScript
  does for non-index keys.  Numbers are exact rationals: the rounding of IEEE doubles, \<open>NaN\<close> and
  the infinities are not modelled.
\<close>

named_theorems object_lookup \<open>what a property reads after an assignment, a removal or a spread\<close>

subsection \<open>Values\<close>

datatype js =
    JUndefined
  | JNull
  | JBool bool
  | JNum rat
  | JStr string
  | JArr "js list"
  | JObj "(string \<times> js) list"

type_synonym js_object = "(string \<times> js) list"

text \<open>\<open>typeof v === 'object' && v !== null\<close>: arrays are objects too.\<close>

fun is_object :: "js \<Rightarrow> bool" where
  "is_object (JArr _) = True"
| "is_object (JObj _) = True"
| "is_object _ = False"

text \<open>
  \<open>k in v\<close> followed by \<open>v[k]\<close>, for a string key the sources read (never an array index nor
  \<open>length\<close>): \<^const>\<open>None\<close> when the property is absent.
\<close>

fun js_prop :: "js \<Rightarrow> string \<Rightarrow> js option" where
  "js_prop (JObj ps) k = map_of ps k"
| "js_prop _ _ = None"

fun js_str :: "js \<Rightarrow> string option" where
  "js_str (JStr s) = Some s"
| "js_str _ = None"

fun js_num :: "js \<Rightarrow> rat option" where
  "js_num (JNum n) = Some n"
| "js_num _ = None"

text \<open>Truthiness of a possibly absent string: absent and empty are both falsy.\<close>

fun str_truthy :: "string option \<Rightarrow> bool" where
  "str_truthy None = False"
| "str_truthy (Some s) = (s \<noteq> '''')"

text \<open>\<open>a ?? b\<close> where \<^const>\<open>None\<close> stands for \<open>undefined\<close> and \<open>null\<close>.\<close>

fun nullish :: "'a option \<Rightarrow> 'a \<Rightarrow> 'a" where
  "nullish None d = d"
| "nullish (Some x) _ = x"

lemma nullish_case: "nullish x d = (case x of None \<Rightarrow> d | Some y \<Rightarrow> y)"
  by (cases x) auto

lemma str_truthy_iff: "str_truthy x \<longleftrightarrow> (\<exists>s. x = Some s \<and> s \<noteq> '''')"
  by (cases x) auto

subsection \<open>Results of a computation that may throw\<close>

text \<open>A computation is \<open>error + 'a\<close>: \<^const>\<open>Inl\<close> is the thrown value, \<^const>\<open>Inr\<close> the result.\<close>

fun bind_res :: "'e + 'a \<Rightarrow> ('a \<Rightarrow> 'e + 'b) \<Rightarrow> 'e + 'b" where
  "bind_res (Inl e) f = Inl e"
| "bind_res (Inr a) f = f a"

fun is_ok :: "'e + 'a \<Rightarrow> bool" where
  "is_ok (Inl _) = False"
| "is_ok (Inr _) = True"

lemma bind_res_Inr_iff [simp]: "bind_res r f = Inr b \<longleftrightarrow> (\<exists>a. r = Inr a \<and> f a = Inr b)"
  by (cases r) auto

lemma is_ok_iff: "is_ok r \<longleftrightarrow> (\<exists>a. r = Inr a)"
  by (cases r) auto

subsection \<open>Characters\<close>

text \<open>The white space and line terminators of ECMAScript below 256, which \<open>trim\<close> removes.\<close>

definition is_ws :: "char \<Rightarrow> bool" where
  "is_ws c = (of_char c \<in> {9, 10, 11, 12, 13, 32, 160 :: nat})"

text \<open>\<open>toLowerCase\<close> on one code unit below 256.\<close>

definition lower_char :: "char \<Rightarrow> char" where
  "lower_char c = (let n = of_char c :: nat in
     if 65 \<le> n \<and> n \<le> 90 \<or> 192 \<le> n \<and> n \<le> 222 \<and> n \<noteq> 215 then char_of (n + 32) else c)"

definition to_lower :: "string \<Rightarrow> string" where
  "to_lower s = map lower_char s"

lemma of_char_lt: "of_char (c :: char) < (256 :: nat)"
  using of_char_mod_256 [of c] by (metis mod_less_divisor zero_less_numeral)

lemma lower_char_idem [simp]: "lower_char (lower_char c) = lower_char c"
  by (auto simp: lower_char_def Let_def of_char_of)

lemma to_lower_idem [simp]: "to_lower (to_lower s) = to_lower s"
  by (simp add: to_lower_def)

lemma length_to_lower [simp]: "length (to_lower s) = length s"
  by (simp add: to_lower_def)

lemma to_lower_append: "to_lower (s @ t) = to_lower s @ to_lower t"
  by (simp add: to_lower_def)

subsection \<open>trim\<close>

definition trim :: "string \<Rightarrow> string" where
  "trim s = rev (dropWhile is_ws (rev (dropWhile is_ws s)))"

lemma length_trim: "length (trim s) \<le> length s"
proof -
  have "length (trim s) \<le> length (dropWhile is_ws s)"
    using length_dropWhile_le [of is_ws "rev (dropWhile is_ws s)"] by (simp add: trim_def)
  also have "\<dots> \<le> length s" by (rule length_dropWhile_le)
  finally show ?thesis .
qed

lemma dropWhile_hd: "dropWhile p xs \<noteq> [] \<Longrightarrow> \<not> p (hd (dropWhile p xs))"
  by (rule hd_dropWhile)

lemma dropWhile_id: "xs = [] \<or> \<not> p (hd xs) \<Longrightarrow> dropWhile p xs = xs"
  by (cases xs) auto

lemma trim_last: "trim s \<noteq> [] \<Longrightarrow> \<not> is_ws (last (trim s))"
  by (metis hd_dropWhile hd_rev rev_is_Nil_conv trim_def rev_rev_ident)

lemma rev_dropWhile_rev_prefix: "\<exists>zs. ys = rev (dropWhile p (rev ys)) @ zs"
  by (metis rev_append rev_rev_ident takeWhile_dropWhile_id)

lemma trim_hd: "trim s \<noteq> [] \<Longrightarrow> \<not> is_ws (hd (trim s))"
proof -
  assume ne: "trim s \<noteq> []"
  obtain zs where zs: "dropWhile is_ws s = trim s @ zs"
    using rev_dropWhile_rev_prefix [of "dropWhile is_ws s" is_ws] by (auto simp: trim_def)
  with ne have "hd (trim s) = hd (dropWhile is_ws s)" and "dropWhile is_ws s \<noteq> []"
    by auto
  then show ?thesis using hd_dropWhile [of is_ws s] by simp
qed

lemma trim_fix: "s = [] \<or> (\<not> is_ws (hd s) \<and> \<not> is_ws (last s)) \<Longrightarrow> trim s = s"
proof (cases "s = []")
  case False
  assume "s = [] \<or> (\<not> is_ws (hd s) \<and> \<not> is_ws (last s))"
  with False have "dropWhile is_ws s = s" and "dropWhile is_ws (rev s) = rev s"
    by (auto simp: dropWhile_id hd_rev)
  then show ?thesis by (simp add: trim_def)
qed (simp add: trim_def)

lemma trim_idem [simp]: "trim (trim s) = trim s"
  by (rule trim_fix) (use trim_hd trim_last in blast)

lemma set_trim: "set (trim s) \<subseteq> set s"
  by (auto simp: trim_def dest!: set_dropWhileD)

subsection \<open>split and join\<close>

text \<open>
  \<open>s.split(c)\<close> for a one-character separator: never empty; the pieces between separators.
\<close>

fun split_on :: "char \<Rightarrow> string \<Rightarrow> string list" where
  "split_on c [] = [[]]"
| "split_on c (x # xs) =
     (if x = c then [] # split_on c xs
      else (case split_on c xs of [] \<Rightarrow> [[x]] | p # ps \<Rightarrow> (x # p) # ps))"

fun join :: "string \<Rightarrow> string list \<Rightarrow> string" where
  "join sep [] = []"
| "join sep [p] = p"
| "join sep (p # q # ps) = p @ sep @ join sep (q # ps)"

lemma split_on_nonempty [simp]: "split_on c s \<noteq> []"
  by (induction s) (auto split: list.splits)

lemma split_on_no_sep: "p \<in> set (split_on c s) \<Longrightarrow> c \<notin> set p"
  by (induction s arbitrary: p) (auto split: list.splits if_splits)

lemma split_on_free: "c \<notin> set s \<Longrightarrow> split_on c s = [s]"
  by (induction s) auto

lemma split_on_append: "c \<notin> set p \<Longrightarrow> split_on c (p @ c # s) = p # split_on c s"
  by (induction p) auto

lemma join_Cons: "ps \<noteq> [] \<Longrightarrow> join sep (p # ps) = p @ sep @ join sep ps"
  by (cases ps) auto

lemma split_join:
  assumes "ps \<noteq> []" and "\<forall>p \<in> set ps. c \<notin> set p"
  shows "split_on c (join [c] ps) = ps"
  using assms
proof (induction ps)
  case Nil
  then show ?case by simp
next
  case (Cons p ps)
  then show ?case
    by (cases "ps = []") (auto simp: split_on_free join_Cons split_on_append)
qed

lemma join_split [simp]: "join [c] (split_on c s) = s"
proof (induction s)
  case Nil
  then show ?case by simp
next
  case (Cons x xs)
  obtain p ps where ps: "split_on c xs = p # ps"
    by (cases "split_on c xs") auto
  with Cons show ?case
    by (cases ps) (auto simp: join_Cons)
qed

subsection \<open>startsWith\<close>

definition starts_with :: "string \<Rightarrow> string \<Rightarrow> bool" where
  "starts_with s p = (take (length p) s = p)"

lemma starts_with_iff: "starts_with s p \<longleftrightarrow> (\<exists>t. s = p @ t)"
proof
  assume "starts_with s p"
  then have "s = p @ drop (length p) s"
    by (metis append_take_drop_id starts_with_def)
  then show "\<exists>t. s = p @ t" by blast
qed (auto simp: starts_with_def)

text \<open>\<open>s.includes(p)\<close>.\<close>

fun str_includes :: "string \<Rightarrow> string \<Rightarrow> bool" where
  "str_includes [] p = (p = [])"
| "str_includes (c # s) p = (starts_with (c # s) p \<or> str_includes s p)"

lemma str_includes_iff: "str_includes s p \<longleftrightarrow> (\<exists>a b. s = a @ p @ b)"
proof (induction s)
  case (Cons c s)
  have "(\<exists>a b. c # s = a @ p @ b) \<longleftrightarrow> (\<exists>b. c # s = p @ b) \<or> (\<exists>a b. s = a @ p @ b)"
    by (metis append_Cons append_Nil list.exhaust list.inject)
  with Cons.IH show ?case by (simp add: starts_with_iff)
qed auto

subsection \<open>Objects\<close>

text \<open>\<open>{ ...ps, [k]: v }\<close>.\<close>

abbreviation js_set :: "'k \<Rightarrow> 'v \<Rightarrow> ('k \<times> 'v) list \<Rightarrow> ('k \<times> 'v) list" where
  "js_set \<equiv> AList.update"

text \<open>\<open>{ ...ps, ...qs }\<close>: the properties of the second object are assigned in order.\<close>

fun spread :: "('k \<times> 'v) list \<Rightarrow> ('k \<times> 'v) list \<Rightarrow> ('k \<times> 'v) list" where
  "spread ps [] = ps"
| "spread ps ((k, v) # qs) = spread (AList.update k v ps) qs"

text \<open>Rest destructuring \<open>const { k1: _, k2: _, ...rest } = ps\<close>.\<close>

definition without :: "'k list \<Rightarrow> ('k \<times> 'v) list \<Rightarrow> ('k \<times> 'v) list" where
  "without ks ps = filter (\<lambda>(k, _). k \<notin> set ks) ps"

lemma map_of_js_set [object_lookup]: "map_of (js_set k v ps) = (map_of ps)(k \<mapsto> v)"
  by (rule update_conv')

lemma map_of_without [object_lookup]: "map_of (without ks ps) k = (if k \<in> set ks then None else map_of ps k)"
  by (induction ps) (auto simp: without_def)

lemma map_of_spread [object_lookup]: "map_of (spread ps qs) k =
    (case map_of (rev qs) k of None \<Rightarrow> map_of ps k | Some v \<Rightarrow> Some v)"
proof (induction ps qs rule: spread.induct)
  case (2 ps k' v qs)
  then show ?case
    by (auto simp: map_of_js_set map_add_def split: option.splits)
qed simp

lemma distinct_js_set: "distinct (map fst ps) \<Longrightarrow> distinct (map fst (js_set k v ps))"
  by (rule distinct_update)

lemma distinct_without: "distinct (map fst ps) \<Longrightarrow> distinct (map fst (without ks ps))"
  unfolding without_def by (induction ps) auto

subsection \<open>Lists\<close>

lemma list_all2_mono_set:
  "list_all2 P xs ys \<Longrightarrow> (\<And>x y. x \<in> set xs \<Longrightarrow> P x y \<Longrightarrow> Q x y) \<Longrightarrow> list_all2 Q xs ys"
  by (auto simp: list_all2_conv_all_nth)

end
