(* ===== verification/Http.thy ===== *)
theory Http
  imports Prelude
begin

section \<open>Requests, responses and the two route utilities\<close>

text \<open>
  The parts of an Express request and response the SDK reads and writes,
  \<^verbatim>\<open>constant/header-key.constant.ts\<close>, \<^verbatim>\<open>constant/infrastructure-route.constant.ts\<close>,
  \<^verbatim>\<open>observability/route-pattern.util.ts\<close> and the request context of
  \<^verbatim>\<open>context/request-context.interface.ts\<close> and
  \<^verbatim>\<open>auth/authenticated-request-context.interface.ts\<close>.
\<close>

subsection \<open>Header names\<close>

datatype header_key =
    CORRELATION_ID | IDEMPOTENCY_KEY | API_KEY | AUTHORIZATION | ACCEPT_LANGUAGE | USER_AGENT
  | X_FORWARDED_FOR

fun HeaderKey :: "header_key \<Rightarrow> string" where
  "HeaderKey CORRELATION_ID = ''x-correlation-id''"
| "HeaderKey IDEMPOTENCY_KEY = ''x-idempotency-key''"
| "HeaderKey API_KEY = ''x-api-key''"
| "HeaderKey AUTHORIZATION = ''authorization''"
| "HeaderKey ACCEPT_LANGUAGE = ''accept-language''"
| "HeaderKey USER_AGENT = ''user-agent''"
| "HeaderKey X_FORWARDED_FOR = ''x-forwarded-for''"

subsection \<open>The request context and the request\<close>

text \<open>\<open>RequestContext\<close>, narrowed to \<open>AuthenticatedRequestContext\<close> by the key id.\<close>

record request_context =
  rc_tenantId :: string
  rc_userId :: "string option"
  rc_permissions :: "string list"
  rc_locale :: string
  rc_correlationId :: string

record auth_request_context = request_context +
  rc_apiKeyId :: "string option"

text \<open>A header Node hands over once is a string, one it hands over repeatedly an array.\<close>

datatype header_value = HOne string | HMany "string list"

record request =
  req_headers :: "string \<rightharpoonup> header_value"
  req_method :: string
  req_path :: string
  req_baseUrl :: string
  req_originalUrl :: string
  req_url :: string
  req_route :: js
  req_context :: "auth_request_context option" \<comment> \<open>the property \<open>iveriRequestContext\<close>\<close>

record 'b response =
  res_headersSent :: bool
  res_headers :: "string \<rightharpoonup> string"
  res_status :: nat
  res_json :: "'b option"

text \<open>\<open>const value = request.headers[key]; Array.isArray(value) ? value[0] : value\<close>.\<close>

definition readHeader :: "request \<Rightarrow> string \<Rightarrow> string option" where
  "readHeader req key = (case req_headers req key of
     None \<Rightarrow> None
   | Some (HOne s) \<Rightarrow> Some s
   | Some (HMany []) \<Rightarrow> None
   | Some (HMany (s # _)) \<Rightarrow> Some s)"

subsection \<open>Infrastructure routes\<close>

definition INFRASTRUCTURE_ROUTE_PREFIXES :: "string list" where
  "INFRASTRUCTURE_ROUTE_PREFIXES = [''/health'', ''/metrics'']"

definition isInfrastructureRoute :: "string \<Rightarrow> string list \<Rightarrow> bool" where
  "isInfrastructureRoute path prefixes =
     list_ex (\<lambda>pre. path = pre \<or> starts_with path (pre @ ''/'')) prefixes"

lemma isInfrastructureRoute_iff:
  "isInfrastructureRoute path prefixes \<longleftrightarrow>
     (\<exists>pre \<in> set prefixes. path = pre \<or> (\<exists>rest. path = pre @ ''/'' @ rest))"
  by (auto simp: isInfrastructureRoute_def list_ex_iff starts_with_iff)

subsection \<open>The route pattern\<close>

definition UNMATCHED_ROUTE_LABEL :: string where
  "UNMATCHED_ROUTE_LABEL = ''unmatched''"

fun all_strings :: "js list \<Rightarrow> string list option" where
  "all_strings [] = Some []"
| "all_strings (v # vs) = (case js_str v of None \<Rightarrow> None | Some s \<Rightarrow> map_option ((#) s) (all_strings vs))"

definition readRoutePattern :: "request \<Rightarrow> string" where
  "readRoutePattern req =
     (case js_prop (req_route req) ''path'' of
        None \<Rightarrow> UNMATCHED_ROUTE_LABEL
      | Some (JStr path) \<Rightarrow> req_baseUrl req @ path
      | Some (JArr ps) \<Rightarrow>
          (case all_strings ps of
             Some entries \<Rightarrow> req_baseUrl req @ join ''|'' entries
           | None \<Rightarrow> UNMATCHED_ROUTE_LABEL)
      | Some _ \<Rightarrow> UNMATCHED_ROUTE_LABEL)"

lemma all_strings_iff: "all_strings vs = Some ss \<longleftrightarrow> vs = map JStr ss"
proof (induction vs arbitrary: ss)
  case (Cons v vs)
  then show ?case by (cases v; cases ss) auto
qed auto

text \<open>
  The route label and tag of a request never contains anything the sender chose beyond which
  route matched: it is a function of the matched route and the router mount point, and of nothing
  else of the request, neither the URL, the path, the headers nor the method.
\<close>

theorem readRoutePattern_ignores_url:
  "readRoutePattern (req\<lparr>req_url := u, req_originalUrl := ou, req_path := p, req_headers := h,
      req_method := m, req_context := c\<rparr>) = readRoutePattern req \<and>
   readRoutePattern (req\<lparr>req_route := JUndefined, req_baseUrl := b\<rparr>) = UNMATCHED_ROUTE_LABEL"
  by (simp add: readRoutePattern_def split: option.split js.split)

text \<open>
  A prefix of the infrastructure list covers the path itself and the paths below it, on a
  path boundary: \<open>/health/live\<close> is infrastructure, \<open>/healthcheck-proxy\<close> is not, for any list of
  prefixes that end without a slash.
\<close>

theorem isInfrastructureRoute_boundary:
  "isInfrastructureRoute (pre @ rest) [pre] = (rest = [] \<or> hd rest = CHR ''/'') \<and>
   isInfrastructureRoute path (ps @ qs) = (isInfrastructureRoute path ps \<or> isInfrastructureRoute path qs)"
  by (cases rest) (auto simp: isInfrastructureRoute_iff)

end
