(* ===== verification/Exceptions.thy ===== *)
theory Exceptions
  imports Http
begin

section \<open>Typed domain exceptions and the values that can be thrown\<close>

text \<open>
  \<^verbatim>\<open>exception/domain.exception.ts\<close> and its fifteen subclasses.  \<open>ErrorCode\<close> is an enum of
  \<^verbatim>\<open>@iveri/contracts\<close>: the members the SDK names are constructors, any other member a service's
  own subclass may use is \<open>OtherCode\<close>.
\<close>

datatype error_code =
    VALIDATION_FAILED | UNAUTHENTICATED | TOKEN_EXPIRED | INVALID_CREDENTIALS | FORBIDDEN
  | INSUFFICIENT_PERMISSION | TENANT_MISMATCH | RESOURCE_NOT_FOUND | RESOURCE_ALREADY_EXISTS
  | RESOURCE_CONFLICT | PAYLOAD_TOO_LARGE | UNPROCESSABLE_ENTITY | RATE_LIMIT_EXCEEDED
  | INTERNAL_ERROR | EXTERNAL_SERVICE_ERROR | SERVICE_UNAVAILABLE | DEPENDENCY_TIMEOUT
  | OtherCode string

text \<open>A \<open>DomainException\<close>: its class name, and the fields the class and the constructor set.\<close>

record domain_exception =
  de_name :: string
  de_code :: error_code
  de_status :: nat
  de_message :: string
  de_details :: "js_object option"
  de_stack :: "string option"

text \<open>
  The constructor, applied to the two members a subclass declares.  The stack is kept as its first
  line, which \<open>captureStackTrace\<close> makes of the name and the message; the frames are left out.
\<close>

definition DomainException ::
    "string \<Rightarrow> error_code \<Rightarrow> nat \<Rightarrow> string \<Rightarrow> js_object option \<Rightarrow> domain_exception" where
  "DomainException name code status message details =
     \<lparr>de_name = name, de_code = code, de_status = status, de_message = message,
      de_details = details, de_stack = Some (name @ '': '' @ message)\<rparr>"

definition ValidationFailedException :: "string \<Rightarrow> js_object option \<Rightarrow> domain_exception" where
  "ValidationFailedException = DomainException ''ValidationFailedException'' VALIDATION_FAILED 400"

definition UnauthenticatedException :: "string \<Rightarrow> js_object option \<Rightarrow> domain_exception" where
  "UnauthenticatedException = DomainException ''UnauthenticatedException'' UNAUTHENTICATED 401"

definition TokenExpiredException :: "string \<Rightarrow> js_object option \<Rightarrow> domain_exception" where
  "TokenExpiredException = DomainException ''TokenExpiredException'' TOKEN_EXPIRED 401"

definition InvalidCredentialsException :: "string \<Rightarrow> js_object option \<Rightarrow> domain_exception" where
  "InvalidCredentialsException = DomainException ''InvalidCredentialsException'' INVALID_CREDENTIALS 401"

definition ForbiddenActionException :: "string \<Rightarrow> js_object option \<Rightarrow> domain_exception" where
  "ForbiddenActionException = DomainException ''ForbiddenActionException'' FORBIDDEN 403"

definition InsufficientPermissionException :: "string \<Rightarrow> js_object option \<Rightarrow> domain_exception" where
  "InsufficientPermissionException =
     DomainException ''InsufficientPermissionException'' INSUFFICIENT_PERMISSION 403"

definition TenantMismatchException :: "string \<Rightarrow> js_object option \<Rightarrow> domain_exception" where
  "TenantMismatchException = DomainException ''TenantMismatchException'' TENANT_MISMATCH 403"

definition ResourceNotFoundException :: "string \<Rightarrow> js_object option \<Rightarrow> domain_exception" where
  "ResourceNotFoundException = DomainException ''ResourceNotFoundException'' RESOURCE_NOT_FOUND 404"

definition ResourceAlreadyExistsException :: "string \<Rightarrow> js_object option \<Rightarrow> domain_exception" where
  "ResourceAlreadyExistsException =
     DomainException ''ResourceAlreadyExistsException'' RESOURCE_ALREADY_EXISTS 409"

definition ResourceConflictException :: "string \<Rightarrow> js_object option \<Rightarrow> domain_exception" where
  "ResourceConflictException = DomainException ''ResourceConflictException'' RESOURCE_CONFLICT 409"

definition UnprocessableEntityException :: "string \<Rightarrow> js_object option \<Rightarrow> domain_exception" where
  "UnprocessableEntityException =
     DomainException ''UnprocessableEntityException'' UNPROCESSABLE_ENTITY 422"

definition RateLimitExceededException :: "string \<Rightarrow> js_object option \<Rightarrow> domain_exception" where
  "RateLimitExceededException =
     DomainException ''RateLimitExceededException'' RATE_LIMIT_EXCEEDED 429"

definition InternalException :: "string \<Rightarrow> js_object option \<Rightarrow> domain_exception" where
  "InternalException = DomainException ''InternalException'' INTERNAL_ERROR 500"

definition ExternalServiceException :: "string \<Rightarrow> js_object option \<Rightarrow> domain_exception" where
  "ExternalServiceException = DomainException ''ExternalServiceException'' EXTERNAL_SERVICE_ERROR 502"

definition ServiceUnavailableException :: "string \<Rightarrow> js_object option \<Rightarrow> domain_exception" where
  "ServiceUnavailableException =
     DomainException ''ServiceUnavailableException'' SERVICE_UNAVAILABLE 503"

subsection \<open>Anything that can be thrown\<close>

text \<open>
  Nest's \<open>HttpException\<close>: \<open>getStatus()\<close>, \<open>getResponse()\<close> (a string or an object), \<open>message\<close>.
  Any other \<open>Error\<close>: its message, its stack and the further properties a driver puts on it.
\<close>

record http_exception =
  he_status :: nat
  he_response :: js
  he_message :: string
  he_stack :: "string option"

record error_object =
  eo_message :: string
  eo_stack :: "string option"
  eo_props :: js_object

datatype thrown =
    ThrowDomain domain_exception
  | ThrowHttp http_exception
  | ThrowError error_object
  | ThrowValue js

text \<open>\<open>error instanceof Error ? error.message : otherwise\<close>.\<close>

fun error_message_or :: "string \<Rightarrow> thrown \<Rightarrow> string" where
  "error_message_or otherwise (ThrowDomain d) = de_message d"
| "error_message_or otherwise (ThrowHttp h) = he_message h"
| "error_message_or otherwise (ThrowError e) = eo_message e"
| "error_message_or otherwise (ThrowValue _) = otherwise"

lemmas sdk_exception_defs = DomainException_def ValidationFailedException_def
  UnauthenticatedException_def TokenExpiredException_def InvalidCredentialsException_def
  ForbiddenActionException_def InsufficientPermissionException_def TenantMismatchException_def
  ResourceNotFoundException_def ResourceAlreadyExistsException_def ResourceConflictException_def
  UnprocessableEntityException_def RateLimitExceededException_def InternalException_def
  ExternalServiceException_def ServiceUnavailableException_def

definition sdk_exceptions :: "(string \<Rightarrow> js_object option \<Rightarrow> domain_exception) list" where
  "sdk_exceptions =
     [ValidationFailedException, UnauthenticatedException, TokenExpiredException,
      InvalidCredentialsException, ForbiddenActionException, InsufficientPermissionException,
      TenantMismatchException, ResourceNotFoundException, ResourceAlreadyExistsException,
      ResourceConflictException, UnprocessableEntityException, RateLimitExceededException,
      InternalException, ExternalServiceException, ServiceUnavailableException]"

end
