(* ===== verification/Auth.thy ===== *)
theory Auth
  imports Exceptions
begin

section \<open>Authentication and permissions\<close>

text \<open>
  The files of \<^verbatim>\<open>auth/\<close> and \<^verbatim>\<open>context/current-request-context.decorator.ts\<close>: the token verifier,
  the two guards, the decorators they read and the JWT configuration of the module.

  Parameters: \<open>jwt\<close> is \<open>JwtService.verifyAsync\<close> of \<^verbatim>\<open>@nestjs/jwt\<close> on the service the module
  configures; \<open>USER\<close> and \<open>SERVICE\<close> are the two values of \<open>PrincipalType\<close> of \<^verbatim>\<open>@iveri/contracts\<close>; the
  reflector's \<open>getAllAndOverride\<close> is a field of a record.
\<close>

subsection \<open>Route metadata\<close>

record route_metadata =
  rm_isPublic :: "bool option"
  rm_required :: "string list option"

definition Public :: "route_metadata \<Rightarrow> route_metadata" where
  "Public m = m\<lparr>rm_isPublic := Some True\<rparr>"

definition RequirePermission :: "string list \<Rightarrow> route_metadata \<Rightarrow> route_metadata" where
  "RequirePermission permissions m = m\<lparr>rm_required := Some permissions\<rparr>"

text \<open>\<open>getAllAndOverride\<close> at the two metadata keys the guards use.\<close>

record reflector =
  rf_isPublic :: "route_metadata list \<Rightarrow> bool option"
  rf_required :: "route_metadata list \<Rightarrow> string list option"

text \<open>What Nest documents of it: the metadata of the first target that carries any.\<close>

fun first_defined :: "('m \<Rightarrow> 'v option) \<Rightarrow> 'm list \<Rightarrow> 'v option" where
  "first_defined get [] = None"
| "first_defined get (t # ts) = (case get t of Some v \<Rightarrow> Some v | None \<Rightarrow> first_defined get ts)"

definition reflects_documented :: "reflector \<Rightarrow> bool" where
  "reflects_documented rf \<longleftrightarrow>
     rf_isPublic rf = first_defined rm_isPublic \<and> rf_required rf = first_defined rm_required"

definition nest_reflector :: reflector where
  "nest_reflector = \<lparr>rf_isPublic = first_defined rm_isPublic, rf_required = first_defined rm_required\<rparr>"

record execution_context =
  ec_type :: string
  ec_handler :: route_metadata
  ec_class :: route_metadata
  ec_request :: request

subsection \<open>The JWT configuration\<close>

datatype jwt_algorithm = HS256 | HS384 | HS512

record auth_module_options =
  ao_secret :: string
  ao_issuer :: string
  ao_audience :: string
  ao_algorithm :: "jwt_algorithm option"

record jwt_service_options =
  js_secret :: string
  js_algorithms :: "jwt_algorithm list"
  js_issuer :: string
  js_audience :: string

definition AuthModule_jwt_options :: "auth_module_options \<Rightarrow> jwt_service_options" where
  "AuthModule_jwt_options options =
     \<lparr>js_secret = ao_secret options, js_algorithms = [nullish (ao_algorithm options) HS256],
      js_issuer = ao_issuer options, js_audience = ao_audience options\<rparr>"

subsection \<open>The token verifier\<close>

text \<open>What \<open>verifyAsync\<close> ends with: claims, a \<open>TokenExpiredError\<close>, or any other error.\<close>

datatype jwt_result = Claims js_object | Expired | Rejected string

record access_token_payload =
  at_sub :: string
  at_pt :: string
  at_tid :: string
  at_perms :: "string list"
  at_iat :: "rat option"
  at_exp :: "rat option"
  at_iss :: "string option"
  at_aud :: "string option"

fun only_strings :: "js list \<Rightarrow> string list" where
  "only_strings [] = []"
| "only_strings (JStr s # vs) = s # only_strings vs"
| "only_strings (_ # vs) = only_strings vs"

definition claim_string :: "js_object \<Rightarrow> string \<Rightarrow> string option" where
  "claim_string claims k = Option.bind (map_of claims k) js_str"

definition claim_number :: "js_object \<Rightarrow> string \<Rightarrow> rat option" where
  "claim_number claims k = Option.bind (map_of claims k) js_num"

definition narrowClaims ::
    "string \<Rightarrow> string \<Rightarrow> js_object \<Rightarrow> domain_exception + access_token_payload" where
  "narrowClaims USER SERVICE claims =
     (if \<not> str_truthy (claim_string claims ''sub'') \<or> \<not> str_truthy (claim_string claims ''tid'')
      then Inl (UnauthenticatedException ''Access token is missing its subject or tenant claim'' None)
      else if claim_string claims ''pt'' \<noteq> Some USER \<and> claim_string claims ''pt'' \<noteq> Some SERVICE
      then Inl (UnauthenticatedException ''Access token does not say what kind of principal it names'' None)
      else Inr
        \<lparr>at_sub = the (claim_string claims ''sub''), at_pt = the (claim_string claims ''pt''),
         at_tid = the (claim_string claims ''tid''),
         at_perms = (case map_of claims ''perms'' of Some (JArr perms) \<Rightarrow> only_strings perms | _ \<Rightarrow> []),
         at_iat = claim_number claims ''iat'', at_exp = claim_number claims ''exp'',
         at_iss = claim_string claims ''iss'', at_aud = claim_string claims ''aud''\<rparr>)"

definition AccessTokenService_verify ::
    "string \<Rightarrow> string \<Rightarrow> (string \<Rightarrow> jwt_result) \<Rightarrow> string \<Rightarrow> domain_exception + access_token_payload" where
  "AccessTokenService_verify USER SERVICE jwt token = (case jwt token of
     Claims claims \<Rightarrow> narrowClaims USER SERVICE claims
   | Expired \<Rightarrow> Inl (TokenExpiredException ''Access token has expired'' None)
   | Rejected _ \<Rightarrow> Inl (UnauthenticatedException ''Access token is not valid'' None))"

subsection \<open>The authentication guard\<close>

definition BEARER_SCHEME :: string where
  "BEARER_SCHEME = ''bearer''"

definition readBearerToken :: "request \<Rightarrow> string option" where
  "readBearerToken req = (let header = readHeader req (HeaderKey AUTHORIZATION) in
     if \<not> str_truthy header then None
     else case split_on CHR '' '' (the header) of
       [] \<Rightarrow> None
     | scheme # rest \<Rightarrow>
         let token = trim (join '' '' rest) in
         if to_lower scheme \<noteq> BEARER_SCHEME \<or> length token = 0 then None else Some token)"

definition readLocale :: "request \<Rightarrow> string" where
  "readLocale req = (let header = readHeader req (HeaderKey ACCEPT_LANGUAGE) in
     if \<not> str_truthy header then ''en''
     else let primary = hd (split_on CHR '','' (the header));
              tag = trim (hd (split_on CHR '';'' primary))
          in if tag \<noteq> '''' then tag else ''en'')"

definition isPublic :: "reflector \<Rightarrow> execution_context \<Rightarrow> bool" where
  "isPublic rf ctx = nullish (rf_isPublic rf [ec_handler ctx, ec_class ctx]) False"

definition principal_context ::
    "string \<Rightarrow> access_token_payload \<Rightarrow> request \<Rightarrow> auth_request_context" where
  "principal_context SERVICE payload req =
     (let isService = (at_pt payload = SERVICE) in
      \<lparr>rc_tenantId = at_tid payload,
       rc_userId = (if isService then None else Some (at_sub payload)),
       rc_permissions = at_perms payload,
       rc_locale = readLocale req,
       rc_correlationId = nullish (readHeader req (HeaderKey CORRELATION_ID)) '''',
       rc_apiKeyId = (if isService then Some (at_sub payload) else None)\<rparr>)"

text \<open>The answer of a guard: \<open>true\<close> with the request as the guard leaves it, or the exception thrown.\<close>

definition AuthGuard_canActivate ::
    "(string \<Rightarrow> domain_exception + access_token_payload) \<Rightarrow> string \<Rightarrow> reflector \<Rightarrow> execution_context \<Rightarrow>
     domain_exception + bool \<times> request" where
  "AuthGuard_canActivate verify SERVICE rf ctx =
     (if ec_type ctx \<noteq> ''http'' then Inr (True, ec_request ctx)
      else if isPublic rf ctx then Inr (True, ec_request ctx)
      else case readBearerToken (ec_request ctx) of
        None \<Rightarrow> Inl (UnauthenticatedException ''No credentials presented'' None)
      | Some token \<Rightarrow> bind_res (verify token) (\<lambda>payload.
          Inr (True, (ec_request ctx)\<lparr>req_context :=
            Some (principal_context SERVICE payload (ec_request ctx))\<rparr>)))"

subsection \<open>The permission guard and the context decorator\<close>

definition PermissionGuard_canActivate ::
    "reflector \<Rightarrow> execution_context \<Rightarrow> domain_exception + bool" where
  "PermissionGuard_canActivate rf ctx = (case rf_required rf [ec_handler ctx, ec_class ctx] of
     None \<Rightarrow> Inr True
   | Some required \<Rightarrow>
       if length required = 0 then Inr True
       else case req_context (ec_request ctx) of
         None \<Rightarrow> Inl (UnauthenticatedException
           ''Permission-gated route reached with no authenticated context'' None)
       | Some c \<Rightarrow>
           let missing = filter (\<lambda>permission. permission \<notin> set (rc_permissions c)) required in
           if length missing > 0
           then Inl (InsufficientPermissionException ''Missing required permission''
             (Some [(''required'', JArr (map JStr required)), (''missing'', JArr (map JStr missing))]))
           else Inr True)"

definition CurrentRequestContext :: "request \<Rightarrow> domain_exception + auth_request_context" where
  "CurrentRequestContext req = (case req_context req of
     None \<Rightarrow> Inl (UnauthenticatedException ''Request reached a handler with no authenticated context'' None)
   | Some c \<Rightarrow> Inr c)"

subsection \<open>What the guard needs of a verifier\<close>

locale token_verifier =
  fixes verify :: "string \<Rightarrow> domain_exception + access_token_payload"
  assumes verified_subject: "verify t = Inr p \<Longrightarrow> at_sub p \<noteq> ''''"
    and verified_tenant: "verify t = Inr p \<Longrightarrow> at_tid p \<noteq> ''''"
    and refused_401: "verify t = Inl e \<Longrightarrow> de_status e = 401 \<and> de_details e = None"
begin

lemma established_context:
  assumes "AuthGuard_canActivate verify SERVICE rf ctx = Inr (b, req')"
    and "ec_type ctx = ''http''" and "\<not> isPublic rf ctx"
  obtains c p token where "req_context req' = Some c" and "readBearerToken (ec_request ctx) = Some token"
    and "verify token = Inr p" and "c = principal_context SERVICE p (ec_request ctx)"
    and "rc_tenantId c \<noteq> ''''" and "(rc_userId c = None) \<noteq> (rc_apiKeyId c = None)"
proof -
  from assms obtain token p where t: "readBearerToken (ec_request ctx) = Some token" "verify token = Inr p"
    and r: "req' = (ec_request ctx)\<lparr>req_context := Some (principal_context SERVICE p (ec_request ctx))\<rparr>"
    by (auto simp: AuthGuard_canActivate_def split: option.splits)
  show thesis
    by (rule that [OF _ t refl]) (auto simp: r principal_context_def Let_def verified_tenant [OF t(2)])
qed

lemma refused:
  "AuthGuard_canActivate verify SERVICE rf ctx = Inl e \<Longrightarrow> de_status e = 401 \<and> de_details e = None"
  by (auto simp: AuthGuard_canActivate_def sdk_exception_defs split: if_splits option.splits
      elim!: bind_res.elims dest: refused_401)

end

lemma claim_string_truthy: "str_truthy x \<Longrightarrow> the x \<noteq> ''''"
  by (auto simp: str_truthy_iff)

lemma narrowClaims_Inr:
  "narrowClaims USER SERVICE claims = Inr p \<Longrightarrow> at_sub p \<noteq> '''' \<and> at_tid p \<noteq> '''' \<and> at_pt p \<in> {USER, SERVICE}"
  by (auto simp: narrowClaims_def claim_string_truthy split: if_splits)

lemma narrowClaims_Inl:
  "narrowClaims USER SERVICE claims = Inl e \<Longrightarrow> de_status e = 401 \<and> de_details e = None"
  by (auto simp: narrowClaims_def sdk_exception_defs split: if_splits)

interpretation av: token_verifier "AccessTokenService_verify USER SERVICE jwt" for USER SERVICE jwt
  by unfold_locales
    (auto simp: AccessTokenService_verify_def sdk_exception_defs split: jwt_result.splits
      dest!: narrowClaims_Inr narrowClaims_Inl)

lemma split_first: "\<exists>p ps. split_on c s = p # ps"
  by (cases "split_on c s") auto

lemma readBearerToken_shape:
  "readBearerToken req = Some token \<longleftrightarrow>
   (\<exists>scheme rest. readHeader req (HeaderKey AUTHORIZATION) = Some (scheme @ '' '' @ rest) \<and>
      CHR '' '' \<notin> set scheme \<and> to_lower scheme = BEARER_SCHEME \<and> token = trim rest \<and> token \<noteq> '''')"
proof
  assume a: "readBearerToken req = Some token"
  then obtain h where h: "readHeader req (HeaderKey AUTHORIZATION) = Some h"
    by (auto simp: readBearerToken_def Let_def str_truthy_iff simp del: HeaderKey.simps split: if_splits)
  obtain scheme rest where sp: "split_on CHR '' '' h = scheme # rest" using split_first by blast
  from a h sp have c: "to_lower scheme = BEARER_SCHEME" "token = trim (join '' '' rest)" "token \<noteq> ''''"
    by (auto simp: readBearerToken_def Let_def simp del: HeaderKey.simps split: if_splits)
  have "rest \<noteq> []" using c by (auto simp: trim_def)
  then have "h = scheme @ '' '' @ join '' '' rest"
    using join_split [of "CHR '' ''" h] by (simp add: sp join_Cons)
  then show "\<exists>scheme rest. readHeader req (HeaderKey AUTHORIZATION) = Some (scheme @ '' '' @ rest) \<and>
      CHR '' '' \<notin> set scheme \<and> to_lower scheme = BEARER_SCHEME \<and> token = trim rest \<and> token \<noteq> ''''"
    using c h split_on_no_sep [of scheme "CHR '' ''" h] sp by (auto simp del: HeaderKey.simps)
next
  assume "\<exists>scheme rest. readHeader req (HeaderKey AUTHORIZATION) = Some (scheme @ '' '' @ rest) \<and>
      CHR '' '' \<notin> set scheme \<and> to_lower scheme = BEARER_SCHEME \<and> token = trim rest \<and> token \<noteq> ''''"
  then show "readBearerToken req = Some token"
    by (auto simp: readBearerToken_def Let_def split_on_append simp del: HeaderKey.simps)
qed

lemma AuthGuard_ok:
  "is_ok (AuthGuard_canActivate verify SERVICE rf ctx) =
     (ec_type ctx \<noteq> ''http'' \<or> isPublic rf ctx \<or>
      (\<exists>token p. readBearerToken (ec_request ctx) = Some token \<and> verify token = Inr p))"
  by (auto simp: AuthGuard_canActivate_def is_ok_iff split: option.split)

lemma verify_ok:
  "(\<exists>p. AccessTokenService_verify USER SERVICE jwt token = Inr p) \<longleftrightarrow>
     (\<exists>claims. jwt token = Claims claims \<and> str_truthy (claim_string claims ''sub'') \<and>
        str_truthy (claim_string claims ''tid'') \<and> claim_string claims ''pt'' \<in> {Some USER, Some SERVICE})"
  by (auto simp: AccessTokenService_verify_def narrowClaims_def split: jwt_result.split)

lemma only_strings_entries: "only_strings vs = concat (map (\<lambda>v. case v of JStr s \<Rightarrow> [s] | _ \<Rightarrow> []) vs)"
  by (induction vs rule: only_strings.induct) simp_all

subsection \<open>Properties\<close>

text \<open>
  C5: authentication is the default.  A request on a route that is not public is let through
  exactly when its authorization header is a bearer token which the JWT library accepts and whose
  claims name a subject, a tenant and one of the two kinds of principal; everything else is
  refused with a 401 that carries no details, and TOKEN_EXPIRED singles out expiry.
\<close>

theorem AuthGuard_fails_closed:
  "is_ok (AuthGuard_canActivate (AccessTokenService_verify USER SERVICE jwt) SERVICE rf
       \<lparr>ec_type = ''http'', ec_handler = h, ec_class = k, ec_request = req\<rparr>) =
     (rf_isPublic rf [h, k] = Some True \<or>
      (\<exists>scheme rest claims.
        readHeader req ''authorization'' = Some (scheme @ '' '' @ rest) \<and> CHR '' '' \<notin> set scheme \<and>
        to_lower scheme = ''bearer'' \<and> trim rest \<noteq> '''' \<and> jwt (trim rest) = Claims claims \<and>
        str_truthy (claim_string claims ''sub'') \<and> str_truthy (claim_string claims ''tid'') \<and>
        claim_string claims ''pt'' \<in> {Some USER, Some SERVICE})) \<and>
   (case AuthGuard_canActivate (AccessTokenService_verify USER SERVICE jwt) SERVICE rf ctx of
      Inl e \<Rightarrow> de_status e = 401 \<and> de_details e = None
    | Inr (b, _) \<Rightarrow> b) \<and>
   (case AccessTokenService_verify USER SERVICE jwt token of
      Inl e \<Rightarrow> (de_code e = TOKEN_EXPIRED) = (jwt token = Expired) | Inr _ \<Rightarrow> True)"
proof (intro conjI)
  have pub: "isPublic rf \<lparr>ec_type = ''http'', ec_handler = h, ec_class = k, ec_request = req\<rparr>
      \<longleftrightarrow> rf_isPublic rf [h, k] = Some True"
    by (cases "rf_isPublic rf [h, k]") (auto simp: isPublic_def)
  show "is_ok (AuthGuard_canActivate (AccessTokenService_verify USER SERVICE jwt) SERVICE rf
       \<lparr>ec_type = ''http'', ec_handler = h, ec_class = k, ec_request = req\<rparr>) =
     (rf_isPublic rf [h, k] = Some True \<or>
      (\<exists>scheme rest claims.
        readHeader req ''authorization'' = Some (scheme @ '' '' @ rest) \<and> CHR '' '' \<notin> set scheme \<and>
        to_lower scheme = ''bearer'' \<and> trim rest \<noteq> '''' \<and> jwt (trim rest) = Claims claims \<and>
        str_truthy (claim_string claims ''sub'') \<and> str_truthy (claim_string claims ''tid'') \<and>
        claim_string claims ''pt'' \<in> {Some USER, Some SERVICE}))"
    unfolding AuthGuard_ok pub by (auto simp: readBearerToken_shape verify_ok BEARER_SCHEME_def)
  show "case AuthGuard_canActivate (AccessTokenService_verify USER SERVICE jwt) SERVICE rf ctx of
      Inl e \<Rightarrow> de_status e = 401 \<and> de_details e = None | Inr (b, _) \<Rightarrow> b"
    by (auto split: sum.split dest: av.refused)
      (auto simp: AuthGuard_canActivate_def split: if_splits option.splits)
  show "case AccessTokenService_verify USER SERVICE jwt token of
      Inl e \<Rightarrow> (de_code e = TOKEN_EXPIRED) = (jwt token = Expired) | Inr _ \<Rightarrow> True"
    by (auto simp: AccessTokenService_verify_def narrowClaims_def sdk_exception_defs split: jwt_result.split)
qed

text \<open>
  C6: the tenant and the principal come from the verified token and from nothing else.  A request
  let through on a guarded route has a context whose tenant is the token's and not empty, with
  exactly one of a user and an API key, the token's subject, and whose permissions are the string entries of the
  token's \<open>perms\<close>, in their order, none when it is no array; a request that differs in anything but the authorization header gets the same tenant,
  principal and permissions.
\<close>

theorem context_comes_from_the_token:
  assumes "AuthGuard_canActivate (AccessTokenService_verify USER SERVICE jwt) SERVICE rf ctx = Inr (b, req')"
    and "ec_type ctx = ''http''" and "\<not> isPublic rf ctx"
    and "AuthGuard_canActivate (AccessTokenService_verify USER SERVICE jwt) SERVICE rf
           (ctx\<lparr>ec_request := other\<rparr>) = Inr (b', other')"
    and "readHeader other (HeaderKey AUTHORIZATION) = readHeader (ec_request ctx) (HeaderKey AUTHORIZATION)"
  shows "\<exists>c claims tid sub. req_context req' = Some c \<and>
     jwt (the (readBearerToken (ec_request ctx))) = Claims claims \<and>
     claim_string claims ''tid'' = Some tid \<and> tid \<noteq> '''' \<and> rc_tenantId c = tid \<and>
     claim_string claims ''sub'' = Some sub \<and>
     (if claim_string claims ''pt'' = Some SERVICE
      then rc_apiKeyId c = Some sub \<and> rc_userId c = None
      else claim_string claims ''pt'' = Some USER \<and> rc_userId c = Some sub \<and> rc_apiKeyId c = None) \<and>
     rc_permissions c = (case map_of claims ''perms'' of
        Some (JArr vs) \<Rightarrow> concat (map (\<lambda>v. case v of JStr s \<Rightarrow> [s] | _ \<Rightarrow> []) vs) | _ \<Rightarrow> []) \<and>
     map_option (\<lambda>c. (rc_tenantId c, rc_userId c, rc_apiKeyId c, rc_permissions c)) (req_context other')
       = Some (rc_tenantId c, rc_userId c, rc_apiKeyId c, rc_permissions c)"
proof -
  obtain c p token where c: "req_context req' = Some c" and t: "readBearerToken (ec_request ctx) = Some token"
    and v: "AccessTokenService_verify USER SERVICE jwt token = Inr p"
    and cp: "c = principal_context SERVICE p (ec_request ctx)"
    using assms(1-3) by (rule av.established_context)
  have http: "ec_type (ctx\<lparr>ec_request := other\<rparr>) = ''http''" and np: "\<not> isPublic rf (ctx\<lparr>ec_request := other\<rparr>)"
    using assms(2,3) by (simp_all add: isPublic_def)
  obtain c' p' token' where c': "req_context other' = Some c'"
    and t': "readBearerToken (ec_request (ctx\<lparr>ec_request := other\<rparr>)) = Some token'"
    and v': "AccessTokenService_verify USER SERVICE jwt token' = Inr p'"
    and cp': "c' = principal_context SERVICE p' (ec_request (ctx\<lparr>ec_request := other\<rparr>))"
    using assms(4) http np by (rule av.established_context)
  have same: "p' = p" using t t' v v' assms(5) by (simp add: readBearerToken_def)
  from v obtain claims where cl: "jwt token = Claims claims" "narrowClaims USER SERVICE claims = Inr p"
    by (auto simp: AccessTokenService_verify_def split: jwt_result.splits)
  then obtain tid sub pt where "claim_string claims ''tid'' = Some tid" "tid \<noteq> ''''"
    "claim_string claims ''sub'' = Some sub" "claim_string claims ''pt'' = Some pt"
    "at_tid p = tid" "at_sub p = sub" "at_pt p = pt" "pt = USER \<or> pt = SERVICE"
    by (auto simp: narrowClaims_def str_truthy_iff split: if_splits)
  moreover have "at_perms p = (case map_of claims ''perms'' of
      Some (JArr vs) \<Rightarrow> concat (map (\<lambda>v. case v of JStr s \<Rightarrow> [s] | _ \<Rightarrow> []) vs) | _ \<Rightarrow> [])"
    using cl(2) by (auto simp: narrowClaims_def only_strings_entries split: if_splits option.split js.split)
  ultimately show ?thesis
    using c c' t cl(1) by (auto simp: cp cp' same principal_context_def Let_def)
qed

text \<open>A token minted from an API key, presented twice, once beside a tenant header.\<close>

abbreviation example_claims :: js_object where
  "example_claims \<equiv> [(''sub'', JStr ''key-1''), (''tid'', JStr ''tenant-a''), (''pt'', JStr ''service''),
     (''perms'', JArr [JStr ''read'', JNum 7])]"

abbreviation bearer_request :: "(string \<rightharpoonup> header_value) \<Rightarrow> request" where
  "bearer_request hs \<equiv> \<lparr>req_headers = hs(''authorization'' \<mapsto> HOne ''Bearer tok''), req_method = ''GET'',
     req_path = ''/'', req_baseUrl = '''', req_originalUrl = ''/'', req_url = ''/'',
     req_route = JUndefined, req_context = None\<rparr>"

abbreviation guarded :: "request \<Rightarrow> execution_context" where
  "guarded req \<equiv> \<lparr>ec_type = ''http'', ec_handler = \<lparr>rm_isPublic = None, rm_required = None\<rparr>,
     ec_class = \<lparr>rm_isPublic = None, rm_required = None\<rparr>, ec_request = req\<rparr>"

abbreviation example_jwt :: "string \<Rightarrow> jwt_result" where
  "example_jwt \<equiv> \<lambda>t. if t = ''tok'' then Claims example_claims else Rejected ''bad''"

abbreviation example_guard :: "request \<Rightarrow> domain_exception + bool \<times> request" where
  "example_guard req \<equiv> AuthGuard_canActivate (AccessTokenService_verify ''user'' ''service'' example_jwt)
     ''service'' nest_reflector (guarded req)"

lemma context_comes_from_the_token_witness:
  "case example_guard (bearer_request Map.empty) of
     Inl _ \<Rightarrow> False
   | Inr (_, req') \<Rightarrow> map_option (\<lambda>c. (rc_tenantId c, rc_userId c, rc_apiKeyId c, rc_permissions c)) (req_context req')
       = Some (''tenant-a'', None, Some ''key-1'', [''read''])"
proof -
  let ?r = "bearer_request Map.empty"
  let ?o = "bearer_request [''x-tenant-id'' \<mapsto> HOne ''tenant-b'']"
  have ok: "is_ok (example_guard ?r)" "is_ok (example_guard ?o)" by code_simp+
  obtain b req' where a: "example_guard ?r = Inr (b, req')" using ok(1) unfolding is_ok_iff by fastforce
  obtain b' other' where o: "example_guard ?o = Inr (b', other')" using ok(2) unfolding is_ok_iff by fastforce
  have http: "ec_type (guarded ?r) = ''http''" by simp
  have guarded: "\<not> isPublic nest_reflector (guarded ?r)" by code_simp
  have o': "AuthGuard_canActivate (AccessTokenService_verify ''user'' ''service'' example_jwt)
      ''service'' nest_reflector ((guarded ?r)\<lparr>ec_request := ?o\<rparr>) = Inr (b', other')"
    using o by simp
  have same: "readHeader ?o (HeaderKey AUTHORIZATION) = readHeader (ec_request (guarded ?r)) (HeaderKey AUTHORIZATION)"
    by code_simp
  have jwt: "example_jwt (the (readBearerToken (ec_request (guarded ?r)))) = Claims example_claims" by code_simp
  have cl: "claim_string example_claims ''pt'' = Some ''service''"
    "claim_string example_claims ''tid'' = Some ''tenant-a''"
    "claim_string example_claims ''sub'' = Some ''key-1''"
    "map_of example_claims ''perms'' = Some (JArr [JStr ''read'', JNum 7])" by code_simp+
  obtain c claims tid sub where "req_context req' = Some c" "Claims example_claims = Claims claims"
    "claim_string claims ''tid'' = Some tid" "rc_tenantId c = tid" "claim_string claims ''sub'' = Some sub"
    "if claim_string claims ''pt'' = Some ''service''
      then rc_apiKeyId c = Some sub \<and> rc_userId c = None
      else claim_string claims ''pt'' = Some ''user'' \<and> rc_userId c = Some sub \<and> rc_apiKeyId c = None"
    "rc_permissions c = (case map_of claims ''perms'' of
      Some (JArr vs) \<Rightarrow> concat (map (\<lambda>v. case v of JStr s \<Rightarrow> [s] | _ \<Rightarrow> []) vs) | _ \<Rightarrow> [])"
    using context_comes_from_the_token [OF a http guarded o' same] unfolding jwt by blast
  then show ?thesis using cl by (simp add: a)
qed

text \<open>
  Every permission a route declares is required.  The guard lets a request through exactly when
  the route declares none, or the request carries a context whose permissions include all of them;
  otherwise it is a 403 naming exactly the missing ones, in their order, or, with no context, a 401.
\<close>

theorem PermissionGuard_requires_all:
  "is_ok (PermissionGuard_canActivate rf ctx) =
     (case rf_required rf [ec_handler ctx, ec_class ctx] of
        None \<Rightarrow> True
      | Some required \<Rightarrow> required = [] \<or>
          (case req_context (ec_request ctx) of None \<Rightarrow> False | Some c \<Rightarrow> set required \<subseteq> set (rc_permissions c))) \<and>
   (case PermissionGuard_canActivate rf ctx of
      Inr b \<Rightarrow> b
    | Inl e \<Rightarrow>
        (case req_context (ec_request ctx) of
           None \<Rightarrow> e = UnauthenticatedException
             ''Permission-gated route reached with no authenticated context'' None
         | Some c \<Rightarrow> de_status e = 403 \<and> Option.bind (de_details e) (\<lambda>d. map_of d ''missing'') =
             Some (JArr (map JStr (filter (\<lambda>p. p \<notin> set (rc_permissions c))
               (the (rf_required rf [ec_handler ctx, ec_class ctx])))))))"
  by (auto simp: PermissionGuard_canActivate_def is_ok_iff sdk_exception_defs Let_def
      filter_empty_conv split: option.split)

end
