(* ===== verification/TenantScope.thy ===== *)
theory TenantScope
  imports Prelude
begin

section \<open>Tenant-scoped persistence\<close>

text \<open>
  \<^verbatim>\<open>repository/tenant-scope.util.ts\<close>, \<^verbatim>\<open>repository/base-repository.type.ts\<close> and
  \<^verbatim>\<open>repository/base.repository.ts\<close>.  TypeORM is not part of the repository: the object a call
  to \<open>getRepository\<close> returns is the record \<open>orm\<close> of functions, a parameter of every operation, and
  what the code relies on is stated as the predicates \<open>reads_documented\<close>, \<open>writes_documented\<close> and
  \<open>save_upserts\<close>.  A table is the list of its rows, a row the object of its columns.
\<close>

subsection \<open>Clauses and rows\<close>

text \<open>\<open>FindOptionsWhere | FindOptionsWhere[] | undefined\<close>: an array is TypeORM's OR.\<close>

datatype where_arg = WhereNone | WhereOne js_object | WhereMany "js_object list"

type_synonym row = js_object
type_synonym table = "row list"

definition tenant_of :: "row \<Rightarrow> js option" where
  "tenant_of r = map_of r ''tenantId''"

definition scopeWhereToTenant :: "string \<Rightarrow> where_arg \<Rightarrow> js_object list" where
  "scopeWhereToTenant tenantId w =
     (let clauses = (case w of WhereMany cs \<Rightarrow> cs | WhereOne c \<Rightarrow> [c] | WhereNone \<Rightarrow> [[]]);
          effective = (if length clauses > 0 then clauses else [[]])
      in map (\<lambda>clause. js_set ''tenantId'' (JStr tenantId) clause) effective)"

definition managed_columns :: "string list" where
  "managed_columns = [''id'', ''tenantId'', ''createdAt'', ''updatedAt'', ''deletedAt'']"

definition stripManagedColumns :: "js_object \<Rightarrow> js_object" where
  "stripManagedColumns vs = without managed_columns vs"

text \<open>
  What TypeORM documents of a \<open>where\<close>: the row satisfies some clause, and satisfying a clause
  means equality on every property that is a plain string (operators such as \<open>In\<close> and nested
  relation clauses are other values, about which nothing is assumed).
\<close>

definition satisfies_clause :: "js_object \<Rightarrow> row \<Rightarrow> bool" where
  "satisfies_clause c r = (\<forall>(k, v) \<in> set c. case v of JStr s \<Rightarrow> map_of r k = Some (JStr s) | _ \<Rightarrow> True)"

definition honours_where :: "js_object list \<Rightarrow> row \<Rightarrow> bool" where
  "honours_where ws r = (\<exists>c \<in> set ws. satisfies_clause c r)"

subsection \<open>The injected TypeORM repository\<close>

record find_options =
  fo_where :: "js_object list"
  fo_order :: "js_object option"
  fo_relations :: "js_object option"
  fo_withDeleted :: "bool option"
  fo_take :: "nat option"
  fo_skip :: "nat option"

record orm =
  orm_findOne :: "find_options \<Rightarrow> table \<Rightarrow> row option"
  orm_find :: "find_options \<Rightarrow> table \<Rightarrow> row list"
  orm_findAndCount :: "find_options \<Rightarrow> table \<Rightarrow> row list \<times> nat"
  orm_count :: "find_options \<Rightarrow> table \<Rightarrow> nat"
  orm_exists :: "find_options \<Rightarrow> table \<Rightarrow> bool"
  orm_save :: "js_object list \<Rightarrow> table \<Rightarrow> table \<times> row list"
  orm_update :: "js_object list \<Rightarrow> js_object \<Rightarrow> table \<Rightarrow> table \<times> nat option"
  orm_softDelete :: "js_object list \<Rightarrow> table \<Rightarrow> table \<times> nat option"
  orm_restore :: "js_object list \<Rightarrow> table \<Rightarrow> table \<times> nat option"

text \<open>Documented reads: every row handed back, or counted, honours the \<open>where\<close> it was asked with.\<close>

definition reads_documented :: "orm \<Rightarrow> bool" where
  "reads_documented R \<longleftrightarrow>
     (\<forall>opts t r. orm_findOne R opts t = Some r \<longrightarrow> honours_where (fo_where opts) r) \<and>
     (\<forall>opts t. \<forall>r \<in> set (orm_find R opts t). honours_where (fo_where opts) r) \<and>
     (\<forall>opts t. \<forall>r \<in> set (fst (orm_findAndCount R opts t)). honours_where (fo_where opts) r) \<and>
     (\<forall>opts t. snd (orm_findAndCount R opts t) \<le> length (filter (honours_where (fo_where opts)) t)) \<and>
     (\<forall>opts t. orm_count R opts t \<le> length (filter (honours_where (fo_where opts)) t)) \<and>
     (\<forall>opts t. orm_exists R opts t \<longrightarrow> (\<exists>r \<in> set t. honours_where (fo_where opts) r))"

text \<open>
  Documented writes: a row that does not honour the \<open>where\<close> is left as it is; a row that does keeps
  every column that is not among the assigned ones (an assigned \<open>undefined\<close> assigns nothing),
  the \<open>updatedAt\<close> and \<open>deletedAt\<close> bookkeeping of TypeORM apart.
\<close>

definition column_after :: "js_object \<Rightarrow> string \<Rightarrow> js option \<Rightarrow> js option" where
  "column_after vs k old =
     (case map_of vs k of None \<Rightarrow> old | Some JUndefined \<Rightarrow> old | Some v \<Rightarrow> Some v)"

definition row_write :: "js_object list \<Rightarrow> js_object \<Rightarrow> string list \<Rightarrow> row \<Rightarrow> row \<Rightarrow> bool" where
  "row_write ws vs own r r' \<longleftrightarrow> r' = r \<or>
     (honours_where ws r \<and> (\<forall>k. k \<notin> set own \<longrightarrow> map_of r' k = column_after vs k (map_of r k)))"

definition writes_documented :: "orm \<Rightarrow> bool" where
  "writes_documented R \<longleftrightarrow>
     (\<forall>ws vs t. list_all2 (row_write ws vs [''updatedAt'']) t (fst (orm_update R ws vs t))) \<and>
     (\<forall>ws t. list_all2 (row_write ws [] [''updatedAt'', ''deletedAt'']) t (fst (orm_softDelete R ws t))) \<and>
     (\<forall>ws t. list_all2 (row_write ws [] [''updatedAt'', ''deletedAt'']) t (fst (orm_restore R ws t)))"

subsection \<open>The DTOs and the repository methods\<close>

record tenant_scoped_dto =
  dto_tenantId :: string
  dto_manager :: "orm option"

record by_id_dto = tenant_scoped_dto +
  dto_id :: string

record find_one_by_id_dto = by_id_dto +
  dto_id_relations :: "js_object option"
  dto_id_withDeleted :: "bool option"

record count_dto = tenant_scoped_dto +
  dto_where :: where_arg
  dto_withDeleted :: "bool option"

record find_one_dto = count_dto +
  dto_order :: "js_object option"
  dto_relations :: "js_object option"

record find_many_dto = find_one_dto +
  dto_take :: "nat option"
  dto_skip :: "nat option"

record save_one_dto = tenant_scoped_dto +
  dto_entity :: js_object

record save_many_dto = tenant_scoped_dto +
  dto_entities :: "js_object list"

record update_by_id_dto = by_id_dto +
  dto_id_values :: js_object

record update_by_dto = tenant_scoped_dto +
  dto_update_where :: where_arg
  dto_update_values :: js_object

text \<open>\<open>(manager ?? this.dataSource.manager).getRepository(this.entityTarget)\<close>.\<close>

definition repository :: "orm \<Rightarrow> orm option \<Rightarrow> orm" where
  "repository ds manager = nullish manager ds"

definition by_id :: "string \<Rightarrow> where_arg" where
  "by_id i = WhereOne [(''id'', JStr i)]"

definition findOneById :: "orm \<Rightarrow> find_one_by_id_dto \<Rightarrow> table \<Rightarrow> row option" where
  "findOneById ds dto t = orm_findOne (repository ds (dto_manager dto))
     \<lparr>fo_where = scopeWhereToTenant (dto_tenantId dto) (by_id (dto_id dto)),
      fo_order = None, fo_relations = dto_id_relations dto, fo_withDeleted = dto_id_withDeleted dto,
      fo_take = None, fo_skip = None\<rparr> t"

definition findOne :: "orm \<Rightarrow> find_one_dto \<Rightarrow> table \<Rightarrow> row option" where
  "findOne ds dto t = orm_findOne (repository ds (dto_manager dto))
     \<lparr>fo_where = scopeWhereToTenant (dto_tenantId dto) (dto_where dto),
      fo_order = dto_order dto, fo_relations = dto_relations dto, fo_withDeleted = dto_withDeleted dto,
      fo_take = None, fo_skip = None\<rparr> t"

definition find_many_options :: "find_many_dto \<Rightarrow> find_options" where
  "find_many_options dto =
     \<lparr>fo_where = scopeWhereToTenant (dto_tenantId dto) (dto_where dto),
      fo_order = dto_order dto, fo_relations = dto_relations dto, fo_withDeleted = dto_withDeleted dto,
      fo_take = dto_take dto, fo_skip = dto_skip dto\<rparr>"

definition findMany :: "orm \<Rightarrow> find_many_dto \<Rightarrow> table \<Rightarrow> row list" where
  "findMany ds dto t = orm_find (repository ds (dto_manager dto)) (find_many_options dto) t"

definition findAndCount :: "orm \<Rightarrow> find_many_dto \<Rightarrow> table \<Rightarrow> row list \<times> nat" where
  "findAndCount ds dto t = orm_findAndCount (repository ds (dto_manager dto)) (find_many_options dto) t"

definition count_options :: "('a) count_dto_scheme \<Rightarrow> find_options" where
  "count_options dto =
     \<lparr>fo_where = scopeWhereToTenant (dto_tenantId dto) (dto_where dto),
      fo_order = None, fo_relations = None, fo_withDeleted = dto_withDeleted dto,
      fo_take = None, fo_skip = None\<rparr>"

definition count :: "orm \<Rightarrow> count_dto \<Rightarrow> table \<Rightarrow> nat" where
  "count ds dto t = orm_count (repository ds (dto_manager dto)) (count_options dto) t"

definition exists_row :: "orm \<Rightarrow> count_dto \<Rightarrow> table \<Rightarrow> bool" where
  "exists_row ds dto t = orm_exists (repository ds (dto_manager dto)) (count_options dto) t"

definition saveOne :: "orm \<Rightarrow> save_one_dto \<Rightarrow> table \<Rightarrow> table \<times> row list" where
  "saveOne ds dto t = orm_save (repository ds (dto_manager dto))
     [js_set ''tenantId'' (JStr (dto_tenantId dto)) (dto_entity dto)] t"

definition saveMany :: "orm \<Rightarrow> save_many_dto \<Rightarrow> table \<Rightarrow> table \<times> row list" where
  "saveMany ds dto t = orm_save (repository ds (dto_manager dto))
     (map (\<lambda>entity. js_set ''tenantId'' (JStr (dto_tenantId dto)) entity) (dto_entities dto)) t"

text \<open>\<open>result.affected ?? 0\<close>.\<close>

definition with_affected :: "table \<times> nat option \<Rightarrow> table \<times> nat" where
  "with_affected res = (fst res, nullish (snd res) 0)"

definition updateOneById :: "orm \<Rightarrow> update_by_id_dto \<Rightarrow> table \<Rightarrow> table \<times> nat" where
  "updateOneById ds dto t = with_affected (orm_update (repository ds (dto_manager dto))
     (scopeWhereToTenant (dto_tenantId dto) (by_id (dto_id dto)))
     (stripManagedColumns (dto_id_values dto)) t)"

definition updateBy :: "orm \<Rightarrow> update_by_dto \<Rightarrow> table \<Rightarrow> table \<times> nat" where
  "updateBy ds dto t = with_affected (orm_update (repository ds (dto_manager dto))
     (scopeWhereToTenant (dto_tenantId dto) (dto_update_where dto))
     (stripManagedColumns (dto_update_values dto)) t)"

definition softDeleteOneById :: "orm \<Rightarrow> by_id_dto \<Rightarrow> table \<Rightarrow> table \<times> nat" where
  "softDeleteOneById ds dto t = with_affected (orm_softDelete (repository ds (dto_manager dto))
     (scopeWhereToTenant (dto_tenantId dto) (by_id (dto_id dto))) t)"

definition restoreOneById :: "orm \<Rightarrow> by_id_dto \<Rightarrow> table \<Rightarrow> table \<times> nat" where
  "restoreOneById ds dto t = with_affected (orm_restore (repository ds (dto_manager dto))
     (scopeWhereToTenant (dto_tenantId dto) (by_id (dto_id dto))) t)"


text \<open>
  The scoped query builder: the repository it is created on, its alias and the one condition with
  its parameter.  The conditions a subclass adds are code of the services.
\<close>

record query_builder_dto = tenant_scoped_dto +
  dto_alias :: string

record query_builder =
  qb_repository :: orm
  qb_alias :: string
  qb_where :: string
  qb_parameters :: js_object

definition scopedQueryBuilder :: "orm \<Rightarrow> query_builder_dto \<Rightarrow> query_builder" where
  "scopedQueryBuilder ds dto =
     \<lparr>qb_repository = repository ds (dto_manager dto), qb_alias = dto_alias dto,
      qb_where = dto_alias dto @ ''.tenant_id = :tenantId'',
      qb_parameters = [(''tenantId'', JStr (dto_tenantId dto))]\<rparr>"

subsection \<open>The contract of the scoping function\<close>

text \<open>
  What the repository methods need of the function that scopes a \<open>where\<close>: every clause it returns
  carries the tenant as a plain equality.  The isolation lemmas are proved once against it.
\<close>

locale tenant_scoping =
  fixes scope :: "string \<Rightarrow> where_arg \<Rightarrow> js_object list"
  assumes scope_forces: "c \<in> set (scope tid w) \<Longrightarrow> (''tenantId'', JStr tid) \<in> set c"
begin

lemma honours_scope: "honours_where (scope tid w) r \<Longrightarrow> tenant_of r = Some (JStr tid)"
  by (fastforce simp: honours_where_def satisfies_clause_def tenant_of_def dest: scope_forces)

lemma foreign_row_kept:
  "row_write (scope tid w) vs own r r' \<Longrightarrow> tenant_of r \<noteq> Some (JStr tid) \<Longrightarrow> r' = r"
  by (auto simp: row_write_def dest: honours_scope)

lemma filter_scope_le:
  "length (filter (honours_where (scope tid w)) t) \<le> length (filter (\<lambda>r. tenant_of r = Some (JStr tid)) t)"
  by (induction t) (auto dest: honours_scope)

end

lemma scope_forces_tenant:
  "c \<in> set (scopeWhereToTenant tid w) \<Longrightarrow> (''tenantId'', JStr tid) \<in> set c"
proof -
  have set_in: "(k, v) \<in> set (js_set k v ps)" for k :: string and v :: js and ps
    by (induction ps) auto
  show "c \<in> set (scopeWhereToTenant tid w) \<Longrightarrow> (''tenantId'', JStr tid) \<in> set c"
    by (auto simp: scopeWhereToTenant_def Let_def set_in)
qed

interpretation ts: tenant_scoping scopeWhereToTenant
  by unfold_locales (rule scope_forces_tenant)

subsection \<open>Rows before and after a write\<close>

definition kept_columns :: "string list \<Rightarrow> row \<Rightarrow> row \<Rightarrow> bool" where
  "kept_columns ks r r' \<longleftrightarrow> (\<forall>k \<in> set ks. map_of r' k = map_of r k)"

text \<open>
  The rows of the table line up before and after; a row of another tenant is the same row, and no
  row changes one of the listed columns.
\<close>

definition tenant_frame :: "string \<Rightarrow> string list \<Rightarrow> table \<Rightarrow> table \<Rightarrow> bool" where
  "tenant_frame tid ks t t' \<longleftrightarrow>
     list_all2 (\<lambda>r r'. (tenant_of r \<noteq> Some (JStr tid) \<longrightarrow> r' = r) \<and> kept_columns ks r r') t t'"

text \<open>No row of another tenant changes, and of the rows of the tenant only the listed columns.\<close>

definition changes_only :: "string \<Rightarrow> string list \<Rightarrow> table \<Rightarrow> table \<Rightarrow> bool" where
  "changes_only tid ks t t' \<longleftrightarrow> list_all2 (\<lambda>r r'. (tenant_of r \<noteq> Some (JStr tid) \<longrightarrow> r' = r) \<and>
     (\<forall>k. k \<notin> set ks \<longrightarrow> map_of r' k = map_of r k)) t t'"

lemma stripped_column: "k \<in> set managed_columns \<Longrightarrow> column_after (stripManagedColumns vs) k old = old"
  by (simp add: column_after_def stripManagedColumns_def object_lookup)

lemma row_write_frame:
  assumes "row_write (scopeWhereToTenant tid w) vs own r r'"
    and "\<And>k old. k \<in> set ks \<Longrightarrow> column_after vs k old = old \<and> k \<notin> set own"
  shows "(tenant_of r \<noteq> Some (JStr tid) \<longrightarrow> r' = r) \<and> kept_columns ks r r'"
  using assms ts.foreign_row_kept [OF assms(1)]
  by (auto simp: row_write_def kept_columns_def)

lemma table_write_frame:
  assumes "list_all2 (row_write (scopeWhereToTenant tid w) vs own) t t'"
    and "\<And>k old. k \<in> set ks \<Longrightarrow> column_after vs k old = old \<and> k \<notin> set own"
  shows "tenant_frame tid ks t t'"
  unfolding tenant_frame_def
  using assms(1) by (rule list_all2_mono) (use row_write_frame assms(2) in blast)

subsection \<open>An in-memory TypeORM\<close>

text \<open>
  A concrete \<open>orm\<close> that behaves as documented, on which the witnesses run the repository; no
  property is about it.
\<close>

definition memory_write :: "js_object \<Rightarrow> row \<Rightarrow> row" where
  "memory_write vs r = filter (\<lambda>(k, v). map_of vs k = Some v \<and> v \<noteq> JUndefined) vs @ r"

definition memory_update :: "js_object list \<Rightarrow> js_object \<Rightarrow> table \<Rightarrow> table \<times> nat option" where
  "memory_update ws vs t =
     (map (\<lambda>r. if honours_where ws r then memory_write vs r else r) t,
      Some (length (filter (honours_where ws) t)))"

fun memory_save :: "js_object list \<Rightarrow> table \<Rightarrow> table" where
  "memory_save [] t = t"
| "memory_save (e # es) t = memory_save es
     (if map_of e ''id'' \<in> set (map (\<lambda>r. map_of r ''id'') t)
      then map (\<lambda>r. if map_of r ''id'' = map_of e ''id'' then memory_write e r else r) t
      else t @ [e])"

definition memory_orm :: orm where
  "memory_orm =
     \<lparr>orm_findOne = (\<lambda>opts t. find (honours_where (fo_where opts)) t),
      orm_find = (\<lambda>opts t. filter (honours_where (fo_where opts)) t),
      orm_findAndCount = (\<lambda>opts t. let rs = filter (honours_where (fo_where opts)) t in (rs, length rs)),
      orm_count = (\<lambda>opts t. length (filter (honours_where (fo_where opts)) t)),
      orm_exists = (\<lambda>opts t. list_ex (honours_where (fo_where opts)) t),
      orm_save = (\<lambda>es t. (memory_save es t, es)),
      orm_update = memory_update,
      orm_softDelete = (\<lambda>ws. memory_update ws [(''deletedAt'', JStr ''now'')]),
      orm_restore = (\<lambda>ws. memory_update ws [(''deletedAt'', JNull)])\<rparr>"

lemma map_of_filter_self:
  "map_of (filter (\<lambda>(k, v). map_of vs k = Some v \<and> P v) vs) k =
     (case map_of vs k of Some v \<Rightarrow> if P v then Some v else None | None \<Rightarrow> None)"
proof (cases "map_of vs k")
  case None
  then have "map_of (filter (\<lambda>(k, v). map_of vs k = Some v \<and> P v) vs) k = None"
    by (auto simp: map_of_eq_None_iff)
  with None show ?thesis by simp
next
  case (Some v)
  show ?thesis
  proof (cases "map_of (filter (\<lambda>(k, v). map_of vs k = Some v \<and> P v) vs) k")
    case None
    with Some show ?thesis
      by (auto simp: map_of_eq_None_iff image_iff dest: map_of_SomeD)
  next
    case (Some w)
    with \<open>map_of vs k = Some v\<close> show ?thesis by (auto dest: map_of_SomeD)
  qed
qed

lemma memory_write_column: "map_of (memory_write vs r) k = column_after vs k (map_of r k)"
  by (auto simp: memory_write_def column_after_def map_of_filter_self map_add_def
      split: option.splits js.splits)

lemma memory_orm_reads: "reads_documented memory_orm"
  by (auto simp: reads_documented_def memory_orm_def Let_def find_Some_iff list_ex_iff)

lemma memory_update_rows:
  assumes "\<And>k r. k \<notin> set own \<Longrightarrow> column_after vs k (map_of r k) = column_after us k (map_of r k)"
  shows "list_all2 (row_write ws us own) t (fst (memory_update ws vs t))"
  using assms
  by (auto simp: memory_update_def list_all2_map2 row_write_def memory_write_column
      intro!: list_all2_refl)

lemma memory_orm_writes: "writes_documented memory_orm"
  by (auto simp: writes_documented_def memory_orm_def column_after_def intro!: memory_update_rows)

subsection \<open>Each read, against the documented TypeORM\<close>

lemma documented_reads:
  assumes "reads_documented R"
  shows "orm_findOne R opts t = Some r \<Longrightarrow> honours_where (fo_where opts) r"
    and "r \<in> set (orm_find R opts t) \<Longrightarrow> honours_where (fo_where opts) r"
    and "r \<in> set (fst (orm_findAndCount R opts t)) \<Longrightarrow> honours_where (fo_where opts) r"
    and "orm_count R opts t \<le> length (filter (honours_where (fo_where opts)) t)"
    and "orm_exists R opts t \<Longrightarrow> \<exists>r \<in> set t. honours_where (fo_where opts) r"
  using assms unfolding reads_documented_def by blast+

lemma scoped_id: "honours_where (scopeWhereToTenant tid (by_id i)) r \<Longrightarrow> map_of r ''id'' = Some (JStr i)"
  by (auto simp: honours_where_def satisfies_clause_def scopeWhereToTenant_def by_id_def)

lemma findOneById_scoped:
  assumes "reads_documented (repository ds (dto_manager dto))" and "findOneById ds dto t = Some r"
  shows "tenant_of r = Some (JStr (dto_tenantId dto)) \<and> map_of r ''id'' = Some (JStr (dto_id dto))"
  using documented_reads(1) [OF assms(1) assms(2) [unfolded findOneById_def]]
  by (simp add: ts.honours_scope scoped_id)

lemma findOne_scoped:
  assumes "reads_documented (repository ds (dto_manager dto))" and "findOne ds dto t = Some r"
  shows "tenant_of r = Some (JStr (dto_tenantId dto))"
  using documented_reads(1) [OF assms(1) assms(2) [unfolded findOne_def]]
  by (simp add: ts.honours_scope)

lemma findMany_scoped:
  assumes "reads_documented (repository ds (dto_manager dto))"
    and "r \<in> set (findMany ds dto t) \<union> set (fst (findAndCount ds dto t))"
  shows "tenant_of r = Some (JStr (dto_tenantId dto))"
  using assms(2) documented_reads(2,3) [OF assms(1), of r "find_many_options dto" t]
  by (auto simp: findMany_def findAndCount_def find_many_options_def intro: ts.honours_scope)

lemma count_scoped:
  assumes "reads_documented (repository ds (dto_manager dto))"
  shows "count ds dto t \<le> length (filter (\<lambda>r. tenant_of r = Some (JStr (dto_tenantId dto))) t)"
  using order_trans [OF documented_reads(4) [OF assms, of "count_options dto" t]]
  by (simp add: count_def count_options_def ts.filter_scope_le)

lemma exists_scoped:
  assumes "reads_documented (repository ds (dto_manager dto))" and "exists_row ds dto t"
  shows "\<exists>r \<in> set t. tenant_of r = Some (JStr (dto_tenantId dto))"
  using documented_reads(5) [OF assms(1) assms(2) [unfolded exists_row_def]]
  by (auto simp: count_options_def dest: ts.honours_scope)

subsection \<open>Each write, against the documented TypeORM\<close>

lemma documented_writes:
  assumes "writes_documented R"
  shows "list_all2 (row_write ws vs [''updatedAt'']) t (fst (orm_update R ws vs t))"
    and "list_all2 (row_write ws [] [''updatedAt'', ''deletedAt'']) t (fst (orm_softDelete R ws t))"
    and "list_all2 (row_write ws [] [''updatedAt'', ''deletedAt'']) t (fst (orm_restore R ws t))"
  using assms unfolding writes_documented_def by blast+

abbreviation owned_columns :: "string list" where
  "owned_columns \<equiv> [''id'', ''tenantId'', ''createdAt'']"

lemma update_frame:
  assumes "writes_documented R"
  shows "tenant_frame tid (''deletedAt'' # owned_columns) t
    (fst (orm_update R (scopeWhereToTenant tid w) (stripManagedColumns vs) t))"
  using documented_writes(1) [OF assms]
  by (rule table_write_frame) (auto simp: stripped_column managed_columns_def)

lemma soft_delete_frame:
  assumes "writes_documented R"
  shows "tenant_frame tid owned_columns t (fst (orm_softDelete R (scopeWhereToTenant tid w) t))"
    and "tenant_frame tid owned_columns t (fst (orm_restore R (scopeWhereToTenant tid w) t))"
  using documented_writes(2,3) [OF assms, of "scopeWhereToTenant tid w" t]
  by (auto intro!: table_write_frame simp: column_after_def)

lemma soft_delete_changes:
  assumes "writes_documented R"
  shows "changes_only tid [''updatedAt'', ''deletedAt''] t (fst (orm_softDelete R (scopeWhereToTenant tid w) t))"
    and "changes_only tid [''updatedAt'', ''deletedAt''] t (fst (orm_restore R (scopeWhereToTenant tid w) t))"
proof -
  have row: "row_write (scopeWhereToTenant tid w) [] ks r r' \<Longrightarrow>
      (tenant_of r \<noteq> Some (JStr tid) \<longrightarrow> r' = r) \<and> (\<forall>k. k \<notin> set ks \<longrightarrow> map_of r' k = map_of r k)" for ks r r'
    using ts.foreign_row_kept [of tid w "[]" ks r r'] by (auto simp: row_write_def column_after_def)
  show "changes_only tid [''updatedAt'', ''deletedAt''] t (fst (orm_softDelete R (scopeWhereToTenant tid w) t))"
    and "changes_only tid [''updatedAt'', ''deletedAt''] t (fst (orm_restore R (scopeWhereToTenant tid w) t))"
    unfolding changes_only_def
    using documented_writes(2,3) [OF assms, of "scopeWhereToTenant tid w" t] by (blast intro: list_all2_mono dest: row)+
qed

subsection \<open>Properties\<close>

text \<open>
  Scoping a \<open>where\<close> never yields an unscoped query.  Whatever the caller passed, a single
  clause, an OR of clauses, an empty array or nothing, the result has at least one clause, every
  clause demands the tenant given (a tenant the caller wrote into a clause is overwritten), and
  apart from that column the clauses are the caller's, in order.
\<close>

theorem scopeWhereToTenant_every_clause:
  "scopeWhereToTenant tid w \<noteq> [] \<and>
   map tenant_of (scopeWhereToTenant tid w)
     = replicate (length (scopeWhereToTenant tid w)) (Some (JStr tid)) \<and>
   map (without [''tenantId'']) (scopeWhereToTenant tid w)
     = map (without [''tenantId'']) (case w of WhereNone \<Rightarrow> [[]] | WhereOne c \<Rightarrow> [c]
         | WhereMany [] \<Rightarrow> [[]] | WhereMany (c # cs) \<Rightarrow> c # cs)"
proof -
  have keep: "without [k] (js_set k v ps) = without [k] ps" for k :: string and v :: js and ps
    by (induction ps) (auto simp: without_def)
  have forced: "tenant_of (js_set ''tenantId'' v ps) = Some v" for v ps
    by (simp add: tenant_of_def object_lookup)
  have "map tenant_of (map (js_set ''tenantId'' v) cs) = replicate (length cs) (Some v)" for v cs
    by (induction cs) (auto simp: forced)
  moreover have "map (without [''tenantId'']) (map (js_set ''tenantId'' v) cs)
      = map (without [''tenantId'']) cs" for v :: js and cs
    by (simp add: keep)
  moreover have "scopeWhereToTenant tid w = map (js_set ''tenantId'' (JStr tid))
      (case w of WhereNone \<Rightarrow> [[]] | WhereOne c \<Rightarrow> [c] | WhereMany [] \<Rightarrow> [[]]
        | WhereMany (c # cs) \<Rightarrow> c # cs)"
    by (auto simp: scopeWhereToTenant_def Let_def split: where_arg.splits list.splits)
  ultimately show ?thesis
    by (auto split: where_arg.splits list.splits)
qed

text \<open>
  C2: no read of the repository can return or count a row of another tenant, whatever \<open>where\<close>,
  relations, paging or transaction manager the caller supplies, provided TypeORM honours the
  \<open>where\<close> it is given; a read by id moreover returns the row of that id.
\<close>

theorem reads_stay_in_tenant:
  assumes "reads_documented R"
  shows "(\<forall>dto r. repository ds (dto_manager dto) = R \<longrightarrow> findOneById ds dto t = Some r \<longrightarrow>
            tenant_of r = Some (JStr (dto_tenantId dto)) \<and> map_of r ''id'' = Some (JStr (dto_id dto)))
       \<and> (\<forall>dto r. repository ds (dto_manager dto) = R \<longrightarrow> findOne ds dto t = Some r \<longrightarrow>
            tenant_of r = Some (JStr (dto_tenantId dto)))
       \<and> (\<forall>dto. repository ds (dto_manager dto) = R \<longrightarrow>
            (\<forall>r \<in> set (findMany ds dto t) \<union> set (fst (findAndCount ds dto t)).
              tenant_of r = Some (JStr (dto_tenantId dto))))
       \<and> (\<forall>dto. repository ds (dto_manager dto) = R \<longrightarrow>
            count ds dto t \<le> length (filter (\<lambda>r. tenant_of r = Some (JStr (dto_tenantId dto))) t))
       \<and> (\<forall>dto. repository ds (dto_manager dto) = R \<longrightarrow> exists_row ds dto t \<longrightarrow>
            (\<exists>r \<in> set t. tenant_of r = Some (JStr (dto_tenantId dto))))"
  using assms
  by (intro conjI allI impI ballI)
    (blast dest: findOneById_scoped findOne_scoped findMany_scoped exists_scoped
      intro: count_scoped)+

abbreviation example_rows :: table where
  "example_rows \<equiv>
     [[(''id'', JStr ''1''), (''tenantId'', JStr ''a'')],
      [(''id'', JStr ''2''), (''tenantId'', JStr ''b'')]]"

text \<open>A caller asking for everyone's rows under tenant \<open>a\<close>'s scope gets tenant \<open>a\<close>'s row.\<close>

lemma reads_stay_in_tenant_witness:
  "findMany memory_orm
     \<lparr>dto_tenantId = ''a'', dto_manager = None,
      dto_where = WhereMany [[(''tenantId'', JStr ''b'')], []], dto_withDeleted = None,
      dto_order = None, dto_relations = None, dto_take = None, dto_skip = None\<rparr> example_rows
   = [[(''id'', JStr ''1''), (''tenantId'', JStr ''a'')]]
   \<and> list_all (\<lambda>r. tenant_of r = Some (JStr ''a'')) (findMany memory_orm
         \<lparr>dto_tenantId = ''a'', dto_manager = None,
          dto_where = WhereMany [[(''tenantId'', JStr ''b'')], []], dto_withDeleted = None,
          dto_order = None, dto_relations = None, dto_take = None, dto_skip = None\<rparr> example_rows)"
proof (rule conjI)
  let ?dto = "\<lparr>dto_tenantId = ''a'', dto_manager = None,
      dto_where = WhereMany [[(''tenantId'', JStr ''b'')], []], dto_withDeleted = None,
      dto_order = None, dto_relations = None, dto_take = None, dto_skip = None\<rparr>"
  show "findMany memory_orm ?dto example_rows = [[(''id'', JStr ''1''), (''tenantId'', JStr ''a'')]]"
    by code_simp
  have "repository memory_orm (dto_manager ?dto) = memory_orm"
    by (simp add: repository_def)
  with reads_stay_in_tenant [OF memory_orm_reads, of memory_orm example_rows]
  show "list_all (\<lambda>r. tenant_of r = Some (JStr ''a'')) (findMany memory_orm ?dto example_rows)"
    by (fastforce simp: list_all_iff)
qed

text \<open>
  C3: no update, soft delete or restore reaches a row of another tenant, and none changes the
  \<open>id\<close>, the \<open>tenantId\<close> or the \<open>createdAt\<close> of any row.  What the caller assigns to one of the five managed columns,
  \<open>updatedAt\<close> and \<open>deletedAt\<close> among them, has no effect on an update: two calls that differ in those values only do the same.
  An update leaves \<open>deletedAt\<close> as it is, and a soft delete or a restore changes no column but \<open>deletedAt\<close> and
  \<open>updatedAt\<close>, TypeORM's own bookkeeping.
\<close>

theorem writes_stay_in_tenant:
  assumes "writes_documented R"
  shows "(\<forall>dto. repository ds (dto_manager dto) = R \<longrightarrow>
            tenant_frame (dto_tenantId dto) (''deletedAt'' # owned_columns) t (fst (updateOneById ds dto t)))
       \<and> (\<forall>dto. repository ds (dto_manager dto) = R \<longrightarrow>
            tenant_frame (dto_tenantId dto) (''deletedAt'' # owned_columns) t (fst (updateBy ds dto t)))
       \<and> (\<forall>dto vs. without [''id'', ''tenantId'', ''createdAt'', ''updatedAt'', ''deletedAt''] vs =
              without [''id'', ''tenantId'', ''createdAt'', ''updatedAt'', ''deletedAt''] (dto_id_values dto) \<longrightarrow>
            updateOneById ds (dto\<lparr>dto_id_values := vs\<rparr>) t = updateOneById ds dto t)
       \<and> (\<forall>dto vs. without [''id'', ''tenantId'', ''createdAt'', ''updatedAt'', ''deletedAt''] vs =
              without [''id'', ''tenantId'', ''createdAt'', ''updatedAt'', ''deletedAt''] (dto_update_values dto) \<longrightarrow>
            updateBy ds (dto\<lparr>dto_update_values := vs\<rparr>) t = updateBy ds dto t)
       \<and> (\<forall>dto. repository ds (dto_manager dto) = R \<longrightarrow>
            tenant_frame (dto_tenantId dto) owned_columns t (fst (softDeleteOneById ds dto t)) \<and>
            tenant_frame (dto_tenantId dto) owned_columns t (fst (restoreOneById ds dto t)) \<and>
            changes_only (dto_tenantId dto) [''updatedAt'', ''deletedAt''] t (fst (softDeleteOneById ds dto t)) \<and>
            changes_only (dto_tenantId dto) [''updatedAt'', ''deletedAt''] t (fst (restoreOneById ds dto t)))"
  using update_frame [OF assms] soft_delete_frame [OF assms] soft_delete_changes [OF assms]
  by (simp add: updateOneById_def updateBy_def softDeleteOneById_def restoreOneById_def
      with_affected_def stripManagedColumns_def managed_columns_def)

text \<open>
  An update that tries to hand tenant \<open>a\<close>'s row over to tenant \<open>b\<close>, and to date it, does what one that assigns the title
  only does.
\<close>

lemma writes_stay_in_tenant_witness:
  "tenant_frame ''a'' (''deletedAt'' # owned_columns) example_rows
     (fst (updateBy memory_orm
        \<lparr>dto_tenantId = ''a'', dto_manager = None, dto_update_where = WhereNone,
         dto_update_values = [(''tenantId'', JStr ''b''), (''title'', JStr ''x'')]\<rparr> example_rows))
   \<and> map (\<lambda>r. map_of r ''title'') (fst (updateBy memory_orm
        \<lparr>dto_tenantId = ''a'', dto_manager = None, dto_update_where = WhereNone,
         dto_update_values = [(''tenantId'', JStr ''b''), (''title'', JStr ''x'')]\<rparr> example_rows))
     = [Some (JStr ''x''), None]
   \<and> updateBy memory_orm
        \<lparr>dto_tenantId = ''a'', dto_manager = None, dto_update_where = WhereNone,
         dto_update_values = [(''updatedAt'', JStr ''never''), (''title'', JStr ''x'')]\<rparr> example_rows
     = updateBy memory_orm
        \<lparr>dto_tenantId = ''a'', dto_manager = None, dto_update_where = WhereNone,
         dto_update_values = [(''title'', JStr ''x'')]\<rparr> example_rows"
proof (intro conjI)
  let ?dto = "\<lparr>dto_tenantId = ''a'', dto_manager = None, dto_update_where = WhereNone,
      dto_update_values = [(''tenantId'', JStr ''b''), (''title'', JStr ''x'')]\<rparr>"
  let ?title = "\<lparr>dto_tenantId = ''a'', dto_manager = None, dto_update_where = WhereNone,
      dto_update_values = [(''title'', JStr ''x'')]\<rparr>"
  show "updateBy memory_orm
      \<lparr>dto_tenantId = ''a'', dto_manager = None, dto_update_where = WhereNone,
       dto_update_values = [(''updatedAt'', JStr ''never''), (''title'', JStr ''x'')]\<rparr> example_rows
     = updateBy memory_orm ?title example_rows"
    using writes_stay_in_tenant [OF memory_orm_writes, of memory_orm example_rows, THEN conjunct2, THEN conjunct2,
        THEN conjunct2, THEN conjunct1, rule_format, of "[(''updatedAt'', JStr ''never''), (''title'', JStr ''x'')]" ?title]
    by (simp add: without_def)
  have "repository memory_orm (dto_manager ?dto) = memory_orm"
    by (simp add: repository_def)
  from writes_stay_in_tenant [OF memory_orm_writes, of memory_orm example_rows, THEN conjunct2, THEN conjunct1, rule_format, OF this]
  show "tenant_frame ''a'' (''deletedAt'' # owned_columns) example_rows
      (fst (updateBy memory_orm ?dto example_rows))"
    by simp
  show "map (\<lambda>r. map_of r ''title'') (fst (updateBy memory_orm ?dto example_rows))
      = [Some (JStr ''x''), None]"
    by code_simp
qed

text \<open>
  The entities handed to TypeORM's \<open>save\<close> are the caller's with the tenant stamped over
  whatever tenant they carried; every other column is as given, in the given order.
\<close>

theorem saves_stamp_tenant:
  "(\<exists>es. saveMany ds dto t = orm_save (repository ds (dto_manager dto)) es t \<and>
      list_all2 (\<lambda>e e'. tenant_of e' = Some (JStr (dto_tenantId dto)) \<and>
        without [''tenantId''] e' = without [''tenantId''] e) (dto_entities dto) es) \<and>
   saveOne ds \<lparr>dto_tenantId = dto_tenantId dto, dto_manager = dto_manager dto, dto_entity = e1\<rparr> t
     = saveMany ds (dto\<lparr>dto_entities := [e1]\<rparr>) t"
proof -
  have keep: "without [k] (js_set k v ps) = without [k] ps" for k :: string and v :: js and ps
    by (induction ps) (auto simp: without_def)
  show ?thesis
    by (auto simp: saveMany_def saveOne_def tenant_of_def object_lookup keep list_all2_map2
        intro!: exI list_all2_refl)
qed

text \<open>
  TypeORM's \<open>save\<close> is documented to update the row of the entity's primary key when there is one,
  and the lookup is by that key alone.
\<close>

definition save_upserts :: "orm \<Rightarrow> bool" where
  "save_upserts R \<longleftrightarrow> (\<forall>e t i. map_of e ''id'' = Some (JStr i) \<longrightarrow>
     (\<exists>r \<in> set t. map_of r ''id'' = Some (JStr i)) \<longrightarrow>
     (\<exists>r' \<in> set (fst (orm_save R [e] t)). map_of r' ''id'' = Some (JStr i)) \<and>
     (\<forall>r' \<in> set (fst (orm_save R [e] t)). map_of r' ''id'' = Some (JStr i) \<longrightarrow>
        (\<forall>k v. map_of e k = Some v \<longrightarrow> v \<noteq> JUndefined \<longrightarrow> map_of r' k = Some v)))"

lemma memory_orm_upserts: "save_upserts memory_orm"
  unfolding save_upserts_def
proof (intro allI impI)
  fix e t i
  assume e: "map_of e ''id'' = Some (JStr i)" and "\<exists>r \<in> set t. map_of r ''id'' = Some (JStr i)"
  then obtain r where r: "r \<in> set t" "map_of r ''id'' = Some (JStr i)" by blast
  then have saved: "fst (orm_save memory_orm [e] t) =
      map (\<lambda>r. if map_of r ''id'' = Some (JStr i) then memory_write e r else r) t"
    by (auto simp: memory_orm_def e image_iff) metis
  with r show "(\<exists>r' \<in> set (fst (orm_save memory_orm [e] t)). map_of r' ''id'' = Some (JStr i)) \<and>
     (\<forall>r' \<in> set (fst (orm_save memory_orm [e] t)). map_of r' ''id'' = Some (JStr i) \<longrightarrow>
        (\<forall>k v. map_of e k = Some v \<longrightarrow> v \<noteq> JUndefined \<longrightarrow> map_of r' k = Some v))"
  proof -
    have "map_of (memory_write e x) ''id'' = Some (JStr i)" for x
      by (simp add: memory_write_column column_after_def e)
    moreover have "map_of (memory_write e x) k = Some v"
      if "map_of e k = Some v" "v \<noteq> JUndefined" for x k v
      using that by (cases v) (simp_all add: memory_write_column column_after_def)
    ultimately show ?thesis using r unfolding saved by (auto split: if_splits)
  qed
qed

text \<open>
  C31: the stamp is not a criterion.  An entity that carries the id of a row another tenant owns is
  saved over that row: afterwards the row is the caller's tenant's, with the caller's columns, and
  no row of that id is left to its owner.  The reads, updates and deletes above are scoped; the
  two saves are the methods that reach across.
\<close>

theorem saveOne_takes_over_row:
  assumes "save_upserts (repository ds (dto_manager dto))"
    and "\<exists>r \<in> set t. map_of r ''id'' = Some (JStr i)"
    and "map_of (dto_entity dto) ''id'' = Some (JStr i)"
  shows "(\<exists>r' \<in> set (fst (saveOne ds dto t)). map_of r' ''id'' = Some (JStr i)) \<and>
         (\<forall>r' \<in> set (fst (saveOne ds dto t)). map_of r' ''id'' = Some (JStr i) \<longrightarrow>
            tenant_of r' = Some (JStr (dto_tenantId dto)))"
proof -
  let ?e = "js_set ''tenantId'' (JStr (dto_tenantId dto)) (dto_entity dto)"
  have e: "map_of ?e ''id'' = Some (JStr i)" "map_of ?e ''tenantId'' = Some (JStr (dto_tenantId dto))"
    using assms(3) by (simp_all add: object_lookup)
  have saved: "fst (saveOne ds dto t) = fst (orm_save (repository ds (dto_manager dto)) [?e] t)"
    by (simp add: saveOne_def)
  have "(\<exists>r' \<in> set (fst (saveOne ds dto t)). map_of r' ''id'' = Some (JStr i)) \<and>
     (\<forall>r' \<in> set (fst (saveOne ds dto t)). map_of r' ''id'' = Some (JStr i) \<longrightarrow>
        (\<forall>k v. map_of ?e k = Some v \<longrightarrow> v \<noteq> JUndefined \<longrightarrow> map_of r' k = Some v))"
    unfolding saved by (rule assms(1) [unfolded save_upserts_def, THEN spec, THEN spec, THEN spec,
          THEN mp, THEN mp, OF e(1) assms(2)])
  then have ex: "\<exists>r' \<in> set (fst (saveOne ds dto t)). map_of r' ''id'' = Some (JStr i)"
    and col: "\<And>r' k v. r' \<in> set (fst (saveOne ds dto t)) \<Longrightarrow> map_of r' ''id'' = Some (JStr i) \<Longrightarrow>
      map_of ?e k = Some v \<Longrightarrow> v \<noteq> JUndefined \<Longrightarrow> map_of r' k = Some v"
    by blast+
  show ?thesis
    using ex col [OF _ _ e(2)] by (auto simp: tenant_of_def)
qed

text \<open>Tenant \<open>a\<close> saves an entity with the id of tenant \<open>b\<close>'s row.\<close>

lemma saveOne_takes_over_row_witness:
  "(\<exists>r' \<in> set (fst (saveOne memory_orm
        \<lparr>dto_tenantId = ''a'', dto_manager = None, dto_entity = [(''id'', JStr ''2'')]\<rparr> example_rows)).
      map_of r' ''id'' = Some (JStr ''2'') \<and> tenant_of r' = Some (JStr ''a''))
   \<and> map tenant_of (fst (saveOne memory_orm
        \<lparr>dto_tenantId = ''a'', dto_manager = None, dto_entity = [(''id'', JStr ''2'')]\<rparr> example_rows))
     = [Some (JStr ''a''), Some (JStr ''a'')]"
proof (rule conjI)
  let ?dto = "\<lparr>dto_tenantId = ''a'', dto_manager = None, dto_entity = [(''id'', JStr ''2'')]\<rparr>"
  have "save_upserts (repository memory_orm (dto_manager ?dto))"
    by (simp add: repository_def memory_orm_upserts)
  from saveOne_takes_over_row [OF this, of example_rows "''2''"]
  show "\<exists>r' \<in> set (fst (saveOne memory_orm ?dto example_rows)).
      map_of r' ''id'' = Some (JStr ''2'') \<and> tenant_of r' = Some (JStr ''a'')"
    by fastforce
  show "map tenant_of (fst (saveOne memory_orm ?dto example_rows))
      = [Some (JStr ''a''), Some (JStr ''a'')]"
    by code_simp
qed

end
