(* ===== verification/TenantIsolation.thy ===== *)
theory TenantIsolation
  imports TenantScope
begin

section \<open>Tenants do not interfere\<close>

text \<open>
  The methods of \<^verbatim>\<open>repository/base.repository.ts\<close> as the operations of a machine that many tenants use
  in any order.  To each tenant the machine is a table of its own: what it is answered, and what
  becomes of its rows, is what it would be had nobody else ever called and had nobody else's rows been there.
  The two saves keep to this as long as no entity carries the id of another tenant's row, which the repository does
  not check (\<open>saveOne_takes_over_row\<close>).
\<close>

subsection \<open>A machine with views\<close>

text \<open>
  Running a list of operations: the domain and the answer of each, and the state at the end.  A run is
  disciplined when each operation is allowed in the state it meets.
\<close>

fun serve_all :: "('op \<Rightarrow> 's \<Rightarrow> 'out \<times> 's) \<Rightarrow> ('op \<Rightarrow> 'd) \<Rightarrow> 'op list \<Rightarrow> 's \<Rightarrow> ('d \<times> 'out) list \<times> 's" where
  "serve_all step dom_of [] s = ([], s)"
| "serve_all step dom_of (op # ops) s =
     (case step op s of (out, s') \<Rightarrow> (case serve_all step dom_of ops s' of
        (outs, s'') \<Rightarrow> ((dom_of op, out) # outs, s'')))"

fun disciplined :: "('op \<Rightarrow> 's \<Rightarrow> bool) \<Rightarrow> ('op \<Rightarrow> 's \<Rightarrow> 'out \<times> 's) \<Rightarrow> 'op list \<Rightarrow> 's \<Rightarrow> bool" where
  "disciplined allowed step [] s = True"
| "disciplined allowed step (op # ops) s \<longleftrightarrow> allowed op s \<and> disciplined allowed step ops (snd (step op s))"

definition answers :: "'d \<Rightarrow> ('d \<times> 'out) list \<Rightarrow> 'out list" where
  "answers d outs = map snd (filter (\<lambda>(d', _). d' = d) outs)"

text \<open>
  The unwinding conditions: an operation leaves the view of every other domain as it is, and does to the view of
  its own what it does to the state.
\<close>

locale separated =
  fixes step :: "'op \<Rightarrow> 's \<Rightarrow> 'out \<times> 's"
    and dom_of :: "'op \<Rightarrow> 'd"
    and view :: "'d \<Rightarrow> 's \<Rightarrow> 's"
    and allowed :: "'op \<Rightarrow> 's \<Rightarrow> bool"
  assumes respects: "allowed op s \<Longrightarrow> dom_of op \<noteq> d \<Longrightarrow> view d (snd (step op s)) = view d s"
    and consistent: "allowed op s \<Longrightarrow>
      step op (view (dom_of op) s) = (fst (step op s), view (dom_of op) (snd (step op s)))"
begin

lemma purged:
  "disciplined allowed step ops s \<Longrightarrow>
     (case (serve_all step dom_of ops s, serve_all step dom_of (filter (\<lambda>op. dom_of op = d) ops) (view d s)) of
        ((outs, s'), (outs', v)) \<Rightarrow> answers d outs = map snd outs' \<and> view d s' = v)"
proof (induction ops arbitrary: s)
  case (Cons op ops)
  obtain out s' where st: "step op s = (out, s')" by fastforce
  have al: "allowed op s" and rest: "disciplined allowed step ops s'" using Cons.prems by (simp_all add: st)
  show ?case
  proof (cases "dom_of op = d")
    case True
    then have "step op (view d s) = (out, view d s')" using consistent [OF al] by (simp add: st)
    then show ?thesis using Cons.IH [OF rest] True
      by (auto simp: st answers_def split: prod.splits)
  next
    case False
    then have "view d s' = view d s" using respects [OF al False] by (simp add: st)
    then show ?thesis using Cons.IH [OF rest] False
      by (auto simp: st answers_def split: prod.splits)
  qed
qed (simp add: answers_def)

end

subsection \<open>The operations of the repository\<close>

datatype repo_op =
    FindOneById find_one_by_id_dto
  | FindOne find_one_dto
  | FindMany find_many_dto
  | FindAndCount find_many_dto
  | Count count_dto
  | Exists count_dto
  | SaveOne save_one_dto
  | SaveMany save_many_dto
  | UpdateOneById update_by_id_dto
  | UpdateBy update_by_dto
  | SoftDelete by_id_dto
  | Restore by_id_dto

datatype repo_answer = Found "row option" | Rows "row list" | Page "row list" nat | Number nat | Truth bool

fun perform :: "orm \<Rightarrow> repo_op \<Rightarrow> table \<Rightarrow> repo_answer \<times> table" where
  "perform ds (FindOneById d) t = (Found (findOneById ds d t), t)"
| "perform ds (FindOne d) t = (Found (findOne ds d t), t)"
| "perform ds (FindMany d) t = (Rows (findMany ds d t), t)"
| "perform ds (FindAndCount d) t = (case findAndCount ds d t of (rs, n) \<Rightarrow> (Page rs n, t))"
| "perform ds (Count d) t = (Number (count ds d t), t)"
| "perform ds (Exists d) t = (Truth (exists_row ds d t), t)"
| "perform ds (SaveOne d) t = (case saveOne ds d t of (t', rs) \<Rightarrow> (Rows rs, t'))"
| "perform ds (SaveMany d) t = (case saveMany ds d t of (t', rs) \<Rightarrow> (Rows rs, t'))"
| "perform ds (UpdateOneById d) t = (case updateOneById ds d t of (t', n) \<Rightarrow> (Number n, t'))"
| "perform ds (UpdateBy d) t = (case updateBy ds d t of (t', n) \<Rightarrow> (Number n, t'))"
| "perform ds (SoftDelete d) t = (case softDeleteOneById ds d t of (t', n) \<Rightarrow> (Number n, t'))"
| "perform ds (Restore d) t = (case restoreOneById ds d t of (t', n) \<Rightarrow> (Number n, t'))"

fun op_tenant :: "repo_op \<Rightarrow> string" where
  "op_tenant (FindOneById d) = dto_tenantId d"
| "op_tenant (FindOne d) = dto_tenantId d"
| "op_tenant (FindMany d) = dto_tenantId d"
| "op_tenant (FindAndCount d) = dto_tenantId d"
| "op_tenant (Count d) = dto_tenantId d"
| "op_tenant (Exists d) = dto_tenantId d"
| "op_tenant (SaveOne d) = dto_tenantId d"
| "op_tenant (SaveMany d) = dto_tenantId d"
| "op_tenant (UpdateOneById d) = dto_tenantId d"
| "op_tenant (UpdateBy d) = dto_tenantId d"
| "op_tenant (SoftDelete d) = dto_tenantId d"
| "op_tenant (Restore d) = dto_tenantId d"

text \<open>The TypeORM repository an operation runs on: that of its transaction, if it has one.\<close>

fun op_orm :: "orm \<Rightarrow> repo_op \<Rightarrow> orm" where
  "op_orm ds (FindOneById d) = repository ds (dto_manager d)"
| "op_orm ds (FindOne d) = repository ds (dto_manager d)"
| "op_orm ds (FindMany d) = repository ds (dto_manager d)"
| "op_orm ds (FindAndCount d) = repository ds (dto_manager d)"
| "op_orm ds (Count d) = repository ds (dto_manager d)"
| "op_orm ds (Exists d) = repository ds (dto_manager d)"
| "op_orm ds (SaveOne d) = repository ds (dto_manager d)"
| "op_orm ds (SaveMany d) = repository ds (dto_manager d)"
| "op_orm ds (UpdateOneById d) = repository ds (dto_manager d)"
| "op_orm ds (UpdateBy d) = repository ds (dto_manager d)"
| "op_orm ds (SoftDelete d) = repository ds (dto_manager d)"
| "op_orm ds (Restore d) = repository ds (dto_manager d)"

subsection \<open>What is relied on of TypeORM\<close>

text \<open>
  Rows that do not honour the \<open>where\<close> have no part in a read.  An update statement treats each row by itself, and
  counts the rows it matched.
\<close>

definition reads_local :: "orm \<Rightarrow> bool" where
  "reads_local R \<longleftrightarrow> (\<forall>opts t. let u = filter (honours_where (fo_where opts)) t in
     orm_findOne R opts t = orm_findOne R opts u \<and> orm_find R opts t = orm_find R opts u \<and>
     orm_findAndCount R opts t = orm_findAndCount R opts u \<and> orm_count R opts t = orm_count R opts u \<and>
     orm_exists R opts t = orm_exists R opts u)"

definition rowwise :: "js_object list \<Rightarrow> (table \<Rightarrow> table \<times> nat option) \<Rightarrow> bool" where
  "rowwise ws w \<longleftrightarrow> (\<forall>t. fst (w t) = concat (map (\<lambda>r. fst (w [r])) t) \<and>
     snd (w t) = snd (w (filter (honours_where ws) t)))"

definition writes_local :: "orm \<Rightarrow> bool" where
  "writes_local R \<longleftrightarrow> (\<forall>ws vs. rowwise ws (orm_update R ws vs) \<and> rowwise ws (orm_softDelete R ws) \<and>
     rowwise ws (orm_restore R ws))"

text \<open>
  A save looks its rows up by id.  Rows no entity names neither matter nor change; the row an entity names gets the
  columns it carries, and a row it does not find is inserted with them.
\<close>

definition named_by :: "js_object list \<Rightarrow> row \<Rightarrow> bool" where
  "named_by es r = list_ex (\<lambda>e. map_of e ''id'' \<noteq> None \<and> map_of e ''id'' = map_of r ''id'') es"

fun put_back :: "('a \<Rightarrow> bool) \<Rightarrow> 'a list \<Rightarrow> 'a list \<Rightarrow> 'a list" where
  "put_back P [] ns = ns"
| "put_back P (r # rs) ns = (if P r then (case ns of [] \<Rightarrow> put_back P rs [] | n # ns' \<Rightarrow> n # put_back P rs ns')
     else r # put_back P rs ns)"

definition saves_local :: "orm \<Rightarrow> bool" where
  "saves_local R \<longleftrightarrow> (\<forall>es t P. (\<forall>r \<in> set t. named_by es r \<longrightarrow> P r) \<longrightarrow>
     orm_save R es t = (put_back P t (fst (orm_save R es (filter P t))), snd (orm_save R es (filter P t))))"

definition saved_over :: "js_object list \<Rightarrow> row \<Rightarrow> row \<Rightarrow> bool" where
  "saved_over es r r' \<longleftrightarrow> r' = r \<or> (\<exists>e \<in> set es. \<forall>v. map_of e ''tenantId'' = Some v \<longrightarrow> v \<noteq> JUndefined \<longrightarrow>
     map_of r' ''tenantId'' = Some v)"

definition saves_documented :: "orm \<Rightarrow> bool" where
  "saves_documented R \<longleftrightarrow> (\<forall>es t. let t' = fst (orm_save R es t) in
     list_all2 (saved_over es) t (take (length t) t') \<and>
     (\<forall>r' \<in> set (drop (length t) t'). \<exists>e \<in> set es. \<forall>v. map_of e ''tenantId'' = Some v \<longrightarrow> v \<noteq> JUndefined \<longrightarrow>
        map_of r' ''tenantId'' = Some v))"

definition local_orm :: "orm \<Rightarrow> bool" where
  "local_orm R \<longleftrightarrow> reads_local R \<and> writes_documented R \<and> writes_local R \<and> saves_local R \<and> saves_documented R"

subsection \<open>One tenant's view\<close>

definition tenant_view :: "string \<Rightarrow> table \<Rightarrow> table" where
  "tenant_view tid t = filter (\<lambda>r. tenant_of r = Some (JStr tid)) t"

text \<open>The rows that are not a tenant's: everybody else's, and those that have no tenant.\<close>

definition foreign_rows :: "string \<Rightarrow> table \<Rightarrow> table" where
  "foreign_rows tid t = filter (\<lambda>r. tenant_of r \<noteq> Some (JStr tid)) t"

lemma view_of_foreign: "u \<noteq> tid \<Longrightarrow> tenant_view u t = tenant_view u (foreign_rows tid t)"
  by (induction t) (auto simp: tenant_view_def foreign_rows_def)

lemma frame_foreign: "tenant_frame tid ks t t' \<Longrightarrow> ''tenantId'' \<in> set ks \<Longrightarrow> foreign_rows tid t' = foreign_rows tid t"
  unfolding tenant_frame_def
  by (induction rule: list_all2_induct) (auto simp: foreign_rows_def kept_columns_def tenant_of_def)

lemma honoured_view:
  "filter (honours_where (scopeWhereToTenant tid w)) (tenant_view tid t) =
   filter (honours_where (scopeWhereToTenant tid w)) t"
  by (induction t) (auto simp: tenant_view_def dest: ts.honours_scope)

lemma local_read:
  assumes "reads_local R" and "fo_where opts = scopeWhereToTenant tid w"
  shows "orm_findOne R opts (tenant_view tid t) = orm_findOne R opts t"
    and "orm_find R opts (tenant_view tid t) = orm_find R opts t"
    and "orm_findAndCount R opts (tenant_view tid t) = orm_findAndCount R opts t"
    and "orm_count R opts (tenant_view tid t) = orm_count R opts t"
    and "orm_exists R opts (tenant_view tid t) = orm_exists R opts t"
  using assms(1) [unfolded reads_local_def Let_def, rule_format, of opts]
  by (metis assms(2) honoured_view)+

lemma filter_rows:
  assumes "\<And>r. \<exists>r'. f r = [r'] \<and> P r' = P r"
  shows "filter P (concat (map f t)) = concat (map f (filter P t))"
proof (induction t)
  case (Cons r t)
  then show ?case using assms [of r] by auto
qed simp

lemma local_write:
  assumes "rowwise (scopeWhereToTenant tid w) f"
    and "\<And>t. tenant_frame tid ks t (fst (f t))" and "''tenantId'' \<in> set ks"
  shows "f (tenant_view tid t) = (tenant_view tid (fst (f t)), snd (f t))"
proof (rule prod_eqI)
  have "\<exists>r'. fst (f [r]) = [r'] \<and> (tenant_of r' = Some (JStr tid)) = (tenant_of r = Some (JStr tid))" for r
    using assms(2) [of "[r]"] assms(3)
    by (auto simp: tenant_frame_def list_all2_Cons1 kept_columns_def tenant_of_def)
  then have "tenant_view tid (concat (map (\<lambda>r. fst (f [r])) t)) = concat (map (\<lambda>r. fst (f [r])) (tenant_view tid t))"
    unfolding tenant_view_def by (rule filter_rows)
  then show "fst (f (tenant_view tid t)) = fst (tenant_view tid (fst (f t)), snd (f t))"
    using assms(1) unfolding rowwise_def by (metis fst_conv)
  show "snd (f (tenant_view tid t)) = snd (tenant_view tid (fst (f t)), snd (f t))"
    using assms(1) honoured_view unfolding rowwise_def by (metis snd_conv)
qed

lemma filter_put_back:
  assumes "list_all P ns" and "length (filter P t) \<le> length ns"
  shows "filter P (put_back P t ns) = ns"
  using assms by (induction P t ns rule: put_back.induct) (auto simp: list_all_iff split: list.splits if_splits)

lemma filter_put_back_other:
  assumes "list_all P ns" and "\<And>r. Q r \<Longrightarrow> \<not> P r"
  shows "filter Q (put_back P t ns) = filter Q t"
  using assms
  by (induction P t ns rule: put_back.induct) (auto simp: list_all_iff filter_empty_conv split: list.splits)

lemma saved_in_view:
  assumes "saves_documented R" and "list_all (\<lambda>e. map_of e ''tenantId'' = Some (JStr tid)) es"
  shows "list_all (\<lambda>r. tenant_of r = Some (JStr tid)) (fst (orm_save R es (tenant_view tid t))) \<and>
    length (tenant_view tid t) \<le> length (fst (orm_save R es (tenant_view tid t)))"
proof -
  define v n t' where "v = tenant_view tid t" and "n = length v" and "t' = fst (orm_save R es v)"
  note law = assms(1) [unfolded saves_documented_def Let_def, rule_format, of es v, folded t'_def n_def]
  have stamp: "map_of e ''tenantId'' = Some (JStr tid)" if "e \<in> set es" for e
    using assms(2) that by (simp add: list_all_iff)
  have new: "tenant_of r' = Some (JStr tid)" if mem: "r' \<in> set (drop n t')" for r'
  proof -
    obtain e where "e \<in> set es" and "\<forall>w. map_of e ''tenantId'' = Some w \<longrightarrow> w \<noteq> JUndefined \<longrightarrow>
        map_of r' ''tenantId'' = Some w" using bspec [OF law [THEN conjunct2] mem] by (elim bexE) (rule that)
    then show ?thesis using stamp unfolding tenant_of_def by simp
  qed
  have "tenant_of r' = Some (JStr tid)" if over: "saved_over es r r'" and mem: "r \<in> set v" for r r'
  proof (cases "r' = r")
    case True then show ?thesis using mem by (simp add: v_def tenant_view_def)
  next
    case False
    then obtain e where "e \<in> set es" and "\<forall>w. map_of e ''tenantId'' = Some w \<longrightarrow> w \<noteq> JUndefined \<longrightarrow>
        map_of r' ''tenantId'' = Some w" using over unfolding saved_over_def by (elim disjE bexE) (simp, rule that)
    then show ?thesis using stamp unfolding tenant_of_def by simp
  qed
  then have old: "tenant_of (take n t' ! i) = Some (JStr tid)" if "i < length (take n t')" for i
    using list_all2_nthD2 [OF law [THEN conjunct1] that] list_all2_lengthD [OF law [THEN conjunct1]] that
    by (metis nth_mem)
  have "tenant_of r = Some (JStr tid)" if "r \<in> set t'" for r
    using that new old by (metis Un_iff append_take_drop_id in_set_conv_nth set_append)
  moreover have "n \<le> length t'" using list_all2_lengthD [OF law [THEN conjunct1]] by (simp add: n_def)
  ultimately show ?thesis by (simp add: list_all_iff n_def v_def t'_def)
qed

lemma local_save:
  assumes "saves_local R" and "saves_documented R"
    and "list_all (\<lambda>e. map_of e ''tenantId'' = Some (JStr tid)) es"
    and "list_all (\<lambda>r. named_by es r \<longrightarrow> tenant_of r = Some (JStr tid)) t"
  shows "orm_save R es (tenant_view tid t) = (tenant_view tid (fst (orm_save R es t)), snd (orm_save R es t))"
    and "foreign_rows tid (fst (orm_save R es t)) = foreign_rows tid t"
proof -
  let ?P = "\<lambda>r. tenant_of r = Some (JStr tid)"
  have parts: "orm_save R es t = (put_back ?P t (fst (orm_save R es (tenant_view tid t))),
      snd (orm_save R es (tenant_view tid t)))"
    using assms(1) [unfolded saves_local_def, THEN spec, THEN spec, THEN spec, THEN mp, of t es "?P"] assms(4)
    by (simp add: tenant_view_def list_all_iff)
  note own = saved_in_view [OF assms(2,3), of t]
  have "filter ?P (put_back ?P t (fst (orm_save R es (tenant_view tid t)))) = fst (orm_save R es (tenant_view tid t))"
    using own by (intro filter_put_back) (simp_all add: tenant_view_def)
  then have kept: "tenant_view tid (fst (orm_save R es t)) = fst (orm_save R es (tenant_view tid t))"
    unfolding parts fst_conv tenant_view_def .
  have out: "snd (orm_save R es t) = snd (orm_save R es (tenant_view tid t))"
    by (subst parts) (rule snd_conv)
  show "orm_save R es (tenant_view tid t) = (tenant_view tid (fst (orm_save R es t)), snd (orm_save R es t))"
    unfolding kept by (simp add: prod_eq_iff out)
  show "foreign_rows tid (fst (orm_save R es t)) = foreign_rows tid t"
    unfolding parts fst_conv foreign_rows_def
    by (rule filter_put_back_other) (use own in \<open>simp_all\<close>)
qed

subsection \<open>The repository separates tenants\<close>

text \<open>The entities a save hands on, with their tenant stamped; and what the repository does not check of them.\<close>

fun stamped_entities :: "repo_op \<Rightarrow> js_object list" where
  "stamped_entities (SaveOne d) = [js_set ''tenantId'' (JStr (dto_tenantId d)) (dto_entity d)]"
| "stamped_entities (SaveMany d) = map (js_set ''tenantId'' (JStr (dto_tenantId d))) (dto_entities d)"
| "stamped_entities _ = []"

definition names_own_rows :: "repo_op \<Rightarrow> table \<Rightarrow> bool" where
  "names_own_rows op t = list_all (\<lambda>r. named_by (stamped_entities op) r \<longrightarrow> tenant_of r = Some (JStr (op_tenant op))) t"

definition fair_op :: "orm \<Rightarrow> repo_op \<Rightarrow> table \<Rightarrow> bool" where
  "fair_op ds op t \<longleftrightarrow> local_orm (op_orm ds op) \<and> names_own_rows op t"

lemma stamped: "list_all (\<lambda>e. map_of e ''tenantId'' = Some (JStr (op_tenant op))) (stamped_entities op)"
  by (cases op) (simp_all add: map_of_js_set list_all_iff)

lemmas repo_write_defs = updateOneById_def updateBy_def softDeleteOneById_def restoreOneById_def with_affected_def

lemmas repo_read_defs = findOneById_def findOne_def findMany_def findAndCount_def count_def exists_row_def
  find_many_options_def count_options_def

lemma perform_save:
  assumes "stamped_entities op = es" and "op = SaveOne d1 \<or> op = SaveMany d2"
  shows "perform ds op t = (Rows (snd (orm_save (op_orm ds op) es t)), fst (orm_save (op_orm ds op) es t))"
  using assms by (auto simp: saveOne_def saveMany_def split_beta)

lemma perform_foreign:
  assumes "fair_op ds op t"
  shows "foreign_rows (op_tenant op) (snd (perform ds op t)) = foreign_rows (op_tenant op) t"
proof -
  have w: "writes_documented (op_orm ds op)" and s: "saves_local (op_orm ds op)" "saves_documented (op_orm ds op)"
    and n: "names_own_rows op t" using assms(1) by (auto simp: fair_op_def local_orm_def)
  note save = local_save(2) [OF s stamped n [unfolded names_own_rows_def]]
  show ?thesis
  proof (cases op)
    case (SaveOne d) then show ?thesis using save by (simp add: saveOne_def split_beta)
  next
    case (SaveMany d) then show ?thesis using save by (simp add: saveMany_def split_beta)
  qed (use w in \<open>auto simp: repo_write_defs split_beta
      intro!: frame_foreign [OF update_frame] frame_foreign [OF soft_delete_frame(1)] frame_foreign [OF soft_delete_frame(2)]\<close>)
qed

lemma perform_respects:
  assumes "fair_op ds op t" and "op_tenant op \<noteq> u"
  shows "tenant_view u (snd (perform ds op t)) = tenant_view u t"
  using perform_foreign [OF assms(1)] view_of_foreign [OF assms(2) [symmetric]] by metis

lemma update_local:
  assumes "local_orm R"
  shows "orm_update R (scopeWhereToTenant tid w) (stripManagedColumns vs) (tenant_view tid t) =
      (tenant_view tid (fst (orm_update R (scopeWhereToTenant tid w) (stripManagedColumns vs) t)),
       snd (orm_update R (scopeWhereToTenant tid w) (stripManagedColumns vs) t))"
    and "orm_softDelete R (scopeWhereToTenant tid w) (tenant_view tid t) =
      (tenant_view tid (fst (orm_softDelete R (scopeWhereToTenant tid w) t)),
       snd (orm_softDelete R (scopeWhereToTenant tid w) t))"
    and "orm_restore R (scopeWhereToTenant tid w) (tenant_view tid t) =
      (tenant_view tid (fst (orm_restore R (scopeWhereToTenant tid w) t)),
       snd (orm_restore R (scopeWhereToTenant tid w) t))"
proof -
  have w: "writes_documented R" and l: "writes_local R" using assms by (simp_all add: local_orm_def)
  note l = l [unfolded writes_local_def, rule_format]
  show "orm_update R (scopeWhereToTenant tid w) (stripManagedColumns vs) (tenant_view tid t) =
      (tenant_view tid (fst (orm_update R (scopeWhereToTenant tid w) (stripManagedColumns vs) t)),
       snd (orm_update R (scopeWhereToTenant tid w) (stripManagedColumns vs) t))"
    by (rule local_write [OF l [THEN conjunct1] update_frame [OF w]]) simp
  show "orm_softDelete R (scopeWhereToTenant tid w) (tenant_view tid t) =
      (tenant_view tid (fst (orm_softDelete R (scopeWhereToTenant tid w) t)),
       snd (orm_softDelete R (scopeWhereToTenant tid w) t))"
    by (rule local_write [OF l [THEN conjunct2, THEN conjunct1] soft_delete_frame(1) [OF w]]) simp
  show "orm_restore R (scopeWhereToTenant tid w) (tenant_view tid t) =
      (tenant_view tid (fst (orm_restore R (scopeWhereToTenant tid w) t)),
       snd (orm_restore R (scopeWhereToTenant tid w) t))"
    by (rule local_write [OF l [THEN conjunct2, THEN conjunct2] soft_delete_frame(2) [OF w]]) simp
qed

lemma perform_consistent:
  assumes "fair_op ds op t"
  shows "perform ds op (tenant_view (op_tenant op) t) =
    (fst (perform ds op t), tenant_view (op_tenant op) (snd (perform ds op t)))"
proof -
  have l: "local_orm (op_orm ds op)" and n: "names_own_rows op t" using assms by (simp_all add: fair_op_def)
  have r: "reads_local (op_orm ds op)" and s: "saves_local (op_orm ds op)" "saves_documented (op_orm ds op)"
    using l by (simp_all add: local_orm_def)
  note save = local_save(1) [OF s stamped n [unfolded names_own_rows_def]]
  show ?thesis
  proof (cases op)
    case (SaveOne d) then show ?thesis using save by (simp add: saveOne_def split_beta)
  next
    case (SaveMany d) then show ?thesis using save by (simp add: saveMany_def split_beta)
  qed (use l r in \<open>simp_all add: repo_read_defs repo_write_defs split_beta local_read update_local\<close>)
qed

interpretation repo: separated "perform ds" op_tenant tenant_view "fair_op ds" for ds
  by unfold_locales (rule perform_respects perform_consistent; assumption)+

lemma disciplined_mono:
  "disciplined allowed step ops s \<Longrightarrow> (\<And>op s. op \<in> set ops \<Longrightarrow> allowed op s \<Longrightarrow> allowed' op s) \<Longrightarrow>
   disciplined allowed' step ops s"
  by (induction ops arbitrary: s) simp_all

lemma fair_run:
  "list_all (\<lambda>op. local_orm (op_orm ds op)) ops \<Longrightarrow> disciplined names_own_rows (perform ds) ops t \<Longrightarrow>
   disciplined (fair_op ds) (perform ds) ops t"
  by (erule disciplined_mono) (simp add: fair_op_def list_all_iff)

subsection \<open>What one tenant's operations see and leave\<close>

text \<open>
  An answer that shows a tenant's rows only: a read returns none of another, a count is at most the number of its rows, and
  a row that is said to exist is among them.
\<close>

fun shows_own_rows :: "string \<Rightarrow> table \<Rightarrow> repo_op \<Rightarrow> repo_answer \<Rightarrow> bool" where
  "shows_own_rows tid t _ (Found found) = (case found of None \<Rightarrow> True | Some r \<Rightarrow> tenant_of r = Some (JStr tid))"
| "shows_own_rows tid t (FindMany _) (Rows rs) = list_all (\<lambda>r. tenant_of r = Some (JStr tid)) rs"
| "shows_own_rows tid t _ (Page rs n) =
     (list_all (\<lambda>r. tenant_of r = Some (JStr tid)) rs \<and> n \<le> length (tenant_view tid t))"
| "shows_own_rows tid t (Count _) (Number n) = (n \<le> length (tenant_view tid t))"
| "shows_own_rows tid t _ (Truth b) = (b \<longrightarrow> tenant_view tid t \<noteq> [])"
| "shows_own_rows tid t _ _ = True"

text \<open>
  Along a run, each operation shows the tenant's rows only, answers what it would answer were they the only ones, and leaves all
  other rows as they are.
\<close>

fun bounded_run :: "string \<Rightarrow> orm \<Rightarrow> repo_op list \<Rightarrow> table \<Rightarrow> bool" where
  "bounded_run tid ds [] t = True"
| "bounded_run tid ds (op # ops) t = (case perform ds op t of (out, t') \<Rightarrow>
     shows_own_rows tid t op out \<and> fst (perform ds op (tenant_view tid t)) = out \<and>
     foreign_rows tid t' = foreign_rows tid t \<and> bounded_run tid ds ops t')"

lemma perform_shows_own:
  assumes "reads_documented (op_orm ds op)"
  shows "shows_own_rows (op_tenant op) t op (fst (perform ds op t))"
proof (cases op)
  case (FindOneById d)
  then show ?thesis using findOneById_scoped [of ds d t] assms by (auto split: option.split)
next
  case (FindOne d)
  then show ?thesis using findOne_scoped [of ds d t] assms by (auto split: option.split)
next
  case (FindMany d)
  then show ?thesis using findMany_scoped [of ds d _ t] assms by (auto simp: list_all_iff)
next
  case (FindAndCount d)
  have "snd (findAndCount ds d t) \<le> length (tenant_view (dto_tenantId d) t)"
    using assms [unfolded reads_documented_def, THEN conjunct2, THEN conjunct2, THEN conjunct2, THEN conjunct1,
        THEN spec, THEN spec, of "find_many_options d" t] ts.filter_scope_le [of "dto_tenantId d" "dto_where d" t] FindAndCount
    by (simp add: findAndCount_def find_many_options_def tenant_view_def)
  then show ?thesis using FindAndCount findMany_scoped [of ds d _ t] assms by (auto simp: list_all_iff split_beta)
next
  case (Count d)
  then show ?thesis using count_scoped [of ds d t] assms by (simp add: tenant_view_def)
next
  case (Exists d)
  then show ?thesis using exists_scoped [of ds d t] assms by (auto simp: tenant_view_def filter_empty_conv)
qed (simp_all add: split_beta)

lemma run_bounded:
  assumes "list_all (\<lambda>op. op_tenant op = tid \<and> reads_documented (op_orm ds op)) ops"
    and "disciplined (fair_op ds) (perform ds) ops t"
  shows "bounded_run tid ds ops t"
  using assms
proof (induction ops arbitrary: t)
  case (Cons op ops)
  then have op: "op_tenant op = tid" "reads_documented (op_orm ds op)" "fair_op ds op t" by simp_all
  then show ?case
    using Cons perform_shows_own [OF op(2), of t] perform_consistent [OF op(3)] perform_foreign [OF op(3)]
    by (simp add: split_beta)
qed simp

subsection \<open>A TypeORM that saves by id\<close>

text \<open>The in-memory repository of the witnesses, with a save that inserts what has no id.\<close>

fun keyed_save :: "js_object list \<Rightarrow> table \<Rightarrow> table" where
  "keyed_save [] t = t"
| "keyed_save (e # es) t = keyed_save es
     (if list_ex (named_by [e]) t then map (\<lambda>r. if named_by [e] r then memory_write e r else r) t else t @ [e])"

definition keyed_orm :: orm where
  "keyed_orm = memory_orm\<lparr>orm_save := (\<lambda>es t. (keyed_save es t, es))\<rparr>"

lemma find_filter_self: "find P t = find P (filter P t)"
  by (induction t) auto

lemma keyed_orm_reads_local: "reads_local keyed_orm"
  using find_filter_self by (auto simp: reads_local_def keyed_orm_def memory_orm_def Let_def list_ex_iff)

lemma keyed_orm_reads: "reads_documented keyed_orm"
  using memory_orm_reads by (simp add: reads_documented_def keyed_orm_def)

lemma keyed_orm_writes: "writes_documented keyed_orm"
  using memory_orm_writes by (simp add: writes_documented_def keyed_orm_def)

lemma keyed_orm_writes_local: "writes_local keyed_orm"
proof -
  have "rowwise ws (memory_update ws vs)" for ws vs
    by (auto simp: rowwise_def memory_update_def concat_map_singleton)
  then show ?thesis by (simp add: writes_local_def keyed_orm_def memory_orm_def)
qed

text \<open>What a save makes of a row, and of the rows it inserts when \<open>found\<close> tells which entities have a row.\<close>

definition save_row :: "row \<Rightarrow> js_object \<Rightarrow> row" where
  "save_row r e = (if named_by [e] r then memory_write e r else r)"

fun inserted :: "(js_object \<Rightarrow> bool) \<Rightarrow> js_object list \<Rightarrow> table \<Rightarrow> table" where
  "inserted found [] u = u"
| "inserted found (e # es) u = inserted found es
     (if found e \<or> list_ex (named_by [e]) u then map (\<lambda>r. save_row r e) u else u @ [e])"

lemma save_row_id: "map_of (save_row r e) ''id'' = map_of r ''id''"
  by (auto simp: save_row_def named_by_def memory_write_column column_after_def split: option.splits js.splits)

lemma named_save_row [simp]: "named_by es (save_row r e) = named_by es r"
  by (simp add: named_by_def save_row_id)

lemma keyed_save_split:
  "keyed_save es (t @ u) = map (\<lambda>r. foldl save_row r es) t @ inserted (\<lambda>e. list_ex (named_by [e]) t) es u"
proof (induction es arbitrary: t u)
  case (Cons e es)
  have f: "(\<lambda>e'. list_ex (named_by [e']) (map (\<lambda>r. save_row r e) t)) = (\<lambda>e'. list_ex (named_by [e']) t)"
    by (simp add: list_ex_iff)
  show ?case
  proof (cases "list_ex (named_by [e]) t \<or> list_ex (named_by [e]) u")
    case True
    then have "keyed_save (e # es) (t @ u) = keyed_save es (map (\<lambda>r. save_row r e) t @ map (\<lambda>r. save_row r e) u)"
      by (auto simp: save_row_def)
    then show ?thesis using True f by (auto simp: Cons.IH o_def)
  next
    case False
    then have "save_row r e = r" if "r \<in> set t" for r
      using that by (auto simp: save_row_def list_ex_iff)
    then have "map (\<lambda>r. foldl save_row r (e # es)) t = map (\<lambda>r. foldl save_row r es) t"
      by (intro map_cong refl) simp
    then show ?thesis using False by (simp add: Cons.IH)
  qed
qed simp

lemma inserted_cong: "\<forall>e \<in> set es. found e = found' e \<Longrightarrow> inserted found es u = inserted found' es u"
  by (induction es arbitrary: u) simp_all

lemma put_back_map:
  "(\<And>r. \<not> P r \<Longrightarrow> r \<in> set t \<Longrightarrow> f r = r) \<Longrightarrow> put_back P t (map f (filter P t) @ ns) = map f t @ ns"
  by (induction t) auto

lemma unnamed_kept: "\<not> named_by es r \<Longrightarrow> foldl save_row r es = r"
  by (induction es) (auto simp: named_by_def save_row_def)

lemma keyed_orm_saves_local: "saves_local keyed_orm"
  unfolding saves_local_def
proof (intro allI impI)
  fix es t and P :: "row \<Rightarrow> bool"
  assume own: "\<forall>r \<in> set t. named_by es r \<longrightarrow> P r"
  have "\<forall>e \<in> set es. list_ex (named_by [e]) (filter P t) = list_ex (named_by [e]) t"
    using own by (auto simp: list_ex_iff named_by_def)
  then have i: "inserted (\<lambda>e. list_ex (named_by [e]) (filter P t)) es [] = inserted (\<lambda>e. list_ex (named_by [e]) t) es []"
    by (rule inserted_cong)
  have "foldl save_row r es = r" if "\<not> P r" "r \<in> set t" for r
    using own that unnamed_kept by blast
  then have "put_back P t (keyed_save es (filter P t)) = keyed_save es t"
    using keyed_save_split [of es "filter P t" "[]"] keyed_save_split [of es t "[]"] put_back_map [of P t]
    by (simp add: i)
  then show "orm_save keyed_orm es t =
      (put_back P t (fst (orm_save keyed_orm es (filter P t))), snd (orm_save keyed_orm es (filter P t)))"
    by (simp add: keyed_orm_def)
qed

lemma save_row_over: "saved_over es r (foldl save_row r es)"
proof (induction es rule: rev_induct)
  case (snoc e es)
  show ?case
  proof (cases "named_by [e] (foldl save_row r es)")
    case True
    then have "map_of (foldl save_row r (es @ [e])) ''tenantId'' = Some v"
      if "map_of e ''tenantId'' = Some v" "v \<noteq> JUndefined" for v
      using that by (cases v) (simp_all add: save_row_def memory_write_column column_after_def)
    then show ?thesis unfolding saved_over_def by auto
  next
    case False
    then have "foldl save_row r (es @ [e]) = foldl save_row r es" by (simp add: save_row_def)
    then show ?thesis using snoc by (auto simp: saved_over_def)
  qed
qed (simp add: saved_over_def)

definition carries_tenant_of :: "js_object list \<Rightarrow> row \<Rightarrow> bool" where
  "carries_tenant_of es r' \<longleftrightarrow> (\<exists>e \<in> set es. \<forall>v. map_of e ''tenantId'' = Some v \<longrightarrow> v \<noteq> JUndefined \<longrightarrow>
     map_of r' ''tenantId'' = Some v)"

lemma inserted_carry:
  "\<forall>r \<in> set u. carries_tenant_of all r \<Longrightarrow> set es \<subseteq> set all \<Longrightarrow> r' \<in> set (inserted found es u) \<Longrightarrow>
   carries_tenant_of all r'"
proof (induction found es u rule: inserted.induct)
  case (2 found e es u)
  have "carries_tenant_of all (save_row r e)" if "r \<in> set u" for r
  proof (cases "named_by [e] r")
    case True
    then have "map_of (save_row r e) ''tenantId'' = Some v"
      if "map_of e ''tenantId'' = Some v" "v \<noteq> JUndefined" for v
      using that by (cases v) (simp_all add: save_row_def memory_write_column column_after_def)
    then show ?thesis using "2.prems"(2) unfolding carries_tenant_of_def by auto
  next
    case False
    then show ?thesis using "2.prems"(1) that by (simp add: save_row_def)
  qed
  moreover have "carries_tenant_of all e" using "2.prems"(2) unfolding carries_tenant_of_def by auto
  ultimately show ?case using 2 by (auto split: if_splits)
qed simp

lemma keyed_orm_saves: "saves_documented keyed_orm"
proof -
  have parts: "keyed_save es t = map (\<lambda>r. foldl save_row r es) t @ inserted (\<lambda>e. list_ex (named_by [e]) t) es []" for es t
    using keyed_save_split [of es t "[]"] by simp
  have "carries_tenant_of es r'" if "r' \<in> set (inserted found es [])" for es r' found
    using inserted_carry [of "[]" es es r' found] that by simp
  then show ?thesis
    by (simp add: saves_documented_def keyed_orm_def parts list_all2_map2 save_row_over list_all2_refl
        carries_tenant_of_def)
qed

lemma keyed_orm_local: "local_orm keyed_orm"
  by (simp add: local_orm_def keyed_orm_reads_local keyed_orm_writes keyed_orm_writes_local
      keyed_orm_saves_local keyed_orm_saves)

subsection \<open>Properties\<close>

text \<open>
  C4: to each tenant the shared table is a private one, provided that no entity a tenant saves carries the id of
  another tenant's row, which the repository does not check (\<open>saveOne_takes_over_row\<close>).  Under that condition on the saves,
  whatever else the tenants ask, in whatever order, reads, counts, saves, updates, deletes and restores, inside transactions
  or out, a tenant is answered exactly as by a repository that only it uses, over a table that holds only its rows, and
  what it leaves of its rows is what is left there.  What is relied on of TypeORM is that statements see the rows their
  \<open>where\<close> or their ids name.
\<close>

theorem tenants_have_private_tables:
  assumes "list_all (\<lambda>op. local_orm (op_orm ds op)) ops"
    and "disciplined names_own_rows (perform ds) ops t"
  shows "(case (serve_all (perform ds) op_tenant ops t,
      serve_all (perform ds) op_tenant (filter (\<lambda>op. op_tenant op = tid) ops) (tenant_view tid t)) of
    ((outs, t'), (private_outs, private)) \<Rightarrow>
      answers tid outs = map snd private_outs \<and> tenant_view tid t' = private)"
  by (rule repo.purged [OF fair_run [OF assms]])

text \<open>Tenants \<open>a\<close> and \<open>b\<close> write the same column, each asks for everything, and \<open>b\<close> saves a new row.\<close>

abbreviation rival_ops :: "repo_op list" where
  "rival_ops \<equiv>
     [UpdateBy \<lparr>dto_tenantId = ''a'', dto_manager = None, dto_update_where = WhereNone,
        dto_update_values = [(''title'', JStr ''x'')]\<rparr>,
      SaveOne \<lparr>dto_tenantId = ''b'', dto_manager = None, dto_entity = [(''id'', JStr ''3'')]\<rparr>,
      UpdateBy \<lparr>dto_tenantId = ''b'', dto_manager = None, dto_update_where = WhereMany [],
        dto_update_values = [(''title'', JStr ''y''), (''tenantId'', JStr ''a'')]\<rparr>,
      Count \<lparr>dto_tenantId = ''a'', dto_manager = None, dto_where = WhereNone, dto_withDeleted = None\<rparr>]"

lemma tenants_have_private_tables_witness:
  "answers ''a'' (fst (serve_all (perform keyed_orm) op_tenant rival_ops example_rows)) = [Number 1, Number 1] \<and>
   length (snd (serve_all (perform keyed_orm) op_tenant rival_ops example_rows)) = 3"
proof -
  have own: "disciplined names_own_rows (perform keyed_orm) rival_ops example_rows" by code_simp
  have "list_all (\<lambda>op. local_orm (op_orm keyed_orm op)) rival_ops"
    by (simp add: repository_def keyed_orm_local)
  from tenants_have_private_tables [OF this own, of "''a''"]
  have "answers ''a'' (fst (serve_all (perform keyed_orm) op_tenant rival_ops example_rows)) =
      map snd (fst (serve_all (perform keyed_orm) op_tenant (filter (\<lambda>op. op_tenant op = ''a'') rival_ops)
        (tenant_view ''a'' example_rows)))"
    by (simp only: split_beta fst_conv snd_conv)
  moreover have "map snd (fst (serve_all (perform keyed_orm) op_tenant (filter (\<lambda>op. op_tenant op = ''a'') rival_ops)
        (tenant_view ''a'' example_rows))) = [Number 1, Number 1]"
    by code_simp
  moreover have "length (snd (serve_all (perform keyed_orm) op_tenant rival_ops example_rows)) = 3"
    by code_simp
  ultimately show ?thesis by simp
qed

end
