(* ===== verification/Scrub.thy ===== *)
theory Scrub
  imports Http
begin

section \<open>Scrubbing an error report\<close>

text \<open>
  \<^verbatim>\<open>observability/error/scrub-event.util.ts\<close> and the constants it uses from
  \<^verbatim>\<open>observability/error/error-reporter.constant.ts\<close>.  The context attached to an error is
  arbitrary and may be cyclic, so it is modelled with references into a heap of arrays and
  objects; what the scrubber builds is a fresh tree of \<^typ>\<open>js\<close>.
\<close>

definition REDACTED_PLACEHOLDER :: string where
  "REDACTED_PLACEHOLDER = ''[redacted]''"

definition REPORTABLE_HEADER_NAMES :: "string list" where
  "REPORTABLE_HEADER_NAMES =
     [''accept'', ''content-length'', ''content-type'', HeaderKey CORRELATION_ID, HeaderKey USER_AGENT]"

definition MAX_SCRUB_DEPTH :: nat where
  "MAX_SCRUB_DEPTH = 6"

text \<open>
  The alternatives of \<open>SENSITIVE_KEY_PATTERN\<close>, which is matched as a substring and ignoring case;
  \<open>api[-_]?key\<close> is written out as its three strings.
\<close>

definition SENSITIVE_KEY_PATTERN :: "string list" where
  "SENSITIVE_KEY_PATTERN =
     [''pass'', ''secret'', ''token'', ''credential'', ''authorization'', ''apikey'', ''api-key'',
      ''api_key'', ''signature'', ''cookie'', ''session'', ''private'', ''encrypt'', ''salt'',
      ''hash'', ''dsn'']"

definition sensitive_key :: "string \<Rightarrow> bool" where
  "sensitive_key key = list_ex (str_includes (to_lower key)) SENSITIVE_KEY_PATTERN"

subsection \<open>Context values\<close>

datatype jval = VUndefined | VNull | VBool bool | VNum rat | VStr string | VRef nat

datatype cell = CArr "jval list" | CObj "(string \<times> jval) list"

type_synonym heap = "nat \<Rightarrow> cell"
type_synonym context_record = "(string \<times> jval) list"

fun primitive :: "jval \<Rightarrow> js" where
  "primitive VUndefined = JUndefined"
| "primitive VNull = JNull"
| "primitive (VBool b) = JBool b"
| "primitive (VNum n) = JNum n"
| "primitive (VStr s) = JStr s"
| "primitive (VRef _) = JUndefined"

text \<open>
  The depth bound is what ends the recursion, on a cyclic heap too.  An assignment to the name \<open>__proto__\<close> sets the prototype of
  the rebuilt object or does nothing, so that an own key of that name is not carried over.
\<close>

function (sequential) scrubRecord :: "heap \<Rightarrow> context_record \<Rightarrow> nat \<Rightarrow> js_object"
  and scrubValue :: "heap \<Rightarrow> jval \<Rightarrow> nat \<Rightarrow> js" where
  "scrubRecord H rec depth =
     map (\<lambda>(key, val). (key, if sensitive_key key then JStr REDACTED_PLACEHOLDER
                             else scrubValue H val (depth + 1))) (filter (\<lambda>(key, _). key \<noteq> ''__proto__'') rec)"
| "scrubValue H val depth =
     (if depth > MAX_SCRUB_DEPTH then JStr REDACTED_PLACEHOLDER
      else case val of
        VRef a \<Rightarrow> (case H a of
            CArr entries \<Rightarrow> JArr (map (\<lambda>entry. scrubValue H entry (depth + 1)) entries)
          | CObj ps \<Rightarrow> JObj (scrubRecord H ps depth))
      | _ \<Rightarrow> primitive val)"
  by pat_completeness auto
termination
  by (relation "measure (\<lambda>x. case x of
        Inl (H, rec, d) \<Rightarrow> Suc (if d + 1 > 6 then 0 else 2 * (7 - (d + 1)))
      | Inr (H, v, d) \<Rightarrow> if d > 6 then 0 else 2 * (7 - d))")
    (auto simp: MAX_SCRUB_DEPTH_def)

declare scrubRecord.simps [simp del] scrubValue.simps [simp del]

definition filterHeaders :: "(string \<times> string) list option \<Rightarrow> (string \<times> string) list" where
  "filterHeaders headers = (case headers of
     None \<Rightarrow> []
   | Some hs \<Rightarrow> filter (\<lambda>(name, _). to_lower name \<in> set REPORTABLE_HEADER_NAMES) hs)"

subsection \<open>The event\<close>

text \<open>
  The parts of a Sentry event the scrubber looks at; \<open>'x\<close> stands for the other properties of each
  object, which \<open>...spread\<close> carries over or a rebuilt object drops.
\<close>

record event_request =
  er_method :: "string option"
  er_headers :: "(string \<times> string) list option"
  er_other :: js_object

record event_user =
  eu_id :: "string option"
  eu_other :: js_object

record event_frame =
  ef_vars :: "js option"
  ef_other :: js_object

record event_stacktrace =
  es_frames :: "event_frame list option"
  es_other :: js_object

record event_exception_value =
  ev_stacktrace :: "event_stacktrace option"
  ev_other :: js_object

record event_exception =
  ee_values :: "event_exception_value list option"
  ee_other :: js_object

text \<open>
  The context structures of type \<open>'c\<close> are references into the heap before scrubbing and trees after.
\<close>

record 'c event_breadcrumb =
  eb_data :: "'c option"
  eb_other :: js_object

record 'c error_event =
  e_extra :: "'c option"
  e_contexts :: "'c option"
  e_request :: "event_request option"
  e_user :: "event_user option"
  e_exception :: "event_exception option"
  e_breadcrumbs :: "'c event_breadcrumb list option"
  e_other :: js_object

definition scrub_exception_value :: "event_exception_value \<Rightarrow> event_exception_value" where
  "scrub_exception_value v = (case ev_stacktrace v of
     None \<Rightarrow> v
   | Some st \<Rightarrow> (case es_frames st of
       None \<Rightarrow> v
     | Some frames \<Rightarrow> v\<lparr>ev_stacktrace :=
         Some (st\<lparr>es_frames := Some (map (\<lambda>frame. frame\<lparr>ef_vars := None\<rparr>) frames)\<rparr>)\<rparr>))"

definition scrubEvent :: "heap \<Rightarrow> context_record error_event \<Rightarrow> js_object error_event" where
  "scrubEvent H event =
     \<lparr>e_extra = map_option (\<lambda>x. scrubRecord H x 0) (e_extra event),
      e_contexts = map_option (\<lambda>x. scrubRecord H x 0) (e_contexts event),
      e_request = map_option (\<lambda>r. \<lparr>er_method = er_method r,
          er_headers = Some (filterHeaders (er_headers r)), er_other = []\<rparr>) (e_request event),
      e_user = map_option (\<lambda>u. \<lparr>eu_id = eu_id u, eu_other = []\<rparr>) (e_user event),
      e_exception = map_option (\<lambda>x. x\<lparr>ee_values :=
          map_option (map scrub_exception_value) (ee_values x)\<rparr>) (e_exception event),
      e_breadcrumbs = map_option (map (\<lambda>b.
          \<lparr>eb_data = map_option (\<lambda>x. scrubRecord H x 0) (eb_data b), eb_other = eb_other b\<rparr>))
          (e_breadcrumbs event),
      e_other = e_other event\<rparr>"

subsection \<open>What a scrubbed tree looks like\<close>

text \<open>Below every sensitive key, wherever it stands in the tree, there is the placeholder only.\<close>

fun redacted :: "js \<Rightarrow> bool" where
  "redacted (JArr vs) = (\<forall>v \<in> set vs. redacted v)"
| "redacted (JObj ps) =
     (\<forall>kv \<in> set ps. (sensitive_key (fst kv) \<longrightarrow> snd kv = JStr REDACTED_PLACEHOLDER) \<and> redacted (snd kv))"
| "redacted _ = True"

text \<open>The tree nests at most \<open>n\<close> arrays or objects.\<close>

fun nested_within :: "nat \<Rightarrow> js \<Rightarrow> bool" where
  "nested_within n (JArr vs) = (0 < n \<and> (\<forall>v \<in> set vs. nested_within (n - 1) v))"
| "nested_within n (JObj ps) = (0 < n \<and> (\<forall>kv \<in> set ps. nested_within (n - 1) (snd kv)))"
| "nested_within n _ = True"

lemma primitive_leaf [simp]: "redacted (primitive v)" "nested_within n (primitive v)"
  by (cases v; simp)+

lemma scrubValue_deep: "d > MAX_SCRUB_DEPTH \<Longrightarrow> scrubValue H v d = JStr REDACTED_PLACEHOLDER"
  by (simp add: scrubValue.simps [of H v d])

lemma scrubValue_leaf: "d \<le> MAX_SCRUB_DEPTH \<Longrightarrow> (\<forall>a. v \<noteq> VRef a) \<Longrightarrow> scrubValue H v d = primitive v"
  by (cases v) (simp_all add: scrubValue.simps [of H _ d])

lemma scrubValue_array:
  "d \<le> MAX_SCRUB_DEPTH \<Longrightarrow> H a = CArr es \<Longrightarrow>
   scrubValue H (VRef a) d = JArr (map (\<lambda>e. scrubValue H e (d + 1)) es)"
  by (simp add: scrubValue.simps [of H "VRef a" d])

lemma scrubValue_object:
  "d \<le> MAX_SCRUB_DEPTH \<Longrightarrow> H a = CObj ps \<Longrightarrow> scrubValue H (VRef a) d = JObj (scrubRecord H ps d)"
  by (simp add: scrubValue.simps [of H "VRef a" d])

text \<open>
  The induction both properties of the scrubber use: by the depth still allowed, one case per kind
  of value.
\<close>

lemma scrub_induct [case_names entries deep leaf array obj]:
  assumes "\<And>H rec d. (\<And>k v. (k, v) \<in> set rec \<Longrightarrow> k \<noteq> ''__proto__'' \<Longrightarrow> \<not> sensitive_key k \<Longrightarrow> Q H v (d + 1)) \<Longrightarrow> P H rec d"
    and "\<And>H v d. d > MAX_SCRUB_DEPTH \<Longrightarrow> Q H v d"
    and "\<And>H v d. d \<le> MAX_SCRUB_DEPTH \<Longrightarrow> (\<forall>a. v \<noteq> VRef a) \<Longrightarrow> Q H v d"
    and "\<And>H a es d. d \<le> MAX_SCRUB_DEPTH \<Longrightarrow> H a = CArr es \<Longrightarrow>
           (\<And>e. e \<in> set es \<Longrightarrow> Q H e (d + 1)) \<Longrightarrow> Q H (VRef a) d"
    and "\<And>H a ps d. d \<le> MAX_SCRUB_DEPTH \<Longrightarrow> H a = CObj ps \<Longrightarrow> P H ps d \<Longrightarrow> Q H (VRef a) d"
  shows "P H rec d" and "Q H v d"
proof (induction H rec d and H v d rule: scrubRecord_scrubValue.induct)
  case (1 H rec d)
  show ?case by (rule assms(1)) (use 1 in auto)
next
  case (2 H v d)
  show ?case
  proof (cases "d > MAX_SCRUB_DEPTH")
    case True
    then show ?thesis by (rule assms(2))
  next
    case shallow: False
    then have le: "d \<le> MAX_SCRUB_DEPTH" by simp
    show ?thesis
    proof (cases "\<exists>a. v = VRef a")
      case False
      then show ?thesis using assms(3) [OF le] by blast
    next
      case True
      then obtain a where v: "v = VRef a" ..
      show ?thesis
        by (cases "H a")
          (use 2 assms(4) [OF le] assms(5) [OF le] shallow v in \<open>metis\<close>)+
    qed
  qed
qed

lemma scrub_redacts:
  "redacted (JObj (scrubRecord H rec d))"
  "redacted (scrubValue H v d)"
proof (induction H rec d and H v d rule: scrub_induct)
  case (entries H rec d)
  then show ?case by (auto simp: scrubRecord.simps)
qed (simp_all add: scrubValue_deep scrubValue_leaf scrubValue_array scrubValue_object del: redacted.simps(2))

lemma scrub_depth:
  "d \<le> MAX_SCRUB_DEPTH \<longrightarrow> nested_within (7 - d) (JObj (scrubRecord H rec d))"
  "nested_within (7 - d) (scrubValue H v d)"
proof (induction H rec d and H v d rule: scrub_induct)
  case (entries H rec d)
  then show ?case by (auto simp: scrubRecord.simps MAX_SCRUB_DEPTH_def)
next
  case (array H a es d)
  then show ?case by (simp add: scrubValue_array) (simp add: MAX_SCRUB_DEPTH_def)
qed (simp_all add: scrubValue_deep scrubValue_leaf scrubValue_object del: nested_within.simps(2))

lemma scrubRecord_keys: "map fst (scrubRecord H rec d) = filter (\<lambda>key. key \<noteq> ''__proto__'') (map fst rec)"
  by (induction rec) (auto simp: scrubRecord.simps)

subsection \<open>Properties\<close>

text \<open>
  C32: scrubbing ends and redacts on any context, a cyclic one included: the result is a tree of
  at most seven levels, with the keys of the record it was given but for one named \<open>__proto__\<close>, in which every value under a
  sensitive key, at whatever depth, is the placeholder.
\<close>

theorem scrubRecord_redacts:
  "map fst (scrubRecord H rec 0) = filter (\<lambda>key. key \<noteq> ''__proto__'') (map fst rec) \<and>
   redacted (JObj (scrubRecord H rec 0)) \<and>
   nested_within (MAX_SCRUB_DEPTH + 1) (JObj (scrubRecord H rec 0))"
  using scrub_redacts(1) [of H rec 0] scrub_depth(1) [of 0 H rec] scrubRecord_keys
  by (simp add: MAX_SCRUB_DEPTH_def)

definition clean_frames :: "event_exception_value \<Rightarrow> bool" where
  "clean_frames v = (case ev_stacktrace v of None \<Rightarrow> True
     | Some st \<Rightarrow> (case es_frames st of None \<Rightarrow> True | Some fs \<Rightarrow> list_all (\<lambda>f. ef_vars f = None) fs))"

lemma scrubbed_value_clean: "clean_frames (scrub_exception_value v)"
  by (auto simp: clean_frames_def scrub_exception_value_def list_all_iff split: option.split)

text \<open>
  C33: what leaves the machine of an event.  Of the request only the method and allowlisted
  headers, of the user only the id, of the stack frames everything but their local variables, of
  the extra data, the contexts and the breadcrumbs' data only redacted trees.
\<close>

theorem scrubEvent_allowlists:
  "pred_option (\<lambda>r. er_other r = [] \<and>
       list_all (\<lambda>(name, _). to_lower name \<in> set REPORTABLE_HEADER_NAMES) (the (er_headers r)))
     (e_request (scrubEvent H event)) \<and>
   pred_option (\<lambda>u. eu_other u = []) (e_user (scrubEvent H event)) \<and>
   pred_option (\<lambda>x. pred_option (list_all clean_frames) (ee_values x)) (e_exception (scrubEvent H event)) \<and>
   pred_option (\<lambda>x. redacted (JObj x)) (e_extra (scrubEvent H event)) \<and>
   pred_option (\<lambda>x. redacted (JObj x)) (e_contexts (scrubEvent H event)) \<and>
   pred_option (list_all (\<lambda>b. pred_option (\<lambda>x. redacted (JObj x)) (eb_data b)))
     (e_breadcrumbs (scrubEvent H event))"
  using scrub_redacts(1)
  by (auto simp: scrubEvent_def filterHeaders_def option.pred_set list_all_iff scrubbed_value_clean
      simp del: redacted.simps split: option.splits)

end
