(* ===== verification/ErrorReporter.thy ===== *)
theory ErrorReporter
  imports Exceptions Scrub
begin

section \<open>The error reporter\<close>

text \<open>
  \<^verbatim>\<open>observability/error/error-reporter.service.ts\<close>, its interface
  \<^verbatim>\<open>error-reporter.interface.ts\<close>, its options and the two constants of
  \<^verbatim>\<open>error-reporter.constant.ts\<close> that the scrubber does not use.  The Sentry SDK is what the service
  hands over to: the calls it makes are recorded in the order it makes them.
\<close>

record error_reporter_options =
  ro_dsn :: "string option"
  ro_environment :: string
  ro_serviceName :: string
  ro_release :: "string option"
  ro_sampleRate :: "rat option"

record error_report_context =
  erc_correlationId :: "string option"
  erc_tenantId :: "string option"
  erc_method :: "string option"
  erc_route :: "string option"
  erc_extra :: "js_object option"

definition no_context :: error_report_context where
  "no_context = \<lparr>erc_correlationId = None, erc_tenantId = None, erc_method = None,
     erc_route = None, erc_extra = None\<rparr>"

definition ERROR_REPORTER_FLUSH_TIMEOUT_MS :: nat where
  "ERROR_REPORTER_FLUSH_TIMEOUT_MS = 2000"

text \<open>What the Sentry SDK may collect by itself: one field per category.\<close>

record data_collection =
  dc_userInfo :: bool
  dc_cookies :: bool
  dc_httpHeaders_request_allow :: "string list"
  dc_httpHeaders_response :: bool
  dc_httpBodies :: "string list"
  dc_urlQueryParams :: bool
  dc_graphQL_document :: bool
  dc_graphQL_variables :: bool
  dc_genAI_inputs :: bool
  dc_genAI_outputs :: bool
  dc_mcp_inputs :: bool
  dc_mcp_outputs :: bool
  dc_databaseQueryData :: bool
  dc_queues :: bool
  dc_stackFrameVariables :: bool
  dc_frameContextLines :: nat

definition DATA_COLLECTION :: data_collection where
  "DATA_COLLECTION =
     \<lparr>dc_userInfo = False, dc_cookies = False,
      dc_httpHeaders_request_allow = REPORTABLE_HEADER_NAMES, dc_httpHeaders_response = False,
      dc_httpBodies = [], dc_urlQueryParams = False,
      dc_graphQL_document = False, dc_graphQL_variables = False,
      dc_genAI_inputs = False, dc_genAI_outputs = False,
      dc_mcp_inputs = False, dc_mcp_outputs = False,
      dc_databaseQueryData = False, dc_queues = False, dc_stackFrameVariables = False,
      dc_frameContextLines = 5\<rparr>"

subsection \<open>The calls into Sentry\<close>

record sentry_init =
  si_dsn :: "string option"
  si_environment :: string
  si_release :: "string option"
  si_sampleRate :: rat
  si_dataCollection :: data_collection
  si_tracesSampleRate :: rat
  si_beforeSend :: "heap \<Rightarrow> context_record error_event \<Rightarrow> js_object error_event"

record sentry_capture =
  sc_tags :: "(string \<times> string) list"
  sc_extras :: "js_object option"
  sc_exception :: thrown

datatype sentry_call =
    SentryInit sentry_init
  | SentryCapture sentry_capture
  | SentryFlush nat

record error_reporter =
  er_options :: error_reporter_options
  er_enabled :: bool
  er_calls :: "sentry_call list"

definition ErrorReporterService_new :: "error_reporter_options \<Rightarrow> error_reporter" where
  "ErrorReporterService_new options =
     (if str_truthy (ro_dsn options)
      then \<lparr>er_options = options, er_enabled = True,
            er_calls = [SentryInit
              \<lparr>si_dsn = ro_dsn options, si_environment = ro_environment options,
               si_release = ro_release options, si_sampleRate = nullish (ro_sampleRate options) 1,
               si_dataCollection = DATA_COLLECTION, si_tracesSampleRate = 0,
               si_beforeSend = scrubEvent\<rparr>]\<rparr>
      else \<lparr>er_options = options, er_enabled = False, er_calls = []\<rparr>)"

definition ErrorReporterService_isEnabled :: "error_reporter \<Rightarrow> bool" where
  "ErrorReporterService_isEnabled r = er_enabled r"

fun set_tags :: "(string \<times> string option) list \<Rightarrow> (string \<times> string) list \<Rightarrow> (string \<times> string) list" where
  "set_tags [] tags = tags"
| "set_tags ((name, val) # rest) tags =
     set_tags rest (if str_truthy val then js_set name (the val) tags else tags)"

definition report_tags :: "error_reporter_options \<Rightarrow> error_report_context \<Rightarrow> (string \<times> string) list" where
  "report_tags options context =
     set_tags [(''correlationId'', erc_correlationId context), (''tenantId'', erc_tenantId context),
               (''method'', erc_method context), (''route'', erc_route context)]
       (js_set ''service'' (ro_serviceName options) [])"

definition ErrorReporterService_capture ::
    "error_reporter \<Rightarrow> thrown \<Rightarrow> error_report_context \<Rightarrow> error_reporter" where
  "ErrorReporterService_capture r exception context =
     (if \<not> er_enabled r then r
      else r\<lparr>er_calls := er_calls r @ [SentryCapture
             \<lparr>sc_tags = report_tags (er_options r) context, sc_extras = erc_extra context,
              sc_exception = exception\<rparr>]\<rparr>)"

definition ErrorReporterService_onApplicationShutdown :: "error_reporter \<Rightarrow> error_reporter" where
  "ErrorReporterService_onApplicationShutdown r =
     (if \<not> er_enabled r then r
      else r\<lparr>er_calls := er_calls r @ [SentryFlush ERROR_REPORTER_FLUSH_TIMEOUT_MS]\<rparr>)"

text \<open>The captures among the calls made.\<close>

fun captures_of :: "sentry_call list \<Rightarrow> sentry_capture list" where
  "captures_of [] = []"
| "captures_of (SentryCapture c # cs) = c # captures_of cs"
| "captures_of (_ # cs) = captures_of cs"

definition captured :: "error_reporter \<Rightarrow> thrown list" where
  "captured r = map sc_exception (captures_of (er_calls r))"

lemma captures_of_append [simp]: "captures_of (xs @ ys) = captures_of xs @ captures_of ys"
  by (induction xs rule: captures_of.induct) auto

subsection \<open>The interface the exception filter is handed\<close>

locale error_reporter_interface =
  fixes isEnabled :: "'r \<Rightarrow> bool"
    and capture :: "'r \<Rightarrow> thrown \<Rightarrow> error_report_context \<Rightarrow> 'r"
    and reported :: "'r \<Rightarrow> thrown list"
  assumes disabled_noop: "\<not> isEnabled r \<Longrightarrow> capture r x c = r"
    and enabled_reports: "isEnabled r \<Longrightarrow> reported (capture r x c) = reported r @ [x]"
    and capture_keeps_enabled: "isEnabled (capture r x c) = isEnabled r"
begin

lemma reported_capture: "reported (capture r x c) = reported r @ (if isEnabled r then [x] else [])"
  by (simp add: disabled_noop enabled_reports)

lemma reported_many:
  "reported (foldl (\<lambda>r (x, c). capture r x c) r xs) = reported r @ (if isEnabled r then map fst xs else [])"
proof (induction xs arbitrary: r)
  case (Cons xc xs)
  then show ?case
    by (cases xc) (simp add: capture_keeps_enabled enabled_reports disabled_noop)
qed simp

end

interpretation reporter: error_reporter_interface
  ErrorReporterService_isEnabled ErrorReporterService_capture captured
  by unfold_locales
    (simp_all add: ErrorReporterService_isEnabled_def ErrorReporterService_capture_def captured_def)

lemma map_of_set_tags:
  "distinct (map fst entries) \<Longrightarrow>
   map_of (set_tags entries tags) k =
     (case map_of entries k of Some v \<Rightarrow> if str_truthy v then v else map_of tags k | None \<Rightarrow> map_of tags k)"
proof (induction entries tags rule: set_tags.induct)
  case (2 name val rest tags)
  let ?t = "if str_truthy val then js_set name (the val) tags else tags"
  have IH: "map_of (set_tags rest ?t) k = (case map_of rest k of
        Some v \<Rightarrow> if str_truthy v then v else map_of ?t k | None \<Rightarrow> map_of ?t k)"
    by (rule 2(1)) (use 2(2) in simp)
  have new: "map_of rest name = None" using 2 by (simp add: map_of_eq_None_iff)
  show ?case
  proof (cases "k = name")
    case True
    then show ?thesis unfolding set_tags.simps IH by (cases val) (simp_all add: new object_lookup)
  next
    case False
    then show ?thesis unfolding set_tags.simps IH by (simp add: object_lookup split: option.split)
  qed
qed simp

subsection \<open>Properties\<close>

text \<open>
  A reporter with no DSN, or an empty one, is inert: no capture and no shutdown makes any call
  into Sentry, not even the initialisation.  With a DSN the first call made is the initialisation,
  with every collection category off, headers by the scrubber's own allowlist, tracing off and the
  scrubber installed; a capture is then exactly one event, tagged with the service and those of
  the four fields that are not empty, and the shutdown a flush of two seconds.
\<close>

theorem ErrorReporterService_calls:
  "er_calls (ErrorReporterService_onApplicationShutdown
      (ErrorReporterService_capture (ErrorReporterService_new opts) x c)) =
     (if str_truthy (ro_dsn opts)
      then [SentryInit \<lparr>si_dsn = ro_dsn opts, si_environment = ro_environment opts,
              si_release = ro_release opts, si_sampleRate = nullish (ro_sampleRate opts) 1,
              si_dataCollection = DATA_COLLECTION, si_tracesSampleRate = 0, si_beforeSend = scrubEvent\<rparr>,
            SentryCapture \<lparr>sc_tags = report_tags opts c, sc_extras = erc_extra c, sc_exception = x\<rparr>,
            SentryFlush 2000]
      else []) \<and>
   map_of (report_tags opts c) ''service'' = Some (ro_serviceName opts) \<and>
   map_of (report_tags opts c) ''tenantId'' =
     (if str_truthy (erc_tenantId c) then erc_tenantId c else None) \<and>
   map_of (report_tags opts c) ''route'' = (if str_truthy (erc_route c) then erc_route c else None) \<and>
   dc_httpHeaders_request_allow DATA_COLLECTION = REPORTABLE_HEADER_NAMES"
  by (simp add: ErrorReporterService_new_def ErrorReporterService_capture_def
      ErrorReporterService_onApplicationShutdown_def ERROR_REPORTER_FLUSH_TIMEOUT_MS_def
      report_tags_def map_of_set_tags DATA_COLLECTION_def del: set_tags.simps)

end
