(* ===== verification/Correlation.thy ===== *)
theory Correlation
  imports Http
begin

section \<open>Correlation ids\<close>

text \<open>
  \<^verbatim>\<open>context/assign-correlation-id.util.ts\<close>, \<^verbatim>\<open>context/correlation-id.service.ts\<close>,
  \<^verbatim>\<open>context/correlation-id.middleware.ts\<close> and
  \<^verbatim>\<open>context/current-correlation-id.decorator.ts\<close>.  The UUID that \<open>randomUUID()\<close> returns is an
  argument; what is needed of it is \<^term>\<open>usable_id\<close>.
\<close>

definition MAX_CORRELATION_ID_LENGTH :: nat where
  "MAX_CORRELATION_ID_LENGTH = 128"

definition usable_id :: "string \<Rightarrow> bool" where
  "usable_id s = (trim s = s \<and> 0 < length s \<and> length s \<le> MAX_CORRELATION_ID_LENGTH)"

definition assignCorrelationId :: "string \<Rightarrow> request \<Rightarrow> string \<times> request" where
  "assignCorrelationId uuid req =
     (let candidate = map_option trim (readHeader req (HeaderKey CORRELATION_ID));
          correlationId =
            (case candidate of
               Some c \<Rightarrow> if length c > 0 \<and> length c \<le> MAX_CORRELATION_ID_LENGTH then c else uuid
             | None \<Rightarrow> uuid)
      in (correlationId,
          req\<lparr>req_headers := (req_headers req)(HeaderKey CORRELATION_ID \<mapsto> HOne correlationId)\<rparr>))"

subsection \<open>The ambient context\<close>

text \<open>
  \<open>AsyncLocalStorage\<close>: the current store is a reference to a context object, and \<open>run\<close> installs
  one for the extent of the callback and puts the previous one back.  Contexts live in a heap,
  since \<open>addFields\<close> mutates the object the current reference names.
\<close>

record correlation_context =
  cc_correlationId :: string
  cc_fields :: "js_object option"

record storage =
  als_heap :: "nat \<Rightarrow> correlation_context"
  als_store :: "nat option"

definition runWith :: "nat \<Rightarrow> (storage \<Rightarrow> 'a \<times> storage) \<Rightarrow> storage \<Rightarrow> 'a \<times> storage" where
  "runWith context callback s =
     (let (a, s') = callback (s\<lparr>als_store := Some context\<rparr>) in (a, s'\<lparr>als_store := als_store s\<rparr>))"

definition getContext :: "storage \<Rightarrow> correlation_context option" where
  "getContext s = map_option (als_heap s) (als_store s)"

definition getCorrelationId :: "storage \<Rightarrow> string option" where
  "getCorrelationId s = map_option cc_correlationId (getContext s)"

definition getCorrelationIdOrGenerate :: "string \<Rightarrow> storage \<Rightarrow> string" where
  "getCorrelationIdOrGenerate uuid s = nullish (getCorrelationId s) uuid"

definition addFields :: "js_object \<Rightarrow> storage \<Rightarrow> storage" where
  "addFields new_fields s =
     (case als_store s of
        None \<Rightarrow> s
      | Some r \<Rightarrow> s\<lparr>als_heap := (als_heap s)(r := (als_heap s r)
            \<lparr>cc_fields := Some (spread (spread [] (nullish (cc_fields (als_heap s r)) [])) new_fields)\<rparr>)\<rparr>)"

subsection \<open>The middleware and the decorator\<close>

text \<open>
  \<open>use\<close>: assign, echo on the response, then run \<open>next\<close> inside a fresh context object (at the heap
  cell \<open>fresh\<close>) carrying the id.  \<open>next\<close> sees the request as assigned.
\<close>

definition CorrelationIdMiddleware_use ::
    "string \<Rightarrow> nat \<Rightarrow> (request \<Rightarrow> 'b response \<Rightarrow> storage \<Rightarrow> 'a \<times> storage) \<Rightarrow>
     request \<Rightarrow> 'b response \<Rightarrow> storage \<Rightarrow> 'a \<times> storage" where
  "CorrelationIdMiddleware_use uuid fresh next_fn req res s =
     (let (correlationId, req') = assignCorrelationId uuid req;
          res' = res\<lparr>res_headers := (res_headers res)(HeaderKey CORRELATION_ID \<mapsto> correlationId)\<rparr>;
          s' = s\<lparr>als_heap := (als_heap s)(fresh := \<lparr>cc_correlationId = correlationId, cc_fields = None\<rparr>)\<rparr>
      in runWith fresh (next_fn req' res') s')"

definition CurrentCorrelationId :: "request \<Rightarrow> string" where
  "CurrentCorrelationId req = nullish (readHeader req (HeaderKey CORRELATION_ID)) ''''"

subsection \<open>The rule every stage applies\<close>

text \<open>
  The logger, the middleware and the exception filter each assign an id to the same request.  What
  they need of the rule: the id is usable, it is left where the next stage reads it, and a second
  application finds it and changes nothing.
\<close>

locale correlation_rule =
  fixes assign :: "string \<Rightarrow> request \<Rightarrow> string \<times> request"
  assumes assign_usable: "usable_id uuid \<Longrightarrow> usable_id (fst (assign uuid req))"
    and assign_readable: "readHeader (snd (assign uuid req)) (HeaderKey CORRELATION_ID)
      = Some (fst (assign uuid req))"
    and assign_again: "usable_id uuid \<Longrightarrow>
      assign uuid' (snd (assign uuid req)) = (fst (assign uuid req), snd (assign uuid req))"
begin

lemma stages_agree:
  assumes "usable_id u1"
  shows "fst (assign u2 (snd (assign u1 req))) = fst (assign u1 req)"
    and "fst (assign u3 (snd (assign u2 (snd (assign u1 req))))) = fst (assign u1 req)"
  using assign_again [OF assms] by simp_all

end

lemma readHeader_set [simp]:
  "readHeader (req\<lparr>req_headers := hs(k \<mapsto> HOne v)\<rparr>) k = Some v"
  by (simp add: readHeader_def)

lemma assigned_id_usable: "usable_id uuid \<Longrightarrow> usable_id (fst (assignCorrelationId uuid req))"
  by (auto simp: assignCorrelationId_def usable_id_def Let_def split: option.splits)

lemma assigned_id_readable:
  "readHeader (snd (assignCorrelationId uuid req)) (HeaderKey CORRELATION_ID)
     = Some (fst (assignCorrelationId uuid req))"
  by (simp add: assignCorrelationId_def Let_def del: HeaderKey.simps)

lemma assign_kept:
  assumes "usable_id c" and "req_headers req (HeaderKey CORRELATION_ID) = Some (HOne c)"
  shows "assignCorrelationId uuid req = (c, req)"
proof -
  have "readHeader req (HeaderKey CORRELATION_ID) = Some c"
    using assms(2) by (simp add: readHeader_def del: HeaderKey.simps)
  moreover have "req\<lparr>req_headers := (req_headers req)(HeaderKey CORRELATION_ID \<mapsto> HOne c)\<rparr> = req"
    using assms(2) by (simp add: fun_upd_idem del: HeaderKey.simps)
  ultimately show ?thesis
    using assms(1) by (simp add: assignCorrelationId_def usable_id_def del: HeaderKey.simps)
qed

lemma assigned_id_kept:
  "usable_id uuid \<Longrightarrow> assignCorrelationId uuid' (snd (assignCorrelationId uuid req))
     = (fst (assignCorrelationId uuid req), snd (assignCorrelationId uuid req))"
  by (rule assign_kept [OF assigned_id_usable])
    (simp_all add: assignCorrelationId_def Let_def del: HeaderKey.simps)

interpretation cr: correlation_rule assignCorrelationId
  by unfold_locales
    (rule assigned_id_usable assigned_id_readable assigned_id_kept; assumption?)+

subsection \<open>Properties\<close>

text \<open>
  A request is given one id, by whichever stage is first.  The id is usable (trimmed, not
  empty, at most 128 code units), it is the caller's own, trimmed, exactly when that is usable and
  the fresh UUID otherwise, it is what every later reader of the header finds, and every later
  stage (the middleware after the logger, the exception filter after both) assigns the same id
  and leaves the request as it is.
\<close>

theorem assignCorrelationId_rule:
  assumes "usable_id uuid"
  shows "usable_id (fst (assignCorrelationId uuid req)) \<and>
    fst (assignCorrelationId uuid req) =
      (case readHeader req (HeaderKey CORRELATION_ID) of
         Some c \<Rightarrow> if usable_id (trim c) then trim c else uuid | None \<Rightarrow> uuid) \<and>
    CurrentCorrelationId (snd (assignCorrelationId uuid req)) = fst (assignCorrelationId uuid req) \<and>
    assignCorrelationId uuid' (snd (assignCorrelationId uuid req)) = assignCorrelationId uuid req"
proof -
  have rule: "fst (assignCorrelationId uuid req) =
      (case readHeader req (HeaderKey CORRELATION_ID) of
         Some c \<Rightarrow> if usable_id (trim c) then trim c else uuid | None \<Rightarrow> uuid)"
    by (simp add: assignCorrelationId_def usable_id_def Let_def split: option.split)
  show ?thesis
    by (intro conjI cr.assign_usable [OF assms] rule)
      (simp_all add: CurrentCorrelationId_def cr.assign_readable cr.assign_again [OF assms]
        del: HeaderKey.simps)
qed

text \<open>A caller's padded id is trimmed and kept; an empty one is replaced.\<close>

abbreviation example_request :: request where
  "example_request \<equiv> \<lparr>req_headers = [''x-correlation-id'' \<mapsto> HOne '' abc ''], req_method = ''GET'',
     req_path = ''/v1/jobs'', req_baseUrl = '''', req_originalUrl = ''/v1/jobs?x=1'',
     req_url = ''/v1/jobs?x=1'', req_route = JObj [(''path'', JStr ''/v1/jobs'')], req_context = None\<rparr>"

lemma assignCorrelationId_rule_witness:
  "usable_id ''u-1'' \<and> usable_id (fst (assignCorrelationId ''u-1'' example_request)) \<and>
   fst (assignCorrelationId ''u-1'' example_request) = ''abc''"
proof -
  have u: "usable_id ''u-1''" by code_simp
  moreover have "fst (assignCorrelationId ''u-1'' example_request) = ''abc''" by code_simp
  ultimately show ?thesis using assignCorrelationId_rule [OF u, of example_request] by blast
qed

text \<open>
  Inside the callback of \<open>runWith\<close> the current id is that of the context installed; when it
  returns, the store is what it was before, even when the callback installed others; and outside
  any context \<open>addFields\<close> changes nothing and \<open>getCorrelationIdOrGenerate\<close> generates without storing.
\<close>

theorem runWith_scopes_context:
  "als_store (snd (runWith r cb s)) = als_store s \<and>
   fst (runWith r (\<lambda>s. (getCorrelationId s, s)) s) = Some (cc_correlationId (als_heap s r)) \<and>
   fst (runWith r (\<lambda>s. let (_, s') = runWith r2 cb s in (als_store s', s')) s) = Some r \<and>
   addFields fs (s\<lparr>als_store := None\<rparr>) = s\<lparr>als_store := None\<rparr> \<and>
   getCorrelationIdOrGenerate uuid (s\<lparr>als_store := None\<rparr>) = uuid \<and>
   getCorrelationId (addFields fs s) = getCorrelationId s"
  by (simp add: runWith_def getCorrelationId_def getContext_def addFields_def
      getCorrelationIdOrGenerate_def split: prod.split option.split)

end
