(* ===== verification/ExceptionFilter.thy ===== *)
theory ExceptionFilter
  imports ErrorReporter Correlation
begin

section \<open>The global exception filter\<close>

text \<open>
  \<^verbatim>\<open>exception/global-exception.filter.ts\<close>: the one place that turns a thrown value into an HTTP
  response, a log line and, for a failure of the service itself, an error report.

  Parameters: the run-time text of an \<open>ErrorCode\<close> (an enum of \<^verbatim>\<open>@iveri/contracts\<close>), the
  conversion \<open>String(v)\<close> of a thrown value that is not an \<open>Error\<close>, the clock and \<open>randomUUID\<close>.
\<close>

definition GENERIC_INTERNAL_MESSAGE :: string where
  "GENERIC_INTERNAL_MESSAGE = ''An unexpected error occurred''"

text \<open>The SQLSTATE codes translated; every other one falls through to a 500.\<close>

definition POSTGRES_ERROR_MAP :: "(string \<times> error_code \<times> nat \<times> string) list" where
  "POSTGRES_ERROR_MAP =
     [(''23505'', RESOURCE_ALREADY_EXISTS, 409, ''A resource with these values already exists''),
      (''23503'', RESOURCE_CONFLICT, 409, ''A referenced resource does not exist or is still in use''),
      (''23514'', UNPROCESSABLE_ENTITY, 422, ''A value violates a database constraint'')]"

definition STATUS_TO_ERROR_CODE :: "(nat \<times> error_code) list" where
  "STATUS_TO_ERROR_CODE =
     [(400, VALIDATION_FAILED), (401, UNAUTHENTICATED), (403, FORBIDDEN), (404, RESOURCE_NOT_FOUND),
      (409, RESOURCE_CONFLICT), (413, PAYLOAD_TOO_LARGE), (422, UNPROCESSABLE_ENTITY),
      (429, RATE_LIMIT_EXCEEDED), (502, EXTERNAL_SERVICE_ERROR), (503, SERVICE_UNAVAILABLE),
      (504, DEPENDENCY_TIMEOUT)]"

subsection \<open>Normalisation\<close>

record normalized_error =
  ne_code :: error_code
  ne_status :: nat
  ne_message :: string
  ne_details :: "js_object option"

definition readStringProperty :: "js \<Rightarrow> string \<Rightarrow> string option" where
  "readStringProperty source prop = Option.bind (js_prop source prop) js_str"

definition readValidationViolations :: "js \<Rightarrow> string list option" where
  "readValidationViolations payload = (case js_prop payload ''message'' of
     Some (JArr message) \<Rightarrow> all_strings message
   | _ \<Rightarrow> None)"

definition fromHttpException :: "http_exception \<Rightarrow> normalized_error" where
  "fromHttpException exception =
     (let status = he_status exception; payload = he_response exception in
      case readValidationViolations payload of
        Some violations \<Rightarrow>
          \<lparr>ne_code = VALIDATION_FAILED, ne_status = 400, ne_message = ''Request validation failed'',
           ne_details = Some [(''violations'', JArr (map JStr violations))]\<rparr>
      | None \<Rightarrow>
          \<lparr>ne_code = nullish (map_of STATUS_TO_ERROR_CODE status) INTERNAL_ERROR,
           ne_status = status,
           ne_message = (case payload of JStr s \<Rightarrow> s
              | _ \<Rightarrow> nullish (readStringProperty payload ''message'') (he_message exception)),
           ne_details = None\<rparr>)"

text \<open>
  The properties of a thrown object that is neither a domain nor an HTTP exception; \<^const>\<open>None\<close>
  for what is not an object.  An array has none of the properties looked for.
\<close>

fun thrown_object :: "thrown \<Rightarrow> js_object option" where
  "thrown_object (ThrowError e) = Some (eo_props e)"
| "thrown_object (ThrowValue (JObj ps)) = Some ps"
| "thrown_object (ThrowValue (JArr _)) = Some []"
| "thrown_object _ = None"

text \<open>
  The lookup by SQLSTATE is by index into an object literal.  It is modelled as the lookup in the three entries, which
  it is for every code that is not the name of a member the literal inherits; a SQLSTATE, five digits and capital letters,
  never is, but a thrown value may carry any string as its \<open>code\<close>, and with one of these the code answers with a status and a
  message that are undefined.
\<close>

definition inherited_members :: "string list" where
  "inherited_members = [''constructor'', ''__defineGetter__'', ''__defineSetter__'', ''hasOwnProperty'',
     ''__lookupGetter__'', ''__lookupSetter__'', ''isPrototypeOf'', ''propertyIsEnumerable'', ''toString'', ''valueOf'',
     ''__proto__'', ''toLocaleString'']"

definition fromPostgresError :: "thrown \<Rightarrow> normalized_error option" where
  "fromPostgresError exception = (case thrown_object exception of
     None \<Rightarrow> None
   | Some ps \<Rightarrow>
       let driverError = (case map_of ps ''driverError'' of Some d \<Rightarrow> d | None \<Rightarrow> JObj ps);
           sqlState = readStringProperty driverError ''code'';
           mapped = (if str_truthy sqlState then map_of POSTGRES_ERROR_MAP (the sqlState) else None)
       in case mapped of
            None \<Rightarrow> None
          | Some (code, status, message) \<Rightarrow>
              Some \<lparr>ne_code = code, ne_status = status, ne_message = message,
                ne_details = (if str_truthy sqlState
                  then Some [(''constraint'', case readStringProperty driverError ''constraint'' of
                                None \<Rightarrow> JUndefined | Some c \<Rightarrow> JStr c)]
                  else None)\<rparr>)"

definition js_of_stack :: "string option \<Rightarrow> js" where
  "js_of_stack st = (case st of None \<Rightarrow> JUndefined | Some s \<Rightarrow> JStr s)"

fun normalize :: "bool \<Rightarrow> thrown \<Rightarrow> normalized_error" where
  "normalize expose (ThrowDomain d) =
     \<lparr>ne_code = de_code d, ne_status = de_status d, ne_message = de_message d,
      ne_details = de_details d\<rparr>"
| "normalize expose (ThrowHttp h) = fromHttpException h"
| "normalize expose exception = (case fromPostgresError exception of
     Some postgres \<Rightarrow> postgres
   | None \<Rightarrow>
       \<lparr>ne_code = INTERNAL_ERROR, ne_status = 500,
        ne_message = (case exception of
            ThrowError e \<Rightarrow> if expose then eo_message e else GENERIC_INTERNAL_MESSAGE
          | _ \<Rightarrow> GENERIC_INTERNAL_MESSAGE),
        ne_details = (case exception of
            ThrowError e \<Rightarrow> if expose then Some [(''stack'', js_of_stack (eo_stack e))] else None
          | _ \<Rightarrow> None)\<rparr>)"

subsection \<open>Logging, reporting and the response\<close>

record log_line =
  ll_correlationId :: string
  ll_code :: error_code
  ll_status :: nat
  ll_method :: string
  ll_path :: string
  ll_message :: string

text \<open>\<open>logger.error\<close> with the stack, or \<open>logger.warn\<close>.\<close>

datatype log_call = LogError log_line "string option" | LogWarn log_line

fun stack_of :: "(js \<Rightarrow> string) \<Rightarrow> thrown \<Rightarrow> string option" where
  "stack_of string_of (ThrowDomain d) = de_stack d"
| "stack_of string_of (ThrowHttp h) = he_stack h"
| "stack_of string_of (ThrowError e) = eo_stack e"
| "stack_of string_of (ThrowValue v) = Some (string_of v)"

definition filter_log ::
    "(js \<Rightarrow> string) \<Rightarrow> thrown \<Rightarrow> normalized_error \<Rightarrow> request \<Rightarrow> string \<Rightarrow> log_call" where
  "filter_log string_of exception n req correlationId =
     (let context = \<lparr>ll_correlationId = correlationId, ll_code = ne_code n, ll_status = ne_status n,
            ll_method = req_method req, ll_path = req_path req, ll_message = ne_message n\<rparr>
      in if ne_status n \<ge> 500 then LogError context (stack_of string_of exception) else LogWarn context)"

definition readTenantId :: "request \<Rightarrow> string option" where
  "readTenantId req = map_option rc_tenantId (req_context req)"

text \<open>The reporter is optional: \<^const>\<open>None\<close> is a service with no tracker.\<close>

definition filter_report ::
    "('r \<Rightarrow> bool) \<Rightarrow> ('r \<Rightarrow> thrown \<Rightarrow> error_report_context \<Rightarrow> 'r) \<Rightarrow> (error_code \<Rightarrow> string) \<Rightarrow>
     thrown \<Rightarrow> normalized_error \<Rightarrow> request \<Rightarrow> string \<Rightarrow> 'r option \<Rightarrow> 'r option" where
  "filter_report isEnabled capture code_text exception n req correlationId reporter =
     (case reporter of
        None \<Rightarrow> None
      | Some r \<Rightarrow>
          if \<not> isEnabled r \<or> ne_status n < 500 \<or>
             isInfrastructureRoute (req_path req) INFRASTRUCTURE_ROUTE_PREFIXES
          then Some r
          else Some (capture r exception
            \<lparr>erc_correlationId = Some correlationId, erc_tenantId = readTenantId req,
             erc_method = Some (req_method req), erc_route = Some (readRoutePattern req),
             erc_extra = Some [(''code'', JStr (code_text (ne_code n))),
                               (''status'', JNum (of_nat (ne_status n)))]\<rparr>))"

text \<open>The body: \<open>success\<close> is always \<open>false\<close>.\<close>

record api_error_response =
  ae_code :: error_code
  ae_message :: string
  ae_details :: "js_object option"
  ae_correlationId :: string
  ae_timestamp :: string
  ae_path :: string

definition resolveCorrelationId ::
    "string \<Rightarrow> request \<Rightarrow> 'b response \<Rightarrow> string \<times> request \<times> 'b response" where
  "resolveCorrelationId uuid req res =
     (let (correlationId, req') = assignCorrelationId uuid req
      in (correlationId, req',
          if res_headersSent res then res
          else res\<lparr>res_headers := (res_headers res)(HeaderKey CORRELATION_ID \<mapsto> correlationId)\<rparr>))"

record 'r filter_result =
  fr_request :: request
  fr_response :: "api_error_response response"
  fr_log :: log_call
  fr_reporter :: "'r option"

text \<open>
  \<open>catch\<close>, the steps in the order of the code up to what \<open>status(...).json(...)\<close> is asked to send; what Express
  makes of that is \<open>filter_sends\<close> below.
\<close>

definition filter_catch ::
    "('r \<Rightarrow> bool) \<Rightarrow> ('r \<Rightarrow> thrown \<Rightarrow> error_report_context \<Rightarrow> 'r) \<Rightarrow> (error_code \<Rightarrow> string) \<Rightarrow>
     (js \<Rightarrow> string) \<Rightarrow> bool \<Rightarrow> string \<Rightarrow> string \<Rightarrow> thrown \<Rightarrow> request \<Rightarrow>
     api_error_response response \<Rightarrow> 'r option \<Rightarrow> 'r filter_result" where
  "filter_catch isEnabled capture code_text string_of expose uuid now exception req res reporter =
     (let n = normalize expose exception;
          (correlationId, req', res') = resolveCorrelationId uuid req res;
          logged = filter_log string_of exception n req' correlationId;
          reporter' = filter_report isEnabled capture code_text exception n req' correlationId reporter;
          body = \<lparr>ae_code = ne_code n, ae_message = ne_message n, ae_details = ne_details n,
                  ae_correlationId = correlationId, ae_timestamp = now, ae_path = req_path req'\<rparr>
      in \<lparr>fr_request = req',
          fr_response = res'\<lparr>res_status := ne_status n, res_json := Some body\<rparr>,
          fr_log = logged, fr_reporter = reporter'\<rparr>)"

text \<open>
  The last call of \<open>catch\<close>.  \<open>send\<close> is Express's: it throws when the headers are already sent, and
  otherwise sends.
\<close>

definition send_documented :: "('b response \<Rightarrow> thrown + 'b response) \<Rightarrow> bool" where
  "send_documented send \<longleftrightarrow> (\<forall>res. case send res of
     Inl _ \<Rightarrow> res_headersSent res | Inr res' \<Rightarrow> \<not> res_headersSent res \<and> res' = res\<lparr>res_headersSent := True\<rparr>)"

definition filter_sends ::
    "(api_error_response response \<Rightarrow> thrown + api_error_response response) \<Rightarrow> 'r filter_result \<Rightarrow>
     thrown + api_error_response response" where
  "filter_sends send out = send (fr_response out)"

text \<open>The options of the constructor, both optional: what is exposed, and where failures are reported.\<close>

definition GlobalExceptionFilter_new :: "bool option \<Rightarrow> 'r option \<Rightarrow> bool \<times> 'r option" where
  "GlobalExceptionFilter_new exposeInternalErrors reporter = (nullish exposeInternalErrors False, reporter)"

subsection \<open>Facts the properties share\<close>

lemma filter_catch_simps:
  "fr_request (filter_catch E C ct so expose uuid now x req res rep) = snd (assignCorrelationId uuid req)"
  "res_status (fr_response (filter_catch E C ct so expose uuid now x req res rep)) = ne_status (normalize expose x)"
  "res_json (fr_response (filter_catch E C ct so expose uuid now x req res rep)) =
     Some \<lparr>ae_code = ne_code (normalize expose x), ae_message = ne_message (normalize expose x),
           ae_details = ne_details (normalize expose x),
           ae_correlationId = fst (assignCorrelationId uuid req), ae_timestamp = now,
           ae_path = req_path (snd (assignCorrelationId uuid req))\<rparr>"
  "fr_log (filter_catch E C ct so expose uuid now x req res rep) =
     filter_log so x (normalize expose x) (snd (assignCorrelationId uuid req)) (fst (assignCorrelationId uuid req))"
  "fr_reporter (filter_catch E C ct so expose uuid now x req res rep) =
     filter_report E C ct x (normalize expose x) (snd (assignCorrelationId uuid req))
       (fst (assignCorrelationId uuid req)) rep"
  by (simp_all add: filter_catch_def resolveCorrelationId_def Let_def split: prod.split)

lemma filter_catch_header:
  "\<not> res_headersSent res \<Longrightarrow>
   res_headers (fr_response (filter_catch E C ct so expose uuid now x req res rep)) (HeaderKey CORRELATION_ID)
     = Some (fst (assignCorrelationId uuid req))"
  by (simp add: filter_catch_def resolveCorrelationId_def Let_def del: HeaderKey.simps split: prod.split)

lemma assigned_path [simp]: "req_path (snd (assignCorrelationId uuid req)) = req_path req"
  by (simp add: assignCorrelationId_def Let_def)

lemma assigned_context [simp]: "req_context (snd (assignCorrelationId uuid req)) = req_context req"
  by (simp add: assignCorrelationId_def Let_def)

fun logged_line :: "log_call \<Rightarrow> log_line" where
  "logged_line (LogError l _) = l"
| "logged_line (LogWarn l) = l"

text \<open>A failure worth a report: the service's own fault, on a route a caller uses.\<close>

definition reportable :: "normalized_error \<Rightarrow> string \<Rightarrow> bool" where
  "reportable n path =
     (ne_status n \<ge> 500 \<and> \<not> isInfrastructureRoute path INFRASTRUCTURE_ROUTE_PREFIXES)"

context error_reporter_interface
begin

lemma report_exactly:
  "map_option reported (filter_report isEnabled capture ct x n req cid rep) =
   map_option (\<lambda>r. reported r @ (if isEnabled r \<and> reportable n (req_path req) then [x] else [])) rep"
  by (cases rep) (auto simp: filter_report_def reportable_def enabled_reports)

lemma report_keeps_enabled:
  "map_option isEnabled (filter_report isEnabled capture ct x n req cid rep) = map_option isEnabled rep"
  by (cases rep) (auto simp: filter_report_def capture_keeps_enabled)

end

subsection \<open>Properties\<close>

text \<open>
  What a driver says of a failure: a string property of the error TypeORM wraps, or of the thrown object itself.
\<close>

definition driver_says :: "thrown \<Rightarrow> string \<Rightarrow> string option" where
  "driver_says x k = (case thrown_object x of None \<Rightarrow> None
     | Some ps \<Rightarrow> readStringProperty (case map_of ps ''driverError'' of Some d \<Rightarrow> d | None \<Rightarrow> JObj ps) k)"

definition unexpected_answer :: "thrown \<Rightarrow> nat \<times> string \<times> js_object option" where
  "unexpected_answer x =
     (let details = Some [(''constraint'', case driver_says x ''constraint'' of Some c \<Rightarrow> JStr c | None \<Rightarrow> JUndefined)] in
      if driver_says x ''code'' = Some ''23505'' then (409, ''A resource with these values already exists'', details)
      else if driver_says x ''code'' = Some ''23503'' then
        (409, ''A referenced resource does not exist or is still in use'', details)
      else if driver_says x ''code'' = Some ''23514'' then (422, ''A value violates a database constraint'', details)
      else (500, ''An unexpected error occurred'', None))"

lemma unexpected_normal:
  assumes "case x of ThrowDomain _ \<Rightarrow> False | ThrowHttp _ \<Rightarrow> False | _ \<Rightarrow> True"
  shows "(ne_status (normalize False x), ne_message (normalize False x), ne_details (normalize False x)) = unexpected_answer x"
proof -
  have truthy: "str_truthy (Some ''23505'')" "str_truthy (Some ''23503'')" "str_truthy (Some ''23514'')"
    by (simp_all add: str_truthy_iff)
  have post: "fromPostgresError x = (case thrown_object x of None \<Rightarrow> None | Some ps \<Rightarrow>
      (case (if str_truthy (driver_says x ''code'') then map_of POSTGRES_ERROR_MAP (the (driver_says x ''code'')) else None) of
        None \<Rightarrow> None
      | Some (code, status, message) \<Rightarrow> Some \<lparr>ne_code = code, ne_status = status, ne_message = message,
          ne_details = (if str_truthy (driver_says x ''code'')
            then Some [(''constraint'', case driver_says x ''constraint'' of None \<Rightarrow> JUndefined | Some c \<Rightarrow> JStr c)] else None)\<rparr>))"
  proof (cases "thrown_object x")
    case (Some ps)
    then have "driver_says x k = readStringProperty (case map_of ps ''driverError'' of Some d \<Rightarrow> d | None \<Rightarrow> JObj ps) k" for k
      by (simp add: driver_says_def)
    then show ?thesis by (simp only: fromPostgresError_def Some option.case Let_def)
  qed (simp add: fromPostgresError_def)
  have silent: "driver_says x k = None" if "thrown_object x = None" for k using that by (simp add: driver_says_def)
  show ?thesis
  proof (cases "fromPostgresError x")
    case None
    then have "the (driver_says x ''code'') \<notin> {''23505'', ''23503'', ''23514''} \<or> driver_says x ''code'' = None"
      using truthy silent unfolding post
      by (cases "driver_says x ''code''"; cases "thrown_object x")
        (auto simp: POSTGRES_ERROR_MAP_def split: if_splits)
    then have "unexpected_answer x = (500, ''An unexpected error occurred'', None)"
      by (cases "driver_says x ''code''") (auto simp: unexpected_answer_def Let_def)
    then show ?thesis using None assms by (cases x) (simp_all add: GENERIC_INTERNAL_MESSAGE_def)
  next
    case (Some n)
    then obtain k where k: "driver_says x ''code'' = Some k"
      unfolding post by (cases "driver_says x ''code''") (auto simp: str_truthy_iff split: option.splits)
    have "(ne_status n, ne_message n, ne_details n) = unexpected_answer x"
      using Some unfolding post k
      by (auto simp: unexpected_answer_def k POSTGRES_ERROR_MAP_def split: option.splits if_splits)
    then show ?thesis using Some assms by (cases x) simp_all
  qed
qed

text \<open>
  C12: an unexpected failure leaks nothing.  With \<open>exposeInternalErrors\<close> off, what is thrown
  that is neither a domain nor an HTTP exception is answered by its SQLSTATE, if it has one of the three translated ones,
  with the fixed status and message of that and the name of the constraint the driver gives, and otherwise with a 500, the generic message
  and no details; nothing else of the failure, its message, its stack or the driver's \<open>detail\<close>, reaches the body.  This is for
  a \<open>code\<close> that is not the name of an inherited member.
\<close>

theorem unexpected_errors_leak_nothing:
  assumes "case x of ThrowDomain _ \<Rightarrow> False | ThrowHttp _ \<Rightarrow> False | _ \<Rightarrow> True"
    and "case driver_says x ''code'' of None \<Rightarrow> True | Some k \<Rightarrow> k \<notin> set inherited_members"
  shows "let res' = fr_response (filter_catch E C ct so False uuid now x req res rep) in
    map_option (\<lambda>body. (res_status res', ae_message body, ae_details body)) (res_json res') =
      Some (unexpected_answer x) \<and>
    map_option (\<lambda>body. (ae_correlationId body, ae_timestamp body, ae_path body)) (res_json res') =
      Some (fst (assignCorrelationId uuid req), now, req_path req)"
  using unexpected_normal [OF assms(1)] by (simp add: filter_catch_simps Let_def)

text \<open>A unique violation: the driver's detail and the message stay behind, the name of the constraint does not.\<close>

lemma unexpected_errors_leak_nothing_witness:
  "let x = ThrowValue (JObj [(''driverError'', JObj [(''code'', JStr ''23505''), (''constraint'', JStr ''uq_email''),
       (''detail'', JStr ''Key (email)=(a@b.c) already exists.'')])]);
     res' = fr_response (filter_catch ErrorReporterService_isEnabled ErrorReporterService_capture (\<lambda>_. '''') (\<lambda>_. '''')
       False ''u-1'' ''now'' x example_request
       \<lparr>res_headersSent = False, res_headers = Map.empty, res_status = 200, res_json = None\<rparr> None)
   in map_option (\<lambda>body. (res_status res', ae_message body, ae_details body)) (res_json res') =
     Some (409, ''A resource with these values already exists'', Some [(''constraint'', JStr ''uq_email'')])"
proof -
  let ?x = "ThrowValue (JObj [(''driverError'', JObj [(''code'', JStr ''23505''), (''constraint'', JStr ''uq_email''),
       (''detail'', JStr ''Key (email)=(a@b.c) already exists.'')])])"
  have a: "unexpected_answer ?x = (409, ''A resource with these values already exists'', Some [(''constraint'', JStr ''uq_email'')])"
    by code_simp
  have "case ?x of ThrowDomain _ \<Rightarrow> False | ThrowHttp _ \<Rightarrow> False | _ \<Rightarrow> True" by simp
  moreover have "case driver_says ?x ''code'' of None \<Rightarrow> True | Some k \<Rightarrow> k \<notin> set inherited_members" by code_simp
  ultimately show ?thesis
    unfolding Let_def
    using unexpected_errors_leak_nothing [of ?x ErrorReporterService_isEnabled ErrorReporterService_capture
        "\<lambda>_. ''''" "\<lambda>_. ''''" "''u-1''" "''now''" example_request
        "\<lparr>res_headersSent = False, res_headers = Map.empty, res_status = 200, res_json = None\<rparr>" None, unfolded Let_def]
    by (simp only: a)
qed

text \<open>
  C13: the error tracker is told of exactly the failures worth a human's attention.  One report per
  failed request, of the thrown value itself, when the reporter is enabled, the rendered status is
  500 or above and the path is no infrastructure route; otherwise none, and no service without a
  reporter gains one.
\<close>

theorem filter_reports_exactly:
  "map_option captured (fr_reporter (filter_catch ErrorReporterService_isEnabled
       ErrorReporterService_capture ct so expose uuid now x req res rep)) =
   map_option (\<lambda>r. captured r @
       (if ErrorReporterService_isEnabled r \<and> 500 \<le> ne_status (normalize expose x) \<and>
           \<not> isInfrastructureRoute (req_path req) INFRASTRUCTURE_ROUTE_PREFIXES
        then [x] else [])) rep"
  by (simp add: filter_catch_simps reporter.report_exactly reportable_def)

text \<open>
  The caller can quote one id.  The id in the body, on the response header (unless the headers
  are already sent) and in the filter's log line is the same usable id; it is the one the
  middleware assigned to the request, where that ran.
\<close>

theorem failure_ids_agree:
  assumes "usable_id uuid" and "usable_id uuid'"
  shows "(let out = filter_catch E C ct so expose uuid now x req res rep;
              cid = ll_correlationId (logged_line (fr_log out))
          in usable_id cid \<and> map_option ae_correlationId (res_json (fr_response out)) = Some cid \<and>
             (res_headersSent res \<or> res_headers (fr_response out) (HeaderKey CORRELATION_ID) = Some cid) \<and>
             ll_correlationId (logged_line (fr_log
                (filter_catch E C ct so expose uuid now x (snd (assignCorrelationId uuid' req)) res rep)))
               = fst (assignCorrelationId uuid' req))"
proof -
  have id: "ll_correlationId (logged_line (fr_log (filter_catch E C ct so expose uuid now x req res rep)))
      = fst (assignCorrelationId uuid req)" for req
    by (simp add: filter_catch_simps filter_log_def Let_def)
  show ?thesis
    unfolding Let_def id
    using cr.assign_usable [OF assms(1)] cr.stages_agree(1) [OF assms(2)]
      filter_catch_header [of res E C ct so expose uuid now x req rep]
    by (auto simp: filter_catch_simps simp del: HeaderKey.simps)
qed

text \<open>A failure whose request the middleware has seen, and one it has not.\<close>

lemma failure_ids_agree_witness:
  "usable_id ''u-1'' \<and>
   map_option ae_correlationId (res_json (fr_response (filter_catch ErrorReporterService_isEnabled
      ErrorReporterService_capture (\<lambda>_. '''') (\<lambda>_. '''') False ''u-1'' ''now'' (ThrowValue JNull)
      example_request \<lparr>res_headersSent = False, res_headers = Map.empty, res_status = 200, res_json = None\<rparr>
      None))) = Some ''abc''"
proof -
  have u: "usable_id ''u-1''" by code_simp
  have a: "fst (assignCorrelationId ''u-1'' example_request) = ''abc''" by code_simp
  show ?thesis
    using u failure_ids_agree [OF u u, of ErrorReporterService_isEnabled
      ErrorReporterService_capture "\<lambda>_. ''''" "\<lambda>_. ''''" False "''now''" "ThrowValue JNull"
      example_request "\<lparr>res_headersSent = False, res_headers = Map.empty, res_status = 200, res_json = None\<rparr>"
      None]
    by (simp add: Let_def filter_catch_simps a del: HeaderKey.simps)
qed

text \<open>
  How a framework exception is rendered.  When the payload's \<open>message\<close> is an array of strings
  (what the validation pipe throws, but any \<open>HttpException\<close> of that shape, whatever its status,
  and the empty array too) the answer is a 400 with the array as the violations.  Otherwise the
  status is kept, the code is the table's, or \<open>INTERNAL_ERROR\<close> for a status it does not name, and
  every property of the payload but a string \<open>message\<close> is dropped.
\<close>

theorem http_exceptions_rendered:
  "normalize expose (ThrowHttp (h\<lparr>he_response := JObj ((''message'', JArr (map JStr ms)) # ps)\<rparr>)) =
     \<lparr>ne_code = VALIDATION_FAILED, ne_status = 400, ne_message = ''Request validation failed'',
      ne_details = Some [(''violations'', JArr (map JStr ms))]\<rparr> \<and>
   normalize expose (ThrowHttp (h\<lparr>he_response := JStr text\<rparr>)) =
     \<lparr>ne_code = (case map_of STATUS_TO_ERROR_CODE (he_status h) of Some c \<Rightarrow> c | None \<Rightarrow> INTERNAL_ERROR),
      ne_status = he_status h, ne_message = text, ne_details = None\<rparr> \<and>
   normalize expose (ThrowHttp (h\<lparr>he_response := JObj ((''message'', JStr text) # ps)\<rparr>)) =
     \<lparr>ne_code = (case map_of STATUS_TO_ERROR_CODE (he_status h) of Some c \<Rightarrow> c | None \<Rightarrow> INTERNAL_ERROR),
      ne_status = he_status h, ne_message = text, ne_details = None\<rparr> \<and>
   normalize expose (ThrowHttp (h\<lparr>he_response := JObj (without [''message''] ps)\<rparr>)) =
     \<lparr>ne_code = (case map_of STATUS_TO_ERROR_CODE (he_status h) of Some c \<Rightarrow> c | None \<Rightarrow> INTERNAL_ERROR),
      ne_status = he_status h, ne_message = he_message h, ne_details = None\<rparr>"
proof -
  have all: "all_strings (map JStr ms) = Some ms" by (simp add: all_strings_iff)
  show ?thesis
    by (simp add: fromHttpException_def readValidationViolations_def readStringProperty_def
        nullish_case object_lookup all Let_def)
qed

text \<open>
  The SDK's own exceptions.  Each of the fifteen classes has the code and status of its name,
  the filter renders both with the message and details it was thrown with, verbatim, and of the
  fifteen only the three of status 500 and above are ever reported.
\<close>

theorem sdk_exceptions_rendered:
  "map (\<lambda>make. (de_code (make m d), de_status (make m d))) sdk_exceptions =
     [(VALIDATION_FAILED, 400), (UNAUTHENTICATED, 401), (TOKEN_EXPIRED, 401), (INVALID_CREDENTIALS, 401),
      (FORBIDDEN, 403), (INSUFFICIENT_PERMISSION, 403), (TENANT_MISMATCH, 403), (RESOURCE_NOT_FOUND, 404),
      (RESOURCE_ALREADY_EXISTS, 409), (RESOURCE_CONFLICT, 409), (UNPROCESSABLE_ENTITY, 422),
      (RATE_LIMIT_EXCEEDED, 429), (INTERNAL_ERROR, 500), (EXTERNAL_SERVICE_ERROR, 502),
      (SERVICE_UNAVAILABLE, 503)] \<and>
   list_all (\<lambda>make. normalize expose (ThrowDomain (make m d)) =
      \<lparr>ne_code = de_code (make m d), ne_status = de_status (make m d), ne_message = m, ne_details = d\<rparr>)
     sdk_exceptions \<and>
   map (\<lambda>make. de_name (make m d)) (filter (\<lambda>make. reportable (normalize expose (ThrowDomain (make m d))) ''/v1'')
      sdk_exceptions) = [''InternalException'', ''ExternalServiceException'', ''ServiceUnavailableException'']"
  by (simp add: sdk_exceptions_def sdk_exception_defs reportable_def isInfrastructureRoute_def
      INFRASTRUCTURE_ROUTE_PREFIXES_def starts_with_def)

text \<open>
  The message of an \<open>InternalException\<close> reaches the caller.  Although the class says that its
  message is replaced by a generic one, the filter treats it as every domain exception: with
  \<open>exposeInternalErrors\<close> off the body carries the message and the details it was thrown with.
\<close>

theorem internal_exception_is_sent:
  "map_option (\<lambda>body. (ae_message body, ae_details body))
     (res_json (fr_response (filter_catch E C ct so False uuid now (ThrowDomain (InternalException m d)) req res rep)))
   = Some (m, d)"
  by (simp add: filter_catch_simps sdk_exception_defs)

text \<open>
  A failure after the headers were sent leaves the filter as a second one: it is logged and reported as any
  other, with the id of the header, but the answer is asked for all the same, and that throws.
\<close>

lemma late_failure_throws_again:
  assumes "send_documented send" and "res_headersSent res"
  shows "\<not> is_ok (filter_sends send (filter_catch E C ct so expose uuid now x req res rep)) \<and>
    res_headers (fr_response (filter_catch E C ct so expose uuid now x req res rep)) = res_headers res"
proof -
  let ?r = "fr_response (filter_catch E C ct so expose uuid now x req res rep)"
  have "res_headersSent ?r" and "res_headers ?r = res_headers res"
    using assms(2) by (simp_all add: filter_catch_def resolveCorrelationId_def Let_def split: prod.split)
  then show ?thesis
    using assms(1) [unfolded send_documented_def, rule_format, of ?r]
    by (simp add: filter_sends_def split: sum.splits)
qed

lemma express_send_documented:
  "send_documented (\<lambda>res. if res_headersSent res then Inl (ThrowValue (JStr ''ERR_HTTP_HEADERS_SENT''))
     else Inr (res\<lparr>res_headersSent := True\<rparr>))"
  by (simp add: send_documented_def)

end
