(* ===== verification/RequestFlow.thy ===== *)
theory RequestFlow
  imports Auth TenantIsolation ExceptionFilter
begin

section \<open>A guarded request through the SDK\<close>

text \<open>
  The parts an authenticated request meets, in the order the SDK documents for a service that
  registers both guards: the authentication guard, the permission guard, the context decorator of
  the handler, the tenant-scoped repository the handler calls with that context, and, for whatever
  is thrown on the way, the exception filter.  The composition is the framework's; the parts are the
  definitions of their components.
\<close>

definition guarded ::
    "(string \<Rightarrow> domain_exception + access_token_payload) \<Rightarrow> string \<Rightarrow> reflector \<Rightarrow> execution_context \<Rightarrow>
     domain_exception + auth_request_context" where
  "guarded verify SERVICE rf ctx =
     bind_res (AuthGuard_canActivate verify SERVICE rf ctx) (\<lambda>(_, req').
       bind_res (PermissionGuard_canActivate rf (ctx\<lparr>ec_request := req'\<rparr>)) (\<lambda>_.
         CurrentRequestContext req'))"

lemma guarded_refusal:
  assumes "guarded (AccessTokenService_verify USER SERVICE jwt) SERVICE rf ctx = Inl e"
  shows "de_status e \<in> {401, 403}"
proof (cases "AuthGuard_canActivate (AccessTokenService_verify USER SERVICE jwt) SERVICE rf ctx")
  case (Inl e')
  then show ?thesis using assms av.refused [OF Inl] by (simp add: guarded_def)
next
  case (Inr a)
  then obtain b req' where a: "a = (b, req')" by (cases a)
  then show ?thesis
    using assms Inr by (auto simp: guarded_def PermissionGuard_canActivate_def CurrentRequestContext_def
        sdk_exception_defs Let_def split: option.splits if_splits)
qed

lemma guarded_context:
  assumes "guarded (AccessTokenService_verify USER SERVICE jwt) SERVICE rf ctx = Inr c"
    and "ec_type ctx = ''http''" and "\<not> isPublic rf ctx"
  obtains claims token where "readBearerToken (ec_request ctx) = Some token" and "jwt token = Claims claims"
    and "claim_string claims ''tid'' = Some (rc_tenantId c)" and "rc_tenantId c \<noteq> ''''"
proof -
  obtain b req' where g: "AuthGuard_canActivate (AccessTokenService_verify USER SERVICE jwt) SERVICE rf ctx = Inr (b, req')"
    and r: "CurrentRequestContext req' = Inr c"
    using assms(1) by (auto simp: guarded_def)
  obtain c' p token where c': "req_context req' = Some c'" "readBearerToken (ec_request ctx) = Some token"
    "AccessTokenService_verify USER SERVICE jwt token = Inr p"
    "c' = principal_context SERVICE p (ec_request ctx)" "rc_tenantId c' \<noteq> ''''"
    using g assms(2,3) by (rule av.established_context)
  have c: "c = c'" using r c'(1) by (simp add: CurrentRequestContext_def)
  obtain claims where "jwt token = Claims claims" "narrowClaims USER SERVICE claims = Inr p"
    using c'(3) by (auto simp: AccessTokenService_verify_def split: jwt_result.splits)
  moreover from this(2) have "claim_string claims ''tid'' = Some (at_tid p)"
    by (auto simp: narrowClaims_def str_truthy_iff split: if_splits)
  ultimately show thesis
    using that [OF c'(2)] c c'(4,5) by (simp add: principal_context_def Let_def)
qed

subsection \<open>Properties\<close>

text \<open>
  C1: the tenant in the verified token bounds what a handler can touch through the repository.  Take a request that the guards of
  a route that is not public let through, and any sequence of repository operations in which the handler passes on the
  tenant of its context, reads, counts, saves, updates, soft deletes and restores, inside transactions or out, and in which
  no entity it saves carries the id of a row that is not its tenant's (the repository checks neither).  At every step, over a TypeORM
  that behaves as documented, the rows read are rows of the tenant the token names, counts count no more than its
  rows, the answer is what it would be were these the only rows, and all rows that are not its are left exactly as they were.
\<close>

theorem token_bounds_the_handler:
  assumes "guarded (AccessTokenService_verify USER SERVICE jwt) SERVICE rf ctx = Inr c"
    and "ec_type ctx = ''http''" and "\<not> isPublic rf ctx"
    and "list_all (\<lambda>op. op_tenant op = rc_tenantId c) ops"
    and "disciplined names_own_rows (perform ds) ops t"
    and "list_all (\<lambda>op. reads_documented (op_orm ds op) \<and> local_orm (op_orm ds op)) ops"
  shows "\<exists>token claims tid. readBearerToken (ec_request ctx) = Some token \<and> jwt token = Claims claims \<and>
    claim_string claims ''tid'' = Some tid \<and> tid \<noteq> '''' \<and> bounded_run tid ds ops t"
proof -
  obtain claims token where tok: "readBearerToken (ec_request ctx) = Some token" "jwt token = Claims claims"
    and tid: "claim_string claims ''tid'' = Some (rc_tenantId c)" "rc_tenantId c \<noteq> ''''"
    using assms(1-3) by (rule guarded_context)
  have "disciplined (fair_op ds) (perform ds) ops t"
    using assms(5,6) by (intro fair_run) (simp_all add: list_all_iff)
  then have "bounded_run (rc_tenantId c) ds ops t"
    using assms(4,6) by (intro run_bounded) (simp_all add: list_all_iff)
  with tok tid show ?thesis by blast
qed

definition bearer_request :: request where
  "bearer_request = \<lparr>req_headers = [''authorization'' \<mapsto> HOne ''Bearer t''], req_method = ''GET'', req_path = ''/'',
     req_baseUrl = '''', req_originalUrl = ''/'', req_url = ''/'', req_route = JUndefined, req_context = None\<rparr>"

definition open_route :: execution_context where
  "open_route = \<lparr>ec_type = ''http'', ec_handler = \<lparr>rm_isPublic = None, rm_required = None\<rparr>,
     ec_class = \<lparr>rm_isPublic = None, rm_required = None\<rparr>, ec_request = bearer_request\<rparr>"

definition tenant_a_claims :: js_object where
  "tenant_a_claims = [(''sub'', JStr ''u''), (''tid'', JStr ''a''), (''pt'', JStr ''user'')]"

text \<open>Behind a token of tenant \<open>a\<close>: a read of everything, an update of everything, a new row, and a count.\<close>

definition handler_ops :: "repo_op list" where
  "handler_ops =
     [FindMany \<lparr>dto_tenantId = ''a'', dto_manager = None, dto_where = WhereNone, dto_withDeleted = None,
        dto_order = None, dto_relations = None, dto_take = None, dto_skip = None\<rparr>,
      UpdateBy \<lparr>dto_tenantId = ''a'', dto_manager = None, dto_update_where = WhereNone,
        dto_update_values = [(''title'', JStr ''x''), (''tenantId'', JStr ''b'')]\<rparr>,
      SaveOne \<lparr>dto_tenantId = ''a'', dto_manager = None, dto_entity = [(''id'', JStr ''3'')]\<rparr>,
      Count \<lparr>dto_tenantId = ''a'', dto_manager = None, dto_where = WhereNone, dto_withDeleted = None\<rparr>]"

lemma token_bounds_the_handler_witness:
  "bounded_run ''a'' keyed_orm handler_ops example_rows \<and>
   map snd (fst (serve_all (perform keyed_orm) op_tenant handler_ops example_rows)) =
     [Rows [[(''id'', JStr ''1''), (''tenantId'', JStr ''a'')]], Number 1,
      Rows [[(''id'', JStr ''3''), (''tenantId'', JStr ''a'')]], Number 2]"
proof (rule conjI)
  let ?jwt = "\<lambda>_ :: string. Claims tenant_a_claims"
  define g where "g = guarded (AccessTokenService_verify ''user'' ''service'' ?jwt) ''service'' nest_reflector open_route"
  have "case_sum (\<lambda>_. '''') rc_tenantId g = ''a''" and "is_ok g"
    unfolding g_def by code_simp+
  then obtain c where c: "g = Inr c" "rc_tenantId c = ''a''" by (cases g) auto
  have http: "ec_type open_route = ''http''" by (simp add: open_route_def)
  have np: "\<not> isPublic nest_reflector open_route" by code_simp
  have tenant: "list_all (\<lambda>op. op_tenant op = rc_tenantId c) handler_ops" by (simp add: handler_ops_def c(2))
  have own: "disciplined names_own_rows (perform keyed_orm) handler_ops example_rows" by code_simp
  have orm: "list_all (\<lambda>op. reads_documented (op_orm keyed_orm op) \<and> local_orm (op_orm keyed_orm op)) handler_ops"
    by (simp add: handler_ops_def repository_def keyed_orm_local keyed_orm_reads)
  from token_bounds_the_handler [OF c(1) [unfolded g_def] http np tenant own orm]
  obtain tid where "claim_string tenant_a_claims ''tid'' = Some tid" "bounded_run tid keyed_orm handler_ops example_rows"
    by auto
  moreover have "claim_string tenant_a_claims ''tid'' = Some ''a''" by code_simp
  ultimately show "bounded_run ''a'' keyed_orm handler_ops example_rows" by simp
  show "map snd (fst (serve_all (perform keyed_orm) op_tenant handler_ops example_rows)) =
     [Rows [[(''id'', JStr ''1''), (''tenantId'', JStr ''a'')]], Number 1,
      Rows [[(''id'', JStr ''3''), (''tenantId'', JStr ''a'')]], Number 2]"
    by code_simp
qed

text \<open>
  C15: a refused request is the caller's error, told to the caller and to nobody else.  Whatever the
  guards refuse is answered through the filter with a 401 or a 403, in the exception's own code and
  message; no report is captured, and the failure is logged as a warning, not as an error.
\<close>

theorem refusals_are_not_reported:
  "(case guarded (AccessTokenService_verify USER SERVICE jwt) SERVICE rf ctx of
      Inr _ \<Rightarrow> True
    | Inl e \<Rightarrow>
        (let out = filter_catch ErrorReporterService_isEnabled ErrorReporterService_capture ct so expose uuid now
               (ThrowDomain e) (ec_request ctx) res rep in
          res_status (fr_response out) \<in> {401, 403} \<and>
          map_option ae_code (res_json (fr_response out)) = Some (de_code e) \<and>
          map_option ae_message (res_json (fr_response out)) = Some (de_message e) \<and>
          map_option captured (fr_reporter out) = map_option captured rep \<and>
          (case fr_log out of LogWarn _ \<Rightarrow> True | LogError _ _ \<Rightarrow> False)))"
proof (cases "guarded (AccessTokenService_verify USER SERVICE jwt) SERVICE rf ctx")
  case (Inl e)
  have s: "de_status e = 401 \<or> de_status e = 403" using guarded_refusal [OF Inl] by simp
  then have "\<not> 500 \<le> de_status e" by auto
  then show ?thesis using s Inl
    by (auto simp: Let_def filter_catch_simps filter_log_def reporter.report_exactly reportable_def)
qed simp

end
