(* ===== verification/Outbox.thy ===== *)
theory Outbox
  imports Exceptions "HOL-Library.Multiset" "HOL-Library.Product_Lexorder"
begin

section \<open>The outbox: storage\<close>

text \<open>
  \<^verbatim>\<open>outbox/outbox-event.repository.ts\<close> with the entity, the status enum and the retry utility.
  The queries are translated as functions on the table, a list of rows: a condition is a filter,
  \<open>ORDER BY\<close> a stable sort, \<open>LIMIT\<close> a prefix and \<open>SKIP LOCKED\<close> a filter by the ids other
  transactions have locked.  Instants are milliseconds.  The columns of the aggregate and
  \<open>updated_at\<close>, which no query here reads, are left out of the row.
\<close>

datatype outbox_event_status = PENDING | PROCESSING | PUBLISHED | DEAD_LETTER

record outbox_event =
  oe_id :: string
  oe_tenantId :: string
  oe_status :: outbox_event_status
  oe_attemptCount :: nat
  oe_nextAttemptAt :: "int option"
  oe_claimedAt :: "int option"
  oe_claimToken :: "string option"
  oe_publishedAt :: "int option"
  oe_lastError :: "string option"
  oe_createdAt :: int
  oe_deletedAt :: "int option"

type_synonym outbox_table = "outbox_event list"

subsection \<open>Retry\<close>

text \<open>\<open>random\<close> is the value of \<open>Math.random()\<close>, \<open>now\<close> that of \<open>Date.now()\<close>.\<close>

definition nextOutboxAttemptAt :: "int \<Rightarrow> rat \<Rightarrow> nat \<Rightarrow> rat \<Rightarrow> rat \<Rightarrow> int" where
  "nextOutboxAttemptAt now random attemptCount baseMs maxMs =
     (let exponent = min (max (int attemptCount - 1) 0) 20;
          limit = min (baseMs * 2 ^ nat exponent) maxMs
      in now + \<lfloor>random * limit\<rfloor>)"

subsection \<open>Claiming\<close>

definition is_due :: "int \<Rightarrow> int \<Rightarrow> outbox_event \<Rightarrow> bool" where
  "is_due now claimTimeoutMs e =
     (oe_deletedAt e = None \<and> oe_status e \<in> {PENDING, PROCESSING} \<and>
      (case oe_nextAttemptAt e of None \<Rightarrow> False | Some t \<Rightarrow> t \<le> now) \<and>
      (oe_status e = PENDING \<or>
       (case oe_claimedAt e of None \<Rightarrow> True | Some t \<Rightarrow> t < now - claimTimeoutMs)))"

definition due_batch :: "int \<Rightarrow> (string \<Rightarrow> bool) \<Rightarrow> nat \<Rightarrow> int \<Rightarrow> outbox_table \<Rightarrow> outbox_event list" where
  "due_batch now locked batchSize claimTimeoutMs t =
     take batchSize
       (sort_key (\<lambda>e. (the (oe_nextAttemptAt e), oe_createdAt e))
         (filter (\<lambda>e. \<not> locked (oe_id e)) (filter (is_due now claimTimeoutMs) t)))"

definition stamp_claim :: "string \<Rightarrow> int \<Rightarrow> outbox_event \<Rightarrow> outbox_event" where
  "stamp_claim claimToken claimedAt e =
     e\<lparr>oe_status := PROCESSING, oe_claimedAt := Some claimedAt, oe_claimToken := Some claimToken\<rparr>"

text \<open>Saving rows writes each over the row of its id.\<close>

definition save_rows :: "outbox_event list \<Rightarrow> outbox_table \<Rightarrow> outbox_table" where
  "save_rows rows t =
     map (\<lambda>e. case map_of (map (\<lambda>r. (oe_id r, r)) rows) (oe_id e) of Some r \<Rightarrow> r | None \<Rightarrow> e) t"

text \<open>
  \<open>now\<close> is the database's clock, \<open>claimedAt\<close> the process's.  With no row due the transaction
  returns early; saving no rows is the same table.
\<close>

definition claimDueBatch ::
    "string \<Rightarrow> int \<Rightarrow> int \<Rightarrow> (string \<Rightarrow> bool) \<Rightarrow> nat \<Rightarrow> int \<Rightarrow> outbox_table \<Rightarrow>
     outbox_event list \<times> outbox_table" where
  "claimDueBatch claimToken now claimedAt locked batchSize claimTimeoutMs t =
     (let rows = due_batch now locked batchSize claimTimeoutMs t in
      if length rows = 0 then ([], t)
      else let stamped = map (stamp_claim claimToken claimedAt) rows in (stamped, save_rows stamped t))"

subsection \<open>Terminal writes\<close>

record claim =
  cl_id :: string
  cl_tenantId :: string
  cl_claimToken :: string

definition holds_claim :: "claim \<Rightarrow> outbox_event \<Rightarrow> bool" where
  "holds_claim c e = (oe_id e = cl_id c \<and> oe_tenantId e = cl_tenantId c \<and>
     oe_claimToken e = Some (cl_claimToken c))"

definition updateClaimed ::
    "claim \<Rightarrow> (outbox_event \<Rightarrow> outbox_event) \<Rightarrow> outbox_table \<Rightarrow> bool \<times> outbox_table" where
  "updateClaimed c patch t =
     (length (filter (holds_claim c) t) = 1, map (\<lambda>e. if holds_claim c e then patch e else e) t)"

definition published_patch :: "int \<Rightarrow> outbox_event \<Rightarrow> outbox_event" where
  "published_patch now e = e\<lparr>oe_status := PUBLISHED, oe_publishedAt := Some now,
     oe_nextAttemptAt := None, oe_claimedAt := None, oe_claimToken := None, oe_lastError := None\<rparr>"

definition markPublished :: "int \<Rightarrow> claim \<Rightarrow> outbox_table \<Rightarrow> bool \<times> outbox_table" where
  "markPublished now c = updateClaimed c (published_patch now)"

record failure =
  fa_attemptCount :: nat
  fa_nextAttemptAt :: "int option"
  fa_isDeadLetter :: bool
  fa_lastError :: string

definition failure_patch :: "failure \<Rightarrow> outbox_event \<Rightarrow> outbox_event" where
  "failure_patch f e = e\<lparr>oe_status := (if fa_isDeadLetter f then DEAD_LETTER else PENDING),
     oe_attemptCount := fa_attemptCount f,
     oe_nextAttemptAt := (if fa_isDeadLetter f then None else fa_nextAttemptAt f),
     oe_claimedAt := None, oe_claimToken := None, oe_lastError := Some (take 500 (fa_lastError f))\<rparr>"

definition recordFailure :: "claim \<Rightarrow> failure \<Rightarrow> outbox_table \<Rightarrow> bool \<times> outbox_table" where
  "recordFailure c f = updateClaimed c (failure_patch f)"

subsection \<open>Depth\<close>

datatype queue_state = Pending | In_flight | Dead_lettered

definition status_count :: "outbox_event_status \<Rightarrow> outbox_table \<Rightarrow> nat" where
  "status_count st t = length (filter (\<lambda>e. oe_deletedAt e = None \<and> oe_status e = st) t)"

text \<open>\<open>GROUP BY\<close> yields a row only for a status that occurs; a missing one reads as zero.\<close>

definition depth_rows :: "outbox_table \<Rightarrow> (outbox_event_status \<times> nat) list" where
  "depth_rows t = filter (\<lambda>(_, n). 0 < n)
     (map (\<lambda>st. (st, status_count st t)) [PENDING, PROCESSING, DEAD_LETTER])"

definition collect :: "outbox_table \<Rightarrow> (queue_state \<times> nat) list" where
  "collect t = (let depths = map_of (depth_rows t) in
     [(Pending, nullish (depths PENDING) 0),
      (In_flight, nullish (depths PROCESSING) 0),
      (Dead_lettered, nullish (depths DEAD_LETTER) 0)])"

subsection \<open>Facts about claims\<close>

abbreviation ids :: "outbox_table \<Rightarrow> string list" where
  "ids t \<equiv> map oe_id t"

lemma stamp_claim_simps [simp]:
  "oe_id (stamp_claim tok ca e) = oe_id e" "oe_tenantId (stamp_claim tok ca e) = oe_tenantId e"
  "oe_status (stamp_claim tok ca e) = PROCESSING" "oe_claimToken (stamp_claim tok ca e) = Some tok"
  "oe_claimedAt (stamp_claim tok ca e) = Some ca" "oe_attemptCount (stamp_claim tok ca e) = oe_attemptCount e"
  "oe_nextAttemptAt (stamp_claim tok ca e) = oe_nextAttemptAt e"
  by (simp_all add: stamp_claim_def)

lemma patch_ids [simp]: "oe_id (published_patch now e) = oe_id e" "oe_id (failure_patch f e) = oe_id e"
  by (simp_all add: published_patch_def failure_patch_def)

lemma patch_releases [simp]:
  "oe_claimToken (published_patch now e) = None" "oe_claimToken (failure_patch f e) = None"
  by (simp_all add: published_patch_def failure_patch_def)

lemma patch_status [simp]:
  "oe_status (published_patch now e) = PUBLISHED"
  "oe_status (failure_patch f e) = (if fa_isDeadLetter f then DEAD_LETTER else PENDING)"
  by (simp_all add: published_patch_def failure_patch_def)

lemma due_batch_due:
  "e \<in> set (due_batch now locked n timeout t) \<Longrightarrow> e \<in> set t \<and> is_due now timeout e \<and> \<not> locked (oe_id e)"
  by (auto simp: due_batch_def dest!: in_set_takeD)

lemma due_batch_length: "length (due_batch now locked n timeout t) \<le> n"
  by (simp add: due_batch_def)

lemma distinct_ids_sort: "distinct (ids (sort_key k xs)) = distinct (ids xs)"
proof -
  have "mset (ids (sort_key k xs)) = mset (ids xs)" by simp
  then show ?thesis by (metis mset_eq_imp_distinct_iff)
qed

lemma due_batch_distinct: "distinct (ids t) \<Longrightarrow> distinct (ids (due_batch now locked n timeout t))"
  by (simp add: due_batch_def take_map [symmetric] distinct_ids_sort distinct_map_filter)

lemma same_id: "distinct (ids t) \<Longrightarrow> e \<in> set t \<Longrightarrow> e' \<in> set t \<Longrightarrow> oe_id e = oe_id e' \<Longrightarrow> e = e'"
  by (simp add: distinct_map inj_on_def)

lemma mem_ids:
  assumes "distinct (ids t)" and "set b \<subseteq> set t" and "e \<in> set t"
  shows "e \<in> set b \<longleftrightarrow> oe_id e \<in> set (ids b)"
proof
  assume "oe_id e \<in> set (ids b)"
  then obtain e' where "e' \<in> set b" "oe_id e = oe_id e'" by auto
  moreover have "e' \<in> set t" using \<open>e' \<in> set b\<close> assms(2) by blast
  ultimately show "e \<in> set b" using same_id [OF assms(1,3)] by metis
qed simp

lemma map_of_ids: "map_of (map (\<lambda>r. (oe_id r, r)) rows) i = find (\<lambda>r. oe_id r = i) rows"
  by (induction rows) auto

lemma find_stamped:
  assumes "distinct (ids t)" "set rows \<subseteq> set t" "e \<in> set t"
  shows "find (\<lambda>r. oe_id r = oe_id e) (map (stamp_claim tok ca) rows) =
     (if e \<in> set rows then Some (stamp_claim tok ca e) else None)"
  using assms(2)
proof (induction rows)
  case (Cons r rows)
  then have "oe_id r = oe_id e \<Longrightarrow> r = e" using same_id [OF assms(1) _ assms(3)] by auto
  then show ?case using Cons by auto
qed simp

lemma claimDueBatch_table:
  assumes "distinct (ids t)"
  shows "claimDueBatch tok now ca locked n timeout t =
     (let rows = due_batch now locked n timeout t in
      (map (stamp_claim tok ca) rows,
       map (\<lambda>e. if e \<in> set rows then stamp_claim tok ca e else e) t))"
proof -
  let ?rows = "due_batch now locked n timeout t"
  have sub: "set ?rows \<subseteq> set t" using due_batch_due by blast
  have "save_rows (map (stamp_claim tok ca) ?rows) t =
      map (\<lambda>e. if e \<in> set ?rows then stamp_claim tok ca e else e) t"
    unfolding save_rows_def map_of_ids
    by (rule map_cong [OF refl]) (simp add: find_stamped [OF assms sub])
  then show ?thesis by (simp add: claimDueBatch_def Let_def)
qed

lemma claim_ids [simp]: "distinct (ids t) \<Longrightarrow> ids (snd (claimDueBatch tok now ca locked n timeout t)) = ids t"
  by (auto simp: claimDueBatch_table Let_def)

lemma claim_length: "length (fst (claimDueBatch tok now ca locked n timeout t)) \<le> n"
  by (simp add: claimDueBatch_def Let_def due_batch_length)

lemma updateClaimed_stale:
  "\<not> list_ex (holds_claim c) t \<Longrightarrow> updateClaimed c patch t = (False, t)"
proof -
  assume a: "\<not> list_ex (holds_claim c) t"
  then have "filter (holds_claim c) t = []" by (simp add: filter_empty_conv list_ex_iff)
  moreover have "map (\<lambda>e. if holds_claim c e then patch e else e) t = t"
    by (rule map_idI) (use a in \<open>auto simp: list_ex_iff\<close>)
  ultimately show ?thesis by (simp add: updateClaimed_def)
qed

lemma holder_unique:
  assumes "distinct (ids t)"
  shows "length (filter (holds_claim c) t) \<le> 1"
  using assms
proof (induction t)
  case (Cons e t)
  have "filter (holds_claim c) t = []" if "holds_claim c e"
    using Cons.prems that by (force simp: holds_claim_def filter_empty_conv)
  with Cons show ?case by auto
qed simp

lemma updateClaimed_fst:
  assumes "distinct (ids t)"
  shows "fst (updateClaimed c patch t) = list_ex (holds_claim c) t"
proof -
  have "length (filter (holds_claim c) t) = 1 \<longleftrightarrow> filter (holds_claim c) t \<noteq> []"
    using holder_unique [OF assms, of c] by (cases "filter (holds_claim c) t") auto
  then show ?thesis by (simp add: updateClaimed_def filter_empty_conv list_ex_iff)
qed

lemma updateClaimed_ids [simp]:
  "(\<And>e. oe_id (patch e) = oe_id e) \<Longrightarrow> ids (snd (updateClaimed c patch t)) = ids t"
  by (auto simp: updateClaimed_def)

lemma released:
  "(\<And>e. oe_claimToken (patch e) = None) \<Longrightarrow> \<not> list_ex (holds_claim c) (snd (updateClaimed c patch t))"
  by (auto simp: updateClaimed_def list_ex_iff holds_claim_def)

lemma claimDueBatch_facts:
  assumes "distinct (ids t)"
  shows "(let (rows, t') = claimDueBatch tok now ca locked n timeout t in
     length rows \<le> n \<and> distinct (ids rows) \<and>
     (\<forall>r \<in> set rows. oe_status r = PROCESSING \<and> oe_claimToken r = Some tok \<and> r \<in> set t' \<and>
        (\<exists>e \<in> set t. is_due now timeout e \<and> \<not> locked (oe_id e) \<and> r = stamp_claim tok ca e)) \<and>
     sorted (map (\<lambda>r. the (oe_nextAttemptAt r)) rows) \<and>
     t' = map (\<lambda>e. if oe_id e \<in> set (ids rows) then stamp_claim tok ca e else e) t \<and>
     map oe_attemptCount t' = map oe_attemptCount t)"
proof -
  let ?rows = "due_batch now locked n timeout t"
  have sub: "e \<in> set ?rows \<longleftrightarrow> oe_id e \<in> set (ids ?rows)" if "e \<in> set t" for e
    by (rule mem_ids [OF assms _ that]) (use due_batch_due in blast)
  have srt: "sorted (map (\<lambda>e. (the (oe_nextAttemptAt e), oe_createdAt e)) ?rows)"
    unfolding due_batch_def take_map [symmetric] by (rule sorted_wrt_take) simp
  let ?stamped = "map (stamp_claim tok ca) ?rows"
  let ?t' = "map (\<lambda>e. if e \<in> set ?rows then stamp_claim tok ca e else e) t"
  have "sorted (map (\<lambda>e. the (oe_nextAttemptAt e)) ?rows)"
    using srt unfolding sorted_map by (rule sorted_wrt_mono_rel [rotated]) (auto simp: less_eq_prod_def)
  then have sorted: "sorted (map (\<lambda>r. the (oe_nextAttemptAt r)) ?stamped)" by (simp add: comp_def)
  have ids: "ids ?stamped = ids ?rows" by simp
  have table: "?t' = map (\<lambda>e. if oe_id e \<in> set (ids ?rows) then stamp_claim tok ca e else e) t"
    by (rule map_cong [OF refl]) (use sub in auto)
  have rows: "\<forall>r \<in> set ?stamped. oe_status r = PROCESSING \<and> oe_claimToken r = Some tok \<and> r \<in> set ?t' \<and>
      (\<exists>e \<in> set t. is_due now timeout e \<and> \<not> locked (oe_id e) \<and> r = stamp_claim tok ca e)"
    using due_batch_due [of _ now locked n timeout t] by force
  have counts: "map oe_attemptCount ?t' = map oe_attemptCount t" by simp
  show ?thesis
    unfolding claimDueBatch_table [OF assms] Let_def prod.case ids length_map
    using due_batch_distinct [OF assms] due_batch_length rows sorted table counts by blast
qed

subsection \<open>Properties of the storage\<close>

text \<open>
  A claim takes exactly due, unlocked rows, at most a batch of them, each once and the longest
  due first, stamps them with the claim's token in the answer and in the table alike, and changes
  no other row; an attempt is counted only when it is recorded, so claiming changes no count.
\<close>

theorem claimDueBatch_takes_due_rows:
  assumes "distinct (ids t)"
  shows "(let (rows, t') = claimDueBatch tok now ca locked n timeout t in
     length rows \<le> n \<and> distinct (ids rows) \<and>
     (\<forall>r \<in> set rows. oe_status r = PROCESSING \<and> oe_claimToken r = Some tok \<and> r \<in> set t' \<and>
        (\<exists>e \<in> set t. is_due now timeout e \<and> \<not> locked (oe_id e) \<and> r = stamp_claim tok ca e)) \<and>
     sorted (map (\<lambda>r. the (oe_nextAttemptAt r)) rows) \<and>
     t' = map (\<lambda>e. if oe_id e \<in> set (ids rows) then stamp_claim tok ca e else e) t \<and>
     map oe_attemptCount t' = map oe_attemptCount t)"
  by (rule claimDueBatch_facts [OF assms])

abbreviation pending_row :: "string \<Rightarrow> int \<Rightarrow> outbox_event" where
  "pending_row i due \<equiv> \<lparr>oe_id = i, oe_tenantId = ''t'', oe_status = PENDING, oe_attemptCount = 0,
     oe_nextAttemptAt = Some due, oe_claimedAt = None, oe_claimToken = None, oe_publishedAt = None,
     oe_lastError = None, oe_createdAt = 0, oe_deletedAt = None\<rparr>"

lemma claimDueBatch_takes_due_rows_witness:
  "ids (fst (claimDueBatch ''k'' 10 10 (\<lambda>_. False) 2 60
      [pending_row ''a'' 7, pending_row ''b'' 20, pending_row ''c'' 3])) = [''c'', ''a''] \<and>
   length (fst (claimDueBatch ''k'' 10 10 (\<lambda>_. False) 2 60
      [pending_row ''a'' 7, pending_row ''b'' 20, pending_row ''c'' 3])) \<le> 2"
proof
  show "ids (fst (claimDueBatch ''k'' 10 10 (\<lambda>_. False) 2 60
      [pending_row ''a'' 7, pending_row ''b'' 20, pending_row ''c'' 3])) = [''c'', ''a'']"
    by code_simp
  have "distinct (ids [pending_row ''a'' 7, pending_row ''b'' 20, pending_row ''c'' 3])" by simp
  from claimDueBatch_takes_due_rows [OF this, of "''k''" 10 10 "\<lambda>_. False" 2 60]
  show "length (fst (claimDueBatch ''k'' 10 10 (\<lambda>_. False) 2 60
      [pending_row ''a'' 7, pending_row ''b'' 20, pending_row ''c'' 3])) \<le> 2"
    by (auto simp: Let_def split: prod.splits)
qed

lemma claim_table:
  assumes "distinct (ids t)" and "claimDueBatch tok now ca locked n timeout t = (rows, t')"
  shows "rows = map (stamp_claim tok ca) (due_batch now locked n timeout t)"
    and "t' = map (\<lambda>e. if e \<in> set (due_batch now locked n timeout t) then stamp_claim tok ca e else e) t"
    and "distinct (ids t')" and "set rows \<subseteq> set t'"
proof -
  show rows: "rows = map (stamp_claim tok ca) (due_batch now locked n timeout t)"
    and t': "t' = map (\<lambda>e. if e \<in> set (due_batch now locked n timeout t) then stamp_claim tok ca e else e) t"
    using assms by (simp_all add: claimDueBatch_table Let_def)
  show "distinct (ids t')" using claim_ids [OF assms(1)] assms by (metis snd_conv)
  show "set rows \<subseteq> set t'" using due_batch_due by (fastforce simp: rows t')
qed

lemma updateClaimed_landing:
  assumes "distinct (ids t)" and "x \<in> set t" and "oe_id x = cl_id c"
  shows "fst (updateClaimed c patch t) = holds_claim c x"
    and "\<not> holds_claim c x \<Longrightarrow> updateClaimed c patch t = (False, t)"
proof -
  have "holds_claim c y \<Longrightarrow> y \<in> set t \<Longrightarrow> y = x" for y
    using same_id [OF assms(1) _ assms(2)] assms(3) by (simp add: holds_claim_def)
  then have ex: "list_ex (holds_claim c) t = holds_claim c x"
    using assms(2) by (auto simp only: list_ex_iff)
  show "fst (updateClaimed c patch t) = holds_claim c x" by (simp only: updateClaimed_fst [OF assms(1)] ex)
  show "updateClaimed c patch t = (False, t)" if "\<not> holds_claim c x"
    by (rule updateClaimed_stale) (simp only: ex that not_False_eq_True)
qed

text \<open>
  C7: a row belongs to one claim at a time.  Of what one claim took, another takes nothing until the first
  has timed out, and never what is locked.  When it does take a row over, under a token of its own, the writes of the attempt
  that lost it change nothing and say so; the writes of the first attempt to the rows nobody took over
  still land, timed out or not.
\<close>

theorem claims_are_exclusive:
  assumes "distinct (ids t)" and "claimDueBatch tok now ca locked n timeout t = (rows, t')"
    and "claimDueBatch tok' now' ca' locked' n' timeout t' = (rows', t'')"
    and "tok' \<noteq> tok"
  shows "(now' \<le> ca + timeout \<longrightarrow> set (ids rows) \<inter> set (ids rows') = {}) \<and>
     list_all (\<lambda>r. \<not> locked' (oe_id r)) rows' \<and>
     list_all (\<lambda>r. let c = \<lparr>cl_id = oe_id r, cl_tenantId = oe_tenantId r, cl_claimToken = tok\<rparr> in
        if oe_id r \<in> set (ids rows') then markPublished p c t'' = (False, t'') \<and> recordFailure c f t'' = (False, t'')
        else fst (markPublished p c t'') \<and> fst (recordFailure c f t'')) rows"
proof (intro conjI impI)
  let ?rows = "due_batch now locked n timeout t"
  let ?rows' = "due_batch now' locked' n' timeout t'"
  note c1 = claim_table [OF assms(1,2)]
  note c2 = claim_table [OF c1(3) assms(3)]
  have same: "x = r" if "x \<in> set t'" "r \<in> set rows" "oe_id x = oe_id r" for x r
    using same_id [OF c1(3) that(1)] c1(4) that by blast
  show "list_all (\<lambda>r. \<not> locked' (oe_id r)) rows'"
    using due_batch_due by (fastforce simp: c2(1) list_all_iff)
  show "set (ids rows) \<inter> set (ids rows') = {}" if lease: "now' \<le> ca + timeout"
  proof (rule ccontr)
    assume "set (ids rows) \<inter> set (ids rows') \<noteq> {}"
    then obtain r e' where r: "r \<in> set rows" and e': "e' \<in> set ?rows'" "oe_id e' = oe_id r"
      unfolding c2(1) by fastforce
    then have "e' = r" using due_batch_due [OF e'(1)] by (intro same) simp_all
    moreover have "oe_claimedAt r = Some ca" "oe_status r = PROCESSING" using r by (auto simp: c1(1))
    ultimately show False using due_batch_due [OF e'(1)] lease by (simp add: is_due_def)
  qed
  show "list_all (\<lambda>r. let c = \<lparr>cl_id = oe_id r, cl_tenantId = oe_tenantId r, cl_claimToken = tok\<rparr> in
        if oe_id r \<in> set (ids rows') then markPublished p c t'' = (False, t'') \<and> recordFailure c f t'' = (False, t'')
        else fst (markPublished p c t'') \<and> fst (recordFailure c f t'')) rows"
    unfolding list_all_iff
  proof (rule ballI)
    fix r assume r: "r \<in> set rows"
    let ?c = "\<lparr>cl_id = oe_id r, cl_tenantId = oe_tenantId r, cl_claimToken = tok\<rparr>"
    have tok: "oe_claimToken r = Some tok" using r by (auto simp: c1(1))
    have "r \<in> set t'" using r c1(4) by blast
    define x where "x = (if r \<in> set ?rows' then stamp_claim tok' ca' r else r)"
    have x: "x \<in> set t''" "oe_id x = cl_id ?c" using \<open>r \<in> set t'\<close> by (auto simp: x_def c2(2))
    have "oe_id r \<in> set (ids rows') \<longleftrightarrow> r \<in> set ?rows'"
      using same [OF _ r] due_batch_due by (fastforce simp: c2(1))
    then have "holds_claim ?c x \<longleftrightarrow> oe_id r \<notin> set (ids rows')"
      using tok assms(4) by (simp add: x_def holds_claim_def)
    with updateClaimed_landing [OF c2(3) x]
    show "let c = ?c in
        if oe_id r \<in> set (ids rows') then markPublished p c t'' = (False, t'') \<and> recordFailure c f t'' = (False, t'')
        else fst (markPublished p c t'') \<and> fst (recordFailure c f t'')"
      by (simp add: markPublished_def recordFailure_def Let_def)
  qed
qed

text \<open>Two claims within the lease take different rows; after it the second takes the row over.\<close>

lemma claims_are_exclusive_witness:
  "set (ids (fst (claimDueBatch ''k'' 10 10 (\<lambda>_. False) 1 60 [pending_row ''a'' 7, pending_row ''b'' 5]))) \<inter>
   set (ids (fst (claimDueBatch ''l'' 30 30 (\<lambda>_. False) 5 60
     (snd (claimDueBatch ''k'' 10 10 (\<lambda>_. False) 1 60 [pending_row ''a'' 7, pending_row ''b'' 5]))))) = {} \<and>
   ids (fst (claimDueBatch ''l'' 71 71 (\<lambda>_. False) 5 60
     (snd (claimDueBatch ''k'' 10 10 (\<lambda>_. False) 1 60 [pending_row ''a'' 7, pending_row ''b'' 5])))) = [''b'', ''a'']"
proof (rule conjI)
  let ?t = "[pending_row ''a'' 7, pending_row ''b'' 5]"
  have d: "distinct (ids ?t)" by simp
  obtain rows t' where a: "claimDueBatch ''k'' 10 10 (\<lambda>_. False) 1 60 ?t = (rows, t')"
    using prod.exhaust by blast
  obtain rows' t'' where b: "claimDueBatch ''l'' 30 30 (\<lambda>_. False) 5 60 t' = (rows', t'')"
    using prod.exhaust by blast
  have ne: "''l'' \<noteq> ''k''" by simp
  show "set (ids (fst (claimDueBatch ''k'' 10 10 (\<lambda>_. False) 1 60 ?t))) \<inter>
      set (ids (fst (claimDueBatch ''l'' 30 30 (\<lambda>_. False) 5 60 (snd (claimDueBatch ''k'' 10 10 (\<lambda>_. False) 1 60 ?t))))) = {}"
    unfolding a fst_conv snd_conv b
    using claims_are_exclusive [OF d a b ne, THEN conjunct1] by simp
  show "ids (fst (claimDueBatch ''l'' 71 71 (\<lambda>_. False) 5 60 (snd (claimDueBatch ''k'' 10 10 (\<lambda>_. False) 1 60 ?t)))) = [''b'', ''a'']"
    by code_simp
qed

text \<open>
  C22: a terminal write lands once, for the holder of the claim only.  It reports success exactly
  when a row holds the claim; it changes that row alone, and releases the claim, so a second
  terminal write of the same attempt changes nothing and reports so.
\<close>

theorem terminal_write_lands_once:
  assumes "distinct (ids t)"
  shows "(fst (markPublished now c t) = list_ex (holds_claim c) t) \<and>
     (fst (recordFailure c f t) = list_ex (holds_claim c) t) \<and>
     list_all2 (\<lambda>e e'. e' = e \<or> holds_claim c e \<and> e' = published_patch now e) t (snd (markPublished now c t)) \<and>
     list_all2 (\<lambda>e e'. e' = e \<or> holds_claim c e \<and> e' = failure_patch f e) t (snd (recordFailure c f t)) \<and>
     recordFailure c f (snd (markPublished now c t)) = (False, snd (markPublished now c t)) \<and>
     markPublished now c (snd (recordFailure c f t)) = (False, snd (recordFailure c f t))"
proof -
  have "list_all2 (\<lambda>e e'. e' = e \<or> holds_claim c e \<and> e' = patch e) t (snd (updateClaimed c patch t))" for patch
    by (auto simp: updateClaimed_def list_all2_conv_all_nth)
  then show ?thesis
    by (simp add: markPublished_def recordFailure_def updateClaimed_fst assms updateClaimed_stale released)
qed

lemma terminal_write_lands_once_witness:
  "fst (markPublished 9 \<lparr>cl_id = ''a'', cl_tenantId = ''t'', cl_claimToken = ''k''\<rparr>
      [stamp_claim ''k'' 5 (pending_row ''a'' 3), pending_row ''b'' 4])"
proof -
  have d: "distinct (ids [stamp_claim ''k'' 5 (pending_row ''a'' 3), pending_row ''b'' 4])" by simp
  show ?thesis
    using terminal_write_lands_once [OF d, of 9 "\<lparr>cl_id = ''a'', cl_tenantId = ''t'', cl_claimToken = ''k''\<rparr>"]
    by (simp add: holds_claim_def)
qed

text \<open>
  A retry is scheduled within its window.  With a random number in \<open>[0, 1)\<close> the next attempt is
  never before now and at most the ceiling after it: the base doubled per attempt, the first one
  at the base, never more than the maximum nor than twenty doublings.
\<close>

theorem nextOutboxAttemptAt_window:
  assumes "0 \<le> random" and "random < 1" and "0 \<le> baseMs" and "0 \<le> maxMs"
  shows "now \<le> nextOutboxAttemptAt now random attempts baseMs maxMs \<and>
    of_int (nextOutboxAttemptAt now random attempts baseMs maxMs - now) \<le> maxMs \<and>
    of_int (nextOutboxAttemptAt now random attempts baseMs maxMs - now) \<le> baseMs * 2 ^ min (attempts - 1) 20"
proof -
  define limit where "limit = min (baseMs * 2 ^ min (attempts - 1) 20) maxMs"
  have e: "nat (min (max (int attempts - 1) 0) 20) = min (attempts - 1) 20" by linarith
  have next_at: "nextOutboxAttemptAt now random attempts baseMs maxMs = now + \<lfloor>random * limit\<rfloor>"
    unfolding nextOutboxAttemptAt_def Let_def e limit_def by simp
  have "0 \<le> limit" using assms by (simp add: limit_def)
  then have "0 \<le> random * limit" and "random * limit \<le> limit"
    using assms mult_right_mono [of random 1 limit] by simp_all
  then have "0 \<le> \<lfloor>random * limit\<rfloor>" and "of_int \<lfloor>random * limit\<rfloor> \<le> limit"
    using of_int_floor_le [of "random * limit"] by linarith+
  then show ?thesis by (simp add: next_at limit_def)
qed

lemma nextOutboxAttemptAt_window_witness:
  "nextOutboxAttemptAt 1000 (1/2) 3 100 5000 = 1200 \<and>
   1000 \<le> nextOutboxAttemptAt 1000 (1/2) 3 100 5000"
proof
  show "nextOutboxAttemptAt 1000 (1/2) 3 100 5000 = 1200" by code_simp
  show "1000 \<le> nextOutboxAttemptAt 1000 (1/2) 3 100 5000"
    using nextOutboxAttemptAt_window [of "1/2" 100 5000 1000 3] by simp
qed

subsection \<open>Depth readings\<close>

lemma depth_lookup: "nullish (map_of (depth_rows t) st) 0 =
    (if st \<in> {PENDING, PROCESSING, DEAD_LETTER} then status_count st t else 0)"
  by (cases st) (auto simp: depth_rows_def)

text \<open>
  The depth gauge counts every live row that is not done, once.  The three states are always
  reported, in order, zeroes included; each depth is the number of rows of its status that are not
  soft-deleted, and together they are the rows that are neither published nor deleted.
\<close>

theorem collect_counts_live_rows:
  "map fst (collect t) = [Pending, In_flight, Dead_lettered] \<and>
   map_of (collect t) Pending = Some (status_count PENDING t) \<and>
   map_of (collect t) In_flight = Some (status_count PROCESSING t) \<and>
   map_of (collect t) Dead_lettered = Some (status_count DEAD_LETTER t) \<and>
   sum_list (map snd (collect t)) =
     length (filter (\<lambda>e. oe_deletedAt e = None \<and> oe_status e \<noteq> PUBLISHED) t)"
proof -
  have "status_count PENDING t + (status_count PROCESSING t + status_count DEAD_LETTER t) =
      length (filter (\<lambda>e. oe_deletedAt e = None \<and> oe_status e \<noteq> PUBLISHED) t)"
  proof (induction t)
    case (Cons e t)
    then show ?case by (cases "oe_status e") (auto simp: status_count_def)
  qed (simp add: status_count_def)
  then show ?thesis by (simp add: collect_def Let_def depth_lookup)
qed

end
