(* ===== verification/Metrics.thy ===== *)
theory Metrics
  imports Outbox Correlation
begin

section \<open>Metrics\<close>

text \<open>
  The files of \<^verbatim>\<open>observability/metrics/\<close>: the service that owns the registry, the HTTP middleware,
  the retention-sweep metrics and the connection-pool source.  The Prometheus client is kept as its
  registry's contents: per metric name the labelled values, or the observations of a histogram, in
  order; rendering them as text is the client's.  Collectors and sources read a world \<open>'w\<close> at
  scrape time and may throw.
\<close>

definition METRICS_ROUTE_PATH :: string where "METRICS_ROUTE_PATH = ''metrics''"
definition HTTP_REQUESTS_TOTAL :: string where "HTTP_REQUESTS_TOTAL = ''http_server_requests_total''"
definition HTTP_REQUESTS_IN_FLIGHT :: string where "HTTP_REQUESTS_IN_FLIGHT = ''http_server_requests_in_flight''"
definition HTTP_REQUEST_DURATION_SECONDS :: string where
  "HTTP_REQUEST_DURATION_SECONDS = ''http_server_request_duration_seconds''"
definition STATUS_CODE_LABEL :: string where "STATUS_CODE_LABEL = ''status_code''"
definition QUEUE_DEPTH_GAUGE :: string where "QUEUE_DEPTH_GAUGE = ''iveri_queue_depth''"
definition DATABASE_POOL_GAUGE :: string where "DATABASE_POOL_GAUGE = ''iveri_database_pool_connections''"
definition RETENTION_SWEEP_LAST_SUCCESS_GAUGE :: string where
  "RETENTION_SWEEP_LAST_SUCCESS_GAUGE = ''iveri_retention_sweep_last_success_timestamp_seconds''"
definition RETENTION_SWEEP_ROWS_TOTAL :: string where
  "RETENTION_SWEEP_ROWS_TOTAL = ''iveri_retention_sweep_rows_total''"
definition RETENTION_SWEEP_LABEL :: string where "RETENTION_SWEEP_LABEL = ''sweep''"
definition DEFAULT_IGNORED_METRICS_ROUTES :: "string list" where
  "DEFAULT_IGNORED_METRICS_ROUTES = INFRASTRUCTURE_ROUTE_PREFIXES"

lemmas metric_names = HTTP_REQUESTS_TOTAL_def HTTP_REQUESTS_IN_FLIGHT_def
  HTTP_REQUEST_DURATION_SECONDS_def QUEUE_DEPTH_GAUGE_def DATABASE_POOL_GAUGE_def
  RETENTION_SWEEP_LAST_SUCCESS_GAUGE_def RETENTION_SWEEP_ROWS_TOTAL_def

subsection \<open>The registry\<close>

type_synonym labels = "(string \<times> js) list"

record registry =
  mr_defaultLabels :: "(string \<times> string) list"
  mr_defaultMetrics :: bool
  mr_series :: "string \<rightharpoonup> (labels \<times> rat) list"
  mr_histograms :: "string \<rightharpoonup> (labels \<times> rat) list"

definition series_of :: "string \<Rightarrow> registry \<Rightarrow> (labels \<times> rat) list" where
  "series_of name r = nullish (mr_series r name) []"

definition metric_value :: "string \<Rightarrow> labels \<Rightarrow> registry \<Rightarrow> rat option" where
  "metric_value name ls r = map_of (series_of name r) ls"

definition metric_set :: "string \<Rightarrow> labels \<Rightarrow> rat \<Rightarrow> registry \<Rightarrow> registry" where
  "metric_set name ls v r = r\<lparr>mr_series := (mr_series r)(name \<mapsto> js_set ls v (series_of name r))\<rparr>"

definition metric_inc :: "string \<Rightarrow> labels \<Rightarrow> rat \<Rightarrow> registry \<Rightarrow> registry" where
  "metric_inc name ls v r = metric_set name ls (nullish (metric_value name ls r) 0 + v) r"

text \<open>Resetting a metric with labels drops its series.\<close>

definition metric_reset :: "string \<Rightarrow> registry \<Rightarrow> registry" where
  "metric_reset name r = r\<lparr>mr_series := (mr_series r)(name \<mapsto> [])\<rparr>"

definition metric_observe :: "string \<Rightarrow> labels \<Rightarrow> rat \<Rightarrow> registry \<Rightarrow> registry" where
  "metric_observe name ls v r =
     r\<lparr>mr_histograms := (mr_histograms r)(name \<mapsto> nullish (mr_histograms r name) [] @ [(ls, v)])\<rparr>"

text \<open>A name registered twice makes the client throw.\<close>

definition register_series :: "string \<Rightarrow> (labels \<times> rat) list \<Rightarrow> registry \<Rightarrow> string + registry" where
  "register_series name vs r =
     (if mr_series r name \<noteq> None \<or> mr_histograms r name \<noteq> None
      then Inl (''A metric with the name '' @ name @ '' has already been registered.'')
      else Inr (r\<lparr>mr_series := (mr_series r)(name \<mapsto> vs)\<rparr>))"

definition register_histogram :: "string \<Rightarrow> registry \<Rightarrow> string + registry" where
  "register_histogram name r =
     (if mr_series r name \<noteq> None \<or> mr_histograms r name \<noteq> None
      then Inl (''A metric with the name '' @ name @ '' has already been registered.'')
      else Inr (r\<lparr>mr_histograms := (mr_histograms r)(name \<mapsto> [])\<rparr>))"

subsection \<open>The service\<close>

record metrics_module_options =
  mo_serviceName :: string
  mo_defaultLabels :: "(string \<times> string) list option"
  mo_collectDefaultMetrics :: "bool option"
  mo_ignoredRoutes :: "string list option"

record 'w queue_depth_collector =
  qc_queue :: string
  qc_collect :: "'w \<Rightarrow> thrown + (queue_state \<times> nat) list"

record 'w metric_source =
  mc_name :: string
  mc_refresh :: "'w \<Rightarrow> registry \<Rightarrow> (thrown + unit) \<times> registry"

text \<open>The two warnings, with the queue or the source and the reason.\<close>

datatype metrics_warning = DepthFailed string string | SourceFailed string string

record 'w metrics_service =
  ms_registry :: registry
  ms_collectors :: "'w queue_depth_collector list"
  ms_sources :: "'w metric_source list"
  ms_warnings :: "metrics_warning list"

definition MetricsService_new :: "metrics_module_options \<Rightarrow> 'w metrics_service" where
  "MetricsService_new options =
     \<lparr>ms_registry =
        \<lparr>mr_defaultLabels = spread [(''service'', mo_serviceName options)] (nullish (mo_defaultLabels options) []),
         mr_defaultMetrics = nullish (mo_collectDefaultMetrics options) True,
         mr_series = [HTTP_REQUESTS_TOTAL \<mapsto> [], HTTP_REQUESTS_IN_FLIGHT \<mapsto> [([], 0)], QUEUE_DEPTH_GAUGE \<mapsto> []],
         mr_histograms = [HTTP_REQUEST_DURATION_SECONDS \<mapsto> []]\<rparr>,
      ms_collectors = [], ms_sources = [], ms_warnings = []\<rparr>"

definition registerQueueDepthCollector :: "'w queue_depth_collector \<Rightarrow> 'w metrics_service \<Rightarrow> 'w metrics_service" where
  "registerQueueDepthCollector c s = s\<lparr>ms_collectors := ms_collectors s @ [c]\<rparr>"

definition registerSource :: "'w metric_source \<Rightarrow> 'w metrics_service \<Rightarrow> 'w metrics_service" where
  "registerSource c s = s\<lparr>ms_sources := ms_sources s @ [c]\<rparr>"

definition observeHttpRequest ::
    "string \<Rightarrow> string \<Rightarrow> nat \<Rightarrow> rat \<Rightarrow> 'w metrics_service \<Rightarrow> 'w metrics_service" where
  "observeHttpRequest method route statusCode durationSeconds s =
     (let ls = [(''method'', JStr method), (''route'', JStr route), (STATUS_CODE_LABEL, JNum (of_nat statusCode))]
      in s\<lparr>ms_registry := metric_observe HTTP_REQUEST_DURATION_SECONDS ls durationSeconds
             (metric_inc HTTP_REQUESTS_TOTAL ls 1 (ms_registry s))\<rparr>)"

definition trackRequestStarted :: "'w metrics_service \<Rightarrow> 'w metrics_service" where
  "trackRequestStarted s = s\<lparr>ms_registry := metric_inc HTTP_REQUESTS_IN_FLIGHT [] 1 (ms_registry s)\<rparr>"

definition trackRequestFinished :: "'w metrics_service \<Rightarrow> 'w metrics_service" where
  "trackRequestFinished s = s\<lparr>ms_registry := metric_inc HTTP_REQUESTS_IN_FLIGHT [] (-1) (ms_registry s)\<rparr>"

definition depth_labels :: "string \<Rightarrow> queue_state \<Rightarrow> labels" where
  "depth_labels queue state = [(''queue'', JStr queue), (''state'', JStr
     (case state of Pending \<Rightarrow> ''pending'' | In_flight \<Rightarrow> ''in_flight'' | Dead_lettered \<Rightarrow> ''dead_lettered''))]"

fun set_depths :: "string \<Rightarrow> (queue_state \<times> nat) list \<Rightarrow> registry \<Rightarrow> registry" where
  "set_depths queue [] r = r"
| "set_depths queue ((state, depth) # readings) r =
     set_depths queue readings (metric_set QUEUE_DEPTH_GAUGE (depth_labels queue state) (of_nat depth) r)"

definition refreshOne :: "'w \<Rightarrow> 'w queue_depth_collector \<Rightarrow> 'w metrics_service \<Rightarrow> 'w metrics_service" where
  "refreshOne w collector s = (case qc_collect collector w of
     Inr readings \<Rightarrow> s\<lparr>ms_registry := set_depths (qc_queue collector) readings (ms_registry s)\<rparr>
   | Inl error \<Rightarrow> s\<lparr>ms_warnings := ms_warnings s @
       [DepthFailed (qc_queue collector) (error_message_or ''unknown failure'' error)]\<rparr>)"

definition reset_depths :: "'w metrics_service \<Rightarrow> 'w metrics_service" where
  "reset_depths s = s\<lparr>ms_registry := metric_reset QUEUE_DEPTH_GAUGE (ms_registry s)\<rparr>"

definition refreshQueueDepth :: "'w \<Rightarrow> 'w metrics_service \<Rightarrow> 'w metrics_service" where
  "refreshQueueDepth w s = foldl (\<lambda>s c. refreshOne w c s) (reset_depths s) (ms_collectors s)"

definition refreshSource :: "'w \<Rightarrow> 'w metric_source \<Rightarrow> 'w metrics_service \<Rightarrow> 'w metrics_service" where
  "refreshSource w source s = (let (res, r) = mc_refresh source w (ms_registry s); s' = s\<lparr>ms_registry := r\<rparr> in
     case res of Inr _ \<Rightarrow> s'
     | Inl error \<Rightarrow> s'\<lparr>ms_warnings := ms_warnings s' @
         [SourceFailed (mc_name source) (error_message_or ''unknown failure'' error)]\<rparr>)"

definition refreshSources :: "'w \<Rightarrow> 'w metrics_service \<Rightarrow> 'w metrics_service" where
  "refreshSources w s = foldl (\<lambda>s c. refreshSource w c s) s (ms_sources s)"

text \<open>A scrape on its own: what is rendered is the registry this returns.\<close>

definition render :: "'w \<Rightarrow> 'w metrics_service \<Rightarrow> registry \<times> 'w metrics_service" where
  "render w s = (let s' = refreshSources w (refreshQueueDepth w s) in (ms_registry s', s'))"

definition MetricsService_onApplicationShutdown :: "'w metrics_service \<Rightarrow> 'w metrics_service" where
  "MetricsService_onApplicationShutdown s =
     s\<lparr>ms_registry := (ms_registry s)\<lparr>mr_series := Map.empty, mr_histograms := Map.empty\<rparr>\<rparr>"

text \<open>
  The factories of domain metrics.  A series without labels starts at zero, one with labels starts
  empty; a name that is taken throws.
\<close>

definition MetricsService_counter :: "string \<Rightarrow> string list \<Rightarrow> registry \<Rightarrow> string + registry" where
  "MetricsService_counter name labelNames = register_series name (if labelNames = [] then [([], 0)] else [])"

definition MetricsService_gauge :: "string \<Rightarrow> string list \<Rightarrow> registry \<Rightarrow> string + registry" where
  "MetricsService_gauge name labelNames = register_series name (if labelNames = [] then [([], 0)] else [])"

definition MetricsService_histogram :: "string \<Rightarrow> registry \<Rightarrow> string + registry" where
  "MetricsService_histogram name = register_histogram name"

subsection \<open>Retention sweeps\<close>

definition RetentionSweepMetrics_new :: "registry \<Rightarrow> string + registry" where
  "RetentionSweepMetrics_new r =
     bind_res (MetricsService_gauge RETENTION_SWEEP_LAST_SUCCESS_GAUGE [RETENTION_SWEEP_LABEL] r)
       (MetricsService_counter RETENTION_SWEEP_ROWS_TOTAL [RETENTION_SWEEP_LABEL])"

text \<open>\<open>now\<close> is \<open>Date.now()\<close>, in milliseconds.\<close>

definition sweep_register :: "rat \<Rightarrow> string \<Rightarrow> registry \<Rightarrow> registry" where
  "sweep_register now sweep r =
     metric_inc RETENTION_SWEEP_ROWS_TOTAL [(RETENTION_SWEEP_LABEL, JStr sweep)] 0
       (metric_set RETENTION_SWEEP_LAST_SUCCESS_GAUGE [(RETENTION_SWEEP_LABEL, JStr sweep)] (now / 1000) r)"

definition sweep_recordSuccess :: "rat \<Rightarrow> string \<Rightarrow> rat \<Rightarrow> registry \<Rightarrow> registry" where
  "sweep_recordSuccess now sweep rows r =
     (let r' = metric_set RETENTION_SWEEP_LAST_SUCCESS_GAUGE [(RETENTION_SWEEP_LABEL, JStr sweep)] (now / 1000) r
      in if rows > 0 then metric_inc RETENTION_SWEEP_ROWS_TOTAL [(RETENTION_SWEEP_LABEL, JStr sweep)] rows r' else r')"

subsection \<open>The connection pool\<close>

definition readNumber :: "js \<Rightarrow> string \<Rightarrow> rat option" where
  "readNumber source prop = Option.bind (js_prop source prop) js_num"

text \<open>The value under \<open>master\<close> of the driver, and its three counts, in the order total, idle, waiting.\<close>

definition readPoolCounts :: "js \<Rightarrow> (rat \<times> rat \<times> rat) option" where
  "readPoolCounts driver = (case js_prop driver ''master'' of
     None \<Rightarrow> None
   | Some pool \<Rightarrow> if \<not> is_object pool then None
       else (case (readNumber pool ''totalCount'', readNumber pool ''idleCount'', readNumber pool ''waitingCount'') of
           (Some n_total, Some n_idle, Some n_waiting) \<Rightarrow> Some (n_total, n_idle, n_waiting)
         | _ \<Rightarrow> None))"

definition pool_refresh :: "js \<Rightarrow> registry \<Rightarrow> registry" where
  "pool_refresh driver r = (case readPoolCounts driver of
     None \<Rightarrow> metric_reset DATABASE_POOL_GAUGE r
   | Some (n_total, n_idle, n_waiting) \<Rightarrow>
       metric_set DATABASE_POOL_GAUGE [(''state'', JStr ''waiting'')] n_waiting
        (metric_set DATABASE_POOL_GAUGE [(''state'', JStr ''in_use'')] (n_total - n_idle)
         (metric_set DATABASE_POOL_GAUGE [(''state'', JStr ''idle'')] n_idle
          (metric_set DATABASE_POOL_GAUGE [(''state'', JStr ''total'')] n_total r))))"

definition DatabasePoolMetricSource :: "js metric_source" where
  "DatabasePoolMetricSource = \<lparr>mc_name = ''database-pool'',
     mc_refresh = (\<lambda>driver r. (Inr (), pool_refresh driver r))\<rparr>"

text \<open>The constructor registers the gauge, \<open>onModuleInit\<close> the source.\<close>

definition DatabasePoolMetricSource_new :: "js metrics_service \<Rightarrow> string + js metrics_service" where
  "DatabasePoolMetricSource_new s = map_sum id (\<lambda>r. s\<lparr>ms_registry := r\<rparr>)
     (MetricsService_gauge DATABASE_POOL_GAUGE [''state''] (ms_registry s))"

definition DatabasePoolMetricSource_onModuleInit :: "js metrics_service \<Rightarrow> js metrics_service" where
  "DatabasePoolMetricSource_onModuleInit = registerSource DatabasePoolMetricSource"

subsection \<open>The HTTP middleware\<close>

text \<open>
  A request the middleware tracks: when it started, and whether its end was recorded; the listeners
  left are those of \<open>once('finish')\<close> and \<open>once('close')\<close> that have not fired.
\<close>

datatype response_event = Finish | Close

record tracked =
  tr_startedAt :: nat
  tr_recorded :: bool
  tr_listeners :: "response_event list"

record 'w middleware =
  mw_ignored :: "string list"
  mw_service :: "'w metrics_service"
  mw_tracked :: "(nat \<times> tracked) list"

definition readPath :: "request \<Rightarrow> string" where
  "readPath req = hd (split_on CHR ''?'' (if req_originalUrl req \<noteq> '''' then req_originalUrl req else req_url req))"

definition HttpMetricsMiddleware_new :: "metrics_module_options \<Rightarrow> 'w metrics_service \<Rightarrow> 'w middleware" where
  "HttpMetricsMiddleware_new options s =
     \<lparr>mw_ignored = nullish (mo_ignoredRoutes options) DEFAULT_IGNORED_METRICS_ROUTES,
      mw_service = s, mw_tracked = []\<rparr>"

text \<open>\<open>use\<close> for the request with handle \<open>i\<close>; \<open>next\<close> follows in every case.\<close>

definition HttpMetricsMiddleware_use :: "nat \<Rightarrow> request \<Rightarrow> nat \<Rightarrow> 'w middleware \<Rightarrow> 'w middleware" where
  "HttpMetricsMiddleware_use i req now m =
     (if isInfrastructureRoute (readPath req) (mw_ignored m) then m
      else m\<lparr>mw_service := trackRequestStarted (mw_service m),
             mw_tracked := mw_tracked m @ [(i, \<lparr>tr_startedAt = now, tr_recorded = False,
               tr_listeners = [Finish, Close]\<rparr>)]\<rparr>)"

definition middleware_record :: "request \<Rightarrow> nat \<Rightarrow> nat \<Rightarrow> tracked \<Rightarrow> 'w metrics_service \<Rightarrow> 'w metrics_service" where
  "middleware_record req statusCode now t s =
     (if tr_recorded t then s
      else observeHttpRequest (req_method req) (readRoutePattern req) statusCode
             (of_nat (now - tr_startedAt t) / 1000000000) (trackRequestFinished s))"

text \<open>The response of request \<open>i\<close> emits an event: the listener, if it has not fired, runs and is removed.\<close>

definition response_emits :: "nat \<Rightarrow> response_event \<Rightarrow> request \<Rightarrow> nat \<Rightarrow> nat \<Rightarrow> 'w middleware \<Rightarrow> 'w middleware" where
  "response_emits i ev req statusCode now m = (case map_of (mw_tracked m) i of
     None \<Rightarrow> m
   | Some t \<Rightarrow> if ev \<notin> set (tr_listeners t) then m
       else m\<lparr>mw_service := middleware_record req statusCode now t (mw_service m),
              mw_tracked := js_set i (t\<lparr>tr_recorded := True, tr_listeners := removeAll ev (tr_listeners t)\<rparr>)
                (mw_tracked m)\<rparr>)"

subsection \<open>Facts about the registry\<close>

lemma series_of_set: "series_of n (metric_set m ls v r) =
    (if n = m then js_set ls v (series_of m r) else series_of n r)"
  by (simp add: series_of_def metric_set_def)

lemma series_of_reset: "series_of n (metric_reset m r) = (if n = m then [] else series_of n r)"
  by (simp add: series_of_def metric_reset_def)

lemma series_of_observe [simp]: "series_of n (metric_observe m ls v r) = series_of n r"
  by (simp add: series_of_def metric_observe_def)

lemma value_set [simp]: "metric_value n ls' (metric_set m ls v r) =
    (if n = m \<and> ls' = ls then Some v else metric_value n ls' r)"
  by (simp add: metric_value_def series_of_set object_lookup)

lemma value_reset [simp]: "metric_value n ls (metric_reset m r) = (if n = m then None else metric_value n ls r)"
  by (simp add: metric_value_def series_of_reset)

lemma value_inc [simp]: "metric_value n ls' (metric_inc m ls v r) =
    (if n = m \<and> ls' = ls then Some (nullish (metric_value m ls r) 0 + v) else metric_value n ls' r)"
  by (simp add: metric_inc_def)

lemma value_observe [simp]: "metric_value n ls (metric_observe m ls' v r) = metric_value n ls r"
  by (simp add: metric_value_def)

text \<open>The sum of the series of a metric: for a counter, how much it was incremented in all.\<close>

definition metric_total :: "string \<Rightarrow> registry \<Rightarrow> rat" where
  "metric_total name r = sum_list (map snd (series_of name r))"

lemma sum_js_set: "sum_list (map snd (js_set k (nullish (map_of ps k) 0 + v) ps)) = sum_list (map snd ps) + (v :: rat)"
  by (induction ps) auto

lemma total_inc: "metric_total n (metric_inc m ls v r) = metric_total n r + (if n = m then v else 0)"
  by (simp add: metric_total_def metric_inc_def metric_value_def series_of_set sum_js_set)

lemma total_set_other: "n \<noteq> m \<Longrightarrow> metric_total n (metric_set m ls v r) = metric_total n r"
  by (simp add: metric_total_def series_of_set)

lemma histograms_unchanged [simp]:
  "mr_histograms (metric_set m ls v r) = mr_histograms r" "mr_histograms (metric_reset m r) = mr_histograms r"
  "mr_histograms (metric_inc m ls v r) = mr_histograms r"
  by (simp_all add: metric_set_def metric_reset_def metric_inc_def)

lemma set_depths_other: "n \<noteq> QUEUE_DEPTH_GAUGE \<Longrightarrow> series_of n (set_depths q rs r) = series_of n r"
  by (induction q rs r rule: set_depths.induct) (auto simp: series_of_set)

lemma set_depths_histograms [simp]: "mr_histograms (set_depths q rs r) = mr_histograms r"
  by (induction q rs r rule: set_depths.induct) auto

lemma depth_labels_eq [simp]: "depth_labels q st = depth_labels q' st' \<longleftrightarrow> q = q' \<and> st = st'"
  by (auto simp: depth_labels_def split: queue_state.splits)

lemma set_depths_value: "metric_value QUEUE_DEPTH_GAUGE (depth_labels q st) (set_depths q' rs r) =
    (if q = q' then (case map_of (rev rs) st of Some d \<Rightarrow> Some (of_nat d)
       | None \<Rightarrow> metric_value QUEUE_DEPTH_GAUGE (depth_labels q st) r)
     else metric_value QUEUE_DEPTH_GAUGE (depth_labels q st) r)"
  by (induction q' rs r rule: set_depths.induct) (auto simp: map_add_def split: option.splits)

subsection \<open>Facts about a scrape\<close>

lemma refreshOne_keeps [simp]:
  "ms_collectors (refreshOne w c s) = ms_collectors s" "ms_sources (refreshOne w c s) = ms_sources s"
  "mr_histograms (ms_registry (refreshOne w c s)) = mr_histograms (ms_registry s)"
  by (simp_all add: refreshOne_def split: sum.splits)

lemma refreshOne_other: "n \<noteq> QUEUE_DEPTH_GAUGE \<Longrightarrow>
    series_of n (ms_registry (refreshOne w c s)) = series_of n (ms_registry s)"
  by (simp add: refreshOne_def set_depths_other split: sum.splits)

definition reported :: "'w \<Rightarrow> 'w queue_depth_collector \<Rightarrow> queue_state \<Rightarrow> rat option" where
  "reported w c st = (case qc_collect c w of Inl _ \<Rightarrow> None | Inr rs \<Rightarrow> map_option of_nat (map_of (rev rs) st))"

lemma refreshOne_value: "metric_value QUEUE_DEPTH_GAUGE (depth_labels q st) (ms_registry (refreshOne w c s)) =
    (if q = qc_queue c \<and> reported w c st \<noteq> None then reported w c st
     else metric_value QUEUE_DEPTH_GAUGE (depth_labels q st) (ms_registry s))"
  by (simp add: refreshOne_def set_depths_value reported_def split: sum.splits option.splits)

definition depth_failures :: "'w \<Rightarrow> 'w queue_depth_collector list \<Rightarrow> metrics_warning list" where
  "depth_failures w cs = concat (map (\<lambda>c. case qc_collect c w of
     Inl error \<Rightarrow> [DepthFailed (qc_queue c) (error_message_or ''unknown failure'' error)] | Inr _ \<Rightarrow> []) cs)"

lemma refresh_all_keeps:
  "ms_collectors (foldl (\<lambda>s c. refreshOne w c s) s cs) = ms_collectors s \<and>
   ms_sources (foldl (\<lambda>s c. refreshOne w c s) s cs) = ms_sources s \<and>
   mr_histograms (ms_registry (foldl (\<lambda>s c. refreshOne w c s) s cs)) = mr_histograms (ms_registry s) \<and>
   ms_warnings (foldl (\<lambda>s c. refreshOne w c s) s cs) = ms_warnings s @ depth_failures w cs"
  by (induction cs arbitrary: s) (auto simp: depth_failures_def refreshOne_def split: sum.split)

lemma refresh_all_other: "n \<noteq> QUEUE_DEPTH_GAUGE \<Longrightarrow>
    series_of n (ms_registry (foldl (\<lambda>s c. refreshOne w c s) s cs)) = series_of n (ms_registry s)"
  by (induction cs arbitrary: s) (auto simp: refreshOne_other)

lemma refresh_all_absent: "q \<notin> qc_queue ` set cs \<Longrightarrow>
    metric_value QUEUE_DEPTH_GAUGE (depth_labels q st) (ms_registry (foldl (\<lambda>s c. refreshOne w c s) s cs)) =
    metric_value QUEUE_DEPTH_GAUGE (depth_labels q st) (ms_registry s)"
  by (induction cs arbitrary: s) (auto simp: refreshOne_value)

lemma refresh_all_value:
  assumes "distinct (map qc_queue cs)" and "c \<in> set cs"
    and "metric_value QUEUE_DEPTH_GAUGE (depth_labels (qc_queue c) st) (ms_registry s) = None"
  shows "metric_value QUEUE_DEPTH_GAUGE (depth_labels (qc_queue c) st)
      (ms_registry (foldl (\<lambda>s c. refreshOne w c s) s cs)) = reported w c st"
  using assms
proof (induction cs arbitrary: s)
  case (Cons d cs)
  show ?case
  proof (cases "c = d")
    case True
    then have "qc_queue c \<notin> qc_queue ` set cs" using Cons.prems(1) by simp
    then show ?thesis using True Cons.prems(3) by (simp add: refresh_all_absent refreshOne_value)
  next
    case False
    then have "c \<in> set cs" using Cons.prems(2) by simp
    moreover have "qc_queue d \<notin> qc_queue ` set cs" using Cons.prems(1) by simp
    ultimately have "c \<in> set cs" and "qc_queue c \<noteq> qc_queue d" by (blast, metis imageI)
    then show ?thesis using False Cons by (simp add: refreshOne_value)
  qed
qed simp

lemma refreshQueueDepth_value:
  assumes "distinct (map qc_queue (ms_collectors s))" and "c \<in> set (ms_collectors s)"
  shows "metric_value QUEUE_DEPTH_GAUGE (depth_labels (qc_queue c) st) (ms_registry (refreshQueueDepth w s)) =
     reported w c st"
  unfolding refreshQueueDepth_def by (rule refresh_all_value [OF assms]) (simp add: reset_depths_def)

lemma refreshQueueDepth_other: "n \<noteq> QUEUE_DEPTH_GAUGE \<Longrightarrow>
    series_of n (ms_registry (refreshQueueDepth w s)) = series_of n (ms_registry s)"
  by (simp add: refreshQueueDepth_def refresh_all_other reset_depths_def series_of_reset)

lemma refreshQueueDepth_keeps [simp]:
  "ms_sources (refreshQueueDepth w s) = ms_sources s"
  "ms_collectors (refreshQueueDepth w s) = ms_collectors s"
  "mr_histograms (ms_registry (refreshQueueDepth w s)) = mr_histograms (ms_registry s)"
  "ms_warnings (refreshQueueDepth w s) = ms_warnings s @ depth_failures w (ms_collectors s)"
  by (simp_all add: refreshQueueDepth_def refresh_all_keeps reset_depths_def)

text \<open>A source that writes its own metrics only: none of the names in \<open>ns\<close>, and no histogram.\<close>

definition writes_none_of :: "string list \<Rightarrow> 'w metric_source \<Rightarrow> bool" where
  "writes_none_of ns c \<longleftrightarrow> (\<forall>w r. (\<forall>n \<in> set ns. series_of n (snd (mc_refresh c w r)) = series_of n r) \<and>
     mr_histograms (snd (mc_refresh c w r)) = mr_histograms r)"

lemma refreshSource_keeps:
  assumes "writes_none_of ns c"
  shows "(n \<in> set ns \<longrightarrow> series_of n (ms_registry (refreshSource w c s)) = series_of n (ms_registry s)) \<and>
     mr_histograms (ms_registry (refreshSource w c s)) = mr_histograms (ms_registry s) \<and>
     ms_sources (refreshSource w c s) = ms_sources s \<and> ms_collectors (refreshSource w c s) = ms_collectors s"
proof -
  obtain res r where r: "mc_refresh c w (ms_registry s) = (res, r)" using prod.exhaust by blast
  then have "(\<forall>n \<in> set ns. series_of n r = series_of n (ms_registry s)) \<and>
      mr_histograms r = mr_histograms (ms_registry s)"
    using assms unfolding writes_none_of_def by (metis snd_conv)
  then show ?thesis using r by (simp add: refreshSource_def Let_def split: sum.split)
qed

lemma refreshSources_keeps:
  assumes "list_all (writes_none_of ns) (ms_sources s)"
  shows "(n \<in> set ns \<longrightarrow> series_of n (ms_registry (refreshSources w s)) = series_of n (ms_registry s)) \<and>
     mr_histograms (ms_registry (refreshSources w s)) = mr_histograms (ms_registry s) \<and>
     ms_sources (refreshSources w s) = ms_sources s \<and> ms_collectors (refreshSources w s) = ms_collectors s"
proof -
  have "list_all (writes_none_of ns) cs \<Longrightarrow>
     (n \<in> set ns \<longrightarrow> series_of n (ms_registry (foldl (\<lambda>s c. refreshSource w c s) s cs)) = series_of n (ms_registry s)) \<and>
     mr_histograms (ms_registry (foldl (\<lambda>s c. refreshSource w c s) s cs)) = mr_histograms (ms_registry s) \<and>
     ms_sources (foldl (\<lambda>s c. refreshSource w c s) s cs) = ms_sources s \<and>
     ms_collectors (foldl (\<lambda>s c. refreshSource w c s) s cs) = ms_collectors s" for cs
    by (induction cs arbitrary: s) (auto simp: refreshSource_keeps)
  then show ?thesis using assms by (simp add: refreshSources_def)
qed

lemma pool_source_writes: "DATABASE_POOL_GAUGE \<notin> set ns \<Longrightarrow> writes_none_of ns DatabasePoolMetricSource"
  by (auto simp: writes_none_of_def DatabasePoolMetricSource_def pool_refresh_def series_of_set series_of_reset
      split: option.split)

subsection \<open>The collector as an interface\<close>

text \<open>
  What a scrape asks of a collector: every state is reported, each once.  Then no state of the
  queue is missing from a scrape, not even an empty one, and what is rendered is what it counted.
\<close>

locale queue_depth_reader =
  fixes read_depths :: "'t \<Rightarrow> (queue_state \<times> nat) list"
  assumes reports_states: "map fst (read_depths t) = [Pending, In_flight, Dead_lettered]"
begin

lemma reads_distinct: "distinct (map fst (read_depths t))"
  by (simp add: reports_states)

lemma reads_every_state: "map_of (rev (read_depths t)) st = map_of (read_depths t) st \<and> map_of (read_depths t) st \<noteq> None"
proof -
  have "map_of (rev (read_depths t)) = map_of (read_depths t)"
    by (rule map_of_inject_set [THEN iffD2]) (simp_all add: rev_map [symmetric] reads_distinct)
  moreover have "st \<in> set (map fst (read_depths t))"
    unfolding reports_states by (cases st) auto
  ultimately show ?thesis by (auto simp: map_of_eq_None_iff)
qed

lemma reported_reader:
  "reported w \<lparr>qc_queue = q, qc_collect = (\<lambda>w. Inr (read_depths (part w)))\<rparr> st =
     Some (of_nat (the (map_of (read_depths (part w)) st)))"
  using reads_every_state [of "part w" st] by (auto simp: reported_def)

end

interpretation outbox_depth: queue_depth_reader collect
  by unfold_locales (simp add: collect_def Let_def)

definition outbox_collector :: "string \<Rightarrow> ('w \<Rightarrow> outbox_table) \<Rightarrow> 'w queue_depth_collector" where
  "outbox_collector queue table = \<lparr>qc_queue = queue, qc_collect = (\<lambda>w. Inr (collect (table w)))\<rparr>"

fun status_of_state :: "queue_state \<Rightarrow> outbox_event_status" where
  "status_of_state Pending = PENDING"
| "status_of_state In_flight = PROCESSING"
| "status_of_state Dead_lettered = DEAD_LETTER"

lemma reported_outbox:
  "reported w (outbox_collector q table) st = Some (of_nat (status_count (status_of_state st) (table w)))"
  unfolding outbox_collector_def outbox_depth.reported_reader
  by (cases st) (simp_all add: collect_def Let_def depth_lookup)

subsection \<open>Interleavings of requests and scrapes\<close>

text \<open>
  A step is a request arriving, a response emitting one of its two events, or a scrape.  A request
  handle is used once.
\<close>

inductive middleware_step :: "'w middleware \<Rightarrow> 'w middleware \<Rightarrow> bool" where
  arrives: "i \<notin> fst ` set (mw_tracked m) \<Longrightarrow> middleware_step m (HttpMetricsMiddleware_use i req now m)"
| emits: "middleware_step m (response_emits i ev req statusCode now m)"
| scrapes: "middleware_step m (m\<lparr>mw_service := snd (render w (mw_service m))\<rparr>)"

inductive_cases middleware_stepE: "middleware_step m m'"

definition http_metrics :: "string list" where
  "http_metrics = [HTTP_REQUESTS_TOTAL, HTTP_REQUESTS_IN_FLIGHT]"

text \<open>
  The invariant: the gauge is the number of requests begun and not recorded, the counter and the
  histogram have one observation per recorded request.
\<close>

definition open_requests :: "'w middleware \<Rightarrow> nat" where
  "open_requests m = length (filter (\<lambda>(_, t). \<not> tr_recorded t) (mw_tracked m))"

definition recorded_requests :: "'w middleware \<Rightarrow> nat" where
  "recorded_requests m = length (filter (\<lambda>(_, t). tr_recorded t) (mw_tracked m))"

definition middleware_ok :: "'w middleware \<Rightarrow> bool" where
  "middleware_ok m = (let r = ms_registry (mw_service m) in
     distinct (map fst (mw_tracked m)) \<and>
     list_all (writes_none_of http_metrics) (ms_sources (mw_service m)) \<and>
     metric_value HTTP_REQUESTS_IN_FLIGHT [] r = Some (of_nat (open_requests m)) \<and>
     metric_total HTTP_REQUESTS_TOTAL r = of_nat (recorded_requests m) \<and>
     length (nullish (mr_histograms r HTTP_REQUEST_DURATION_SECONDS) []) = recorded_requests m)"

lemma http_metric_names [simp]:
  "HTTP_REQUESTS_TOTAL \<noteq> HTTP_REQUESTS_IN_FLIGHT" "HTTP_REQUESTS_IN_FLIGHT \<noteq> HTTP_REQUESTS_TOTAL"
  "HTTP_REQUESTS_TOTAL \<noteq> QUEUE_DEPTH_GAUGE" "HTTP_REQUESTS_IN_FLIGHT \<noteq> QUEUE_DEPTH_GAUGE"
  "QUEUE_DEPTH_GAUGE \<noteq> HTTP_REQUESTS_TOTAL" "QUEUE_DEPTH_GAUGE \<noteq> HTTP_REQUESTS_IN_FLIGHT"
  "DATABASE_POOL_GAUGE \<noteq> QUEUE_DEPTH_GAUGE" "DATABASE_POOL_GAUGE \<notin> set http_metrics"
  "RETENTION_SWEEP_LAST_SUCCESS_GAUGE \<noteq> RETENTION_SWEEP_ROWS_TOTAL"
  "RETENTION_SWEEP_ROWS_TOTAL \<noteq> RETENTION_SWEEP_LAST_SUCCESS_GAUGE"
  by (simp_all add: metric_names http_metrics_def)

lemma render_http:
  assumes "list_all (writes_none_of http_metrics) (ms_sources s)"
  shows "(n \<in> set http_metrics \<longrightarrow> series_of n (fst (render w s)) = series_of n (ms_registry s)) \<and>
    mr_histograms (fst (render w s)) = mr_histograms (ms_registry s) \<and>
    ms_registry (snd (render w s)) = fst (render w s) \<and> ms_sources (snd (render w s)) = ms_sources s"
proof -
  have "n \<noteq> QUEUE_DEPTH_GAUGE" if "n \<in> set http_metrics" for n
    using that by (auto simp: http_metrics_def)
  then show ?thesis
    using refreshSources_keeps [of http_metrics "refreshQueueDepth w s" n w] assms
    by (auto simp: render_def Let_def refreshQueueDepth_other)
qed

lemma map_of_split:
  "map_of ps i = Some t \<Longrightarrow> \<exists>as bs. ps = as @ (i, t) # bs \<and> js_set i t' ps = as @ (i, t') # bs"
proof (induction ps)
  case (Cons p ps)
  then show ?case
  proof (cases "fst p = i")
    case True
    then show ?thesis using Cons.prems by (cases p) (auto intro: exI [of _ "[]"])
  next
    case False
    then obtain as bs where "ps = as @ (i, t) # bs" "js_set i t' ps = as @ (i, t') # bs"
      using Cons by (cases p) auto
    then show ?thesis using False
      by (cases p) (rule exI [of _ "p # as"], rule exI [of _ bs], simp)
  qed
qed simp

lemma fst_js_set: "map_of ps i = Some t \<Longrightarrow> map fst (js_set i t' ps) = map fst ps"
  using map_of_split [of ps i t t'] by auto

lemma use_ok:
  assumes "middleware_ok m" and "i \<notin> fst ` set (mw_tracked m)"
  shows "middleware_ok (HttpMetricsMiddleware_use i req now m)"
  using assms unfolding middleware_ok_def Let_def
  by (auto simp: HttpMetricsMiddleware_use_def trackRequestStarted_def open_requests_def recorded_requests_def
      total_inc)

lemma middleware_record_metrics:
  assumes "\<not> tr_recorded t"
  shows "metric_value HTTP_REQUESTS_IN_FLIGHT [] (ms_registry (middleware_record req st now t s)) =
      Some (nullish (metric_value HTTP_REQUESTS_IN_FLIGHT [] (ms_registry s)) 0 - 1)"
    and "metric_total HTTP_REQUESTS_TOTAL (ms_registry (middleware_record req st now t s)) =
      metric_total HTTP_REQUESTS_TOTAL (ms_registry s) + 1"
    and "length (nullish (mr_histograms (ms_registry (middleware_record req st now t s)) HTTP_REQUEST_DURATION_SECONDS) []) =
      Suc (length (nullish (mr_histograms (ms_registry s) HTTP_REQUEST_DURATION_SECONDS) []))"
    and "ms_sources (middleware_record req st now t s) = ms_sources s"
  using assms
  by (simp_all add: middleware_record_def observeHttpRequest_def trackRequestFinished_def Let_def
      metric_total_def total_inc [unfolded metric_total_def])
    (simp add: metric_observe_def)

lemma emits_ok:
  assumes "middleware_ok m"
  shows "middleware_ok (response_emits i ev req statusCode now m)"
proof (cases "map_of (mw_tracked m) i")
  case None
  then show ?thesis using assms by (simp add: response_emits_def)
next
  case (Some t)
  define t' where "t' = t\<lparr>tr_recorded := True, tr_listeners := removeAll ev (tr_listeners t)\<rparr>"
  define m' where "m' = m\<lparr>mw_service := middleware_record req statusCode now t (mw_service m),
    mw_tracked := js_set i t' (mw_tracked m)\<rparr>"
  have m': "response_emits i ev req statusCode now m = (if ev \<in> set (tr_listeners t) then m' else m)"
    using Some by (simp add: response_emits_def m'_def t'_def)
  obtain as bs where ab: "mw_tracked m = as @ (i, t) # bs" "js_set i t' (mw_tracked m) = as @ (i, t') # bs"
    using map_of_split [OF Some] by blast
  have keys: "map fst (mw_tracked m') = map fst (mw_tracked m)"
    by (simp add: m'_def fst_js_set [OF Some])
  have counts: "open_requests m = open_requests m' + (if tr_recorded t then 0 else 1)"
    "recorded_requests m' = recorded_requests m + (if tr_recorded t then 0 else 1)"
    by (simp_all add: open_requests_def recorded_requests_def m'_def ab(2)) (simp_all add: ab(1) t'_def)
  have "middleware_ok m'"
  proof (cases "tr_recorded t")
    case True
    then have "mw_service m' = mw_service m" by (simp add: m'_def middleware_record_def)
    then show ?thesis using assms True keys counts by (simp add: middleware_ok_def)
  next
    case False
    have "mw_service m' = middleware_record req statusCode now t (mw_service m)" by (simp add: m'_def)
    then show ?thesis using assms False keys counts
      by (simp add: middleware_ok_def Let_def middleware_record_metrics)
  qed
  then show ?thesis using assms by (simp add: m')
qed

lemma scrape_ok:
  assumes "middleware_ok m"
  shows "middleware_ok (m\<lparr>mw_service := snd (render w (mw_service m))\<rparr>)"
proof -
  have src: "list_all (writes_none_of http_metrics) (ms_sources (mw_service m))"
    using assms by (simp add: middleware_ok_def Let_def)
  have "series_of n (fst (render w (mw_service m))) = series_of n (ms_registry (mw_service m))"
    if "n \<in> set http_metrics" for n
    using render_http [OF src] that by blast
  then have "metric_value HTTP_REQUESTS_IN_FLIGHT [] (fst (render w (mw_service m))) =
      metric_value HTTP_REQUESTS_IN_FLIGHT [] (ms_registry (mw_service m))"
    and "metric_total HTTP_REQUESTS_TOTAL (fst (render w (mw_service m))) =
      metric_total HTTP_REQUESTS_TOTAL (ms_registry (mw_service m))"
    by (simp_all add: metric_value_def metric_total_def http_metrics_def)
  then show ?thesis
    using assms render_http [OF src, of _ w] src
    by (simp add: middleware_ok_def Let_def open_requests_def recorded_requests_def)
qed

lemma middleware_reachable_ok:
  "middleware_step\<^sup>*\<^sup>* m m' \<Longrightarrow> middleware_ok m \<Longrightarrow> middleware_ok m'"
  by (induction rule: rtranclp_induct) (auto elim!: middleware_stepE simp: use_ok emits_ok scrape_ok)

lemma middleware_start_ok:
  "list_all (writes_none_of http_metrics) srcs \<Longrightarrow>
   middleware_ok (HttpMetricsMiddleware_new options
     ((MetricsService_new options)\<lparr>ms_collectors := cs, ms_sources := srcs\<rparr>))"
  by (simp add: middleware_ok_def HttpMetricsMiddleware_new_def MetricsService_new_def open_requests_def
      recorded_requests_def metric_value_def metric_total_def series_of_def metric_names)

subsection \<open>Properties of the metrics\<close>

text \<open>
  C34: one queue failing never fails a scrape nor fakes its depth.  A scrape with any collectors of
  distinct queues renders, for each of them, the depths it returned, and no series at all for one
  that threw, whatever the gauge held before; each failure is one warning.
\<close>

theorem scrape_isolates_failures:
  assumes "distinct (map qc_queue (ms_collectors s))" and "c \<in> set (ms_collectors s)"
    and "list_all (writes_none_of [QUEUE_DEPTH_GAUGE]) (ms_sources s)"
  shows "metric_value QUEUE_DEPTH_GAUGE (depth_labels (qc_queue c) st) (fst (render w s)) =
      (case qc_collect c w of Inl _ \<Rightarrow> None | Inr readings \<Rightarrow> map_option of_nat (map_of (rev readings) st)) \<and>
    ms_warnings (refreshQueueDepth w s) = ms_warnings s @ depth_failures w (ms_collectors s)"
proof -
  have "series_of QUEUE_DEPTH_GAUGE (fst (render w s)) =
      series_of QUEUE_DEPTH_GAUGE (ms_registry (refreshQueueDepth w s))"
    using refreshSources_keeps [of "[QUEUE_DEPTH_GAUGE]" "refreshQueueDepth w s" QUEUE_DEPTH_GAUGE w] assms(3)
    by (simp add: render_def Let_def)
  then show ?thesis
    using refreshQueueDepth_value [OF assms(1,2), of st w] by (simp add: metric_value_def reported_def)
qed

definition broken_collector :: "string \<Rightarrow> 'w queue_depth_collector" where
  "broken_collector queue = \<lparr>qc_queue = queue, qc_collect = (\<lambda>_. Inl (ThrowValue JUndefined))\<rparr>"

lemma scrape_isolates_failures_witness:
  "metric_value QUEUE_DEPTH_GAUGE (depth_labels ''b'' Pending)
     (fst (render () ((MetricsService_new \<lparr>mo_serviceName = ''s'', mo_defaultLabels = None,
        mo_collectDefaultMetrics = None, mo_ignoredRoutes = None\<rparr>)
      \<lparr>ms_collectors := [broken_collector ''a'', outbox_collector ''b'' (\<lambda>_. [pending_row ''x'' 3])]\<rparr>))) = Some 1"
proof -
  let ?s = "(MetricsService_new \<lparr>mo_serviceName = ''s'', mo_defaultLabels = None,
      mo_collectDefaultMetrics = None, mo_ignoredRoutes = None\<rparr>)
    \<lparr>ms_collectors := [broken_collector ''a'', outbox_collector ''b'' (\<lambda>_ :: unit. [pending_row ''x'' 3])]\<rparr>"
  have d: "distinct (map qc_queue (ms_collectors ?s))" by (simp add: broken_collector_def outbox_collector_def)
  have c: "outbox_collector ''b'' (\<lambda>_. [pending_row ''x'' 3]) \<in> set (ms_collectors ?s)" by simp
  have k: "list_all (writes_none_of [QUEUE_DEPTH_GAUGE]) (ms_sources ?s)" by (simp add: MetricsService_new_def)
  have q: "qc_queue (outbox_collector ''b'' (\<lambda>_ :: unit. [pending_row ''x'' 3])) = ''b''"
    by (simp add: outbox_collector_def)
  have r: "(case qc_collect (outbox_collector ''b'' (\<lambda>_ :: unit. [pending_row ''x'' 3])) () of
      Inl _ \<Rightarrow> None | Inr readings \<Rightarrow> map_option of_nat (map_of (rev readings) Pending)) = Some (1 :: rat)"
    by (simp add: outbox_collector_def collect_def depth_rows_def status_count_def)
  show ?thesis
    using scrape_isolates_failures [OF d c k, of Pending "()", THEN conjunct1] unfolding q r .
qed

text \<open>
  What a scrape reports of an outbox is the outbox as it is at the scrape, independent of the
  processor: for each of the three states a series, zero included, whose value is the number of
  live rows of the state's status.
\<close>

theorem scrape_reports_outbox_depth:
  assumes "distinct (map qc_queue (ms_collectors s))" and "outbox_collector queue table \<in> set (ms_collectors s)"
    and "list_all (writes_none_of [QUEUE_DEPTH_GAUGE]) (ms_sources s)"
  shows "metric_value QUEUE_DEPTH_GAUGE (depth_labels queue st) (fst (render w s)) =
    Some (of_nat (status_count (status_of_state st) (table w)))"
proof -
  have "series_of QUEUE_DEPTH_GAUGE (fst (render w s)) =
      series_of QUEUE_DEPTH_GAUGE (ms_registry (refreshQueueDepth w s))"
    using refreshSources_keeps [of "[QUEUE_DEPTH_GAUGE]" "refreshQueueDepth w s" QUEUE_DEPTH_GAUGE w] assms(3)
    by (simp add: render_def Let_def)
  moreover have "qc_queue (outbox_collector queue table) = queue" by (simp add: outbox_collector_def)
  ultimately show ?thesis
    using refreshQueueDepth_value [OF assms(1,2), of st w] by (simp add: metric_value_def reported_outbox)
qed

lemma scrape_reports_outbox_depth_witness:
  "metric_value QUEUE_DEPTH_GAUGE (depth_labels ''o'' Dead_lettered)
     (fst (render JUndefined ((MetricsService_new \<lparr>mo_serviceName = ''s'', mo_defaultLabels = None,
        mo_collectDefaultMetrics = None, mo_ignoredRoutes = None\<rparr>)
      \<lparr>ms_collectors := [outbox_collector ''o'' (\<lambda>_. [pending_row ''x'' 3])],
       ms_sources := [DatabasePoolMetricSource]\<rparr>))) = Some 0"
proof -
  let ?s = "(MetricsService_new \<lparr>mo_serviceName = ''s'', mo_defaultLabels = None,
      mo_collectDefaultMetrics = None, mo_ignoredRoutes = None\<rparr>)
    \<lparr>ms_collectors := [outbox_collector ''o'' (\<lambda>_ :: js. [pending_row ''x'' 3])],
     ms_sources := [DatabasePoolMetricSource]\<rparr>"
  have "status_count DEAD_LETTER [pending_row ''x'' 3] = 0" by (simp add: status_count_def)
  then show ?thesis
    using scrape_reports_outbox_depth [of ?s "''o''" "\<lambda>_. [pending_row ''x'' 3]" Dead_lettered JUndefined]
    by (simp add: pool_source_writes)
qed

text \<open>
  C23: every tracked request is counted once, whatever the order of its events and of scrapes.  At
  any time the in-flight gauge is the number of requests begun whose response has neither finished
  nor closed, and the request counter and the duration histogram have exactly one observation for
  each of the others, though both events fire; a request on an ignored route is not counted.
\<close>

theorem each_request_counted_once:
  assumes "list_all (writes_none_of http_metrics) srcs"
    and "middleware_step\<^sup>*\<^sup>* (HttpMetricsMiddleware_new options
      ((MetricsService_new options)\<lparr>ms_collectors := cs, ms_sources := srcs\<rparr>)) m"
  shows "metric_value HTTP_REQUESTS_IN_FLIGHT [] (ms_registry (mw_service m)) = Some (of_nat (open_requests m)) \<and>
    metric_total HTTP_REQUESTS_TOTAL (ms_registry (mw_service m)) = of_nat (recorded_requests m) \<and>
    length (nullish (mr_histograms (ms_registry (mw_service m)) HTTP_REQUEST_DURATION_SECONDS) []) =
      recorded_requests m \<and>
    open_requests m + recorded_requests m = length (mw_tracked m) \<and>
    (\<not> isInfrastructureRoute (readPath req) (mw_ignored m) \<or> HttpMetricsMiddleware_use i req now m = m)"
proof -
  have "middleware_ok m"
    using middleware_reachable_ok [OF assms(2)] middleware_start_ok [OF assms(1)] by blast
  moreover have "length (filter (\<lambda>(_, t). tr_recorded t) ts) + length (filter (\<lambda>(_, t). \<not> tr_recorded t) ts) =
      length ts" for ts :: "(nat \<times> tracked) list"
    by (induction ts) auto
  ultimately show ?thesis
    by (auto simp: middleware_ok_def Let_def open_requests_def recorded_requests_def
        HttpMetricsMiddleware_use_def add.commute)
qed

definition sample_request :: request where
  "sample_request = \<lparr>req_headers = Map.empty, req_method = ''GET'', req_path = ''/'', req_baseUrl = '''',
     req_originalUrl = ''/api?x=1'', req_url = ''/'', req_route = JUndefined, req_context = None\<rparr>"

definition sample_middleware :: "js middleware" where
  "sample_middleware = HttpMetricsMiddleware_new
     \<lparr>mo_serviceName = ''s'', mo_defaultLabels = None, mo_collectDefaultMetrics = None, mo_ignoredRoutes = None\<rparr>
     ((MetricsService_new \<lparr>mo_serviceName = ''s'', mo_defaultLabels = None, mo_collectDefaultMetrics = None,
        mo_ignoredRoutes = None\<rparr>)\<lparr>ms_collectors := [], ms_sources := [DatabasePoolMetricSource]\<rparr>)"

lemma each_request_counted_once_witness:
  "metric_total HTTP_REQUESTS_TOTAL (ms_registry (mw_service
     (response_emits 1 Close sample_request 200 9 (response_emits 1 Finish sample_request 200 8
       (HttpMetricsMiddleware_use 1 sample_request 5 sample_middleware))))) = 1"
proof -
  let ?m1 = "HttpMetricsMiddleware_use 1 sample_request 5 sample_middleware"
  let ?m3 = "response_emits 1 Close sample_request 200 9 (response_emits 1 Finish sample_request 200 8 ?m1)"
  have srcs: "list_all (writes_none_of http_metrics) [DatabasePoolMetricSource]"
    by (simp add: pool_source_writes)
  have "middleware_step sample_middleware ?m1"
    by (rule arrives) (simp add: sample_middleware_def HttpMetricsMiddleware_new_def)
  then have reach: "middleware_step\<^sup>*\<^sup>* sample_middleware ?m3"
    by (meson emits converse_rtranclp_into_rtranclp rtranclp.rtrancl_refl)
  have "recorded_requests ?m3 = 1"
    by (simp add: recorded_requests_def response_emits_def HttpMetricsMiddleware_use_def sample_middleware_def
        HttpMetricsMiddleware_new_def sample_request_def readPath_def isInfrastructureRoute_def
        DEFAULT_IGNORED_METRICS_ROUTES_def INFRASTRUCTURE_ROUTE_PREFIXES_def starts_with_def)
  then show ?thesis
    using each_request_counted_once [OF srcs reach [unfolded sample_middleware_def]]
    by (simp add: sample_middleware_def)
qed

text \<open>
  A sweep's gauge is the time of its last success, seeded at registration, and its counter the
  rows it expired.  Registering sets the gauge to the clock in seconds and a counter that exists
  from then on; a success moves the gauge and adds its rows, none leaving the counter as it is;
  other sweeps are untouched.
\<close>

theorem sweep_metrics_rule:
  "(let key = [(RETENTION_SWEEP_LABEL, JStr sweep)]; other = [(RETENTION_SWEEP_LABEL, JStr sweep')];
        r1 = sweep_register t0 sweep r; r2 = sweep_recordSuccess t1 sweep rows r1 in
     metric_value RETENTION_SWEEP_LAST_SUCCESS_GAUGE key r1 = Some (t0 / 1000) \<and>
     metric_value RETENTION_SWEEP_ROWS_TOTAL key r1 =
       Some (nullish (metric_value RETENTION_SWEEP_ROWS_TOTAL key r) 0) \<and>
     metric_value RETENTION_SWEEP_LAST_SUCCESS_GAUGE key r2 = Some (t1 / 1000) \<and>
     metric_value RETENTION_SWEEP_ROWS_TOTAL key r2 =
       Some (nullish (metric_value RETENTION_SWEEP_ROWS_TOTAL key r) 0 + max rows 0) \<and>
     (sweep' = sweep \<or>
      metric_value RETENTION_SWEEP_LAST_SUCCESS_GAUGE other r2 = metric_value RETENTION_SWEEP_LAST_SUCCESS_GAUGE other r \<and>
      metric_value RETENTION_SWEEP_ROWS_TOTAL other r2 = metric_value RETENTION_SWEEP_ROWS_TOTAL other r))"
  by (simp add: sweep_register_def sweep_recordSuccess_def Let_def)

text \<open>
  The pool gauge tells what the pool holds, or nothing.  When the driver shows its three
  counts the gauge has four series, the two of connections held adding up to the total; when any
  is missing or not a number every series of the gauge is dropped, rather than kept or zeroed.
\<close>

theorem pool_gauge_rule:
  "(case readPoolCounts driver of
      None \<Rightarrow> series_of DATABASE_POOL_GAUGE (pool_refresh driver r) = []
    | Some (n_total, n_idle, n_waiting) \<Rightarrow>
        map (\<lambda>state. metric_value DATABASE_POOL_GAUGE [(''state'', JStr state)] (pool_refresh driver r))
          [''total'', ''idle'', ''in_use'', ''waiting''] =
        [Some n_total, Some n_idle, Some (n_total - n_idle), Some n_waiting])"
  by (simp add: pool_refresh_def series_of_reset split: option.split)

text \<open>
  A source that throws before writing keeps every series it had: the registry a scrape renders is
  the one the queue depths leave.
\<close>

lemma failing_source_keeps_series:
  "fst (render w (s\<lparr>ms_sources := [\<lparr>mc_name = name, mc_refresh = (\<lambda>_ r. (Inl e, r))\<rparr>]\<rparr>)) =
     ms_registry (refreshQueueDepth w s)"
proof -
  have one: "refreshOne w c (s'\<lparr>ms_sources := srcs\<rparr>) = (refreshOne w c s')\<lparr>ms_sources := srcs\<rparr>" for c s' srcs
    by (simp add: refreshOne_def split: sum.split)
  have "ms_registry (refreshQueueDepth w (s\<lparr>ms_sources := srcs\<rparr>)) = ms_registry (refreshQueueDepth w s)" for srcs
  proof -
    have "foldl (\<lambda>s c. refreshOne w c s) (s'\<lparr>ms_sources := srcs\<rparr>) cs =
        (foldl (\<lambda>s c. refreshOne w c s) s' cs)\<lparr>ms_sources := srcs\<rparr>" for s' cs
      by (induction cs arbitrary: s') (simp_all add: one)
    moreover have "reset_depths (s\<lparr>ms_sources := srcs\<rparr>) = (reset_depths s)\<lparr>ms_sources := srcs\<rparr>"
      by (simp add: reset_depths_def)
    ultimately show ?thesis by (simp add: refreshQueueDepth_def)
  qed
  then show ?thesis by (simp add: render_def refreshSources_def refreshSource_def Let_def)
qed

end
