(* ===== verification/MetricsScope.thy ===== *)
theory MetricsScope
  imports Metrics
begin

section \<open>What the scrape can tell\<close>

text \<open>
  \<^verbatim>\<open>observability/metrics/metrics.service.ts\<close> promises two things of its labels: they are the ones
  the metrics were registered with, which the client checks, and nothing in them is scoped to a tenant, which
  is what makes an unauthenticated scrape acceptable.  Both are shown of every sequence of requests, responses
  and scrapes.
\<close>

subsection \<open>The constants the client is configured with\<close>

definition HTTP_LABEL_NAMES :: "string list" where
  "HTTP_LABEL_NAMES = [''method'', ''route'', ''status_code'']"

definition HTTP_DURATION_BUCKETS_SECONDS :: "rat list" where
  "HTTP_DURATION_BUCKETS_SECONDS =
     [5 / 1000, 1 / 100, 25 / 1000, 5 / 100, 1 / 10, 25 / 100, 5 / 10, 1, 25 / 10, 5, 10]"

datatype request_method = GET_method

definition METRICS_ROUTE_EXCLUSIONS :: "(string \<times> request_method) list" where
  "METRICS_ROUTE_EXCLUSIONS = [(METRICS_ROUTE_PATH, GET_method)]"

text \<open>
  The four metrics as the constructor configures them: name, label names and buckets, in its order.  The help
  texts are prose.
\<close>

record metric_configuration =
  cf_name :: string
  cf_labelNames :: "string list"
  cf_buckets :: "rat list option"

definition service_metrics :: "metric_configuration list" where
  "service_metrics =
     [\<lparr>cf_name = HTTP_REQUESTS_TOTAL, cf_labelNames = HTTP_LABEL_NAMES, cf_buckets = None\<rparr>,
      \<lparr>cf_name = HTTP_REQUEST_DURATION_SECONDS, cf_labelNames = HTTP_LABEL_NAMES,
       cf_buckets = Some HTTP_DURATION_BUCKETS_SECONDS\<rparr>,
      \<lparr>cf_name = HTTP_REQUESTS_IN_FLIGHT, cf_labelNames = [], cf_buckets = None\<rparr>,
      \<lparr>cf_name = QUEUE_DEPTH_GAUGE, cf_labelNames = [''queue'', ''state''], cf_buckets = None\<rparr>]"

subsection \<open>Runs\<close>

datatype 'w traffic =
    Arrives nat request nat
  | Emits nat response_event request nat nat
  | Scraped 'w

fun metrics_event :: "'w traffic \<Rightarrow> 'w middleware \<Rightarrow> 'w middleware" where
  "metrics_event (Arrives i req now) m = HttpMetricsMiddleware_use i req now m"
| "metrics_event (Emits i ev req statusCode now) m = response_emits i ev req statusCode now m"
| "metrics_event (Scraped w) m = m\<lparr>mw_service := snd (render w (mw_service m))\<rparr>"

definition metrics_run :: "'w traffic list \<Rightarrow> 'w middleware \<Rightarrow> 'w middleware" where
  "metrics_run es m = foldl (\<lambda>m e. metrics_event e m) m es"

lemma metrics_run_simps [simp]:
  "metrics_run [] m = m"
  "metrics_run (e # es) m = metrics_run es (metrics_event e m)"
  by (simp_all add: metrics_run_def)

subsection \<open>Declared labels\<close>

text \<open>The series and observations of a metric carry its configured labels, in order.\<close>

definition labelled :: "registry \<Rightarrow> metric_configuration \<Rightarrow> bool" where
  "labelled r c = list_all (\<lambda>(ls, _). map fst ls = cf_labelNames c)
     (series_of (cf_name c) r @ nullish (mr_histograms r (cf_name c)) [])"

definition service_labelled :: "registry \<Rightarrow> bool" where
  "service_labelled r = list_all (labelled r) service_metrics"

text \<open>A source that keeps to metrics of its own.\<close>

definition service_names :: "string list" where
  "service_names = map cf_name service_metrics"

lemma labels_js_set: "list_all (\<lambda>(ls, _). P ls) xs \<Longrightarrow> P k \<Longrightarrow> list_all (\<lambda>(ls, _). P ls) (js_set k v xs)"
  by (induction xs) auto

lemma labelled_set:
  assumes "labelled r c" and "cf_name c \<noteq> n \<or> map fst ls = cf_labelNames c"
  shows "labelled (metric_set n ls v r) c"
proof -
  have "list_all (\<lambda>(ls, _). map fst ls = cf_labelNames c) (series_of (cf_name c) (metric_set n ls v r))"
    using assms labels_js_set [of "\<lambda>ls. map fst ls = cf_labelNames c" "series_of n r" ls v]
    by (auto simp: labelled_def series_of_set)
  then show ?thesis using assms(1) by (simp add: labelled_def)
qed

lemma labelled_inc:
  "labelled r c \<Longrightarrow> cf_name c \<noteq> n \<or> map fst ls = cf_labelNames c \<Longrightarrow> labelled (metric_inc n ls v r) c"
  unfolding metric_inc_def by (rule labelled_set)

lemma labelled_observe:
  assumes "labelled r c" and "cf_name c \<noteq> n \<or> map fst ls = cf_labelNames c"
  shows "labelled (metric_observe n ls v r) c"
  using assms by (cases "cf_name c = n") (simp_all add: labelled_def, simp_all add: metric_observe_def)

lemma labelled_reset: "labelled r c \<Longrightarrow> labelled (metric_reset n r) c"
  by (simp add: labelled_def series_of_reset)

text \<open>Whether a configuration of the service under the name carries these labels.\<close>

definition fits :: "string \<Rightarrow> labels \<Rightarrow> bool" where
  "fits n ls = list_all (\<lambda>c. cf_name c \<noteq> n \<or> map fst ls = cf_labelNames c) service_metrics"

lemma fitting_labels [simp]:
  "fits HTTP_REQUESTS_IN_FLIGHT []"
  "fits QUEUE_DEPTH_GAUGE (depth_labels q st)"
  "fits HTTP_REQUESTS_TOTAL [(''method'', a), (''route'', b), (STATUS_CODE_LABEL, c)]"
  "fits HTTP_REQUEST_DURATION_SECONDS [(''method'', a), (''route'', b), (STATUS_CODE_LABEL, c)]"
  by (simp_all add: fits_def service_metrics_def metric_names QUEUE_DEPTH_GAUGE_def HTTP_LABEL_NAMES_def
      STATUS_CODE_LABEL_def depth_labels_def)

lemma service_labelled_ops:
  assumes "service_labelled r"
  shows "fits n ls \<Longrightarrow> service_labelled (metric_set n ls v r)"
    and "fits n ls \<Longrightarrow> service_labelled (metric_inc n ls v r)"
    and "fits n ls \<Longrightarrow> service_labelled (metric_observe n ls v r)"
    and "service_labelled (metric_reset n r)"
  using assms labelled_set labelled_inc labelled_observe labelled_reset
  by (auto simp: service_labelled_def fits_def list_all_iff)

lemma service_labelled_depths: "service_labelled r \<Longrightarrow> service_labelled (set_depths q rs r)"
  by (induction q rs r rule: set_depths.induct) (simp_all add: service_labelled_ops)

lemma service_labelled_record:
  "service_labelled (ms_registry s) \<Longrightarrow> service_labelled (ms_registry (middleware_record req st now t s))"
  by (simp add: middleware_record_def observeHttpRequest_def trackRequestFinished_def Let_def service_labelled_ops)

lemma service_labelled_sources:
  assumes "list_all (writes_none_of service_names) (ms_sources s)" and "service_labelled (ms_registry s)"
  shows "service_labelled (ms_registry (refreshSources w s))"
  using assms refreshSources_keeps [of service_names s _ w]
  by (auto simp: service_labelled_def labelled_def service_names_def list_all_iff)

lemma service_labelled_refresh_all:
  "service_labelled (ms_registry s) \<Longrightarrow> service_labelled (ms_registry (foldl (\<lambda>s c. refreshOne w c s) s cs))"
  by (induction cs arbitrary: s) (simp_all add: refreshOne_def service_labelled_depths split: sum.split)

lemma service_labelled_render:
  assumes "list_all (writes_none_of service_names) (ms_sources s)" and "service_labelled (ms_registry s)"
  shows "service_labelled (ms_registry (snd (render w s)))"
proof -
  have "service_labelled (ms_registry (refreshQueueDepth w s))"
    using assms(2) by (simp add: refreshQueueDepth_def reset_depths_def service_labelled_refresh_all service_labelled_ops)
  then show ?thesis using assms(1) by (simp add: render_def Let_def service_labelled_sources)
qed

definition scope_ok :: "'w middleware \<Rightarrow> bool" where
  "scope_ok m \<longleftrightarrow> list_all (writes_none_of service_names) (ms_sources (mw_service m)) \<and>
     service_labelled (ms_registry (mw_service m))"

lemma record_sources [simp]: "ms_sources (middleware_record req st now t s) = ms_sources s"
  by (simp add: middleware_record_def observeHttpRequest_def trackRequestFinished_def Let_def)

lemma scope_ok_event: "scope_ok m \<Longrightarrow> scope_ok (metrics_event e m)"
proof (cases e)
  case (Scraped w)
  assume "scope_ok m"
  moreover have "ms_sources (snd (render w (mw_service m))) = ms_sources (mw_service m)"
    using \<open>scope_ok m\<close> refreshSources_keeps [of service_names "refreshQueueDepth w (mw_service m)" _ w]
    by (auto simp: render_def Let_def scope_ok_def)
  ultimately show ?thesis using Scraped by (simp add: scope_ok_def service_labelled_render)
qed (auto simp: scope_ok_def HttpMetricsMiddleware_use_def trackRequestStarted_def response_emits_def
    service_labelled_record service_labelled_ops split: option.split)

lemma scope_ok_run: "scope_ok m \<Longrightarrow> scope_ok (metrics_run es m)"
  by (induction es arbitrary: m) (simp_all add: scope_ok_event)

lemma scope_ok_start:
  "list_all (writes_none_of service_names) srcs \<Longrightarrow> scope_ok (HttpMetricsMiddleware_new options
     ((MetricsService_new options)\<lparr>ms_collectors := cs, ms_sources := srcs\<rparr>))"
  by (simp add: scope_ok_def HttpMetricsMiddleware_new_def MetricsService_new_def service_labelled_def labelled_def
      service_metrics_def series_of_def metric_names QUEUE_DEPTH_GAUGE_def HTTP_REQUEST_DURATION_SECONDS_def)

subsection \<open>What two requests have in common\<close>

text \<open>
  What Express matched: the method, the mount point and the route, and whether the path is one that is not counted.  Headers, the
  context with its tenant and principal, and the URL with the values of the route's parameters and the query may all differ.
\<close>

definition looks_same :: "string list \<Rightarrow> request \<Rightarrow> request \<Rightarrow> bool" where
  "looks_same ignored r r' \<longleftrightarrow> req_method r = req_method r' \<and> req_baseUrl r = req_baseUrl r' \<and> req_route r = req_route r' \<and>
     isInfrastructureRoute (readPath r) ignored = isInfrastructureRoute (readPath r') ignored"

lemma looks_same_pattern:
  assumes "looks_same ignored r r'" shows "readRoutePattern r = readRoutePattern r'"
proof -
  have b: "req_baseUrl r = req_baseUrl r'" and p: "req_route r = req_route r'" using assms by (simp_all add: looks_same_def)
  show ?thesis unfolding readRoutePattern_def b p ..
qed

fun same_traffic :: "string list \<Rightarrow> 'w traffic \<Rightarrow> 'w traffic \<Rightarrow> bool" where
  "same_traffic ignored (Arrives i r t) (Arrives i' r' t') = (i = i' \<and> looks_same ignored r r' \<and> t = t')"
| "same_traffic ignored (Emits i ev r st t) (Emits i' ev' r' st' t') =
     (i = i' \<and> ev = ev' \<and> looks_same ignored r r' \<and> st = st' \<and> t = t')"
| "same_traffic ignored (Scraped w) (Scraped w') = (w = w')"
| "same_traffic ignored _ _ = False"

lemma event_ignored [simp]: "mw_ignored (metrics_event e m) = mw_ignored m"
  by (cases e) (auto simp: HttpMetricsMiddleware_use_def response_emits_def split: option.split)

lemma same_observed:
  "looks_same ignored r r' \<Longrightarrow> response_emits i ev r st t m = response_emits i ev r' st t m"
proof -
  assume same: "looks_same ignored r r'"
  have "middleware_record r st t ta (mw_service m) = middleware_record r' st t ta (mw_service m)" for ta
    unfolding middleware_record_def looks_same_pattern [OF same] looks_same_def [THEN iffD1, OF same, THEN conjunct1] ..
  then show "response_emits i ev r st t m = response_emits i ev r' st t m" by (simp only: response_emits_def)
qed

lemma same_event: "same_traffic (mw_ignored m) e e' \<Longrightarrow> metrics_event e m = metrics_event e' m"
  by (cases e; cases e') (auto simp: HttpMetricsMiddleware_use_def looks_same_def intro!: same_observed [of "mw_ignored m"])

lemma same_run:
  "list_all2 (same_traffic (mw_ignored m)) es es' \<Longrightarrow> metrics_run es m = metrics_run es' m"
proof (induction es arbitrary: es' m)
  case (Cons e es)
  then obtain e' rest where es': "es' = e' # rest" "same_traffic (mw_ignored m) e e'"
    "list_all2 (same_traffic (mw_ignored m)) es rest"
    by (auto simp: list_all2_Cons1)
  then show ?case using Cons.IH [of "metrics_event e' m" rest] same_event [OF es'(2)] by simp
qed simp

subsection \<open>Properties\<close>

text \<open>
  C28: the metrics are written with the labels they are registered with.  Whatever requests arrive, however
  their responses end and whenever the scraper comes, every series of the four metrics of the service
  carries the label names its configuration lists, in that order, no more and no fewer, so that the client,
  which refuses any other, never throws into a request or a scrape.
\<close>

theorem series_carry_declared_labels:
  assumes "list_all (writes_none_of service_names) srcs"
  shows "service_labelled (ms_registry (mw_service (metrics_run es (HttpMetricsMiddleware_new options
    ((MetricsService_new options)\<lparr>ms_collectors := cs, ms_sources := srcs\<rparr>)))))"
  using scope_ok_run [OF scope_ok_start [OF assms]] by (simp add: scope_ok_def)

text \<open>Two requests for the same route by two tenants, with other ids in the path and another query.\<close>

definition tenant_request :: "string \<Rightarrow> string \<Rightarrow> request" where
  "tenant_request tenant url = \<lparr>req_headers = [''x-tenant'' \<mapsto> HOne tenant], req_method = ''GET'', req_path = url,
     req_baseUrl = ''/api'', req_originalUrl = url, req_url = url, req_route = JObj [(''path'', JStr ''/jobs/:id'')],
     req_context = Some \<lparr>rc_tenantId = tenant, rc_userId = None, rc_permissions = [], rc_locale = ''en'',
       rc_correlationId = ''c'', rc_apiKeyId = None\<rparr>\<rparr>"

abbreviation tenant_traffic :: "string \<Rightarrow> string \<Rightarrow> js traffic list" where
  "tenant_traffic tenant url \<equiv>
     [Arrives 1 (tenant_request tenant url) 5, Emits 1 Finish (tenant_request tenant url) 200 8, Scraped JUndefined]"

lemma series_carry_declared_labels_witness:
  "service_labelled (ms_registry (mw_service (metrics_run (tenant_traffic ''a'' ''/api/jobs/7'')
     (HttpMetricsMiddleware_new \<lparr>mo_serviceName = ''s'', mo_defaultLabels = None, mo_collectDefaultMetrics = None,
        mo_ignoredRoutes = None\<rparr>
      ((MetricsService_new \<lparr>mo_serviceName = ''s'', mo_defaultLabels = None, mo_collectDefaultMetrics = None,
        mo_ignoredRoutes = None\<rparr>)\<lparr>ms_collectors := [], ms_sources := [DatabasePoolMetricSource]\<rparr>)))))"
proof -
  have "list_all (writes_none_of service_names) [DatabasePoolMetricSource]"
    by (simp add: pool_source_writes service_names_def service_metrics_def metric_names QUEUE_DEPTH_GAUGE_def
        DATABASE_POOL_GAUGE_def)
  then show ?thesis by (rule series_carry_declared_labels)
qed

text \<open>
  C25: nothing in a scrape is scoped to a tenant.  Take any traffic and change, in any of its requests, the
  tenant, the principal, every header, the query and every path parameter, so that each still matches the route it matched, under
  the mount point it matched, and is counted if it was; then the state of the metrics, and so every later scrape, is the same.  An unauthenticated
  reader of the endpoint cannot tell whose the requests were.
\<close>

theorem metrics_are_tenant_blind:
  assumes "list_all2 (same_traffic (mw_ignored m)) es es'"
  shows "metrics_run es m = metrics_run es' m \<and>
    render w (mw_service (metrics_run es m)) = render w (mw_service (metrics_run es' m))"
  using same_run [OF assms] by simp

lemma metrics_are_tenant_blind_witness:
  "metrics_run (tenant_traffic ''a'' ''/api/jobs/7?k=1'') sample_middleware =
   metrics_run (tenant_traffic ''b'' ''/api/jobs/9'') sample_middleware"
proof -
  have ignored: "mw_ignored sample_middleware = [''/health'', ''/metrics'']"
    by (simp add: sample_middleware_def HttpMetricsMiddleware_new_def DEFAULT_IGNORED_METRICS_ROUTES_def
        INFRASTRUCTURE_ROUTE_PREFIXES_def)
  have "looks_same [''/health'', ''/metrics''] (tenant_request ''a'' ''/api/jobs/7?k=1'')
      (tenant_request ''b'' ''/api/jobs/9'')"
    by code_simp
  then show ?thesis
    by (intro metrics_are_tenant_blind [THEN conjunct1]) (simp add: ignored)
qed

end
