(* ===== verification/RequestLife.thy ===== *)
theory RequestLife
  imports RequestFlow MetricsScope
begin

section \<open>The life of a request, from its id to its count\<close>

text \<open>
  The correlation middleware, the guards, a handler, the exception filter and the metrics middleware around
  them, composed as the framework runs them.  The handler is any function of the request as the guards leave it
  and of the ambient storage, with a value or anything thrown; the composition is the framework's, the parts are the
  definitions of their components.
\<close>

subsection \<open>The composition\<close>

text \<open>The guards in order: a refusal comes with the request as it is then.\<close>

definition admitted ::
    "(string \<Rightarrow> domain_exception + access_token_payload) \<Rightarrow> string \<Rightarrow> reflector \<Rightarrow> execution_context \<Rightarrow>
     (domain_exception \<times> request) + request" where
  "admitted verify SERVICE rf ctx = (case AuthGuard_canActivate verify SERVICE rf ctx of
     Inl e \<Rightarrow> Inl (e, ec_request ctx)
   | Inr (_, req) \<Rightarrow>
       (case PermissionGuard_canActivate rf (ctx\<lparr>ec_request := req\<rparr>) of
          Inl e \<Rightarrow> Inl (e, req)
        | Inr _ \<Rightarrow> Inr req))"

definition answered ::
    "(thrown \<Rightarrow> request \<Rightarrow> 'b response \<Rightarrow> 'f) \<Rightarrow>
     (string \<Rightarrow> domain_exception + access_token_payload) \<Rightarrow> string \<Rightarrow> reflector \<Rightarrow> execution_context \<Rightarrow>
     (request \<Rightarrow> storage \<Rightarrow> (thrown + 'v) \<times> storage) \<Rightarrow>
     request \<Rightarrow> 'b response \<Rightarrow> storage \<Rightarrow> ('f + 'v) \<times> storage" where
  "answered fail verify SERVICE rf ctx handler req res s =
     (case admitted verify SERVICE rf (ctx\<lparr>ec_request := req\<rparr>) of
        Inl (e, r) \<Rightarrow> (Inl (fail (ThrowDomain e) r res), s)
      | Inr r \<Rightarrow> (case handler r s of
            (Inl x, s') \<Rightarrow> (Inl (fail x r res), s')
          | (Inr v, s') \<Rightarrow> (Inr v, s')))"

text \<open>The request of \<open>ctx\<close> is the one the middleware hands on.\<close>

definition request_life ::
    "(thrown \<Rightarrow> request \<Rightarrow> 'b response \<Rightarrow> 'f) \<Rightarrow>
     (string \<Rightarrow> domain_exception + access_token_payload) \<Rightarrow> string \<Rightarrow> reflector \<Rightarrow> execution_context \<Rightarrow>
     (request \<Rightarrow> storage \<Rightarrow> (thrown + 'v) \<times> storage) \<Rightarrow> string \<Rightarrow> nat \<Rightarrow>
     request \<Rightarrow> 'b response \<Rightarrow> storage \<Rightarrow> ('f + 'v) \<times> storage" where
  "request_life fail verify SERVICE rf ctx handler uuid fresh =
     CorrelationIdMiddleware_use uuid fresh (answered fail verify SERVICE rf ctx handler)"

text \<open>The filter with the SDK's own reporter, as the global filter of a service.\<close>

definition sdk_filter ::
    "(error_code \<Rightarrow> string) \<Rightarrow> (js \<Rightarrow> string) \<Rightarrow> bool \<Rightarrow> string \<Rightarrow> string \<Rightarrow> error_reporter option \<Rightarrow>
     thrown \<Rightarrow> request \<Rightarrow> api_error_response response \<Rightarrow> error_reporter filter_result" where
  "sdk_filter code_text string_of expose uuid now rep x req res =
     filter_catch ErrorReporterService_isEnabled ErrorReporterService_capture code_text string_of expose uuid now
       x req res rep"

subsection \<open>One id\<close>

lemma admitted_headers:
  assumes "admitted verify SERVICE rf ctx = Inr r \<or> admitted verify SERVICE rf ctx = Inl (e, r)"
  shows "req_headers r = req_headers (ec_request ctx)"
  using assms
  by (auto simp: admitted_def AuthGuard_canActivate_def split: sum.splits option.splits if_splits)

lemma admitted_context:
  assumes "admitted verify SERVICE rf ctx = Inr r" and "ec_type ctx = ''http''" and "\<not> isPublic rf ctx"
  shows "map_option rc_correlationId (req_context r) =
    Some (nullish (readHeader (ec_request ctx) (HeaderKey CORRELATION_ID)) '''')"
  using assms
  by (auto simp: admitted_def AuthGuard_canActivate_def principal_context_def Let_def
      split: sum.splits option.splits if_splits simp del: HeaderKey.simps)

lemma assigned_header:
  "req_headers (snd (assignCorrelationId uuid req)) (HeaderKey CORRELATION_ID) =
    Some (HOne (fst (assignCorrelationId uuid req)))"
  by (simp add: assignCorrelationId_def Let_def del: HeaderKey.simps)

text \<open>The captures a filter adds to a reporter, and the tag of each.\<close>

definition new_captures :: "error_reporter \<Rightarrow> error_reporter \<Rightarrow> sentry_capture list" where
  "new_captures r r' = drop (length (captures_of (er_calls r))) (captures_of (er_calls r'))"

definition tagged :: "string \<Rightarrow> error_reporter option \<Rightarrow> error_reporter option \<Rightarrow> bool" where
  "tagged cid rep rep' \<longleftrightarrow> (case (rep, rep') of
     (Some r, Some r') \<Rightarrow> list_all (\<lambda>c. map_of (sc_tags c) ''correlationId'' = Some cid) (new_captures r r')
   | (None, None) \<Rightarrow> True | _ \<Rightarrow> False)"

lemma capture_tag:
  assumes "cid \<noteq> ''''"
  shows "map_of (report_tags options \<lparr>erc_correlationId = Some cid, erc_tenantId = t, erc_method = mth,
    erc_route = rt, erc_extra = x\<rparr>) ''correlationId'' = Some cid"
  using assms by (simp add: report_tags_def map_of_js_set)

lemma filter_tags:
  "cid \<noteq> '''' \<Longrightarrow> tagged cid rep
     (filter_report ErrorReporterService_isEnabled ErrorReporterService_capture ct x n req cid rep)"
  by (auto simp: filter_report_def ErrorReporterService_capture_def new_captures_def tagged_def capture_tag
      split: option.split)

text \<open>Everything the filter says of a failed request whose header carries a usable id says that id.\<close>

lemma failure_quotes:
  assumes "usable_id cid" and "req_headers r (HeaderKey CORRELATION_ID) = Some (HOne cid)"
    and "res_headers res (HeaderKey CORRELATION_ID) = Some cid"
    and "out = filter_catch ErrorReporterService_isEnabled ErrorReporterService_capture ct so expose uuid now x r res rep"
  shows "map_option ae_correlationId (res_json (fr_response out)) = Some cid \<and>
    res_headers (fr_response out) (HeaderKey CORRELATION_ID) = Some cid \<and>
    ll_correlationId (logged_line (fr_log out)) = cid \<and> tagged cid rep (fr_reporter out)"
proof -
  have a: "assignCorrelationId uuid r = (cid, r)" by (rule assign_kept [OF assms(1,2)])
  have "cid \<noteq> ''''" using assms(1) by (simp add: usable_id_def)
  then show ?thesis
    using assms(3) a by (auto simp: assms(4) filter_catch_simps filter_log_def filter_tags Let_def
        filter_catch_def resolveCorrelationId_def simp del: HeaderKey.simps)
qed

text \<open>What \<open>next\<close> is called with.\<close>

definition entered :: "string \<Rightarrow> nat \<Rightarrow> request \<Rightarrow> storage \<Rightarrow> storage" where
  "entered uuid fresh req s = s\<lparr>als_heap := (als_heap s)(fresh :=
     \<lparr>cc_correlationId = fst (assignCorrelationId uuid req), cc_fields = None\<rparr>), als_store := Some fresh\<rparr>"

definition echoed :: "string \<Rightarrow> request \<Rightarrow> 'b response \<Rightarrow> 'b response" where
  "echoed uuid req res =
     res\<lparr>res_headers := (res_headers res)(HeaderKey CORRELATION_ID \<mapsto> fst (assignCorrelationId uuid req))\<rparr>"

lemma life_answer:
  "fst (request_life fail verify SERVICE rf ctx handler uuid fresh req res s) =
   fst (answered fail verify SERVICE rf ctx handler (snd (assignCorrelationId uuid req)) (echoed uuid req res)
     (entered uuid fresh req s))"
  by (simp add: request_life_def CorrelationIdMiddleware_use_def runWith_def entered_def echoed_def split: prod.split)

lemma handler_sees_one_id:
  assumes "ec_type ctx = ''http''"
  shows "case fst (request_life fail verify SERVICE rf ctx
        (\<lambda>r st. (Inr (CurrentCorrelationId r, getCorrelationId st, req_context r), st)) uuid fresh req res s) of
       Inl _ \<Rightarrow> True
     | Inr (quoted, ambient, c) \<Rightarrow> quoted = fst (assignCorrelationId uuid req) \<and>
         ambient = Some (fst (assignCorrelationId uuid req)) \<and>
         (if isPublic rf (ctx\<lparr>ec_request := snd (assignCorrelationId uuid req)\<rparr>) then True
          else map_option rc_correlationId c = Some (fst (assignCorrelationId uuid req)))"
proof (cases "admitted verify SERVICE rf (ctx\<lparr>ec_request := snd (assignCorrelationId uuid req)\<rparr>)")
  case (Inr r)
  have "readHeader r (HeaderKey CORRELATION_ID) = Some (fst (assignCorrelationId uuid req))"
    using admitted_headers [OF disjI1, OF Inr] assigned_id_readable [of uuid req]
    by (simp add: readHeader_def del: HeaderKey.simps)
  moreover have "getCorrelationId (entered uuid fresh req s) = Some (fst (assignCorrelationId uuid req))"
    by (simp add: getCorrelationId_def getContext_def entered_def)
  ultimately show ?thesis
    using Inr assms admitted_context [OF Inr] assigned_id_readable [of uuid req]
    by (simp add: life_answer answered_def CurrentCorrelationId_def del: HeaderKey.simps)
qed (auto simp: life_answer answered_def)

lemma failures_quote_one_id:
  assumes "usable_id uuid" and "fst (request_life (sdk_filter ct so expose uuid' now rep)
      verify SERVICE rf ctx handler uuid fresh req res s) = Inl out"
  shows "map_option ae_correlationId (res_json (fr_response out)) = Some (fst (assignCorrelationId uuid req)) \<and>
    res_headers (fr_response out) (HeaderKey CORRELATION_ID) = Some (fst (assignCorrelationId uuid req)) \<and>
    ll_correlationId (logged_line (fr_log out)) = fst (assignCorrelationId uuid req) \<and>
    tagged (fst (assignCorrelationId uuid req)) rep (fr_reporter out)"
proof -
  obtain x r e where out: "out = filter_catch ErrorReporterService_isEnabled ErrorReporterService_capture ct so
      expose uuid' now x r (echoed uuid req res) rep"
    and r: "admitted verify SERVICE rf (ctx\<lparr>ec_request := snd (assignCorrelationId uuid req)\<rparr>) = Inr r \<or>
      admitted verify SERVICE rf (ctx\<lparr>ec_request := snd (assignCorrelationId uuid req)\<rparr>) = Inl (e, r)"
    using assms(2) by (auto simp: life_answer answered_def sdk_filter_def split: sum.splits prod.splits)
  have h: "req_headers r (HeaderKey CORRELATION_ID) = Some (HOne (fst (assignCorrelationId uuid req)))"
    using admitted_headers [OF r] by (simp add: assigned_header del: HeaderKey.simps)
  show ?thesis
    by (rule failure_quotes [OF assigned_id_usable [OF assms(1)] h _ out])
      (simp add: echoed_def del: HeaderKey.simps)
qed

subsection \<open>Properties\<close>

text \<open>
  C14: one request, one id.  Whatever id the caller sent or failed to send, and whichever stage the request ends
  in: what the handler reads off the request, off the ambient context and off its authenticated context
  is one usable id; and when a guard refuses or the handler throws, anything at all, the
  body and the header the caller gets, the log line and the tag of the error report carry that same id.
\<close>

theorem one_id_per_request:
  assumes "usable_id uuid" and "ec_type ctx = ''http''"
  shows "(let cid = fst (assignCorrelationId uuid req) in
    usable_id cid \<and>
    (case fst (request_life (sdk_filter ct so expose uuid' now rep) verify SERVICE rf ctx
        (\<lambda>r st. (Inr (CurrentCorrelationId r, getCorrelationId st, req_context r), st)) uuid fresh req res s) of
       Inl _ \<Rightarrow> True
     | Inr (quoted, ambient, c) \<Rightarrow> quoted = cid \<and> ambient = Some cid \<and>
         (if isPublic rf (ctx\<lparr>ec_request := snd (assignCorrelationId uuid req)\<rparr>) then True
          else map_option rc_correlationId c = Some cid)) \<and>
    (case fst (request_life (sdk_filter ct so expose uuid' now rep) verify SERVICE rf ctx handler uuid fresh req res s) of
       Inr _ \<Rightarrow> True
     | Inl out \<Rightarrow> map_option ae_correlationId (res_json (fr_response out)) = Some cid \<and>
         res_headers (fr_response out) (HeaderKey CORRELATION_ID) = Some cid \<and>
         ll_correlationId (logged_line (fr_log out)) = cid \<and> tagged cid rep (fr_reporter out)))"
  unfolding Let_def
proof (intro conjI)
  show "usable_id (fst (assignCorrelationId uuid req))" by (rule assigned_id_usable [OF assms(1)])
  show "case fst (request_life (sdk_filter ct so expose uuid' now rep) verify SERVICE rf ctx
      (\<lambda>r st. (Inr (CurrentCorrelationId r, getCorrelationId st, req_context r), st)) uuid fresh req res s) of
     Inl _ \<Rightarrow> True
   | Inr (quoted, ambient, c) \<Rightarrow> quoted = fst (assignCorrelationId uuid req) \<and>
       ambient = Some (fst (assignCorrelationId uuid req)) \<and>
       (if isPublic rf (ctx\<lparr>ec_request := snd (assignCorrelationId uuid req)\<rparr>) then True
        else map_option rc_correlationId c = Some (fst (assignCorrelationId uuid req)))"
    by (rule handler_sees_one_id [OF assms(2)])
qed (split sum.split, use failures_quote_one_id [OF assms(1)] in blast)

lemma capture_tags:
  "map_of (report_tags options \<lparr>erc_correlationId = cid, erc_tenantId = t, erc_method = Some mth,
    erc_route = Some rt, erc_extra = x\<rparr>) ''route'' = (if rt = '''' then None else Some rt) \<and>
   map_of (report_tags options \<lparr>erc_correlationId = cid, erc_tenantId = t, erc_method = Some mth,
    erc_route = Some rt, erc_extra = x\<rparr>) ''method'' = (if mth = '''' then None else Some mth)"
  by (simp add: report_tags_def map_of_js_set)

lemma filter_route_tags:
  "list_all (\<lambda>c. map_of (sc_tags c) ''route'' = (if readRoutePattern r = '''' then None else Some (readRoutePattern r)) \<and>
      map_of (sc_tags c) ''method'' = (if req_method r = '''' then None else Some (req_method r)))
    (new_captures rep (the (filter_report ErrorReporterService_isEnabled ErrorReporterService_capture ct x n r cid
      (Some rep))))"
  by (auto simp: filter_report_def ErrorReporterService_capture_def new_captures_def capture_tags)

lemma assigned_route [simp]:
  "readRoutePattern (snd (assignCorrelationId uuid req)) = readRoutePattern req"
  "req_method (snd (assignCorrelationId uuid req)) = req_method req"
  by (simp_all add: assignCorrelationId_def Let_def readRoutePattern_def split: option.split js.split)

lemma finish_counts:
  assumes "map_of (mw_tracked m) i = Some t" and "\<not> tr_recorded t" and "ev \<in> set (tr_listeners t)"
  shows "metric_value HTTP_REQUESTS_TOTAL ls (ms_registry (mw_service (response_emits i ev r st ended m))) =
    (if ls = [(''method'', JStr (req_method r)), (''route'', JStr (readRoutePattern r)),
        (STATUS_CODE_LABEL, JNum (of_nat st))]
     then Some (nullish (metric_value HTTP_REQUESTS_TOTAL ls (ms_registry (mw_service m))) 0 + 1)
     else metric_value HTTP_REQUESTS_TOTAL ls (ms_registry (mw_service m)))"
  using assms by (simp add: response_emits_def middleware_record_def observeHttpRequest_def trackRequestFinished_def Let_def)

text \<open>
  C24: a failure is counted as what the caller was told.  When a tracked request fails and its response ends,
  the request counter goes up by one in exactly the series of its method, its matched route and the status the
  filter answered with, and no other series moves; and whatever is reported of the failure is
  tagged with the method and route of that series, so that the graph and the tracker speak of the same thing.
\<close>

theorem failures_counted_as_answered:
  assumes "map_of (mw_tracked m) i = Some t" and "\<not> tr_recorded t" and "Finish \<in> set (tr_listeners t)"
  shows "(let out = sdk_filter ct so expose uuid now (Some rep) x r res;
        st = res_status (fr_response out);
        key = [(''method'', JStr (req_method r)), (''route'', JStr (readRoutePattern r)),
          (STATUS_CODE_LABEL, JNum (of_nat st))];
        after = ms_registry (mw_service (response_emits i Finish (fr_request out) st ended m));
        before = ms_registry (mw_service m) in
      st = ne_status (normalize expose x) \<and>
      metric_value HTTP_REQUESTS_TOTAL ls after =
        (if ls = key then Some (nullish (metric_value HTTP_REQUESTS_TOTAL key before) 0 + 1)
         else metric_value HTTP_REQUESTS_TOTAL ls before) \<and>
      list_all (\<lambda>c. map_of (sc_tags c) ''route'' = (if readRoutePattern r = '''' then None else Some (readRoutePattern r)) \<and>
          map_of (sc_tags c) ''method'' = (if req_method r = '''' then None else Some (req_method r)))
        (new_captures rep (the (fr_reporter out))))"
proof -
  have "filter_report E C ct x n (snd (assignCorrelationId uuid r)) cid rep' = filter_report E C ct x n r cid rep'"
    for E and C :: "error_reporter \<Rightarrow> thrown \<Rightarrow> error_report_context \<Rightarrow> error_reporter" and n cid rep'
    by (simp add: filter_report_def readTenantId_def split: option.split)
  then show ?thesis
    using filter_route_tags [of r rep ct x]
    by (simp add: Let_def sdk_filter_def filter_catch_simps finish_counts [OF assms])
qed

text \<open>The same middleware, guards and filter on a caller that pads its id and presents a token nobody accepts.\<close>

lemma one_id_per_request_witness:
  "map_sum (\<lambda>out. map_option ae_correlationId (res_json (fr_response out))) (\<lambda>_. ())
     (fst (request_life (sdk_filter (\<lambda>_. '''') (\<lambda>_. '''') False ''v'' '''' None)
       (AccessTokenService_verify ''user'' ''service'' (\<lambda>_. Expired)) ''service'' nest_reflector open_route
       (\<lambda>r st. (Inr (), st)) ''u'' 0
       (bearer_request\<lparr>req_headers := (req_headers bearer_request)(''x-correlation-id'' \<mapsto> HOne '' abc '')\<rparr>)
       \<lparr>res_headersSent = False, res_headers = Map.empty, res_status = 200, res_json = None\<rparr>
       \<lparr>als_heap = (\<lambda>_. \<lparr>cc_correlationId = '''', cc_fields = None\<rparr>), als_store = None\<rparr>)) = Inl (Some ''abc'')"
  (is "map_sum _ _ (fst (request_life ?fail ?verify _ _ _ ?h _ _ ?req ?res ?s)) = _")
proof -
  have u: "usable_id ''u''" by code_simp
  have t: "ec_type open_route = ''http''" by (simp add: open_route_def)
  have a: "fst (assignCorrelationId ''u'' ?req) = ''abc''" by code_simp
  define g where "g = fst (request_life ?fail ?verify ''service'' nest_reflector open_route ?h ''u'' 0 ?req ?res ?s)"
  have "\<not> is_ok g" unfolding g_def by code_simp
  moreover have "case g of Inr _ \<Rightarrow> True | Inl out \<Rightarrow> map_option ae_correlationId (res_json (fr_response out)) = Some ''abc''"
    using one_id_per_request [OF u t, where req = ?req and ct = "\<lambda>_. ''''" and so = "\<lambda>_. ''''" and expose = False
        and uuid' = "''v''" and now = "''''" and rep = None and verify = ?verify and SERVICE = "''service''"
        and rf = nest_reflector and fresh = 0 and res = ?res and s = ?s and handler = ?h, folded g_def]
    by (cases g) (simp_all add: a Let_def)
  ultimately show ?thesis unfolding g_def [symmetric] by (cases g) simp_all
qed

text \<open>A handler that throws a string, on a route that matched.\<close>

lemma failures_counted_as_answered_witness:
  "(let r = tenant_request ''a'' ''/api/jobs/7'';
        out = sdk_filter (\<lambda>_. '''') (\<lambda>_. '''') False ''v'' '''' (Some (ErrorReporterService_new
            \<lparr>ro_dsn = None, ro_environment = ''e'', ro_serviceName = ''s'', ro_release = None, ro_sampleRate = None\<rparr>))
          (ThrowValue (JStr ''boom'')) r
          \<lparr>res_headersSent = False, res_headers = Map.empty, res_status = 200, res_json = None\<rparr> in
     metric_value HTTP_REQUESTS_TOTAL [(''method'', JStr ''GET''), (''route'', JStr ''/api/jobs/:id''),
        (STATUS_CODE_LABEL, JNum 500)]
      (ms_registry (mw_service (response_emits 1 Finish (fr_request out) (res_status (fr_response out)) 9
        (HttpMetricsMiddleware_use 1 r 5 sample_middleware))))) = Some 1"
proof -
  let ?r = "tenant_request ''a'' ''/api/jobs/7''"
  let ?m = "HttpMetricsMiddleware_use 1 ?r 5 sample_middleware"
  have t: "map_of (mw_tracked ?m) 1 = Some \<lparr>tr_startedAt = 5, tr_recorded = False, tr_listeners = [Finish, Close]\<rparr>"
    by code_simp
  have "mw_service sample_middleware = (MetricsService_new \<lparr>mo_serviceName = ''s'', mo_defaultLabels = None,
      mo_collectDefaultMetrics = None, mo_ignoredRoutes = None\<rparr>)\<lparr>ms_collectors := [],
      ms_sources := [DatabasePoolMetricSource]\<rparr>"
    by (simp add: sample_middleware_def HttpMetricsMiddleware_new_def)
  then have v: "metric_value HTTP_REQUESTS_TOTAL ls (ms_registry (mw_service ?m)) = None" for ls
    by (simp add: HttpMetricsMiddleware_use_def trackRequestStarted_def MetricsService_new_def metric_value_def
        series_of_def metric_inc_def metric_set_def metric_names HTTP_REQUEST_DURATION_SECONDS_def QUEUE_DEPTH_GAUGE_def)
  have r: "readRoutePattern ?r = ''/api/jobs/:id''" "req_method ?r = ''GET''" by code_simp+
  have n: "ne_status (normalize False (ThrowValue (JStr ''boom''))) = 500" by code_simp
  note counted = failures_counted_as_answered [OF t, where r = ?r and expose = False
      and x = "ThrowValue (JStr ''boom'')", unfolded Let_def r n v]
  show ?thesis
    unfolding Let_def by (subst counted [THEN conjunct2, THEN conjunct1]) (simp_all add: counted [THEN conjunct1])
qed

end
