(* ===== verification/OutboxProcessor.thy ===== *)
theory OutboxProcessor
  imports Outbox
begin

section \<open>The outbox: the processor\<close>

text \<open>
  \<^verbatim>\<open>outbox/outbox.processor.ts\<close>.  The store is what the loop is handed: a record of the three
  operations of \<open>OutboxEventStore\<close>, each of which may throw.  The publish call sees the events sent
  so far, so that any behaviour of the gateway can be put in its place; \<open>sample i\<close> is the clock and
  the random number at the \<open>i\<close>-th send.
\<close>

record outbox_processor_config =
  oc_isEnabled :: bool
  oc_pollIntervalMs :: nat
  oc_batchSize :: nat
  oc_claimTimeoutMs :: int
  oc_maxAttempts :: nat
  oc_backoffBaseMs :: rat
  oc_backoffMaxMs :: rat

record 's outbox_event_store =
  st_claimDueBatch :: "nat \<Rightarrow> int \<Rightarrow> 's \<Rightarrow> (thrown + outbox_event list) \<times> 's"
  st_markPublished :: "claim \<Rightarrow> 's \<Rightarrow> (thrown + bool) \<times> 's"
  st_recordFailure :: "claim \<Rightarrow> failure \<Rightarrow> 's \<Rightarrow> (thrown + bool) \<times> 's"

datatype outbox_log =
    RefusedWithoutLease string
  | DeadLettered string string nat string bool

record outbox_processor_options =
  op_name :: string
  op_publish :: "outbox_event list \<Rightarrow> outbox_event \<Rightarrow> thrown option"
  op_isPermanentFailure :: "thrown \<Rightarrow> bool"

record 's processor_world =
  pw_store :: 's
  pw_sent :: "outbox_event list"
  pw_log :: "outbox_log list"

subsection \<open>One event\<close>

definition failure_reason :: "string \<Rightarrow> thrown \<Rightarrow> string" where
  "failure_reason name = error_message_or (''Unknown '' @ name @ '' publish failure'')"

definition claim_of :: "outbox_event \<Rightarrow> claim" where
  "claim_of event = \<lparr>cl_id = oe_id event, cl_tenantId = oe_tenantId event,
     cl_claimToken = the (oe_claimToken event)\<rparr>"

definition failure_of ::
    "outbox_processor_options \<Rightarrow> outbox_processor_config \<Rightarrow> int \<times> rat \<Rightarrow> outbox_event \<Rightarrow> thrown \<Rightarrow> failure" where
  "failure_of opts config clock event error =
     (let attemptCount = oe_attemptCount event + 1;
          permanent = op_isPermanentFailure opts error;
          isDeadLetter = (permanent \<or> attemptCount \<ge> oc_maxAttempts config)
      in \<lparr>fa_attemptCount = attemptCount,
          fa_nextAttemptAt = (if isDeadLetter then None
            else Some (nextOutboxAttemptAt (fst clock) (snd clock) attemptCount
                         (oc_backoffBaseMs config) (oc_backoffMaxMs config))),
          fa_isDeadLetter = isDeadLetter,
          fa_lastError = failure_reason (op_name opts) error\<rparr>)"

text \<open>The \<open>catch\<close> block: an exception of \<open>recordFailure\<close> itself leaves \<open>process\<close>.\<close>

definition process_failed ::
    "'s outbox_event_store \<Rightarrow> outbox_processor_options \<Rightarrow> outbox_processor_config \<Rightarrow> int \<times> rat \<Rightarrow>
     outbox_event \<Rightarrow> thrown \<Rightarrow> 's processor_world \<Rightarrow> (thrown + unit) \<times> 's processor_world" where
  "process_failed st opts config clock event error w =
     (let f = failure_of opts config clock event error;
          (res, s') = st_recordFailure st (claim_of event) f (pw_store w);
          w' = w\<lparr>pw_store := s'\<rparr>
      in case res of
           Inl e \<Rightarrow> (Inl e, w')
         | Inr _ \<Rightarrow> (Inr (), if fa_isDeadLetter f
             then w'\<lparr>pw_log := pw_log w' @ [DeadLettered (oe_id event) (oe_tenantId event)
                    (fa_attemptCount f) (fa_lastError f) (op_isPermanentFailure opts error)]\<rparr>
             else w'))"

definition process ::
    "'s outbox_event_store \<Rightarrow> outbox_processor_options \<Rightarrow> outbox_processor_config \<Rightarrow> (nat \<Rightarrow> int \<times> rat) \<Rightarrow>
     outbox_event \<Rightarrow> 's processor_world \<Rightarrow> (thrown + unit) \<times> 's processor_world" where
  "process st opts config sample event w =
     (if \<not> str_truthy (oe_claimToken event) \<or> oe_status event \<noteq> PROCESSING
      then (Inr (), w\<lparr>pw_log := pw_log w @ [RefusedWithoutLease (oe_id event)]\<rparr>)
      else
        let clock = sample (length (pw_sent w));
            outcome = op_publish opts (pw_sent w) event;
            w1 = w\<lparr>pw_sent := pw_sent w @ [event]\<rparr>
        in case outcome of
             Some error \<Rightarrow> process_failed st opts config clock event error w1
           | None \<Rightarrow> (case st_markPublished st (claim_of event) (pw_store w1) of
               (Inl error, s') \<Rightarrow> process_failed st opts config clock event error (w1\<lparr>pw_store := s'\<rparr>)
             | (Inr _, s') \<Rightarrow> (Inr (), w1\<lparr>pw_store := s'\<rparr>)))"

fun process_batch ::
    "'s outbox_event_store \<Rightarrow> outbox_processor_options \<Rightarrow> outbox_processor_config \<Rightarrow> (nat \<Rightarrow> int \<times> rat) \<Rightarrow>
     outbox_event list \<Rightarrow> 's processor_world \<Rightarrow> (thrown + unit) \<times> 's processor_world" where
  "process_batch st opts config sample [] w = (Inr (), w)"
| "process_batch st opts config sample (event # batch) w =
     (case process st opts config sample event w of
        (Inl e, w') \<Rightarrow> (Inl e, w')
      | (Inr _, w') \<Rightarrow> process_batch st opts config sample batch w')"

subsection \<open>The loop\<close>

text \<open>\<open>pr_armed\<close> are the intervals that are armed, by handle; \<open>handle\<close> is the one \<open>setInterval\<close> returns.\<close>

record processor =
  pr_timer :: "nat option"
  pr_isRunning :: bool
  pr_armed :: "(nat \<times> nat) list"

definition processor_new :: processor where
  "processor_new = \<lparr>pr_timer = None, pr_isRunning = False, pr_armed = []\<rparr>"

definition processor_start :: "outbox_processor_config \<Rightarrow> nat \<Rightarrow> processor \<Rightarrow> processor" where
  "processor_start config handle p =
     (if \<not> oc_isEnabled config then p
      else p\<lparr>pr_timer := Some handle, pr_armed := pr_armed p @ [(handle, oc_pollIntervalMs config)]\<rparr>)"

definition processor_stop :: "processor \<Rightarrow> processor" where
  "processor_stop p =
     p\<lparr>pr_timer := None,
       pr_armed := (case pr_timer p of None \<Rightarrow> pr_armed p
                    | Some h \<Rightarrow> filter (\<lambda>(h', _). h' \<noteq> h) (pr_armed p))\<rparr>"

definition runCycle ::
    "'s outbox_event_store \<Rightarrow> outbox_processor_options \<Rightarrow> outbox_processor_config \<Rightarrow> (nat \<Rightarrow> int \<times> rat) \<Rightarrow>
     processor \<Rightarrow> 's processor_world \<Rightarrow> (thrown + nat) \<times> processor \<times> 's processor_world" where
  "runCycle st opts config sample p w =
     (if pr_isRunning p then (Inr 0, p, w)
      else
        let p1 = p\<lparr>pr_isRunning := True\<rparr>;
            (claimed, s') = st_claimDueBatch st (oc_batchSize config) (oc_claimTimeoutMs config) (pw_store w);
            w1 = w\<lparr>pw_store := s'\<rparr>;
            (res, w2) = (case claimed of
                Inl e \<Rightarrow> (Inl e, w1)
              | Inr batch \<Rightarrow> (case process_batch st opts config sample batch w1 of
                    (Inl e, w') \<Rightarrow> (Inl e, w')
                  | (Inr _, w') \<Rightarrow> (Inr (length batch), w')))
        in (res, p1\<lparr>pr_isRunning := False\<rparr>, w2))"

subsection \<open>The repository as a store\<close>

text \<open>
  \<open>OutboxEventRepository\<close> in the role of the store: the table, the clock, the supply of claim tokens
  and the faults of the database, one entry per call, where \<^const>\<open>Some\<close> is a call that throws.
\<close>

record outbox_db =
  db_table :: outbox_table
  db_now :: int
  db_next :: nat
  db_faults :: "thrown option list"

definition db_call :: "(outbox_table \<Rightarrow> 'a \<times> outbox_table) \<Rightarrow> outbox_db \<Rightarrow> (thrown + 'a) \<times> outbox_db" where
  "db_call query d = (case db_faults d of
     Some e # fs \<Rightarrow> (Inl e, d\<lparr>db_faults := fs\<rparr>)
   | fs \<Rightarrow> (Inr (fst (query (db_table d))),
            d\<lparr>db_table := snd (query (db_table d)), db_faults := tl fs, db_next := Suc (db_next d)\<rparr>))"

definition repository_store :: "(nat \<Rightarrow> string) \<Rightarrow> (string \<Rightarrow> bool) \<Rightarrow> outbox_db outbox_event_store" where
  "repository_store uuid locked =
     \<lparr>st_claimDueBatch = (\<lambda>batchSize timeout d.
        db_call (claimDueBatch (uuid (db_next d)) (db_now d) (db_now d) locked batchSize timeout) d),
      st_markPublished = (\<lambda>c d. db_call (markPublished (db_now d) c) d),
      st_recordFailure = (\<lambda>c f d. db_call (recordFailure c f) d)\<rparr>"

subsection \<open>What the loop needs of a store\<close>

text \<open>
  The contract of \<open>OutboxEventStore\<close>: an operation that throws leaves the rows as they are, one that
  returns does to them what the claim and the two terminal writes do to a table.  \<open>healthy\<close> is a
  store whose operations return; \<open>token\<close> is the claim token the next claim uses.
\<close>

locale outbox_store_laws =
  fixes st :: "'s outbox_event_store"
    and rows :: "'s \<Rightarrow> outbox_table"
    and healthy :: "'s \<Rightarrow> bool"
    and token :: "'s \<Rightarrow> string"
  assumes claim_throws: "st_claimDueBatch st n timeout s = (Inl e, s') \<Longrightarrow> rows s' = rows s"
    and claim_returns: "st_claimDueBatch st n timeout s = (Inr batch, s') \<Longrightarrow>
      \<exists>now ca locked. claimDueBatch (token s) now ca locked n timeout (rows s) = (batch, rows s')"
    and mark_throws: "st_markPublished st c s = (Inl e, s') \<Longrightarrow> rows s' = rows s"
    and mark_returns: "st_markPublished st c s = (Inr b, s') \<Longrightarrow> \<exists>now. markPublished now c (rows s) = (b, rows s')"
    and fail_throws: "st_recordFailure st c f s = (Inl e, s') \<Longrightarrow> rows s' = rows s"
    and fail_returns: "st_recordFailure st c f s = (Inr b, s') \<Longrightarrow> recordFailure c f (rows s) = (b, rows s')"
    and healthy_claim: "healthy s \<Longrightarrow>
      is_ok (fst (st_claimDueBatch st n timeout s)) \<and> healthy (snd (st_claimDueBatch st n timeout s))"
    and healthy_mark: "healthy s \<Longrightarrow>
      is_ok (fst (st_markPublished st c s)) \<and> healthy (snd (st_markPublished st c s))"
    and healthy_fail: "healthy s \<Longrightarrow>
      is_ok (fst (st_recordFailure st c f s)) \<and> healthy (snd (st_recordFailure st c f s))"

text \<open>The row an attempt leaves: published, or rescheduled or dead-lettered with the attempt counted.\<close>

definition attempted ::
    "outbox_processor_options \<Rightarrow> outbox_processor_config \<Rightarrow> outbox_event \<Rightarrow> outbox_event \<Rightarrow> bool" where
  "attempted opts config e e' =
     ((\<exists>now. e' = published_patch now e) \<or>
      (\<exists>clock error. e' = failure_patch (failure_of opts config clock e error) e))"

text \<open>Which of the two it is: what the gateway answered when its turn came, after the events sent before.\<close>

definition settled ::
    "outbox_processor_options \<Rightarrow> outbox_processor_config \<Rightarrow> (nat \<Rightarrow> int \<times> rat) \<Rightarrow> outbox_event list \<Rightarrow>
     outbox_event \<Rightarrow> outbox_event \<Rightarrow> bool" where
  "settled opts config sample sent e e' = (case op_publish opts sent e of
     None \<Rightarrow> (\<exists>now. e' = published_patch now e)
   | Some error \<Rightarrow> e' = failure_patch (failure_of opts config (sample (length sent)) e error) e)"

lemma settled_attempted: "settled opts config sample sent e e' \<Longrightarrow> attempted opts config e e'"
  by (cases "op_publish opts sent e") (simp_all only: settled_def attempted_def option.case, blast+)

definition replace_row :: "outbox_event \<Rightarrow> outbox_event \<Rightarrow> outbox_table \<Rightarrow> outbox_table" where
  "replace_row e e' t = map (\<lambda>x. if x = e then e' else x) t"

definition leased :: "outbox_event \<Rightarrow> bool" where
  "leased e = (str_truthy (oe_claimToken e) \<and> oe_status e = PROCESSING)"

lemma updateClaimed_held:
  assumes "distinct (ids t)" "e \<in> set t" "oe_claimToken e \<noteq> None"
  shows "snd (updateClaimed (claim_of e) patch t) = replace_row e (patch e) t"
  unfolding updateClaimed_def replace_row_def snd_conv
proof (rule map_cong [OF refl])
  fix x assume "x \<in> set t"
  then have "holds_claim (claim_of e) x \<longleftrightarrow> x = e"
    using same_id [OF assms(1) \<open>x \<in> set t\<close> assms(2)] assms(3)
    by (auto simp: holds_claim_def claim_of_def)
  then show "(if holds_claim (claim_of e) x then patch x else x) = (if x = e then patch e else x)" by simp
qed

lemma failure_of_fields [simp]:
  "fa_attemptCount (failure_of opts config clock e error) = Suc (oe_attemptCount e)"
  "fa_isDeadLetter (failure_of opts config clock e error) =
     (op_isPermanentFailure opts error \<or> oc_maxAttempts config \<le> Suc (oe_attemptCount e))"
  by (simp_all add: failure_of_def Let_def)

lemma attempted_id: "attempted opts config e e' \<Longrightarrow> oe_id e' = oe_id e"
  by (auto simp: attempted_def)

lemma ids_replace_row: "oe_id e' = oe_id e \<Longrightarrow> ids (replace_row e e' t) = ids t"
  by (auto simp: replace_row_def)

context outbox_store_laws
begin

lemma process_failed_effect:
  assumes "healthy (pw_store w)" "distinct (ids (rows (pw_store w)))" "e \<in> set (rows (pw_store w))"
    and "oe_claimToken e \<noteq> None"
  shows "fst (process_failed st opts config clock e error w) = Inr () \<and>
    healthy (pw_store (snd (process_failed st opts config clock e error w))) \<and>
    rows (pw_store (snd (process_failed st opts config clock e error w))) =
      replace_row e (failure_patch (failure_of opts config clock e error) e) (rows (pw_store w)) \<and>
    pw_sent (snd (process_failed st opts config clock e error w)) = pw_sent w"
proof -
  let ?f = "failure_of opts config clock e error"
  obtain b s' where r: "st_recordFailure st (claim_of e) ?f (pw_store w) = (Inr b, s')" "healthy s'"
    using healthy_fail [OF assms(1), of "claim_of e" ?f]
    by (cases "st_recordFailure st (claim_of e) ?f (pw_store w)") (auto simp: is_ok_iff)
  have "rows s' = replace_row e (failure_patch ?f e) (rows (pw_store w))"
    using fail_returns [OF r(1)] updateClaimed_held [OF assms(2-4), of "failure_patch ?f"]
    by (metis recordFailure_def snd_conv)
  with r show ?thesis by (simp add: process_failed_def Let_def)
qed

lemma process_effect:
  assumes "healthy (pw_store w)" "distinct (ids (rows (pw_store w)))" "e \<in> set (rows (pw_store w))"
    and "leased e"
  shows "\<exists>w' e'. process st opts config sample e w = (Inr (), w') \<and> healthy (pw_store w') \<and>
    rows (pw_store w') = replace_row e e' (rows (pw_store w)) \<and> settled opts config sample (pw_sent w) e e' \<and>
    pw_sent w' = pw_sent w @ [e]"
proof -
  let ?w1 = "w\<lparr>pw_sent := pw_sent w @ [e]\<rparr>"
  let ?clock = "sample (length (pw_sent w))"
  have tok: "oe_claimToken e \<noteq> None" and go: "str_truthy (oe_claimToken e)" "oe_status e = PROCESSING"
    using assms(4) by (auto simp: leased_def str_truthy_iff)
  show ?thesis
  proof (cases "op_publish opts (pw_sent w) e")
    case (Some error)
    have run: "process st opts config sample e w = process_failed st opts config ?clock e error ?w1"
      using go Some by (simp add: process_def Let_def)
    have att: "settled opts config sample (pw_sent w) e (failure_patch (failure_of opts config ?clock e error) e)"
      by (simp add: settled_def Some)
    note eff = process_failed_effect [of ?w1 e opts config ?clock error]
    show ?thesis
      apply (rule exI [of _ "snd (process st opts config sample e w)"])
      apply (rule exI [of _ "failure_patch (failure_of opts config ?clock e error) e"])
      using eff assms(1-3) tok Some
      by (cases "process_failed st opts config ?clock e error ?w1") (auto simp: run att)
  next
    case None
    obtain b s' where r: "st_markPublished st (claim_of e) (pw_store w) = (Inr b, s')" "healthy s'"
      using healthy_mark [OF assms(1), of "claim_of e"]
      by (cases "st_markPublished st (claim_of e) (pw_store w)") (auto simp: is_ok_iff)
    then obtain now where "markPublished now (claim_of e) (rows (pw_store w)) = (b, rows s')"
      using mark_returns by blast
    then have "rows s' = replace_row e (published_patch now e) (rows (pw_store w))"
      using updateClaimed_held [OF assms(2,3) tok, of "published_patch now"]
      by (metis markPublished_def snd_conv)
    then show ?thesis
      using go None r by (auto simp: process_def Let_def settled_def)
  qed
qed

lemma process_batch_effect:
  assumes "healthy (pw_store w)" "distinct (ids (rows (pw_store w)))"
    and "set batch \<subseteq> set (rows (pw_store w))" "distinct (ids batch)" "list_all leased batch"
  shows "\<exists>w'. process_batch st opts config sample batch w = (Inr (), w') \<and> healthy (pw_store w') \<and>
    list_all2 (\<lambda>e e'. if e \<in> set batch
        then settled opts config sample (pw_sent w @ takeWhile (\<lambda>x. oe_id x \<noteq> oe_id e) batch) e e' else e' = e)
      (rows (pw_store w)) (rows (pw_store w')) \<and>
    pw_sent w' = pw_sent w @ batch"
  using assms
proof (induction batch arbitrary: w)
  case Nil
  then show ?case by (simp add: list.rel_refl)
next
  case (Cons e batch)
  let ?t = "rows (pw_store w)"
  let ?before = "\<lambda>batch e. takeWhile (\<lambda>x. oe_id x \<noteq> oe_id e) batch"
  from Cons.prems obtain w1 e' where step: "process st opts config sample e w = (Inr (), w1)"
    and h: "healthy (pw_store w1)" and t1: "rows (pw_store w1) = replace_row e e' ?t"
    and att: "settled opts config sample (pw_sent w) e e'" and sent: "pw_sent w1 = pw_sent w @ [e]"
    using process_effect [of w e opts config sample] by auto
  have i: "oe_id e' = oe_id e" using att by (rule attempted_id [OF settled_attempted])
  have ids1: "ids (rows (pw_store w1)) = ids ?t" by (simp add: t1 ids_replace_row i)
  have new: "oe_id e \<notin> oe_id ` set batch" using Cons.prems(4) by simp
  then have fresh: "e \<notin> set batch" "e' \<notin> set batch" using i by (metis imageI)+
  then have "set batch \<subseteq> set (rows (pw_store w1))"
    using Cons.prems(3) by (auto simp: t1 replace_row_def)
  then obtain w' where w': "process_batch st opts config sample batch w1 = (Inr (), w')" "healthy (pw_store w')"
    and rel: "list_all2 (\<lambda>x x'. if x \<in> set batch
        then settled opts config sample (pw_sent w1 @ ?before batch x) x x' else x' = x)
      (rows (pw_store w1)) (rows (pw_store w'))"
    and sent': "pw_sent w' = pw_sent w1 @ batch"
    using Cons.IH [of w1] Cons.prems h ids1 by auto
  have "list_all2 (\<lambda>x x'. if x \<in> set (e # batch)
      then settled opts config sample (pw_sent w @ ?before (e # batch) x) x x' else x' = x) ?t (rows (pw_store w'))"
    using rel unfolding t1 replace_row_def list_all2_map1
  proof (rule list_all2_mono)
    fix x x' assume a: "if (if x = e then e' else x) \<in> set batch
      then settled opts config sample (pw_sent w1 @ ?before batch (if x = e then e' else x)) (if x = e then e' else x) x'
      else x' = (if x = e then e' else x)"
    show "if x \<in> set (e # batch) then settled opts config sample (pw_sent w @ ?before (e # batch) x) x x' else x' = x"
    proof (cases "x = e")
      case True
      then show ?thesis using a fresh att by simp
    next
      case False
      have "oe_id e \<noteq> oe_id x" if "x \<in> set batch" using new that by (metis imageI)
      then show ?thesis using a False by (auto simp: sent)
    qed
  qed
  then show ?case using step w' sent sent' by auto
qed

text \<open>A cycle whose claim returned settles the rows of the claim, and only those.\<close>

lemma cycle_of_claim:
  assumes "distinct (ids (rows (pw_store w)))" "token (pw_store w) \<noteq> ''''" "\<not> pr_isRunning p"
    and c: "st_claimDueBatch st (oc_batchSize config) (oc_claimTimeoutMs config) (pw_store w) = (Inr batch, s')"
    and h: "healthy s'"
    and cl: "claimDueBatch (token (pw_store w)) now ca locked (oc_batchSize config)
      (oc_claimTimeoutMs config) (rows (pw_store w)) = (batch, rows s')"
  shows "\<exists>w'. runCycle st opts config sample p w = (Inr (length batch), p, w') \<and>
    healthy (pw_store w') \<and>
    list_all2 (\<lambda>e e'. if oe_id e \<in> set (ids batch)
        then settled opts config sample (pw_sent w @ takeWhile (\<lambda>x. oe_id x \<noteq> oe_id e) batch)
          (stamp_claim (token (pw_store w)) ca e) e' else e' = e)
      (rows (pw_store w)) (rows (pw_store w')) \<and>
    pw_sent w' = pw_sent w @ batch"
proof -
  let ?t = "rows (pw_store w)" and ?n = "oc_batchSize config" and ?to = "oc_claimTimeoutMs config"
  note facts = claimDueBatch_facts [OF assms(1), of "token (pw_store w)" now ca locked ?n ?to, unfolded cl Let_def prod.case]
  have ids': "ids (rows s') = ids ?t" using claim_ids [OF assms(1)] cl by (metis snd_conv)
  have sub: "set batch \<subseteq> set (rows s')" and leases: "list_all leased batch" and d: "distinct (ids batch)"
    using facts assms(2) by (auto simp: list_all_iff leased_def str_truthy_iff)
  let ?w1 = "w\<lparr>pw_store := s'\<rparr>"
  obtain w' where w': "process_batch st opts config sample batch ?w1 = (Inr (), w')" "healthy (pw_store w')"
    and rel: "list_all2 (\<lambda>e e'. if e \<in> set batch
        then settled opts config sample (pw_sent w @ takeWhile (\<lambda>x. oe_id x \<noteq> oe_id e) batch) e e' else e' = e)
      (rows s') (rows (pw_store w'))" and sent: "pw_sent w' = pw_sent w @ batch"
    using process_batch_effect [of ?w1 batch opts config sample] h assms(1) ids' sub leases d
    by (auto cong: if_cong)
  have t': "rows s' = map (\<lambda>e. if oe_id e \<in> set (ids batch) then stamp_claim (token (pw_store w)) ca e else e) ?t"
    using facts by blast
  have mem: "e \<in> set batch \<longleftrightarrow> oe_id e \<in> set (ids batch)" if "e \<in> set (rows s')" for e
    by (rule mem_ids [OF _ sub that]) (simp add: ids' assms(1))
  have "list_all2 (\<lambda>e e'. if oe_id e \<in> set (ids batch)
        then settled opts config sample (pw_sent w @ takeWhile (\<lambda>x. oe_id x \<noteq> oe_id e) batch) e e' else e' = e)
      (rows s') (rows (pw_store w'))"
    using rel by (rule list_all2_mono_set) (simp only: mem)
  then have "list_all2 (\<lambda>e e'. if oe_id e \<in> set (ids batch)
        then settled opts config sample (pw_sent w @ takeWhile (\<lambda>x. oe_id x \<noteq> oe_id e) batch)
          (stamp_claim (token (pw_store w)) ca e) e' else e' = e) ?t (rows (pw_store w'))"
    unfolding t' list_all2_map1 by (rule list_all2_mono) (auto split: if_splits)
  moreover have "runCycle st opts config sample p w = (Inr (length batch), p, w')"
    using assms(3) c w'(1) by (simp add: runCycle_def Let_def)
  ultimately show ?thesis using w'(2) sent by blast
qed

end

lemma db_call_cases:
  "db_call q d = (r, d') \<Longrightarrow>
   (case r of Inl e \<Rightarrow> db_table d' = db_table d \<and> db_faults d \<noteq> []
    | Inr a \<Rightarrow> q (db_table d) = (a, db_table d') \<and> db_faults d' = tl (db_faults d))"
  by (auto simp: db_call_def split: list.splits option.splits)

lemma db_call_healthy: "db_faults d = [] \<Longrightarrow> db_call q d =
   (Inr (fst (q (db_table d))), d\<lparr>db_table := snd (q (db_table d)), db_next := Suc (db_next d)\<rparr>)"
  by (simp add: db_call_def)

interpretation rs: outbox_store_laws "repository_store uuid locked" db_table
    "\<lambda>d. db_faults d = []" "\<lambda>d. uuid (db_next d)" for uuid locked
  by unfold_locales
    (fastforce simp: repository_store_def db_call_healthy dest: db_call_cases)+

subsection \<open>Properties of the processor\<close>


abbreviation example_config :: outbox_processor_config where
  "example_config \<equiv> \<lparr>oc_isEnabled = True, oc_pollIntervalMs = 1000, oc_batchSize = 10,
     oc_claimTimeoutMs = 60, oc_maxAttempts = 3, oc_backoffBaseMs = 100, oc_backoffMaxMs = 5000\<rparr>"

abbreviation example_options :: outbox_processor_options where
  "example_options \<equiv> \<lparr>op_name = ''demo'',
     op_publish = (\<lambda>sent e. if oe_id e = ''b'' then Some (ThrowValue JNull) else None),
     op_isPermanentFailure = (\<lambda>_. False)\<rparr>"



text \<open>
  One cycle at a time, and a timer that is released.  A cycle entered while another is in
  progress returns 0 and touches nothing; however a cycle ends, the flag is cleared; a start and a
  stop leave no interval armed, a disabled processor arms none, but a second start loses the
  first interval, which no stop can release.
\<close>

theorem processor_flag_and_timer:
  "runCycle st opts config sample (p\<lparr>pr_isRunning := True\<rparr>) w = (Inr 0, p\<lparr>pr_isRunning := True\<rparr>, w) \<and>
   (case runCycle st opts config sample (p\<lparr>pr_isRunning := False\<rparr>) w of (_, p', _) \<Rightarrow>
      p' = p\<lparr>pr_isRunning := False\<rparr>) \<and>
   pr_armed (processor_stop (processor_start config h processor_new)) = [] \<and>
   processor_start (config\<lparr>oc_isEnabled := False\<rparr>) h p = p \<and>
   pr_armed (processor_stop (processor_start (config\<lparr>oc_isEnabled := True\<rparr>) (Suc h)
       (processor_start (config\<lparr>oc_isEnabled := True\<rparr>) h processor_new))) = [(h, oc_pollIntervalMs config)]"
  by (auto simp: runCycle_def Let_def processor_start_def processor_stop_def processor_new_def
      split: prod.split sum.split)

text \<open>
  C36: a publish that succeeded can be recorded as a failure.  When the gateway accepts the event but
  the write of its completion throws, the attempt is recorded as failed with the database's error:
  the event is sent and its row waits to be sent again, or, on the last attempt, is dead-lettered.
\<close>

theorem published_event_recorded_as_failed:
  assumes "leased e" and "op_publish opts (pw_sent w) e = None"
    and "db_faults (pw_store w) = [Some error]" and "distinct (ids (db_table (pw_store w)))"
    and "e \<in> set (db_table (pw_store w))"
  shows "\<exists>w'. process (repository_store uuid locked) opts config sample e w = (Inr (), w') \<and>
    pw_sent w' = pw_sent w @ [e] \<and>
    db_table (pw_store w') = replace_row e
      (failure_patch (failure_of opts config (sample (length (pw_sent w))) e error) e) (db_table (pw_store w))"
proof -
  let ?d = "(pw_store w)\<lparr>db_faults := []\<rparr>"
  let ?w1 = "w\<lparr>pw_sent := pw_sent w @ [e], pw_store := ?d\<rparr>"
  let ?clock = "sample (length (pw_sent w))"
  have mark: "st_markPublished (repository_store uuid locked) (claim_of e) (pw_store w) = (Inl error, ?d)"
    using assms(3) by (simp add: repository_store_def db_call_def)
  have tok: "oe_claimToken e \<noteq> None" using assms(1) by (auto simp: leased_def str_truthy_iff)
  have run: "process (repository_store uuid locked) opts config sample e w =
      process_failed (repository_store uuid locked) opts config ?clock e error ?w1"
    using assms(1,2) mark by (simp add: process_def leased_def Let_def)
  have "db_faults (pw_store ?w1) = []" and "db_table (pw_store ?w1) = db_table (pw_store w)" by simp_all
  with rs.process_failed_effect [of ?w1 e uuid locked opts config ?clock error] assms(4,5) tok
  show ?thesis unfolding run
    by (cases "process_failed (repository_store uuid locked) opts config ?clock e error ?w1") simp
qed

lemma published_event_recorded_as_failed_witness:
  "\<exists>w'. process (repository_store (\<lambda>_. ''k'') (\<lambda>_. False)) example_options example_config (\<lambda>_. (10, 0))
      (stamp_claim ''k'' 5 (pending_row ''a'' 7))
      \<lparr>pw_store = \<lparr>db_table = [stamp_claim ''k'' 5 (pending_row ''a'' 7)], db_now = 10, db_next = 1,
         db_faults = [Some (ThrowValue JNull)]\<rparr>, pw_sent = [], pw_log = []\<rparr> = (Inr (), w') \<and>
    pw_sent w' = [stamp_claim ''k'' 5 (pending_row ''a'' 7)] \<and>
    map oe_status (db_table (pw_store w')) = [PENDING]"
proof -
  let ?e = "stamp_claim ''k'' 5 (pending_row ''a'' 7)"
  let ?w = "\<lparr>pw_store = \<lparr>db_table = [?e], db_now = 10, db_next = 1,
      db_faults = [Some (ThrowValue JNull)]\<rparr>, pw_sent = [], pw_log = []\<rparr>"
  have "leased ?e" and "op_publish example_options (pw_sent ?w) ?e = None"
    and "db_faults (pw_store ?w) = [Some (ThrowValue JNull)]" and "distinct (ids (db_table (pw_store ?w)))"
    and "?e \<in> set (db_table (pw_store ?w))"
    by (simp_all add: leased_def)
  from published_event_recorded_as_failed [OF this, of "\<lambda>_. ''k''" "\<lambda>_. False" example_config "\<lambda>_. (10, 0)"]
  show ?thesis by (auto simp: replace_row_def)
qed

end
