(* ===== verification/OutboxSystem.thy ===== *)
theory OutboxSystem
  imports OutboxProcessor
begin

section \<open>The outbox: several replicas on one table\<close>

text \<open>
  The interleavings of any number of processors, and of processes that die, on one outbox table.
  A step is one transaction on the table: a row enqueued by the service, a claim by some replica,
  one of the two terminal writes of an attempt under way, or none of these and time passing.  The
  leases are the events as claimed, held by the attempts under way; an attempt whose process dies
  never writes.  The definitions of the steps are those of the storage and of the processor.
\<close>

record outbox_system =
  sy_table :: outbox_table
  sy_now :: int
  sy_used :: "string set"
  sy_leases :: "outbox_event set"

definition fresh_row :: "outbox_table \<Rightarrow> outbox_event \<Rightarrow> bool" where
  "fresh_row t e = (oe_id e \<notin> set (ids t) \<and> oe_status e = PENDING \<and> oe_attemptCount e = 0 \<and>
     oe_claimToken e = None)"

inductive outbox_step ::
    "outbox_processor_options \<Rightarrow> outbox_processor_config \<Rightarrow> outbox_system \<Rightarrow> outbox_system \<Rightarrow> bool"
  for opts :: outbox_processor_options and config :: outbox_processor_config where
  enqueue: "fresh_row (sy_table s) e \<Longrightarrow> outbox_step opts config s (s\<lparr>sy_table := sy_table s @ [e]\<rparr>)"
| tick: "0 \<le> d \<Longrightarrow> outbox_step opts config s (s\<lparr>sy_now := sy_now s + d\<rparr>)"
| claim: "tok \<notin> sy_used s \<Longrightarrow>
    claimDueBatch tok (sy_now s) (sy_now s) locked (oc_batchSize config) (oc_claimTimeoutMs config)
      (sy_table s) = (batch, t') \<Longrightarrow>
    outbox_step opts config s (s\<lparr>sy_table := t', sy_used := insert tok (sy_used s),
      sy_leases := sy_leases s \<union> set batch\<rparr>)"
| publish: "e \<in> sy_leases s \<Longrightarrow>
    outbox_step opts config s (s\<lparr>sy_table := snd (markPublished (sy_now s) (claim_of e) (sy_table s))\<rparr>)"
| fail: "e \<in> sy_leases s \<Longrightarrow>
    outbox_step opts config s (s\<lparr>sy_table :=
      snd (recordFailure (claim_of e) (failure_of opts config clock e error) (sy_table s))\<rparr>)"
| finish: "outbox_step opts config s (s\<lparr>sy_leases := sy_leases s - {e}\<rparr>)"

inductive_cases outbox_stepE: "outbox_step opts config s s'"

text \<open>
  The invariant: ids are distinct; a row is claimed exactly while processing, under a token that
  was used; no row has more attempts than the maximum, and one not yet terminal has attempts left; and an attempt that still holds its row sees
  the attempt count the row has.
\<close>

definition row_ok :: "nat \<Rightarrow> string set \<Rightarrow> outbox_event \<Rightarrow> bool" where
  "row_ok maxAttempts used e =
     ((oe_status e = PROCESSING) = (oe_claimToken e \<noteq> None) \<and>
      set_option (oe_claimToken e) \<subseteq> used \<and>
      (oe_status e \<in> {PENDING, PROCESSING} \<longrightarrow> oe_attemptCount e < maxAttempts) \<and> oe_attemptCount e \<le> maxAttempts)"

definition lease_ok :: "outbox_table \<Rightarrow> string set \<Rightarrow> outbox_event \<Rightarrow> bool" where
  "lease_ok t used e = (oe_claimToken e \<noteq> None \<and> set_option (oe_claimToken e) \<subseteq> used \<and>
     (\<forall>x \<in> set t. holds_claim (claim_of e) x \<longrightarrow> oe_attemptCount x = oe_attemptCount e))"

definition system_ok :: "nat \<Rightarrow> outbox_system \<Rightarrow> bool" where
  "system_ok maxAttempts s =
     (distinct (ids (sy_table s)) \<and> (\<forall>e \<in> set (sy_table s). row_ok maxAttempts (sy_used s) e) \<and>
      (\<forall>e \<in> sy_leases s. lease_ok (sy_table s) (sy_used s) e))"

definition terminal :: "outbox_event \<Rightarrow> bool" where
  "terminal e = (oe_status e \<in> {PUBLISHED, DEAD_LETTER})"

lemma claim_of_simps [simp]:
  "cl_id (claim_of e) = oe_id e" "cl_claimToken (claim_of e) = the (oe_claimToken e)"
  by (simp_all add: claim_of_def)

lemma patch_attempts [simp]:
  "oe_attemptCount (failure_patch f e) = fa_attemptCount f" "oe_attemptCount (published_patch now e) = oe_attemptCount e"
  by (simp_all add: failure_patch_def published_patch_def)

lemma update_row_cases:
  "x \<in> set (snd (updateClaimed c patch t)) \<Longrightarrow>
     (x \<in> set t \<and> \<not> holds_claim c x) \<or> (\<exists>e \<in> set t. holds_claim c e \<and> x = patch e)"
  by (auto simp: updateClaimed_def split: if_splits)

lemma system_ok_update:
  assumes "system_ok m s" and "\<And>x. oe_id (patch x) = oe_id x \<and> oe_claimToken (patch x) = None"
    and "\<And>x. x \<in> set (sy_table s) \<Longrightarrow> holds_claim c x \<Longrightarrow> row_ok m (sy_used s) (patch x)"
  shows "system_ok m (s\<lparr>sy_table := snd (updateClaimed c patch (sy_table s))\<rparr>)"
proof -
  let ?t' = "snd (updateClaimed c patch (sy_table s))"
  have "distinct (ids ?t')" using assms(1,2) by (simp add: system_ok_def)
  moreover have "row_ok m (sy_used s) x" if "x \<in> set ?t'" for x
    using update_row_cases [OF that] assms(1,3) by (auto simp: system_ok_def)
  moreover have "lease_ok ?t' (sy_used s) e" if "e \<in> sy_leases s" for e
  proof -
    have ok: "lease_ok (sy_table s) (sy_used s) e" using assms(1) that by (simp add: system_ok_def)
    have "oe_attemptCount x = oe_attemptCount e" if "x \<in> set ?t'" "holds_claim (claim_of e) x" for x
      using update_row_cases [OF that(1)] that(2) ok assms(2) by (auto simp: lease_ok_def holds_claim_def)
    then show ?thesis using ok by (simp add: lease_ok_def)
  qed
  ultimately show ?thesis by (simp add: system_ok_def)
qed

lemma system_ok_claim:
  assumes "system_ok m s" and "tok \<notin> sy_used s"
    and "claimDueBatch tok now ca locked n timeout (sy_table s) = (batch, t')"
  shows "system_ok m (s\<lparr>sy_table := t', sy_used := insert tok (sy_used s), sy_leases := sy_leases s \<union> set batch\<rparr>)"
proof -
  let ?t = "sy_table s" and ?used = "insert tok (sy_used s)"
  have d: "distinct (ids ?t)" and rows: "\<And>e. e \<in> set ?t \<Longrightarrow> row_ok m (sy_used s) e"
    and leases: "\<And>e. e \<in> sy_leases s \<Longrightarrow> lease_ok ?t (sy_used s) e"
    using assms(1) by (auto simp: system_ok_def)
  have facts: "\<And>r. r \<in> set batch \<Longrightarrow> r \<in> set t' \<and> oe_claimToken r = Some tok"
    "t' = map (\<lambda>e. if oe_id e \<in> set (ids batch) then stamp_claim tok ca e else e) ?t"
    and due: "\<And>r. r \<in> set batch \<Longrightarrow> \<exists>e \<in> set ?t. is_due now timeout e \<and> r = stamp_claim tok ca e"
    using claimDueBatch_facts [OF d, of tok now ca locked n timeout] by (auto simp: assms(3))
  have ids': "ids t' = ids ?t" using claim_ids [OF d] assms(3) by (metis snd_conv)
  then have d': "distinct (ids t')" using d by simp
  have cases: "(x \<in> set ?t \<and> oe_id x \<notin> set (ids batch)) \<or>
      (\<exists>e \<in> set ?t. is_due now timeout e \<and> x = stamp_claim tok ca e)" if x: "x \<in> set t'" for x
  proof (cases "oe_id x \<in> set (ids batch)")
    case True
    then obtain r where "r \<in> set batch" "oe_id r = oe_id x" by auto
    then show ?thesis using facts(1) due same_id [OF d' _ x] by metis
  next
    case False
    then show ?thesis using x unfolding facts(2) by (auto split: if_splits)
  qed
  have "row_ok m ?used x" if "x \<in> set t'" for x
    using cases [OF that] rows by (fastforce simp: row_ok_def is_due_def)
  moreover have "lease_ok t' ?used e" if "e \<in> sy_leases s" for e
  proof -
    have ok: "lease_ok ?t (sy_used s) e" using that by (rule leases)
    have "oe_attemptCount x = oe_attemptCount e" if "x \<in> set t'" "holds_claim (claim_of e) x" for x
      using cases [OF that(1)] that(2) ok assms(2) by (auto simp: lease_ok_def holds_claim_def)
    then show ?thesis using ok by (auto simp: lease_ok_def)
  qed
  moreover have "lease_ok t' ?used r" if "r \<in> set batch" for r
  proof -
    have "oe_attemptCount x = oe_attemptCount r" if "x \<in> set t'" "holds_claim (claim_of r) x" for x
    proof -
      have "x = r" using that facts(1) [OF \<open>r \<in> set batch\<close>] same_id [OF d'] by (auto simp: holds_claim_def)
      then show ?thesis by simp
    qed
    then show ?thesis using facts(1) [OF that] by (auto simp: lease_ok_def)
  qed
  ultimately show ?thesis using d' by (auto simp: system_ok_def)
qed

lemma system_ok_step:
  assumes "outbox_step opts config s s'" and "system_ok (oc_maxAttempts config) s" and "0 < oc_maxAttempts config"
  shows "system_ok (oc_maxAttempts config) s'"
  using assms
proof (induction rule: outbox_step.induct)
  case (enqueue s e)
  then have "row_ok (oc_maxAttempts config) (sy_used s) e" by (auto simp: fresh_row_def row_ok_def)
  moreover have "\<not> holds_claim (claim_of l) e" if "l \<in> sy_leases s" for l
    using enqueue(1) by (auto simp: holds_claim_def fresh_row_def)
  ultimately show ?case using enqueue by (auto simp: system_ok_def lease_ok_def fresh_row_def)
next
  case (tick d s)
  then show ?case by (simp add: system_ok_def)
next
  case (claim tok s locked batch t')
  then show ?case using system_ok_claim by blast
next
  case (publish e s)
  have "oe_attemptCount x \<le> oc_maxAttempts config" if "x \<in> set (sy_table s)" for x
    using publish(2) that by (simp add: system_ok_def row_ok_def)
  then show ?case unfolding markPublished_def
    by (intro system_ok_update [OF publish(2)]) (auto simp: row_ok_def)
next
  case (fail e s clock error)
  have "oe_attemptCount x = oe_attemptCount e" if "x \<in> set (sy_table s)" "holds_claim (claim_of e) x" for x
    using fail(1,2) that by (auto simp: system_ok_def lease_ok_def)
  moreover have "oe_attemptCount x < oc_maxAttempts config" if "x \<in> set (sy_table s)" "holds_claim (claim_of e) x" for x
    using fail(2) that by (auto simp: system_ok_def row_ok_def holds_claim_def)
  ultimately have lt: "oe_attemptCount e < oc_maxAttempts config" if "x \<in> set (sy_table s)" "holds_claim (claim_of e) x" for x
    using that by metis
  have "row_ok (oc_maxAttempts config) (sy_used s) (failure_patch (failure_of opts config clock e error) x)"
    if "x \<in> set (sy_table s)" "holds_claim (claim_of e) x" for x
    using lt [OF that] by (auto simp: row_ok_def)
  then show ?case unfolding recordFailure_def
    by (intro system_ok_update [OF fail(2)]) simp_all
next
  case (finish s e)
  then show ?case by (auto simp: system_ok_def)
qed

lemma terminal_row_kept:
  assumes "outbox_step opts config s s'" and "system_ok m s"
    and "x \<in> set (sy_table s)" and "terminal x"
  shows "x \<in> set (sy_table s')"
proof -
  have tok: "oe_claimToken x = None" and ok: "distinct (ids (sy_table s))"
    using assms(2-4) by (auto simp: system_ok_def row_ok_def terminal_def)
  have update: "x \<in> set (snd (updateClaimed c patch (sy_table s)))" for c patch
  proof -
    have "\<not> holds_claim c x" using tok by (simp add: holds_claim_def)
    then show ?thesis using assms(3) by (auto simp: updateClaimed_def)
  qed
  from assms(1) show ?thesis
  proof (cases rule: outbox_step.cases)
    case (claim tok locked batch t')
    have "x \<notin> set (due_batch (sy_now s) locked n timeout (sy_table s))" for n timeout
      using due_batch_due assms(4) by (fastforce simp: terminal_def is_due_def)
    then have "x \<in> set t'"
      using claim(3) assms(3) by (auto simp: claimDueBatch_table [OF ok] Let_def)
    then show ?thesis using claim(1) by simp
  qed (use assms(3) update in \<open>auto simp: markPublished_def recordFailure_def\<close>)
qed

text \<open>Who an event is, which no step changes.\<close>

definition identity :: "outbox_event \<Rightarrow> string \<times> string \<times> int" where
  "identity e = (oe_id e, oe_tenantId e, oe_createdAt e)"

lemma identity_patches [simp]:
  "identity (stamp_claim tok ca e) = identity e" "identity (published_patch now e) = identity e"
  "identity (failure_patch f e) = identity e"
  by (simp_all add: identity_def stamp_claim_def published_patch_def failure_patch_def)

lemma rows_kept:
  assumes "outbox_step opts config s s'" and "distinct (ids (sy_table s))"
  shows "\<exists>new. map identity (sy_table s') = map identity (sy_table s) @ new"
proof -
  have "map identity (snd (updateClaimed c patch t)) = map identity t" if "\<And>e. identity (patch e) = identity e" for c patch t
    using that by (auto simp: updateClaimed_def)
  moreover have "identity \<circ> (\<lambda>e. if P e then stamp_claim tok ca e else e) = identity" for P tok ca
    by auto
  ultimately show ?thesis using assms
    by (auto elim!: outbox_stepE simp: markPublished_def recordFailure_def claimDueBatch_table Let_def)
qed

lemma system_ok_reachable:
  assumes "(outbox_step opts config)\<^sup>*\<^sup>* s s'" and "system_ok (oc_maxAttempts config) s"
    and "0 < oc_maxAttempts config"
  shows "system_ok (oc_maxAttempts config) s'"
  using assms by (induction rule: rtranclp_induct) (auto intro: system_ok_step)

definition empty_system :: outbox_system where
  "empty_system = \<lparr>sy_table = [], sy_now = 0, sy_used = {}, sy_leases = {}\<rparr>"

lemma empty_system_ok: "system_ok m empty_system"
  by (simp add: system_ok_def empty_system_def)

text \<open>One row enqueued, claimed and published.\<close>

lemma published_run:
  "\<exists>s. (outbox_step example_options example_config)\<^sup>*\<^sup>* empty_system s \<and>
     sy_table s = [published_patch 0 (stamp_claim ''k'' 0 (pending_row ''a'' 0))]"
proof -
  let ?r = "pending_row ''a'' 0"
  let ?c = "stamp_claim ''k'' 0 ?r"
  let ?s1 = "empty_system\<lparr>sy_table := [?r]\<rparr>"
  let ?s2 = "?s1\<lparr>sy_table := [?c], sy_used := insert ''k'' (sy_used ?s1), sy_leases := sy_leases ?s1 \<union> set [?c]\<rparr>"
  let ?s3 = "?s2\<lparr>sy_table := snd (markPublished (sy_now ?s2) (claim_of ?c) (sy_table ?s2))\<rparr>"
  have "fresh_row (sy_table empty_system) ?r" by (simp add: fresh_row_def empty_system_def)
  from outbox_step.enqueue [OF this] have 1: "outbox_step example_options example_config empty_system ?s1"
    by (simp add: empty_system_def)
  have fresh: "''k'' \<notin> sy_used ?s1" by (simp add: empty_system_def)
  have "claimDueBatch ''k'' (sy_now ?s1) (sy_now ?s1) (\<lambda>_. False) (oc_batchSize example_config)
      (oc_claimTimeoutMs example_config) (sy_table ?s1) = ([?c], [?c])"
    by (simp add: empty_system_def claimDueBatch_def due_batch_def is_due_def save_rows_def Let_def)
  from outbox_step.claim [OF fresh this] have 2: "outbox_step example_options example_config ?s1 ?s2" .
  have "?c \<in> sy_leases ?s2" by simp
  from outbox_step.publish [OF this] have 3: "outbox_step example_options example_config ?s2 ?s3" .
  have reach: "(outbox_step example_options example_config)\<^sup>*\<^sup>* empty_system ?s3"
    using 1 2 3 by (meson converse_rtranclp_into_rtranclp rtranclp.rtrancl_refl)
  moreover have "sy_table ?s3 = [published_patch 0 ?c]"
    by (simp add: markPublished_def updateClaimed_def holds_claim_def claim_of_def empty_system_def)
  ultimately show ?thesis by blast
qed

subsection \<open>Properties\<close>

text \<open>
  C8: replicas that race, stall and die never corrupt the table.  In every state reachable from an
  empty table by any interleaving of enqueues, claims, terminal writes and deaths: no two rows
  share an id; a row carries a claim token exactly while it is processing; no row has more recorded failures than
  the maximum, and one still to be tried has fewer; every row there is stays, the same event in the same place,
  in every later state; and a published or dead-lettered row is final, it is the very same row ever after.
\<close>

theorem replicas_preserve_the_outbox:
  assumes "0 < oc_maxAttempts config"
    and "(outbox_step opts config)\<^sup>*\<^sup>* empty_system s" and "(outbox_step opts config)\<^sup>*\<^sup>* s s'"
  shows "distinct (ids (sy_table s)) \<and>
    (\<forall>e \<in> set (sy_table s). (oe_status e = PROCESSING) = (oe_claimToken e \<noteq> None)) \<and>
    (\<forall>e \<in> set (sy_table s). oe_attemptCount e \<le> oc_maxAttempts config \<and>
      (oe_status e \<in> {PENDING, PROCESSING} \<longrightarrow> oe_attemptCount e < oc_maxAttempts config)) \<and>
    (\<exists>new. map identity (sy_table s') = map identity (sy_table s) @ new) \<and>
    {e \<in> set (sy_table s). terminal e} \<subseteq> {e \<in> set (sy_table s'). terminal e}"
proof -
  have ok: "system_ok (oc_maxAttempts config) s"
    using system_ok_reachable [OF assms(2) empty_system_ok assms(1)] .
  have "x \<in> set (sy_table s')" if "x \<in> set (sy_table s)" "terminal x" for x
    using assms(3)
  proof (induction rule: rtranclp_induct)
    case base
    show ?case by (rule that)
  next
    case (step y z)
    then show ?case
      using terminal_row_kept [OF step(2) system_ok_reachable [OF step(1) ok assms(1)]] that(2) by blast
  qed
  moreover have "\<exists>new. map identity (sy_table s') = map identity (sy_table s) @ new"
    using assms(3)
  proof (induction rule: rtranclp_induct)
    case (step y z)
    have "distinct (ids (sy_table y))"
      using system_ok_reachable [OF step(1) ok assms(1)] by (simp add: system_ok_def)
    from rows_kept [OF step(2) this] step(3) show ?case by auto
  qed simp
  ultimately show ?thesis using ok by (auto simp: system_ok_def row_ok_def)
qed

lemma replicas_preserve_the_outbox_witness:
  "\<exists>s. (outbox_step example_options example_config)\<^sup>*\<^sup>* empty_system s \<and>
     sy_table s = [published_patch 0 (stamp_claim ''k'' 0 (pending_row ''a'' 0))] \<and>
     distinct (ids (sy_table s))"
proof -
  obtain s where reach: "(outbox_step example_options example_config)\<^sup>*\<^sup>* empty_system s"
    and t: "sy_table s = [published_patch 0 (stamp_claim ''k'' 0 (pending_row ''a'' 0))]"
    using published_run by blast
  have "0 < oc_maxAttempts example_config" by simp
  from replicas_preserve_the_outbox [OF this reach rtranclp.rtrancl_refl] reach t show ?thesis by blast
qed

end
