(* ===== verification/OutboxSpec.thy ===== *)
theory OutboxSpec
  imports OutboxSystem
begin

section \<open>The outbox: what it promises\<close>

text \<open>
  An abstract outbox, of which the table with its queries and the processor are a refinement, and
  the progress the detailed outbox makes.  Abstractly an event waits, is leased, or is finished,
  with the failures it has had; there are no tokens, clocks, batches or rows.
\<close>

subsection \<open>The life of an event\<close>

datatype life = Waiting nat | Leased nat | Done | Dead

text \<open>Here \<open>m\<close> is the number of attempts an event may have.\<close>

inductive life_step :: "nat \<Rightarrow> life \<Rightarrow> life \<Rightarrow> bool" for m :: nat where
  lease: "life_step m (Waiting n) (Leased n)"
| publish: "life_step m (Leased n) Done"
| retry: "Suc n < m \<Longrightarrow> life_step m (Leased n) (Waiting (Suc n))"
| dead: "life_step m (Leased n) Dead"

inductive_simps life_step_simps [simp]:
  "life_step m (Waiting n) l" "life_step m (Leased n) l" "life_step m Done l" "life_step m Dead l"

text \<open>An outbox maps the ids it knows to their lives; a step adds a new event, or advances some.\<close>

inductive spec_step :: "nat \<Rightarrow> (string \<rightharpoonup> life) \<Rightarrow> (string \<rightharpoonup> life) \<Rightarrow> bool" for m :: nat where
  enqueue: "A i = None \<Longrightarrow> spec_step m A (A(i \<mapsto> Waiting 0))"
| advance: "(\<And>i. rel_option (\<lambda>l l'. l' = l \<or> life_step m l l') (A i) (A' i)) \<Longrightarrow> spec_step m A A'"

subsection \<open>The refinement\<close>

definition life_of :: "outbox_event \<Rightarrow> life" where
  "life_of e = (case oe_status e of
     PENDING \<Rightarrow> Waiting (oe_attemptCount e)
   | PROCESSING \<Rightarrow> Leased (oe_attemptCount e)
   | PUBLISHED \<Rightarrow> Done
   | DEAD_LETTER \<Rightarrow> Dead)"

definition lives :: "outbox_table \<Rightarrow> string \<rightharpoonup> life" where
  "lives t = map_of (map (\<lambda>e. (oe_id e, life_of e)) t)"

lemma life_of_patches [simp]:
  "life_of (published_patch now e) = Done"
  "life_of (failure_patch f e) = (if fa_isDeadLetter f then Dead else Waiting (fa_attemptCount f))"
  "life_of (stamp_claim tok ca e) = Leased (oe_attemptCount e)"
  by (simp_all add: life_of_def)

lemma lives_map:
  assumes "\<And>e. e \<in> set t \<Longrightarrow> oe_id (f e) = oe_id e \<and> (life_of (f e) = life_of e \<or> life_step m (life_of e) (life_of (f e)))"
  shows "rel_option (\<lambda>l l'. l' = l \<or> life_step m l l') (lives t i) (lives (map f t) i)"
  using assms by (induction t) (auto simp: lives_def)

lemma spec_step_map:
  assumes "\<And>e. e \<in> set t \<Longrightarrow> oe_id (f e) = oe_id e \<and> (life_of (f e) = life_of e \<or> life_step m (life_of e) (life_of (f e)))"
  shows "spec_step m (lives t) (lives (map f t))"
  by (rule spec_step.advance) (rule lives_map [OF assms])

lemma spec_step_refl: "spec_step m A A"
  by (rule spec_step.advance) (simp add: option.rel_refl)

lemma lives_snoc: "oe_id e \<notin> set (ids t) \<Longrightarrow> lives (t @ [e]) = (lives t)(oe_id e \<mapsto> life_of e)"
proof -
  assume new: "oe_id e \<notin> set (ids t)"
  then have "oe_id e \<notin> dom (lives t)" by (auto simp: lives_def dom_map_of_conv_image_fst)
  then show ?thesis by (auto simp: lives_def map_add_def fun_eq_iff split: option.splits)
qed

lemma held_is_leased:
  assumes "system_ok m s" and "x \<in> set (sy_table s)" and "holds_claim (claim_of e) x" and "e \<in> sy_leases s"
  shows "life_of x = Leased (oe_attemptCount e)"
proof -
  have "oe_claimToken x \<noteq> None" using assms(3) by (simp add: holds_claim_def)
  then have "oe_status x = PROCESSING" using assms(1,2) by (auto simp: system_ok_def row_ok_def)
  moreover have "oe_attemptCount x = oe_attemptCount e"
    using assms by (auto simp: system_ok_def lease_ok_def)
  ultimately show ?thesis by (simp add: life_of_def)
qed

lemma spec_step_update:
  assumes "system_ok m s" and "e \<in> sy_leases s" and "\<And>x. oe_id (patch x) = oe_id x"
    and "\<And>x. life_step m (Leased (oe_attemptCount e)) (life_of (patch x))"
  shows "spec_step m (lives (sy_table s)) (lives (snd (updateClaimed (claim_of e) patch (sy_table s))))"
  unfolding updateClaimed_def snd_conv
proof (rule spec_step_map)
  fix x assume "x \<in> set (sy_table s)"
  then show "oe_id (if holds_claim (claim_of e) x then patch x else x) = oe_id x \<and>
      (life_of (if holds_claim (claim_of e) x then patch x else x) = life_of x \<or>
       life_step m (life_of x) (life_of (if holds_claim (claim_of e) x then patch x else x)))"
    using held_is_leased [OF assms(1) _ _ assms(2)] assms(3,4) by auto
qed

lemma spec_step_claim:
  assumes "distinct (ids t)" and "claimDueBatch tok now ca locked n timeout t = (batch, t')"
  shows "spec_step m (lives t) (lives t')"
proof -
  let ?rows = "due_batch now locked n timeout t"
  have t': "t' = map (\<lambda>e. if e \<in> set ?rows then stamp_claim tok ca e else e) t"
    using assms by (simp add: claimDueBatch_table Let_def)
  show ?thesis unfolding t'
  proof (rule spec_step_map)
    fix e assume "e \<in> set t"
    have "life_of (stamp_claim tok ca e) = life_of e \<or> life_step m (life_of e) (life_of (stamp_claim tok ca e))"
      if "e \<in> set ?rows"
      using due_batch_due [OF that] by (auto simp: is_due_def life_of_def)
    then show "oe_id (if e \<in> set ?rows then stamp_claim tok ca e else e) = oe_id e \<and>
        (life_of (if e \<in> set ?rows then stamp_claim tok ca e else e) = life_of e \<or>
         life_step m (life_of e) (life_of (if e \<in> set ?rows then stamp_claim tok ca e else e)))"
      by auto
  qed
qed

lemma step_refines:
  assumes "outbox_step opts config s s'" and "system_ok (oc_maxAttempts config) s"
  shows "spec_step (oc_maxAttempts config) (lives (sy_table s)) (lives (sy_table s'))"
  using assms(1)
proof (cases rule: outbox_step.cases)
  case (enqueue e)
  then have "oe_id e \<notin> set (ids (sy_table s))" and "life_of e = Waiting 0"
    by (simp_all add: fresh_row_def life_of_def)
  moreover have "lives (sy_table s) (oe_id e) = None"
    using calculation(1) by (force simp: lives_def map_of_eq_None_iff)
  ultimately show ?thesis
    using enqueue(1) spec_step.enqueue [of "lives (sy_table s)" "oe_id e"] by (simp add: lives_snoc)
next
  case (claim tok locked batch t')
  have "distinct (ids (sy_table s))" using assms(2) by (simp add: system_ok_def)
  from spec_step_claim [OF this claim(3)] show ?thesis using claim(1) by simp
next
  case (publish e)
  have "spec_step (oc_maxAttempts config) (lives (sy_table s))
      (lives (snd (updateClaimed (claim_of e) (published_patch (sy_now s)) (sy_table s))))"
    by (rule spec_step_update [OF assms(2) publish(2)]) simp_all
  then show ?thesis by (simp add: publish(1) markPublished_def)
next
  case (fail e clock error)
  have "spec_step (oc_maxAttempts config) (lives (sy_table s))
      (lives (snd (updateClaimed (claim_of e) (failure_patch (failure_of opts config clock e error)) (sy_table s))))"
    by (rule spec_step_update [OF assms(2) fail(2)]) auto
  then show ?thesis by (simp add: fail(1) recordFailure_def)
qed (simp_all add: spec_step_refl)

subsection \<open>Progress\<close>

text \<open>
  One processor alone on a healthy database: a cycle at a database time \<open>now\<close>, and cycles at a list
  of times.  A schedule is patient when at each of its times every event that is not finished is
  due, which a later clock always achieves.
\<close>

definition cycle_at ::
    "(nat \<Rightarrow> string) \<Rightarrow> outbox_processor_options \<Rightarrow> outbox_processor_config \<Rightarrow> (nat \<Rightarrow> int \<times> rat) \<Rightarrow>
     int \<Rightarrow> outbox_db processor_world \<Rightarrow> outbox_db processor_world" where
  "cycle_at uuid opts config sample now w =
     snd (snd (runCycle (repository_store uuid (\<lambda>_. False)) opts config sample processor_new
       (w\<lparr>pw_store := (pw_store w)\<lparr>db_now := now\<rparr>\<rparr>)))"

fun cycles_at ::
    "(nat \<Rightarrow> string) \<Rightarrow> outbox_processor_options \<Rightarrow> outbox_processor_config \<Rightarrow> (nat \<Rightarrow> int \<times> rat) \<Rightarrow>
     int list \<Rightarrow> outbox_db processor_world \<Rightarrow> outbox_db processor_world" where
  "cycles_at uuid opts config sample [] w = w"
| "cycles_at uuid opts config sample (now # later) w =
     cycles_at uuid opts config sample later (cycle_at uuid opts config sample now w)"

fun patient ::
    "(nat \<Rightarrow> string) \<Rightarrow> outbox_processor_options \<Rightarrow> outbox_processor_config \<Rightarrow> (nat \<Rightarrow> int \<times> rat) \<Rightarrow>
     int list \<Rightarrow> outbox_db processor_world \<Rightarrow> bool" where
  "patient uuid opts config sample [] w = True"
| "patient uuid opts config sample (now # later) w =
     (list_all (\<lambda>e. terminal e \<or> is_due now (oc_claimTimeoutMs config) e) (db_table (pw_store w)) \<and>
      patient uuid opts config sample later (cycle_at uuid opts config sample now w))"

definition idle_world :: "outbox_processor_config \<Rightarrow> outbox_db processor_world \<Rightarrow> bool" where
  "idle_world config w = (db_faults (pw_store w) = [] \<and> distinct (ids (db_table (pw_store w))) \<and>
     0 < oc_batchSize config)"

text \<open>
  The attempts an event may still need, at least one while it is not finished, and what a cycle makes of them: an
  event of the batch is finished or has failed once more, the others stay.
\<close>

definition work :: "outbox_processor_config \<Rightarrow> outbox_event \<Rightarrow> nat" where
  "work config e = (if terminal e then 0 else max 1 (oc_maxAttempts config - oe_attemptCount e))"

definition table_work :: "outbox_processor_config \<Rightarrow> outbox_table \<Rightarrow> nat" where
  "table_work config t = sum_list (map (work config) t)"

lemma settled_work:
  assumes "settled opts config sample sent (stamp_claim tok ca e) e'" and "\<not> terminal e"
  shows "work config e' < work config e"
  using assms by (auto simp: settled_def work_def terminal_def split: option.splits if_splits)

lemma work_bound: "work config e \<le> max 1 (oc_maxAttempts config)"
  by (auto simp: work_def)

lemma table_work_bound: "table_work config t \<le> max 1 (oc_maxAttempts config) * length t"
proof (induction t)
  case (Cons e t)
  then show ?case using work_bound [of config e] by (simp add: table_work_def)
qed (simp add: table_work_def)

lemma table_work_zero: "table_work config t = 0 \<longleftrightarrow> list_all terminal t"
  by (induction t) (auto simp: table_work_def work_def)

lemma table_work_less:
  assumes "list_all2 (\<lambda>e e'. if e \<in> B then work config e' < work config e else e' = e) t t'"
    and "e \<in> set t" and "e \<in> B"
  shows "table_work config t' < table_work config t"
  using assms
proof (induction rule: list_all2_induct)
  case (Cons x xs y ys)
  have le: "table_work config ys \<le> table_work config xs"
    using Cons.hyps(2) by (induction rule: list_all2_induct) (auto simp: table_work_def split: if_splits)
  show ?case
  proof (cases "x \<in> B")
    case True
    then show ?thesis using Cons.hyps(1) le by (simp add: table_work_def)
  next
    case False
    then show ?thesis using Cons by (auto simp: table_work_def split: if_splits)
  qed
qed simp

lemma one_cycle:
  assumes "idle_world config w" and "\<And>n. uuid n \<noteq> ''''"
  shows "let t = db_table (pw_store w); w' = cycle_at uuid opts config sample now w;
      due = due_batch now (\<lambda>_. False) (oc_batchSize config) (oc_claimTimeoutMs config) t
    in idle_world config w' \<and> length (db_table (pw_store w')) = length t \<and>
      list_all2 (\<lambda>e e'. if e \<in> set due then work config e' < work config e else e' = e) t (db_table (pw_store w'))"
proof -
  let ?w = "w\<lparr>pw_store := (pw_store w)\<lparr>db_now := now\<rparr>\<rparr>"
  let ?t = "db_table (pw_store w)" and ?to = "oc_claimTimeoutMs config" and ?tok = "uuid (db_next (pw_store w))"
  let ?st = "repository_store uuid (\<lambda>_. False)"
  let ?due = "due_batch now (\<lambda>_. False) (oc_batchSize config) ?to ?t"
  let ?batch = "map (stamp_claim ?tok now) ?due"
  define s' where "s' = (pw_store ?w)\<lparr>db_table := snd (claimDueBatch ?tok now now (\<lambda>_. False) (oc_batchSize config) ?to ?t),
    db_next := Suc (db_next (pw_store w))\<rparr>"
  have d: "distinct (ids ?t)" and f: "db_faults (pw_store w) = []" using assms(1) by (simp_all add: idle_world_def)
  have b: "fst (claimDueBatch ?tok now now (\<lambda>_. False) (oc_batchSize config) ?to ?t) = ?batch"
    by (simp only: claimDueBatch_table [OF d] Let_def fst_conv)
  then have cl: "claimDueBatch ?tok now now (\<lambda>_. False) (oc_batchSize config) ?to ?t = (?batch, db_table s')"
    by (simp add: s'_def prod_eq_iff)
  have c: "st_claimDueBatch ?st (oc_batchSize config) ?to (pw_store ?w) = (Inr ?batch, s')" and h: "db_faults s' = []"
    using f by (simp_all add: repository_store_def db_call_def s'_def b)
  obtain w' where run: "runCycle ?st opts config sample processor_new ?w = (Inr (length ?batch), processor_new, w')"
    and h': "db_faults (pw_store w') = []"
    and rel: "list_all2 (\<lambda>e e'. if oe_id e \<in> set (ids ?batch)
        then settled opts config sample (pw_sent w @ takeWhile (\<lambda>x. oe_id x \<noteq> oe_id e) ?batch) (stamp_claim ?tok now e) e'
        else e' = e) ?t (db_table (pw_store w'))"
    using rs.cycle_of_claim [where uuid = uuid and w = ?w and p = processor_new, OF _ _ _ c h, of now now "\<lambda>_. False" opts sample]
      d assms(2) cl by (auto simp: processor_new_def cong: if_cong)
  have w': "cycle_at uuid opts config sample now w = w'" by (simp add: cycle_at_def run)
  have "set ?due \<subseteq> set ?t" using due_batch_due by blast
  moreover have "ids ?batch = ids ?due" by simp
  ultimately have mem: "oe_id e \<in> set (ids ?batch) \<longleftrightarrow> e \<in> set ?due" if "e \<in> set ?t" for e
    using mem_ids [OF d _ that] by (simp only:)
  have open_due: "\<not> terminal e" if "e \<in> set ?due" for e
    using due_batch_due [OF that] by (auto simp: terminal_def is_due_def)
  have step: "list_all2 (\<lambda>e e'. if e \<in> set ?due then work config e' < work config e else e' = e) ?t (db_table (pw_store w'))"
    using rel by (rule list_all2_mono_set) (simp only: mem, auto split: if_splits dest: settled_work open_due)
  have "list_all2 (\<lambda>e e'. oe_id e' = oe_id e) ?t (db_table (pw_store w'))"
    using rel by (rule list_all2_mono) (auto split: if_splits dest: attempted_id [OF settled_attempted])
  then have "ids (db_table (pw_store w')) = ids ?t"
    by (induction rule: list_all2_induct) auto
  then have "idle_world config w'" and "length (db_table (pw_store w')) = length ?t"
    using assms(1) h' by (auto simp: idle_world_def dest: map_eq_imp_length_eq)
  then show ?thesis using step by (simp add: w' Let_def)
qed

text \<open>Each patient cycle leaves less work, until there is none.\<close>

lemma cycle_works:
  assumes "idle_world config w" and "\<And>n. uuid n \<noteq> ''''"
    and due: "list_all (\<lambda>e. terminal e \<or> is_due now (oc_claimTimeoutMs config) e) (db_table (pw_store w))"
  shows "table_work config (db_table (pw_store (cycle_at uuid opts config sample now w))) \<le>
    table_work config (db_table (pw_store w)) - 1"
proof -
  let ?t = "db_table (pw_store w)" and ?to = "oc_claimTimeoutMs config"
  let ?due = "due_batch now (\<lambda>_. False) (oc_batchSize config) ?to ?t"
  note step = one_cycle [where uuid = uuid, OF assms(1,2), where opts = opts and sample = sample and now = now, unfolded Let_def, THEN conjunct2, THEN conjunct2]
  show ?thesis
  proof (cases "?due = []")
    case True
    have "0 < oc_batchSize config" using assms(1) by (simp add: idle_world_def)
    then have "filter (is_due now ?to) ?t = []"
      using True by (simp add: due_batch_def) (metis length_sort list.size(3) length_0_conv)
    then have "list_all terminal ?t" using due by (auto simp: list_all_iff filter_empty_conv)
    then have "table_work config ?t = 0" by (simp add: table_work_zero)
    moreover have "db_table (pw_store (cycle_at uuid opts config sample now w)) = ?t"
      using step unfolding True by (simp add: list_all2_conv_all_nth list_eq_iff_nth_eq)
    ultimately show ?thesis by simp
  next
    case False
    then obtain e where e: "e \<in> set ?due" by (cases ?due) auto
    then have "e \<in> set ?t" using due_batch_due by blast
    from table_work_less [OF step this e] show ?thesis by simp
  qed
qed

lemma cycles_work:
  assumes "idle_world config w" and "\<And>n. uuid n \<noteq> ''''" and "patient uuid opts config sample nows w"
  shows "table_work config (db_table (pw_store (cycles_at uuid opts config sample nows w))) \<le>
    table_work config (db_table (pw_store w)) - length nows"
  using assms(1,3)
proof (induction nows arbitrary: w)
  case (Cons now later)
  let ?w1 = "cycle_at uuid opts config sample now w"
  have "idle_world config ?w1" using one_cycle [where uuid = uuid, OF Cons.prems(1) assms(2), where opts = opts and sample = sample and now = now] by (simp add: Let_def)
  moreover have "patient uuid opts config sample later ?w1" using Cons.prems(2) by simp
  ultimately have "table_work config (db_table (pw_store (cycles_at uuid opts config sample later ?w1))) \<le>
      table_work config (db_table (pw_store ?w1)) - length later"
    by (rule Cons.IH)
  moreover have "table_work config (db_table (pw_store ?w1)) \<le> table_work config (db_table (pw_store w)) - 1"
    by (rule cycle_works [OF Cons.prems(1) assms(2)]) (use Cons.prems(2) in simp)
  ultimately show ?case by simp
qed simp

subsection \<open>Properties\<close>

text \<open>
  C9: the outbox is an abstract one.  Every run of the detailed outbox, with its tokens, leases,
  batches, retries and replicas that race or die, is a run of the outbox in which an event waits, is
  leased, and is done, or fails and waits again with one failure more while it has attempts left, or
  is dead: nothing is lost, duplicated or revived, and no event is done without a lease.
\<close>

theorem outbox_refines_lives:
  assumes "0 < oc_maxAttempts config"
    and "(outbox_step opts config)\<^sup>*\<^sup>* empty_system s" and "(outbox_step opts config)\<^sup>*\<^sup>* s s'"
  shows "(spec_step (oc_maxAttempts config))\<^sup>*\<^sup>* Map.empty (lives (sy_table s)) \<and>
    (spec_step (oc_maxAttempts config))\<^sup>*\<^sup>* (lives (sy_table s)) (lives (sy_table s'))"
proof -
  have run: "(spec_step (oc_maxAttempts config))\<^sup>*\<^sup>* (lives (sy_table a)) (lives (sy_table b))"
    if "(outbox_step opts config)\<^sup>*\<^sup>* a b" "system_ok (oc_maxAttempts config) a" for a b
    using that
  proof (induction rule: rtranclp_induct)
    case (step y z)
    have "spec_step (oc_maxAttempts config) (lives (sy_table y)) (lives (sy_table z))"
      by (rule step_refines [OF step(2) system_ok_reachable [OF step(1,4) assms(1)]])
    then show ?case using step by auto
  qed simp
  have "lives (sy_table empty_system) = Map.empty" by (simp add: lives_def empty_system_def)
  then show ?thesis
    using run [OF assms(2) empty_system_ok] run [OF assms(3) system_ok_reachable [OF assms(2) empty_system_ok assms(1)]]
    by simp
qed

lemma outbox_refines_lives_witness:
  "(spec_step 3)\<^sup>*\<^sup>* Map.empty [''a'' \<mapsto> Done]"
proof -
  obtain s where "(outbox_step example_options example_config)\<^sup>*\<^sup>* empty_system s"
    and t: "sy_table s = [published_patch 0 (stamp_claim ''k'' 0 (pending_row ''a'' 0))]"
    using published_run by blast
  from outbox_refines_lives [OF _ this(1) rtranclp.rtrancl_refl] show ?thesis
    by (simp add: lives_def life_of_def t)
qed

text \<open>
  C10: every event is eventually finished.  With the database answering, one processor at work and a batch of at least
  one row, as many patient cycles as the events may have attempts in all leave every event published or
  dead-lettered, whatever the gateway does and whatever crashed processors left behind.  A cycle is
  patient when every event that is not finished is due at its time.
\<close>

theorem outbox_drains:
  assumes "idle_world config w" and "\<And>n. uuid n \<noteq> ''''"
    and "patient uuid opts config sample nows w"
    and "max 1 (oc_maxAttempts config) * length (db_table (pw_store w)) \<le> length nows"
  shows "list_all terminal (db_table (pw_store (cycles_at uuid opts config sample nows w)))"
proof -
  have "table_work config (db_table (pw_store w)) \<le> length nows"
    using table_work_bound assms(4) by (rule order_trans)
  with cycles_work [OF assms(1-3)] have "table_work config (db_table (pw_store (cycles_at uuid opts config sample nows w))) = 0"
    by simp
  then show ?thesis by (simp only: table_work_zero)
qed

definition refusing_options :: outbox_processor_options where
  "refusing_options = \<lparr>op_name = ''demo'', op_publish = (\<lambda>_ _. Some (ThrowValue JNull)),
     op_isPermanentFailure = (\<lambda>_. False)\<rparr>"

definition draining_world :: "outbox_db processor_world" where
  "draining_world = \<lparr>pw_store = \<lparr>db_table = [pending_row ''a'' 7, stamp_claim ''x'' 5 (pending_row ''b'' 5)],
     db_now = 10, db_next = 0, db_faults = []\<rparr>, pw_sent = [], pw_log = []\<rparr>"

lemma outbox_drains_witness:
  "map oe_status (db_table (pw_store (cycles_at (\<lambda>_. ''k'') refusing_options example_config (\<lambda>_. (100, 0))
      [100, 200, 300, 400, 500, 600] draining_world))) = [DEAD_LETTER, DEAD_LETTER] \<and>
   list_all terminal (db_table (pw_store (cycles_at (\<lambda>_. ''k'') refusing_options example_config (\<lambda>_. (100, 0))
      [100, 200, 300, 400, 500, 600] draining_world)))"
proof (rule conjI)
  show "map oe_status (db_table (pw_store (cycles_at (\<lambda>_. ''k'') refusing_options example_config (\<lambda>_. (100, 0))
      [100, 200, 300, 400, 500, 600] draining_world))) = [DEAD_LETTER, DEAD_LETTER]" by code_simp
  have i: "idle_world example_config draining_world" by code_simp
  have p: "patient (\<lambda>_. ''k'') refusing_options example_config (\<lambda>_. (100, 0)) [100, 200, 300, 400, 500, 600] draining_world"
    by code_simp
  show "list_all terminal (db_table (pw_store (cycles_at (\<lambda>_. ''k'') refusing_options example_config
      (\<lambda>_. (100, 0)) [100, 200, 300, 400, 500, 600] draining_world)))"
    by (rule outbox_drains [OF i _ p]) (simp_all add: draining_world_def)
qed

end
