(* ===== verification/RateLimit.thy ===== *)
theory RateLimit
  imports Exceptions
begin

section \<open>Rate limiting\<close>

text \<open>
  The files of \<^verbatim>\<open>rate-limit/\<close>: the token bucket that runs inside Redis
  (\<^verbatim>\<open>token-bucket.constant.ts\<close>, a Lua script), the service that calls it and the key it builds.
  Numbers are exact rationals, so a stored fraction of a token is exact; instants are milliseconds.
  SHA-256 is a parameter.
\<close>

subsection \<open>Keys\<close>

definition RATE_LIMIT_KEY_ENTITY :: string where
  "RATE_LIMIT_KEY_ENTITY = ''ratelimit''"

definition RATE_LIMIT_HASH_LENGTH :: nat where
  "RATE_LIMIT_HASH_LENGTH = 32"

definition RATE_LIMIT_DEFAULT_COST :: rat where
  "RATE_LIMIT_DEFAULT_COST = 1"

definition MS_PER_MINUTE :: rat where
  "MS_PER_MINUTE = 60000"

definition buildRateLimitKey :: "string \<Rightarrow> string \<Rightarrow> string \<Rightarrow> string option \<Rightarrow> string" where
  "buildRateLimitKey namespace scope hashTag suffix =
     (let key = namespace @ '':'' @ RATE_LIMIT_KEY_ENTITY @ '':'' @ to_lower scope @ '':{'' @ hashTag @ ''}''
      in if str_truthy suffix then key @ '':'' @ the suffix else key)"

definition hashRateLimitIdentifier :: "(string \<Rightarrow> string) \<Rightarrow> string \<Rightarrow> string" where
  "hashRateLimitIdentifier sha256_hex v = take RATE_LIMIT_HASH_LENGTH (sha256_hex v)"

subsection \<open>The script\<close>

text \<open>
  A bucket as Redis stores it: the two fields of the hash and the instant at which the key expires.
  \<open>now\<close> is the caller's clock, an argument of the script; \<open>server_now\<close> is the clock of Redis, which
  expiry goes by.
\<close>

record bucket =
  bk_tokens :: rat
  bk_updatedAt :: rat
  bk_expiresAt :: "rat option"

type_synonym redis = "string \<rightharpoonup> bucket"

definition read_bucket :: "rat \<Rightarrow> string \<Rightarrow> redis \<Rightarrow> bucket option" where
  "read_bucket server_now key r = (case r key of
     None \<Rightarrow> None
   | Some b \<Rightarrow> (case bk_expiresAt b of
       None \<Rightarrow> Some b
     | Some t \<Rightarrow> if server_now < t then Some b else None))"

text \<open>
  The body of the script.  \<open>HSET\<close> keeps a key's expiry; with a refill rate of zero the division gives
  an infinity, or no number at all, which \<open>PEXPIRE\<close> refuses: the script ends in an error with the
  hash already written, since Redis rolls nothing back.
\<close>

definition token_bucket_script ::
    "string \<Rightarrow> rat \<Rightarrow> rat \<Rightarrow> rat \<Rightarrow> rat \<Rightarrow> rat \<Rightarrow> redis \<Rightarrow> (string + int \<times> int \<times> int) \<times> redis" where
  "token_bucket_script key capacity refillPerMs now cost server_now r =
     (let stored = read_bucket server_now key r;
          (tokens0, updatedAt0) = (case stored of None \<Rightarrow> (capacity, now)
            | Some b \<Rightarrow> (bk_tokens b, bk_updatedAt b));
          (tokens1, updatedAt1) = (if now > updatedAt0
            then (min capacity (tokens0 + (now - updatedAt0) * refillPerMs), now)
            else (tokens0, updatedAt0));
          allowed = (tokens1 \<ge> cost);
          tokens2 = (if allowed then tokens1 - cost else tokens1);
          r1 = r(key \<mapsto> \<lparr>bk_tokens = tokens2, bk_updatedAt = updatedAt1,
                  bk_expiresAt = Option.bind stored bk_expiresAt\<rparr>)
      in if refillPerMs = 0 then (Inl ''ERR value is not an integer or out of range'', r1)
         else
           (Inr (if allowed then 1 else 0, \<lfloor>tokens2\<rfloor>,
                 if allowed then 0 else \<lceil>(cost - tokens2) / refillPerMs\<rceil>),
            r(key \<mapsto> \<lparr>bk_tokens = tokens2, bk_updatedAt = updatedAt1,
              bk_expiresAt = Some (server_now + of_int \<lceil>(capacity - tokens2) / refillPerMs\<rceil> + 1000)\<rparr>)))"

subsection \<open>The service\<close>

record rate_limit_policy =
  rp_perMinute :: rat
  rp_burst :: rat

record rate_limit_decision =
  rd_isAllowed :: bool
  rd_isEnforced :: bool
  rd_limit :: rat
  rd_remaining :: rat
  rd_retryAfterSeconds :: int

record consume_input =
  ci_scope :: string
  ci_hashTag :: string
  ci_suffix :: "string option"
  ci_policy :: rate_limit_policy
  ci_now :: rat

text \<open>
  The client with the command attached: arguments in the order of the call, and an error (of the
  script, or of the connection) or the three numbers.  \<open>'r\<close> is the state behind it.
\<close>

type_synonym 'r redis_client = "string \<Rightarrow> rat \<Rightarrow> rat \<Rightarrow> rat \<Rightarrow> rat \<Rightarrow> 'r \<Rightarrow> (string + int \<times> int \<times> int) \<times> 'r"

record 'r rate_limit_service =
  rl_isCommandDefined :: bool
  rl_redis :: 'r
  rl_errors :: "(string \<times> string) list"

definition toRefillPerMs :: "rate_limit_policy \<Rightarrow> rat" where
  "toRefillPerMs policy = rp_perMinute policy / MS_PER_MINUTE"

definition unenforced :: "rate_limit_policy \<Rightarrow> rate_limit_decision" where
  "unenforced policy = \<lparr>rd_isAllowed = True, rd_isEnforced = False, rd_limit = rp_burst policy,
     rd_remaining = rp_burst policy, rd_retryAfterSeconds = 0\<rparr>"

definition defineCommandOnce :: "'r redis_client option \<Rightarrow> 'r rate_limit_service \<Rightarrow> 'r rate_limit_service" where
  "defineCommandOnce client s =
     (if rl_isCommandDefined s then s
      else if client \<noteq> None then s\<lparr>rl_isCommandDefined := True\<rparr> else s)"

definition consume ::
    "string \<Rightarrow> 'r redis_client option \<Rightarrow> consume_input \<Rightarrow> 'r rate_limit_service \<Rightarrow>
     rate_limit_decision \<times> 'r rate_limit_service" where
  "consume namespace client input s = (case client of
     None \<Rightarrow> (unenforced (ci_policy input), s)
   | Some call \<Rightarrow>
       let key = buildRateLimitKey namespace (ci_scope input) (ci_hashTag input) (ci_suffix input);
           s1 = defineCommandOnce client s;
           (reply, r') = call key (rp_burst (ci_policy input)) (toRefillPerMs (ci_policy input))
             (ci_now input) RATE_LIMIT_DEFAULT_COST (rl_redis s1);
           s2 = s1\<lparr>rl_redis := r'\<rparr>
       in case reply of
            Inr (allowed, remaining, retryAfterMs) \<Rightarrow>
              (\<lparr>rd_isAllowed = (allowed = 1), rd_isEnforced = True, rd_limit = rp_burst (ci_policy input),
                rd_remaining = of_int remaining,
                rd_retryAfterSeconds = \<lceil>of_int retryAfterMs / 1000 :: rat\<rceil>\<rparr>, s2)
          | Inl error \<Rightarrow>
              (unenforced (ci_policy input), s2\<lparr>rl_errors := rl_errors s2 @ [(ci_scope input, error)]\<rparr>))"

subsection \<open>Tokens available at an instant\<close>

text \<open>
  The reference the script is measured against: what a bucket holds at an instant when it refills
  continuously up to its capacity.
\<close>

definition available :: "rat \<Rightarrow> rat \<Rightarrow> string \<Rightarrow> redis \<Rightarrow> rat \<Rightarrow> rat" where
  "available capacity refill key r t = (case read_bucket t key r of
     None \<Rightarrow> capacity
   | Some b \<Rightarrow> min capacity (bk_tokens b + max 0 (t - bk_updatedAt b) * refill))"

text \<open>
  A bucket the script left: its level within bounds, its expiry no earlier than the instant at which
  it is full again.  \<open>t\<close> is an instant no earlier than the last call.
\<close>

definition bucket_ok :: "rat \<Rightarrow> rat \<Rightarrow> string \<Rightarrow> redis \<Rightarrow> rat \<Rightarrow> bool" where
  "bucket_ok capacity refill key r t = (0 < refill \<and> 0 \<le> capacity \<and> (case r key of
     None \<Rightarrow> True
   | Some b \<Rightarrow> 0 \<le> bk_tokens b \<and> bk_tokens b \<le> capacity \<and> bk_updatedAt b \<le> t \<and>
       (case bk_expiresAt b of None \<Rightarrow> True
        | Some e \<Rightarrow> capacity \<le> bk_tokens b + (e - bk_updatedAt b) * refill)))"

text \<open>One call with caller and server on one clock, at the default cost.\<close>

definition take_token :: "rat \<Rightarrow> rat \<Rightarrow> string \<Rightarrow> rat \<Rightarrow> redis \<Rightarrow> bool \<times> redis" where
  "take_token capacity refill key t r =
     (case token_bucket_script key capacity refill t RATE_LIMIT_DEFAULT_COST t r of
        (Inr (allowed, _, _), r') \<Rightarrow> (allowed = 1, r') | (Inl _, r') \<Rightarrow> (True, r'))"

subsection \<open>What makes a limiter a limiter\<close>

fun granted :: "(rat \<Rightarrow> 's \<Rightarrow> bool \<times> 's) \<Rightarrow> rat list \<Rightarrow> 's \<Rightarrow> nat" where
  "granted take_one [] s = 0"
| "granted take_one (t # ts) s =
     (case take_one t s of (a, s') \<Rightarrow> (if a then 1 else 0) + granted take_one ts s')"

locale metered =
  fixes capacity refill :: rat
    and take_one :: "rat \<Rightarrow> 's \<Rightarrow> bool \<times> 's"
    and level :: "'s \<Rightarrow> rat \<Rightarrow> rat"
    and ok :: "'s \<Rightarrow> rat \<Rightarrow> bool"
  assumes level_bound: "ok s t \<Longrightarrow> 0 \<le> level s t \<and> level s t \<le> capacity"
    and level_grows: "ok s t \<Longrightarrow> t \<le> t' \<Longrightarrow> level s t' \<le> level s t + (t' - t) * refill"
    and ok_later: "ok s t \<Longrightarrow> t \<le> t' \<Longrightarrow> ok s t'"
    and ok_take: "ok s t \<Longrightarrow> ok (snd (take_one t s)) t"
    and take_allowed: "ok s t \<Longrightarrow> fst (take_one t s) = (1 \<le> level s t)"
    and take_level: "ok s t \<Longrightarrow> level (snd (take_one t s)) t =
      level s t - (if fst (take_one t s) then 1 else 0)"
begin

lemma granted_bound:
  assumes "ok s t" and "sorted (t # ts)"
  shows "of_nat (granted take_one ts s) \<le> level s t + (last (t # ts) - t) * refill"
  using assms
proof (induction ts arbitrary: s t)
  case Nil
  then show ?case using level_bound by fastforce
next
  case (Cons u ts)
  obtain a s' where tk: "take_one u s = (a, s')" by fastforce
  have tu: "t \<le> u" and oku: "ok s u" using Cons.prems ok_later by auto
  have ok': "ok s' u" using ok_take [OF oku] tk by simp
  have lev: "level s' u = level s u - (if a then 1 else 0)" using take_level [OF oku] tk by simp
  have "of_nat (granted take_one ts s') \<le> level s' u + (last (u # ts) - u) * refill"
    using Cons.IH [OF ok'] Cons.prems by simp
  moreover have "level s u \<le> level s t + (u - t) * refill" using level_grows [OF Cons.prems(1) tu] .
  ultimately have "of_nat ((if a then 1 else 0) + granted take_one ts s') \<le> level s t + (u - t) * refill + (last (u # ts) - u) * refill"
    using lev by (auto split: if_splits)
  also have "\<dots> = level s t + (last (t # u # ts) - t) * refill" by (simp add: algebra_simps)
  finally show ?case by (simp add: tk)
qed

end

subsection \<open>The script meets the reference\<close>

text \<open>Tokens on hand when the script compares them with the cost.\<close>

definition on_hand :: "rat \<Rightarrow> rat \<Rightarrow> string \<Rightarrow> redis \<Rightarrow> rat \<Rightarrow> rat \<times> rat" where
  "on_hand capacity refill key r t = (case read_bucket t key r of
     None \<Rightarrow> (capacity, t)
   | Some b \<Rightarrow> if t > bk_updatedAt b
       then (min capacity (bk_tokens b + (t - bk_updatedAt b) * refill), t)
       else (bk_tokens b, bk_updatedAt b))"

lemma script_unfold:
  assumes "refill \<noteq> 0"
  shows "token_bucket_script key capacity refill t cost t r =
    (let (tokens, updatedAt) = on_hand capacity refill key r t;
         left = (if cost \<le> tokens then tokens - cost else tokens)
     in (Inr (if cost \<le> tokens then 1 else 0, \<lfloor>left\<rfloor>,
              if cost \<le> tokens then 0 else \<lceil>(cost - left) / refill\<rceil>),
         r(key \<mapsto> \<lparr>bk_tokens = left, bk_updatedAt = updatedAt,
           bk_expiresAt = Some (t + of_int \<lceil>(capacity - left) / refill\<rceil> + 1000)\<rparr>)))"
  using assms
  by (auto simp: token_bucket_script_def on_hand_def Let_def split: option.split)

lemma on_hand_available:
  assumes "bucket_ok capacity refill key r t"
  shows "on_hand capacity refill key r t = (available capacity refill key r t, t)"
  using assms
  by (auto simp: on_hand_def available_def bucket_ok_def read_bucket_def max_def min_def
      split: option.splits if_splits)

lemma available_bounds:
  assumes "bucket_ok capacity refill key r t"
  shows "0 \<le> available capacity refill key r t" and "available capacity refill key r t \<le> capacity"
  using assms
  by (auto simp: available_def bucket_ok_def read_bucket_def split: option.splits if_splits)

text \<open>Expiry and refill agree: an expired bucket would be full.\<close>

lemma available_formula:
  assumes "bucket_ok capacity refill key r t" and "r key = Some b"
  shows "available capacity refill key r t = min capacity (bk_tokens b + (t - bk_updatedAt b) * refill)"
proof (cases "read_bucket t key r")
  case (Some b')
  then show ?thesis
    using assms by (auto simp: available_def bucket_ok_def read_bucket_def split: option.splits if_splits)
next
  case None
  then obtain e where e: "bk_expiresAt b = Some e" "e \<le> t"
    using assms(2) by (auto simp: read_bucket_def split: option.splits if_splits)
  have "capacity \<le> bk_tokens b + (e - bk_updatedAt b) * refill" and "0 < refill"
    using assms e by (auto simp: bucket_ok_def)
  moreover have "(e - bk_updatedAt b) * refill \<le> (t - bk_updatedAt b) * refill"
    using e(2) \<open>0 < refill\<close> by (intro mult_right_mono) auto
  ultimately have "capacity \<le> bk_tokens b + (t - bk_updatedAt b) * refill" by linarith
  then show ?thesis using None by (simp add: available_def min_absorb1)
qed

lemma bucket_ok_later: "bucket_ok capacity refill key r t \<Longrightarrow> t \<le> t' \<Longrightarrow> bucket_ok capacity refill key r t'"
  by (auto simp: bucket_ok_def split: option.splits)

lemma available_grows:
  assumes ok: "bucket_ok capacity refill key r t" and le: "t \<le> t'"
  shows "available capacity refill key r t' \<le> available capacity refill key r t + (t' - t) * refill"
    and "min capacity (available capacity refill key r t + (t' - t) * refill) \<le> available capacity refill key r t'"
proof -
  have pos: "0 \<le> (t' - t) * refill" using assms by (auto simp: bucket_ok_def)
  have "available capacity refill key r t' =
      min capacity (available capacity refill key r t + (t' - t) * refill)"
  proof (cases "r key")
    case None
    then show ?thesis using pos by (simp add: available_def read_bucket_def)
  next
    case (Some b)
    have "(t' - bk_updatedAt b) * refill = (t - bk_updatedAt b) * refill + (t' - t) * refill"
      by (simp add: algebra_simps)
    then show ?thesis
      using available_formula [OF ok Some] available_formula [OF bucket_ok_later [OF ok le] Some] pos
      by (auto simp: min_def)
  qed
  then show "available capacity refill key r t' \<le> available capacity refill key r t + (t' - t) * refill"
    and "min capacity (available capacity refill key r t + (t' - t) * refill) \<le> available capacity refill key r t'"
    by simp_all
qed

lemma written_bucket:
  assumes "0 < refill" "0 \<le> left" "left \<le> capacity"
    and "r' = r(key \<mapsto> \<lparr>bk_tokens = left, bk_updatedAt = t,
           bk_expiresAt = Some (t + of_int \<lceil>(capacity - left) / refill\<rceil> + 1000)\<rparr>)"
  shows "bucket_ok capacity refill key r' t" and "available capacity refill key r' t = left"
proof -
  have c: "(capacity - left) / refill \<le> of_int \<lceil>(capacity - left) / refill\<rceil>" by (rule le_of_int_ceiling)
  then have "capacity - left \<le> of_int \<lceil>(capacity - left) / refill\<rceil> * refill"
    using assms(1) by (metis pos_divide_le_eq)
  then have "capacity \<le> left + (of_int \<lceil>(capacity - left) / refill\<rceil> + 1000) * refill"
    using assms(1) by (simp add: algebra_simps)
  then show "bucket_ok capacity refill key r' t" using assms by (simp add: bucket_ok_def)
  have "0 \<le> (capacity - left) / refill" using assms by simp
  then have "t < t + of_int \<lceil>(capacity - left) / refill\<rceil> + 1000" using c by linarith
  then show "available capacity refill key r' t = left"
    using assms by (simp add: available_def read_bucket_def)
qed

lemma take_token_effect:
  assumes ok: "bucket_ok capacity refill key r t"
  shows "fst (take_token capacity refill key t r) = (1 \<le> available capacity refill key r t)"
    and "bucket_ok capacity refill key (snd (take_token capacity refill key t r)) t"
    and "available capacity refill key (snd (take_token capacity refill key t r)) t =
      available capacity refill key r t - (if 1 \<le> available capacity refill key r t then 1 else 0)"
proof -
  let ?a = "available capacity refill key r t"
  let ?left = "if 1 \<le> ?a then ?a - 1 else ?a"
  have pos: "0 < refill" using ok by (simp add: bucket_ok_def)
  note script = script_unfold [of refill key capacity t 1 r, unfolded on_hand_available [OF ok] Let_def prod.case]
  have eff: "take_token capacity refill key t r = (1 \<le> ?a, r(key \<mapsto> \<lparr>bk_tokens = ?left, bk_updatedAt = t,
      bk_expiresAt = Some (t + of_int \<lceil>(capacity - ?left) / refill\<rceil> + 1000)\<rparr>))"
    using pos by (simp add: take_token_def RATE_LIMIT_DEFAULT_COST_def script)
  then show "fst (take_token capacity refill key t r) = (1 \<le> ?a)" by simp
  have bounds: "0 \<le> ?left" "?left \<le> capacity" using available_bounds [OF ok] by auto
  have "snd (take_token capacity refill key t r) = r(key \<mapsto> \<lparr>bk_tokens = ?left, bk_updatedAt = t,
      bk_expiresAt = Some (t + of_int \<lceil>(capacity - ?left) / refill\<rceil> + 1000)\<rparr>)"
    using eff by simp
  note written = written_bucket [OF pos bounds this]
  show "bucket_ok capacity refill key (snd (take_token capacity refill key t r)) t" by (rule written(1))
  show "available capacity refill key (snd (take_token capacity refill key t r)) t =
      ?a - (if 1 \<le> ?a then 1 else 0)"
    using written(2) by simp
qed

interpretation tb: metered capacity refill "take_token capacity refill key"
    "available capacity refill key" "bucket_ok capacity refill key" for capacity refill key
  by unfold_locales
    (simp_all add: available_bounds available_grows bucket_ok_later take_token_effect)

subsection \<open>Properties\<close>

text \<open>
  A caller is never granted more than the policy allows.  Over any stretch of calls on one
  bucket, at instants that do not go back, beginning in any state the script leaves (or with no
  bucket at all), the number granted is at most the burst plus what refills between the first and
  the last instant; idle keys that expire in between forgive nothing.
\<close>

theorem grants_within_policy:
  assumes "bucket_ok (rp_burst policy) (toRefillPerMs policy) key r t" and "sorted (t # ts)"
  shows "of_nat (granted (take_token (rp_burst policy) (toRefillPerMs policy) key) ts r)
     \<le> rp_burst policy + (last (t # ts) - t) * rp_perMinute policy / 60000"
  using tb.granted_bound [OF assms] available_bounds(2) [OF assms(1)]
  by (simp add: toRefillPerMs_def MS_PER_MINUTE_def)

lemma grants_within_policy_witness:
  "bucket_ok 2 (toRefillPerMs \<lparr>rp_perMinute = 600, rp_burst = 2\<rparr>) ''k'' Map.empty 0 \<and>
   granted (take_token 2 (toRefillPerMs \<lparr>rp_perMinute = 600, rp_burst = 2\<rparr>) ''k'') [0, 0, 0, 100, 100] Map.empty = 3 \<and>
   of_nat (granted (take_token 2 (toRefillPerMs \<lparr>rp_perMinute = 600, rp_burst = 2\<rparr>) ''k'')
     [0, 0, 0, 100, 100] Map.empty) \<le> (3 :: rat)"
proof -
  let ?p = "\<lparr>rp_perMinute = 600, rp_burst = 2\<rparr>"
  have ok: "bucket_ok (rp_burst ?p) (toRefillPerMs ?p) ''k'' Map.empty 0"
    by (simp add: bucket_ok_def toRefillPerMs_def MS_PER_MINUTE_def)
  have "sorted [0, 0, 0, 0, 100, 100 :: rat]" by simp
  from grants_within_policy [OF ok this]
  have "of_nat (granted (take_token 2 (toRefillPerMs ?p) ''k'') [0, 0, 0, 100, 100] Map.empty) \<le> (3 :: rat)"
    by simp
  moreover have "granted (take_token 2 (toRefillPerMs ?p) ''k'') [0, 0, 0, 100, 100] Map.empty = 3"
    by code_simp
  ultimately show ?thesis using ok by simp
qed

lemma available_exact:
  assumes "bucket_ok capacity refill key r t" and "t \<le> t'"
  shows "available capacity refill key r t' = min capacity (available capacity refill key r t + (t' - t) * refill)"
  using available_grows [OF assms] available_bounds(2) [OF bucket_ok_later [OF assms]] by auto

text \<open>
  The hint a refused caller is given is exact.  A refusal with nothing else spending from the
  bucket is followed by a grant after the hinted number of milliseconds and by a refusal after any
  smaller whole number of them; the hint in seconds is rounded up, so it is never zero and never
  too early.
\<close>

theorem retry_hint_exact:
  assumes "bucket_ok capacity refill key r t" and "1 \<le> capacity"
    and "token_bucket_script key capacity refill t RATE_LIMIT_DEFAULT_COST t r = (Inr (0, remaining, hint), r')"
  shows "fst (take_token capacity refill key (t + of_int hint) r') \<and>
    (0 \<le> m \<and> m < hint \<longrightarrow> \<not> fst (take_token capacity refill key (t + of_int m) r')) \<and>
    0 < hint \<and> hint \<le> 1000 * \<lceil>of_int hint / 1000 :: rat\<rceil>"
proof -
  let ?a = "available capacity refill key r t"
  have pos: "0 < refill" using assms(1) by (simp add: bucket_ok_def)
  note script = script_unfold [of refill key capacity t 1 r, unfolded on_hand_available [OF assms(1)] Let_def prod.case]
  have few: "?a < 1" and hint: "hint = \<lceil>(1 - ?a) / refill\<rceil>"
    using assms(3) pos by (auto simp: RATE_LIMIT_DEFAULT_COST_def script split: if_splits)
  have r': "snd (take_token capacity refill key t r) = r'"
    using assms(3) by (simp add: take_token_def)
  have ok': "bucket_ok capacity refill key r' t" and lev: "available capacity refill key r' t = ?a"
    using take_token_effect(2,3) [OF assms(1)] few by (simp_all add: r')
  have grant: "fst (take_token capacity refill key (t + of_int k) r') = (1 \<le> ?a + of_int k * refill)" if "0 \<le> k" for k
  proof -
    have le: "t \<le> t + of_int k" using that by simp
    show ?thesis
      using take_token_effect(1) [OF bucket_ok_later [OF ok' le]] available_exact [OF ok' le] assms(2) by (simp add: lev)
  qed
  have quo: "0 < (1 - ?a) / refill" using few pos by simp
  have up: "0 < hint" unfolding hint using quo by simp
  have "(1 - ?a) / refill \<le> of_int hint" unfolding hint by (rule le_of_int_ceiling)
  then have "1 - ?a \<le> of_int hint * refill" using pos by (metis pos_divide_le_eq)
  then have 1: "fst (take_token capacity refill key (t + of_int hint) r')" using grant up by simp
  have 2: "\<not> fst (take_token capacity refill key (t + of_int m) r')" if "0 \<le> m" "m < hint"
  proof -
    have "of_int m < (1 - ?a) / refill" using that(2) unfolding hint by (simp add: less_ceiling_iff)
    then have "of_int m * refill < 1 - ?a" using pos by (metis pos_less_divide_eq)
    then show ?thesis using grant [OF that(1)] by simp
  qed
  have "of_int hint / 1000 \<le> (of_int \<lceil>of_int hint / 1000 :: rat\<rceil> :: rat)" by (rule le_of_int_ceiling)
  then have "(of_int hint :: rat) \<le> of_int (1000 * \<lceil>of_int hint / 1000 :: rat\<rceil>)"
    by (metis mult.commute of_int_mult of_int_numeral pos_divide_le_eq zero_less_numeral)
  then have 3: "hint \<le> 1000 * \<lceil>of_int hint / 1000 :: rat\<rceil>" by (simp only: of_int_le_iff)
  show ?thesis using 1 2 3 up by blast
qed

lemma retry_hint_exact_witness:
  "fst (take_token 1 (1/100) ''k'' (50 + of_int 50)
     [''k'' \<mapsto> \<lparr>bk_tokens = 1/2, bk_updatedAt = 50, bk_expiresAt = Some 1100\<rparr>])"
proof -
  let ?r = "[''k'' \<mapsto> \<lparr>bk_tokens = 0, bk_updatedAt = 0, bk_expiresAt = Some 1100\<rparr>]"
  have ok: "bucket_ok 1 (1/100) ''k'' ?r 50" by (simp add: bucket_ok_def)
  have "token_bucket_script ''k'' 1 (1/100) 50 RATE_LIMIT_DEFAULT_COST 50 ?r =
      (Inr (0, 0, 50), [''k'' \<mapsto> \<lparr>bk_tokens = 1/2, bk_updatedAt = 50, bk_expiresAt = Some 1100\<rparr>])"
    by (simp add: token_bucket_script_def read_bucket_def RATE_LIMIT_DEFAULT_COST_def Let_def floor_eq_iff)
  from retry_hint_exact [OF ok _ this] show ?thesis by simp
qed

text \<open>
  The limiter fails open, and says so.  Every refusal is an enforced decision; with no Redis, a
  broken connection or a failing script the request is allowed, marked unenforced and given the
  whole burst, and every such decision but the first kind is logged with its scope.
\<close>

theorem limiter_fails_open:
  "(case consume ns client input s of (d, s') \<Rightarrow>
      (rd_isAllowed d \<or> rd_isEnforced d) \<and> rd_limit d = rp_burst (ci_policy input) \<and>
      (rd_isEnforced d \<or> d = \<lparr>rd_isAllowed = True, rd_isEnforced = False, rd_limit = rp_burst (ci_policy input),
          rd_remaining = rp_burst (ci_policy input), rd_retryAfterSeconds = 0\<rparr>) \<and>
      rl_errors s' = rl_errors s @ (if rd_isEnforced d \<or> client = None then []
        else [(ci_scope input, projl (fst ((the client) (buildRateLimitKey ns (ci_scope input)
          (ci_hashTag input) (ci_suffix input)) (rp_burst (ci_policy input)) (toRefillPerMs (ci_policy input))
          (ci_now input) 1 (rl_redis s))))])) \<and>
   consume ns None input s = (unenforced (ci_policy input), s)"
  by (auto simp: consume_def unenforced_def defineCommandOnce_def Let_def RATE_LIMIT_DEFAULT_COST_def
      split: option.split prod.split sum.split)

text \<open>
  A policy of zero requests a minute takes the limit off.  The script fails at the expiry, after
  it has written the bucket, so the decision is to allow, unenforced, however often it is asked, and
  the key it leaves behind never expires.
\<close>

theorem zero_rate_is_unlimited:
  "let redis = \<lambda>key capacity refill now cost r. token_bucket_script key capacity refill now cost server_now r;
       input = \<lparr>ci_scope = scope, ci_hashTag = tag, ci_suffix = suffix,
         ci_policy = \<lparr>rp_perMinute = 0, rp_burst = burst\<rparr>, ci_now = now\<rparr>;
       (d, s') = consume ns (Some redis) input s
   in rd_isAllowed d \<and> \<not> rd_isEnforced d \<and>
      map_option bk_expiresAt (rl_redis s' (buildRateLimitKey ns scope tag suffix)) =
        Some (Option.bind (read_bucket server_now (buildRateLimitKey ns scope tag suffix) (rl_redis s)) bk_expiresAt)"
  by (simp add: consume_def unenforced_def defineCommandOnce_def Let_def toRefillPerMs_def
      token_bucket_script_def split: prod.split)

lemma split_at_char:
  "c \<notin> set a \<Longrightarrow> c \<notin> set a' \<Longrightarrow> a @ c # b = a' @ c # b' \<Longrightarrow> a = a' \<and> b = b'"
proof (induction a arbitrary: a')
  case Nil
  then show ?case by (cases a') auto
next
  case (Cons x a)
  then show ?case by (cases a') auto
qed

text \<open>
  Two callers never share a bucket by accident of the key's text.  With namespaces and scopes
  free of colons and tags free of closing braces, equal keys have the same namespace, the same
  scope up to case, the same tag and the same suffix, where an absent and an empty one are the same.
\<close>

theorem buildRateLimitKey_injective:
  assumes "buildRateLimitKey ns scope tag suffix = buildRateLimitKey ns' scope' tag' suffix'"
    and "CHR '':'' \<notin> set ns" and "CHR '':'' \<notin> set ns'"
    and "CHR '':'' \<notin> set (to_lower scope)" and "CHR '':'' \<notin> set (to_lower scope')"
    and "CHR ''}'' \<notin> set tag" and "CHR ''}'' \<notin> set tag'"
  shows "ns = ns' \<and> to_lower scope = to_lower scope' \<and> tag = tag' \<and> nullish suffix '''' = nullish suffix' ''''"
proof -
  define tail where "tail s = (if str_truthy s then '':'' @ the s else '''')" for s
  have key: "buildRateLimitKey n sc t s = n @ CHR '':'' # (RATE_LIMIT_KEY_ENTITY @ CHR '':'' #
      (to_lower sc @ CHR '':'' # (CHR ''{'' # (t @ CHR ''}'' # tail s))))" for n sc t s
    by (simp add: buildRateLimitKey_def tail_def)
  have ent: "CHR '':'' \<notin> set RATE_LIMIT_KEY_ENTITY" by (simp add: RATE_LIMIT_KEY_ENTITY_def)
  have 1: "ns = ns'" and r1: "RATE_LIMIT_KEY_ENTITY @ CHR '':'' # (to_lower scope @ CHR '':'' # (CHR ''{'' # (tag @ CHR ''}'' # tail suffix))) =
      RATE_LIMIT_KEY_ENTITY @ CHR '':'' # (to_lower scope' @ CHR '':'' # (CHR ''{'' # (tag' @ CHR ''}'' # tail suffix')))"
    using split_at_char [OF assms(2,3) assms(1) [unfolded key]] by blast+
  have 2: "to_lower scope = to_lower scope'" and r2: "CHR ''{'' # (tag @ CHR ''}'' # tail suffix) = CHR ''{'' # (tag' @ CHR ''}'' # tail suffix')"
    using split_at_char [OF assms(4,5) r1 [unfolded same_append_eq list.inject, THEN conjunct2]] by blast+
  have 3: "tag = tag'" and r3: "tail suffix = tail suffix'"
    using split_at_char [OF assms(6,7) r2 [unfolded list.inject, THEN conjunct2]] by blast+
  have "nullish suffix '''' = nullish suffix' ''''"
    using r3 by (cases suffix; cases suffix') (auto simp: tail_def split: if_splits)
  then show ?thesis using 1 2 3 by blast
qed

lemma buildRateLimitKey_injective_witness:
  "buildRateLimitKey ''conduit'' ''AUTH'' ''t1'' (Some '''') = buildRateLimitKey ''conduit'' ''auth'' ''t1'' None \<and>
   to_lower ''AUTH'' = to_lower ''auth'' \<and> nullish (Some '''') '''' = nullish (None :: string option) ''''"
proof -
  have e: "buildRateLimitKey ''conduit'' ''AUTH'' ''t1'' (Some '''') = buildRateLimitKey ''conduit'' ''auth'' ''t1'' None"
    by code_simp
  have f: "CHR '':'' \<notin> set ''conduit''" "CHR '':'' \<notin> set (to_lower ''AUTH'')" "CHR '':'' \<notin> set (to_lower ''auth'')"
    "CHR ''}'' \<notin> set ''t1''" by code_simp+
  from buildRateLimitKey_injective [OF e f(1,1,2,3,4,4)] show ?thesis using e by (elim conjE) (intro conjI)
qed

subsection \<open>Equivalence with a limiter that forgets nothing\<close>

text \<open>
  The textbook token bucket: a level and the instant it was last computed, no key that expires.  The
  calls are made at instants, each by some caller's key, with the policy of that key.
\<close>

fun reference_bucket :: "rat \<Rightarrow> rat \<Rightarrow> rat \<Rightarrow> rat \<Rightarrow> rat list \<Rightarrow> bool list" where
  "reference_bucket capacity refill since level [] = []"
| "reference_bucket capacity refill since level (t # ts) =
     (let tokens = min capacity (level + (t - since) * refill) in
      (1 \<le> tokens) # reference_bucket capacity refill t (if 1 \<le> tokens then tokens - 1 else tokens) ts)"

fun serve :: "(string \<Rightarrow> rat \<times> rat) \<Rightarrow> (rat \<times> string) list \<Rightarrow> redis \<Rightarrow> (string \<times> bool) list" where
  "serve policy [] r = []"
| "serve policy ((t, key) # calls) r =
     (case take_token (fst (policy key)) (snd (policy key)) key t r of
        (a, r') \<Rightarrow> (key, a) # serve policy calls r')"

lemma take_token_other:
  "key' \<noteq> key \<Longrightarrow> snd (take_token capacity refill key' t r) key = r key"
  by (auto simp: take_token_def token_bucket_script_def Let_def split: prod.split option.split)

lemma same_bucket:
  assumes "r' key = r key"
  shows "bucket_ok capacity refill key r' t = bucket_ok capacity refill key r t"
    and "available capacity refill key r' t = available capacity refill key r t"
  using assms by (simp_all add: bucket_ok_def available_def read_bucket_def)

text \<open>
  The script is the textbook bucket, per caller.  In any interleaving of calls by any callers, at
  instants that do not go back, the answers one caller gets are those of a bucket of its own policy
  that never expires and sees its calls only: storing two numbers, computing the refill lazily and
  letting idle keys expire cannot be told from it.
\<close>

theorem script_is_the_reference_bucket:
  assumes "bucket_ok (fst (policy key)) (snd (policy key)) key r t" and "sorted (t # map fst calls)"
  shows "map snd (filter (\<lambda>(k, _). k = key) (serve policy calls r)) =
    reference_bucket (fst (policy key)) (snd (policy key)) t
      (available (fst (policy key)) (snd (policy key)) key r t) (map fst (filter (\<lambda>(_, k). k = key) calls))"
  using assms
proof (induction policy calls r arbitrary: t rule: serve.induct)
  case (2 policy u k calls r)
  let ?c = "fst (policy key)" and ?f = "snd (policy key)"
  obtain a r' where tk: "take_token (fst (policy k)) (snd (policy k)) k u r = (a, r')" by fastforce
  have tu: "t \<le> u" and later: "sorted (u # map fst calls)" and tlater: "sorted (t # map fst calls)"
    using "2.prems"(2) by auto
  note IH = "2.IH" [OF tk [symmetric]]
  show ?case
  proof (cases "k = key")
    case True
    have ok: "bucket_ok ?c ?f key r u" using bucket_ok_later [OF "2.prems"(1) tu] .
    have av: "available ?c ?f key r u = min ?c (available ?c ?f key r t + (u - t) * ?f)"
      by (rule available_exact [OF "2.prems"(1) tu])
    have eff: "a = (1 \<le> available ?c ?f key r u)" "bucket_ok ?c ?f key r' u"
      "available ?c ?f key r' u = available ?c ?f key r u - (if a then 1 else 0)"
      using take_token_effect [OF ok] tk True by auto
    show ?thesis using IH [OF eff(2) later] True tk eff(1,3) by (auto simp: Let_def av)
  next
    case False
    have kept: "r' key = r key" using take_token_other [OF False] tk by (metis snd_conv)
    have "map snd (filter (\<lambda>(k, _). k = key) (serve policy calls r')) =
        reference_bucket ?c ?f t (available ?c ?f key r t) (map fst (filter (\<lambda>(_, k). k = key) calls))"
      using IH [of t] "2.prems"(1) tlater by (simp add: same_bucket [of r' key r, OF kept])
    then show ?thesis using False tk by simp
  qed
qed simp

lemma script_is_the_reference_bucket_witness:
  "map snd (filter (\<lambda>(k, _). k = ''a'') (serve (\<lambda>_. (1, 1 / 100)) [(0, ''a''), (0, ''b''), (50, ''a''), (5000, ''a'')] Map.empty)) =
     [True, False, True]"
proof -
  have ok: "bucket_ok (fst ((\<lambda>_ :: string. (1, 1 / 100)) ''a'')) (snd ((\<lambda>_ :: string. (1, 1 / 100)) ''a'')) ''a'' Map.empty 0"
    by (simp add: bucket_ok_def)
  have s: "sorted ((0 :: rat) # map fst [(0, ''a''), (0, ''b''), (50, ''a''), (5000, ''a'')])" by simp
  show ?thesis
    unfolding script_is_the_reference_bucket [where policy = "\<lambda>_. (1, 1 / 100)" and key = "''a''", OF ok s]
    by (simp add: available_def read_bucket_def)
qed

end
