(* ===== verification/RateLimitSkew.thy ===== *)
theory RateLimitSkew
  imports RateLimit
begin

section \<open>The limiter under clocks that disagree\<close>

text \<open>
  The script is given the caller's clock, while a key expires by the clock of Redis, and the replicas
  of a service agree with neither exactly.  Here a call carries both instants, and the clocks of the
  replicas may run ahead, behind and backwards.  The script refills only when the instant it is given is
  later than the one it stored; its keys live a second longer than the refill takes.  That second is what makes
  the limiter right for clocks within half a second of Redis's, and no more than that.
\<close>

subsection \<open>Calls with two clocks\<close>

text \<open>A call: the instant at Redis, the instant at the caller, and the caller's key.\<close>

type_synonym skewed_call = "rat \<times> rat \<times> string"

definition take_skewed :: "rat \<Rightarrow> rat \<Rightarrow> string \<Rightarrow> rat \<Rightarrow> rat \<Rightarrow> redis \<Rightarrow> bool \<times> redis" where
  "take_skewed capacity refill key server t r =
     (case token_bucket_script key capacity refill t RATE_LIMIT_DEFAULT_COST server r of
        (Inr (allowed, _, _), r') \<Rightarrow> (allowed = 1, r') | (Inl _, r') \<Rightarrow> (True, r'))"

fun serve_skewed :: "(string \<Rightarrow> rat \<times> rat) \<Rightarrow> skewed_call list \<Rightarrow> redis \<Rightarrow> (string \<times> bool) list" where
  "serve_skewed policy [] r = []"
| "serve_skewed policy ((server, t, key) # calls) r =
     (case take_skewed (fst (policy key)) (snd (policy key)) key server t r of
        (a, r') \<Rightarrow> (key, a) # serve_skewed policy calls r')"

text \<open>The latest instant seen at each call: what the bucket's stored instant amounts to.\<close>

fun latest :: "rat \<Rightarrow> rat list \<Rightarrow> rat list" where
  "latest u [] = []"
| "latest u (t # ts) = max u t # latest (max u t) ts"

definition skew_within :: "rat \<Rightarrow> skewed_call \<Rightarrow> bool" where
  "skew_within d call = (case call of (server, t, _) \<Rightarrow> \<bar>t - server\<bar> \<le> d)"

text \<open>
  What the stored bucket says of the textbook one, which has \<open>level\<close> tokens at \<open>since\<close>: they agree, and
  no client within half a second of Redis finds the key expired before the textbook bucket is full.
  A missing key is a bucket that has been full for as long as any clock can tell.
\<close>

definition tracks :: "rat \<Rightarrow> rat \<Rightarrow> string \<Rightarrow> redis \<Rightarrow> rat \<Rightarrow> rat \<Rightarrow> rat \<Rightarrow> bool" where
  "tracks capacity refill key r server since level \<longleftrightarrow>
     0 < refill \<and> 0 \<le> level \<and> level \<le> capacity \<and> since \<le> server + 500 \<and>
     (case r key of
        None \<Rightarrow> level = capacity \<and> since \<le> server - 500
      | Some b \<Rightarrow> bk_tokens b = level \<and> bk_updatedAt b = since \<and>
          (case bk_expiresAt b of None \<Rightarrow> True | Some e \<Rightarrow> capacity \<le> level + (e - 500 - since) * refill))"

lemma tracks_later: "tracks capacity refill key r server since level \<Longrightarrow> server \<le> server' \<Longrightarrow>
    tracks capacity refill key r server' since level"
  by (auto simp: tracks_def split: option.splits)

lemma tracks_cong: "r' key = r key \<Longrightarrow>
    tracks capacity refill key r' server since level = tracks capacity refill key r server since level"
  by (simp add: tracks_def)

definition on_hand_skewed :: "rat \<Rightarrow> rat \<Rightarrow> string \<Rightarrow> redis \<Rightarrow> rat \<Rightarrow> rat \<Rightarrow> rat \<times> rat" where
  "on_hand_skewed capacity refill key r server t = (case read_bucket server key r of
     None \<Rightarrow> (capacity, t)
   | Some b \<Rightarrow> if t > bk_updatedAt b
       then (min capacity (bk_tokens b + (t - bk_updatedAt b) * refill), t)
       else (bk_tokens b, bk_updatedAt b))"

lemma take_skewed_unfold:
  assumes "refill \<noteq> 0"
  shows "take_skewed capacity refill key server t r =
    (let (tokens, updatedAt) = on_hand_skewed capacity refill key r server t;
         left = (if 1 \<le> tokens then tokens - 1 else tokens)
     in (1 \<le> tokens, r(key \<mapsto> \<lparr>bk_tokens = left, bk_updatedAt = updatedAt,
           bk_expiresAt = Some (server + of_int \<lceil>(capacity - left) / refill\<rceil> + 1000)\<rparr>)))"
  using assms
  by (auto simp: take_skewed_def token_bucket_script_def on_hand_skewed_def Let_def RATE_LIMIT_DEFAULT_COST_def
      split: option.split)

lemma refill_time:
  assumes "0 < (refill :: rat)" and "capacity \<le> level + (t - since) * refill" and "level \<le> capacity"
  shows "since \<le> t"
proof -
  have "0 \<le> (t - since) * refill" using assms(2,3) by linarith
  then show ?thesis using assms(1) by (simp add: zero_le_mult_iff)
qed

text \<open>Whether the key is there, expired or missing, the script computes the textbook level.\<close>

lemma on_hand_tracks:
  assumes tr: "tracks capacity refill key r server since level" and sk: "\<bar>t - server\<bar> \<le> 500"
  shows "on_hand_skewed capacity refill key r server t =
    (min capacity (level + (max since t - since) * refill), max since t)"
proof (cases "r key")
  case None
  then have l: "level = capacity" "since \<le> t" "0 < refill" using tr sk by (auto simp: tracks_def)
  then have "0 \<le> (max since t - since) * refill" by simp
  then show ?thesis using None l by (simp add: on_hand_skewed_def read_bucket_def max_def)
next
  case (Some b)
  then have b: "bk_tokens b = level" "bk_updatedAt b = since" and pos: "0 < refill" and lc: "level \<le> capacity"
    using tr by (auto simp: tracks_def)
  show ?thesis
  proof (cases "read_bucket server key r")
    case None
    then obtain e where e: "bk_expiresAt b = Some e" "e \<le> server"
      using Some by (auto simp: read_bucket_def split: option.splits if_splits)
    have "capacity \<le> level + (e - 500 - since) * refill" using tr Some e by (auto simp: tracks_def)
    moreover have "(e - 500 - since) * refill \<le> (t - since) * refill"
      using sk e(2) pos by (intro mult_right_mono) auto
    ultimately have full: "capacity \<le> level + (t - since) * refill" by linarith
    then have "since \<le> t" using refill_time pos lc by blast
    then show ?thesis using None full by (simp add: on_hand_skewed_def max_def min_def)
  next
    case (Some b')
    then have "b' = b" using \<open>r key = Some b\<close> by (auto simp: read_bucket_def split: option.splits if_splits)
    then show ?thesis using Some b lc by (auto simp: on_hand_skewed_def max_def min_def)
  qed
qed

lemma take_skewed_tracks:
  assumes tr: "tracks capacity refill key r server since level" and sk: "\<bar>t - server\<bar> \<le> 500"
  defines "tokens \<equiv> min capacity (level + (max since t - since) * refill)"
  shows "fst (take_skewed capacity refill key server t r) = (1 \<le> tokens)"
    and "tracks capacity refill key (snd (take_skewed capacity refill key server t r)) server (max since t)
      (if 1 \<le> tokens then tokens - 1 else tokens)"
proof -
  have pos: "0 < refill" and lev: "0 \<le> level" "level \<le> capacity" and near: "since \<le> server + 500"
    using tr by (auto simp: tracks_def)
  let ?left = "if 1 \<le> tokens then tokens - 1 else tokens"
  have "0 \<le> (max since t - since) * refill" using pos by simp
  then have bounds: "0 \<le> ?left" "?left \<le> capacity" using lev by (auto simp: tokens_def)
  have eff: "take_skewed capacity refill key server t r = (1 \<le> tokens, r(key \<mapsto> \<lparr>bk_tokens = ?left,
      bk_updatedAt = max since t, bk_expiresAt = Some (server + of_int \<lceil>(capacity - ?left) / refill\<rceil> + 1000)\<rparr>))"
    using pos by (simp add: take_skewed_unfold on_hand_tracks [OF tr sk] tokens_def Let_def)
  then show "fst (take_skewed capacity refill key server t r) = (1 \<le> tokens)" by simp
  have late: "max since t \<le> server + 500" using near sk by auto
  have "(capacity - ?left) / refill \<le> of_int \<lceil>(capacity - ?left) / refill\<rceil>" by (rule le_of_int_ceiling)
  also have "\<dots> \<le> server + of_int \<lceil>(capacity - ?left) / refill\<rceil> + 1000 - 500 - max since t" using late by linarith
  finally have "capacity - ?left \<le>
      (server + of_int \<lceil>(capacity - ?left) / refill\<rceil> + 1000 - 500 - max since t) * refill"
    using pos by (metis pos_divide_le_eq)
  then show "tracks capacity refill key (snd (take_skewed capacity refill key server t r)) server (max since t) ?left"
    using pos bounds late unfolding eff by (simp add: tracks_def)
qed

lemma take_skewed_other:
  "key' \<noteq> key \<Longrightarrow> snd (take_skewed capacity refill key' server t r) key = r key"
  by (auto simp: take_skewed_def token_bucket_script_def Let_def split: prod.split option.split)

lemma count_grants: "of_nat (length (filter (\<lambda>a. a) (p # bs))) =
    (if p then 1 else 0) + (of_nat (length (filter (\<lambda>a. a) bs)) :: rat)"
  by simp

lemma spend_one: "x \<le> (if 1 \<le> k then k - 1 else k) + z \<Longrightarrow> (if 1 \<le> k then 1 else 0) + x \<le> k + (z :: rat)"
  by (auto split: if_splits)

lemma reference_bucket_bound:
  assumes "0 \<le> refill" and "0 \<le> capacity" and "0 \<le> level" and "sorted (since # ts)"
  shows "of_nat (length (filter (\<lambda>a. a) (reference_bucket capacity refill since level ts))) \<le>
    level + (last (since # ts) - since) * refill"
  using assms
proof (induction ts arbitrary: since level)
  case (Cons t ts)
  let ?tokens = "min capacity (level + (t - since) * refill)"
  let ?left = "if 1 \<le> ?tokens then ?tokens - 1 else ?tokens"
  have st: "since \<le> t" "sorted (t # ts)" using Cons.prems by auto
  have "0 \<le> (t - since) * refill" using st Cons.prems(1) by simp
  then have "0 \<le> ?left" using Cons.prems(2,3) by auto
  then have IH: "of_nat (length (filter (\<lambda>a. a) (reference_bucket capacity refill t ?left ts))) \<le>
      ?left + (last (t # ts) - t) * refill"
    using Cons.IH [of ?left t] Cons.prems(1,2) st(2) by auto
  have step: "reference_bucket capacity refill since level (t # ts) =
      (1 \<le> ?tokens) # reference_bucket capacity refill t ?left ts"
    by (simp only: reference_bucket.simps Let_def)
  have "of_nat (length (filter (\<lambda>a. a) (reference_bucket capacity refill since level (t # ts)))) \<le>
      ?tokens + (last (t # ts) - t) * refill"
    unfolding step count_grants by (rule spend_one) (rule IH)
  also have "\<dots> \<le> level + (t - since) * refill + (last (t # ts) - t) * refill" by simp
  also have "\<dots> = level + (last (since # t # ts) - since) * refill" by (simp add: algebra_simps)
  finally show ?case .
qed simp

lemma latest_facts: "sorted (u # latest u ts) \<and> last (u # latest u ts) = fold max ts u"
proof (induction ts arbitrary: u)
  case (Cons t ts)
  define m where "m = max u t"
  have m: "u \<le> m" "max t u = m" by (simp_all add: m_def max.commute)
  have "sorted (m # latest m ts)" and "last (m # latest m ts) = fold max ts m" using Cons.IH by blast+
  then show ?case unfolding latest.simps m_def [symmetric] fold.simps comp_def m(2) using m(1) by auto
qed simp

text \<open>A bucket that is full when the first call arrives might as well begin there.\<close>

lemma full_bucket_begins_late:
  assumes "0 \<le> refill" and "list_all (\<lambda>t. since \<le> t) ts"
  shows "reference_bucket capacity refill since capacity (latest since ts) =
    reference_bucket capacity refill (hd ts) capacity (latest (hd ts) ts)"
  using assms by (cases ts) (simp_all add: Let_def min_absorb1 max_absorb2)

subsection \<open>Properties\<close>

text \<open>
  C16: the limiter does not need the replicas' clocks to agree.  In any interleaving of calls by any callers,
  with Redis's clock not going back and each caller's clock within half a second of it, ahead or behind and in any
  order, the answers a caller gets are those of the textbook bucket of its policy at the latest
  instant any of its calls has carried: a clock that runs backwards neither refills nor drains, and
  letting idle keys expire by another clock forgives nothing.
\<close>

theorem skewed_script_is_the_reference_bucket:
  assumes "tracks (fst (policy key)) (snd (policy key)) key r server since level"
    and "sorted (server # map fst calls)" and "list_all (skew_within 500) calls"
  shows "map snd (filter (\<lambda>(k, _). k = key) (serve_skewed policy calls r)) =
    reference_bucket (fst (policy key)) (snd (policy key)) since level
      (latest since (map (\<lambda>(_, t, _). t) (filter (\<lambda>(_, _, k). k = key) calls)))"
  using assms
proof (induction policy calls r arbitrary: server since level rule: serve_skewed.induct)
  case (2 policy s t k calls r)
  let ?c = "fst (policy key)" and ?f = "snd (policy key)"
  let ?tokens = "min ?c (level + (max since t - since) * ?f)"
  obtain a r' where tk: "take_skewed (fst (policy k)) (snd (policy k)) k s t r = (a, r')" by fastforce
  have order: "server \<le> s" "sorted (s # map fst calls)" "sorted (server # map fst calls)"
    and skew: "\<bar>t - s\<bar> \<le> 500" "list_all (skew_within 500) calls"
    using "2.prems"(2,3) by (auto simp: skew_within_def [of _ "(s, t, k)"])
  have here: "tracks ?c ?f key r s since level" using tracks_later "2.prems"(1) order(1) .
  show ?case
  proof (cases "k = key")
    case True
    have now: "a = (1 \<le> ?tokens)"
      and "tracks ?c ?f key r' s (max since t) (if 1 \<le> ?tokens then ?tokens - 1 else ?tokens)"
      using take_skewed_tracks [OF here skew(1)] tk True by auto
    from "2.IH" [OF tk [symmetric] this(2) order(2) skew(2)] now show ?thesis
      using True tk by (simp add: Let_def)
  next
    case False
    have "r' key = r key" using take_skewed_other [OF False] tk by (metis snd_conv)
    then have "tracks ?c ?f key r' s since level" using here tracks_cong by blast
    from "2.IH" [OF tk [symmetric] this order(2) skew(2)] False tk show ?thesis by simp
  qed
qed simp

text \<open>Two callers; the first one's clock runs behind Redis's and then ahead of it.\<close>

abbreviation skewed_calls :: "skewed_call list" where
  "skewed_calls \<equiv> [(0, 300, ''a''), (10, 0, ''b''), (100, 0, ''a''), (5000, 4600, ''a'')]"

lemma tracks_fresh:
  "0 < refill \<Longrightarrow> 0 \<le> capacity \<Longrightarrow> since \<le> server - 500 \<Longrightarrow> tracks capacity refill key Map.empty server since capacity"
  by (simp add: tracks_def)

lemma skewed_script_is_the_reference_bucket_witness:
  "map snd (filter (\<lambda>(k, _). k = ''a'') (serve_skewed (\<lambda>_. (1, 1 / 1000)) skewed_calls Map.empty)) = [True, False, True]"
proof -
  let ?p = "\<lambda>_ :: string. (1 :: rat, 1 / 1000 :: rat)"
  have ok: "tracks (fst (?p ''a'')) (snd (?p ''a'')) ''a'' Map.empty 0 (- 500) 1" using tracks_fresh [of "1 / 1000" 1 "- 500" 0 "''a''"] by simp
  have s: "sorted (0 # map fst skewed_calls)" and w: "list_all (skew_within 500) skewed_calls"
    by (simp_all add: skew_within_def)
  show ?thesis
    unfolding skewed_script_is_the_reference_bucket [where policy = ?p and key = "''a''", OF ok s w] by simp
qed

text \<open>
  C17: no caller is granted more than its policy over any stretch of calls, whatever the other callers do and
  however the replicas' clocks disagree within half a second of Redis's: at most the burst and what refills
  between the first instant and the latest.  The half second is exact: at any larger skew, an
  expired key can forgive a spent token.
\<close>

theorem skewed_grants_within_policy:
  assumes "0 < snd (policy key)" and "0 \<le> fst (policy key)"
    and "sorted (map fst calls)" and "list_all (skew_within 500) calls" and "500 < d" and "d < 1000"
  defines "instants \<equiv> map (\<lambda>(_, t, _). t) (filter (\<lambda>(_, _, k). k = key) calls)"
  shows "of_nat (length (filter (\<lambda>(k, a). k = key \<and> a) (serve_skewed policy calls Map.empty))) \<le>
      fst (policy key) + (fold max instants (hd instants) - hd instants) * snd (policy key) \<and>
    list_all (skew_within d) [(0, d, key), (2000, 2000 - d, key)] \<and>
    map snd (serve_skewed (\<lambda>_. (1, 1 / 1000)) [(0, d, key), (2000, 2000 - d, key)] Map.empty) = [True, True] \<and>
    1 + (max d (2000 - d) - d) * (1 / 1000) < 2"
proof (intro conjI)
  let ?c = "fst (policy key)" and ?f = "snd (policy key)"
  define server where "server = (if calls = [] then 0 else fst (hd calls))"
  define since where "since = server - 500"
  have order: "sorted (server # map fst calls)" using assms(3) by (cases calls) (auto simp: server_def)
  have late: "list_all (\<lambda>t. since \<le> t) instants"
    using order assms(4) by (fastforce simp: instants_def list_all_iff since_def skew_within_def)
  have "tracks ?c ?f key Map.empty server since ?c"
    by (rule tracks_fresh) (simp_all add: assms(1,2) since_def)
  note eq = skewed_script_is_the_reference_bucket [where policy = policy and key = key, OF this order assms(4),
      folded instants_def]
  have flat: "length (filter (\<lambda>(k, a). k = key \<and> a) rs) =
      length (filter (\<lambda>a. a) (map snd (filter (\<lambda>(k, _). k = key) rs)))" for rs :: "(string \<times> bool) list"
    by (induction rs) auto
  have "length (filter (\<lambda>(k, a). k = key \<and> a) (serve_skewed policy calls Map.empty)) =
      length (filter (\<lambda>a. a) (reference_bucket ?c ?f (hd instants) ?c (latest (hd instants) instants)))"
    unfolding flat eq full_bucket_begins_late [OF less_imp_le [OF assms(1)] late] ..
  moreover have "of_nat (length (filter (\<lambda>a. a) (reference_bucket ?c ?f (hd instants) ?c (latest (hd instants) instants)))) \<le>
      ?c + (last (hd instants # latest (hd instants) instants) - hd instants) * ?f"
    by (rule reference_bucket_bound) (use assms(1,2) latest_facts in auto)
  ultimately show "of_nat (length (filter (\<lambda>(k, a). k = key \<and> a) (serve_skewed policy calls Map.empty))) \<le>
      ?c + (fold max instants (hd instants) - hd instants) * ?f"
    using latest_facts [of "hd instants" instants] by simp
  show "list_all (skew_within d) [(0, d, key), (2000, 2000 - d, key)]" using assms(5) by (simp add: skew_within_def)
  show "map snd (serve_skewed (\<lambda>_. (1, 1 / 1000)) [(0, d, key), (2000, 2000 - d, key)] Map.empty) = [True, True]"
    using assms(5) by (simp add: take_skewed_unfold on_hand_skewed_def read_bucket_def Let_def)
  show "1 + (max d (2000 - d) - d) * (1 / 1000) < 2" using assms(5,6) by (simp add: max_def)
qed

lemma skewed_grants_within_policy_witness:
  "length (filter (\<lambda>(k, a). k = ''a'' \<and> a) (serve_skewed (\<lambda>_. (1, 1 / 1000)) skewed_calls Map.empty)) \<le> 5"
proof -
  let ?p = "\<lambda>_ :: string. (1 :: rat, 1 / 1000 :: rat)"
  have "sorted (map fst skewed_calls)" and "list_all (skew_within 500) skewed_calls"
    by (simp_all add: skew_within_def)
  note bound = skewed_grants_within_policy [where policy = ?p and key = "''a''" and d = 600, OF _ _ this, THEN conjunct1]
  have "of_nat (length (filter (\<lambda>(k, a). k = ''a'' \<and> a) (serve_skewed ?p skewed_calls Map.empty))) \<le> (53 / 10 :: rat)"
    by (rule order_trans [OF bound]) simp_all
  moreover have "n \<le> 5" if "of_nat n \<le> (53 / 10 :: rat)" for n
  proof (rule ccontr)
    assume "\<not> n \<le> 5"
    then have "of_nat 6 \<le> (of_nat n :: rat)" by (simp only: of_nat_le_iff)
    then show False using that by simp
  qed
  ultimately show ?thesis by blast
qed

end
