(* ===== verification/ServiceToken.thy ===== *)
theory ServiceToken
  imports Exceptions "HOL-Library.Multiset"
begin

section \<open>Service tokens\<close>

text \<open>
  \<^verbatim>\<open>service-token/service-token.service.ts\<close>: the exchange of an API key for a bearer token, its cache
  and the sharing of one exchange by every caller that needs it.

  The service is asynchronous, so it is a set of atomic pieces, cut where the code awaits: a call
  of \<open>getAccessToken\<close> up to its promise, the answer of the HTTP call up to the end of \<open>fetchToken\<close>,
  and the \<open>finally\<close> handler that clears the shared promise and lets its waiters go on.  A step
  relation interleaves them.  Instants are milliseconds; the HTTP client's answer is an argument.
\<close>

record service_token_options =
  so_identityApiUrl :: "string option"
  so_identityApiKey :: "string option"
  so_timeoutMs :: nat
  so_refreshSkewSeconds :: rat

record cached_token =
  ct_accessToken :: string
  ct_expiresAt :: rat

record http_request =
  hr_url :: string
  hr_method :: string
  hr_headers :: "(string \<times> string) list"
  hr_timeout :: nat

text \<open>What \<open>httpService.request\<close> ends with: \<open>validateStatus\<close> accepts every status.\<close>

datatype http_result = HttpResponse nat js | HttpFailed thrown

definition isConfigured :: "service_token_options \<Rightarrow> bool" where
  "isConfigured opts = (str_truthy (so_identityApiUrl opts) \<and> str_truthy (so_identityApiKey opts))"

text \<open>\<open>replace(/\/+$/, '')\<close>.\<close>

definition strip_slashes :: "string \<Rightarrow> string" where
  "strip_slashes url = rev (dropWhile (\<lambda>c. c = CHR ''/'') (rev url))"

definition token_request :: "service_token_options \<Rightarrow> http_request" where
  "token_request opts =
     \<lparr>hr_url = strip_slashes (the (so_identityApiUrl opts)) @ ''/api/v1/auth/token'',
      hr_method = ''POST'',
      hr_headers = [(''x-api-key'', the (so_identityApiKey opts)), (''content-type'', ''application/json'')],
      hr_timeout = so_timeoutMs opts\<rparr>"

definition narrowToken :: "js \<Rightarrow> domain_exception + string \<times> rat" where
  "narrowToken body =
     (if \<not> is_object body then Inl (ExternalServiceException ''Service token response was invalid'' None)
      else case (js_prop body ''accessToken'', js_prop body ''expiresInSeconds'') of
        (Some (JStr accessToken), Some (JNum expiresInSeconds)) \<Rightarrow>
          if length accessToken = 0 \<or> expiresInSeconds \<le> 0
          then Inl (ExternalServiceException ''Service token response carried no usable token'' None)
          else Inr (accessToken, expiresInSeconds)
      | _ \<Rightarrow> Inl (ExternalServiceException ''Service token response carried no usable token'' None))"

fun http_reason :: "thrown \<Rightarrow> string" where
  "http_reason (ThrowDomain d) = de_message d"
| "http_reason (ThrowHttp h) = he_message h"
| "http_reason (ThrowError e) = eo_message e"
| "http_reason (ThrowValue _) = ''unknown''"

text \<open>The rest of \<open>fetchToken\<close> once the HTTP call has ended; the second part are the statuses logged.\<close>

definition fetch_outcome :: "rat \<Rightarrow> http_result \<Rightarrow> (domain_exception + cached_token) \<times> nat list" where
  "fetch_outcome now res = (case res of
     HttpFailed error \<Rightarrow>
       (Inl (ExternalServiceException ''Could not reach iveri-identity-api for a service token''
          (Some [(''reason'', JStr (http_reason error))])), [])
   | HttpResponse status body \<Rightarrow>
       if status < 200 \<or> status \<ge> 300
       then (Inl (ExternalServiceException ''iveri-identity-api refused the service credential''
               (Some [(''status'', JNum (of_nat status))])), [status])
       else (case narrowToken body of
           Inl e \<Rightarrow> (Inl e, [])
         | Inr (accessToken, expiresInSeconds) \<Rightarrow>
             (Inr \<lparr>ct_accessToken = accessToken, ct_expiresAt = now + expiresInSeconds * 1000\<rparr>, [])))"

subsection \<open>The service\<close>

text \<open>
  The shared promise is absent, pending on the HTTP call, or settled and not yet cleared.
  \<open>ts_waiting\<close> are the callers awaiting it, \<open>ts_answers\<close> the answers given, \<open>ts_requests\<close> the HTTP
  calls made and \<open>ts_completed\<close> the number that have ended.
\<close>

datatype exchange = Running | Settled "domain_exception + string"

record token_service =
  ts_cached :: "cached_token option"
  ts_inFlight :: "exchange option"
  ts_waiting :: "nat list"
  ts_answers :: "(nat \<times> (domain_exception + string)) list"
  ts_requests :: "http_request list"
  ts_completed :: nat
  ts_refused :: "nat list"

definition token_service_new :: token_service where
  "token_service_new = \<lparr>ts_cached = None, ts_inFlight = None, ts_waiting = [], ts_answers = [],
     ts_requests = [], ts_completed = 0, ts_refused = []\<rparr>"

definition is_fresh :: "service_token_options \<Rightarrow> rat \<Rightarrow> cached_token \<Rightarrow> bool" where
  "is_fresh opts now c = (ct_expiresAt c - so_refreshSkewSeconds opts * 1000 > now)"

definition missing_credential :: domain_exception where
  "missing_credential = ExternalServiceException ''No identity credential is configured''
     (Some [(''reason'', JStr ''Both an identity API URL and an API key are required to obtain a service token.'')])"

text \<open>\<open>fetchToken\<close> up to its first await: without a credential its promise is rejected at once.\<close>

definition fetch_start :: "service_token_options \<Rightarrow> token_service \<Rightarrow> token_service" where
  "fetch_start opts s =
     (if \<not> isConfigured opts then s\<lparr>ts_inFlight := Some (Settled (Inl missing_credential))\<rparr>
      else s\<lparr>ts_inFlight := Some Running, ts_requests := ts_requests s @ [token_request opts]\<rparr>)"

definition getAccessToken :: "service_token_options \<Rightarrow> rat \<Rightarrow> nat \<Rightarrow> token_service \<Rightarrow> token_service" where
  "getAccessToken opts now caller s =
     (case ts_cached s of
        Some c \<Rightarrow> if is_fresh opts now c
          then s\<lparr>ts_answers := ts_answers s @ [(caller, Inr (ct_accessToken c))]\<rparr>
          else (let s' = (if ts_inFlight s = None then fetch_start opts s else s)
                in s'\<lparr>ts_waiting := ts_waiting s' @ [caller]\<rparr>)
      | None \<Rightarrow> (let s' = (if ts_inFlight s = None then fetch_start opts s else s)
                in s'\<lparr>ts_waiting := ts_waiting s' @ [caller]\<rparr>))"

definition invalidate :: "token_service \<Rightarrow> token_service" where
  "invalidate s = s\<lparr>ts_cached := None\<rparr>"

definition fetch_end :: "rat \<Rightarrow> http_result \<Rightarrow> token_service \<Rightarrow> token_service" where
  "fetch_end now res s =
     (let (outcome, refused) = fetch_outcome now res;
          s' = s\<lparr>ts_completed := ts_completed s + 1, ts_refused := ts_refused s @ refused\<rparr>
      in case outcome of
           Inl e \<Rightarrow> s'\<lparr>ts_inFlight := Some (Settled (Inl e))\<rparr>
         | Inr c \<Rightarrow> s'\<lparr>ts_cached := Some c, ts_inFlight := Some (Settled (Inr (ct_accessToken c)))\<rparr>)"

definition clear_inFlight :: "domain_exception + string \<Rightarrow> token_service \<Rightarrow> token_service" where
  "clear_inFlight outcome s =
     s\<lparr>ts_inFlight := None, ts_waiting := [],
       ts_answers := ts_answers s @ map (\<lambda>caller. (caller, outcome)) (ts_waiting s)\<rparr>"

text \<open>The interleavings; the state beside the service is the clock and the callers that have called.\<close>

inductive token_step ::
    "service_token_options \<Rightarrow> rat \<times> nat list \<times> token_service \<Rightarrow> rat \<times> nat list \<times> token_service \<Rightarrow> bool"
  for opts :: service_token_options where
  call: "token_step opts (now, calls, s) (now, calls @ [caller], getAccessToken opts now caller s)"
| answer: "ts_inFlight s = Some Running \<Longrightarrow> token_step opts (now, calls, s) (now, calls, fetch_end now res s)"
| cleared: "ts_inFlight s = Some (Settled outcome) \<Longrightarrow>
    token_step opts (now, calls, s) (now, calls, clear_inFlight outcome s)"
| invalidated: "token_step opts (now, calls, s) (now, calls, invalidate s)"
| tick: "0 \<le> d \<Longrightarrow> token_step opts (now, calls, s) (now + d, calls, s)"

subsection \<open>The invariant\<close>

definition usable_token :: "domain_exception + string \<Rightarrow> bool" where
  "usable_token r = (case r of Inl e \<Rightarrow> de_status e = 502 | Inr t \<Rightarrow> t \<noteq> '''')"

definition service_ok :: "nat list \<times> token_service \<Rightarrow> bool" where
  "service_ok cs = (let (calls, s) = cs in
     length (ts_requests s) = ts_completed s + (if ts_inFlight s = Some Running then 1 else 0) \<and>
     (ts_waiting s = [] \<or> ts_inFlight s \<noteq> None) \<and>
     pred_option (\<lambda>c. ct_accessToken c \<noteq> '''') (ts_cached s) \<and>
     (case ts_inFlight s of Some (Settled r) \<Rightarrow> usable_token r | _ \<Rightarrow> True) \<and>
     list_all (\<lambda>(_, r). usable_token r) (ts_answers s) \<and>
     mset (map fst (ts_answers s)) + mset (ts_waiting s) = mset calls)"

lemma external_502 [simp]: "de_status (ExternalServiceException m d) = 502"
  by (simp add: sdk_exception_defs)

lemma narrowToken_Inl: "narrowToken body = Inl e \<Longrightarrow> de_status e = 502"
  by (auto simp: narrowToken_def split: if_splits option.splits js.splits)

lemma narrowToken_Inr: "narrowToken body = Inr (t, n) \<Longrightarrow> t \<noteq> '''' \<and> 0 < n"
  by (auto simp: narrowToken_def split: if_splits option.splits js.splits)

lemma fetch_outcome_ok:
  "case fst (fetch_outcome now res) of Inl e \<Rightarrow> de_status e = 502
   | Inr c \<Rightarrow> ct_accessToken c \<noteq> '''' \<and> now < ct_expiresAt c"
  by (auto simp: fetch_outcome_def dest: narrowToken_Inl narrowToken_Inr
      split: http_result.split sum.split)

lemma service_ok_call:
  assumes "service_ok (calls, s)"
  shows "service_ok (calls @ [caller], getAccessToken opts now caller s)"
  using assms
  by (auto simp: service_ok_def getAccessToken_def fetch_start_def missing_credential_def usable_token_def
      Let_def split: option.splits exchange.splits)

lemma service_ok_end:
  assumes "service_ok (calls, s)" and "ts_inFlight s = Some Running"
  shows "service_ok (calls, fetch_end now res s)"
  using assms fetch_outcome_ok [of now res]
  by (auto simp: service_ok_def fetch_end_def usable_token_def Let_def split: prod.splits sum.splits)

lemma service_ok_clear:
  assumes "service_ok (calls, s)" and "ts_inFlight s = Some (Settled outcome)"
  shows "service_ok (calls, clear_inFlight outcome s)"
  using assms
  by (auto simp: service_ok_def clear_inFlight_def Let_def list_all_iff comp_def multiset.map_comp)

lemma service_ok_invalidate: "service_ok (calls, s) \<Longrightarrow> service_ok (calls, invalidate s)"
  by (simp add: service_ok_def invalidate_def Let_def)

lemma service_ok_step: "token_step opts (now, cs) (now', cs') \<Longrightarrow> service_ok cs \<Longrightarrow> service_ok cs'"
  by (cases rule: token_step.cases, assumption)
    (auto intro: service_ok_call service_ok_end service_ok_clear service_ok_invalidate)

lemma service_ok_reachable:
  "(token_step opts)\<^sup>*\<^sup>* (t0, [], token_service_new) (now, cs) \<Longrightarrow> service_ok cs"
proof (induction "(now, cs)" arbitrary: now cs rule: rtranclp_induct)
  case base
  then show ?case by (simp add: service_ok_def token_service_new_def)
next
  case (step y)
  then show ?case using service_ok_step by (cases y) blast
qed

subsection \<open>Properties\<close>

text \<open>
  C21: one exchange at a time, shared, and nobody is forgotten.  However calls, HTTP answers,
  invalidations and the clearing of the promise interleave: the HTTP calls made exceed those that
  have ended by at most one, and by one only while the promise is pending; a caller waits only while
  there is a promise; every call is answered at most once and those not yet answered are waiting;
  and every answer is a non-empty token or a 502.
\<close>

theorem token_exchange_single_flight:
  assumes "(token_step opts)\<^sup>*\<^sup>* (t0, [], token_service_new) (now, calls, s)"
  shows "length (ts_requests s) - ts_completed s = (if ts_inFlight s = Some Running then 1 else 0) \<and>
    ts_completed s \<le> length (ts_requests s) \<and>
    (ts_waiting s = [] \<or> ts_inFlight s \<noteq> None) \<and>
    mset (map fst (ts_answers s)) + mset (ts_waiting s) = mset calls \<and>
    list_all (\<lambda>(_, r). case r of Inl e \<Rightarrow> de_status e = 502 | Inr t \<Rightarrow> t \<noteq> '''') (ts_answers s)"
  using service_ok_reachable [OF assms]
  by (auto simp: service_ok_def usable_token_def [abs_def])

abbreviation example_opts :: service_token_options where
  "example_opts \<equiv> \<lparr>so_identityApiUrl = Some ''http://id/'', so_identityApiKey = Some ''key'',
     so_timeoutMs = 5000, so_refreshSkewSeconds = 30\<rparr>"

text \<open>Two callers, one exchange.\<close>

lemma token_exchange_single_flight_witness:
  "\<exists>s. (token_step example_opts)\<^sup>*\<^sup>* (0, [], token_service_new) (0, [1, 2], s) \<and>
     ts_answers s = [(1, Inr ''tok''), (2, Inr ''tok'')] \<and> length (ts_requests s) = 1 \<and>
     ts_completed s \<le> length (ts_requests s)"
proof -
  let ?s1 = "getAccessToken example_opts 0 1 token_service_new"
  let ?s2 = "getAccessToken example_opts 0 2 ?s1"
  let ?body = "JObj [(''accessToken'', JStr ''tok''), (''expiresInSeconds'', JNum 900)]"
  let ?s3 = "fetch_end 0 (HttpResponse 200 ?body) ?s2"
  let ?s4 = "clear_inFlight (Inr ''tok'') ?s3"
  have run: "ts_inFlight ?s2 = Some Running" by code_simp
  have settled: "ts_inFlight ?s3 = Some (Settled (Inr ''tok''))" by code_simp
  have 1: "token_step example_opts (0, [], token_service_new) (0, [1], ?s1)"
    using token_step.call [of example_opts 0 "[]" token_service_new 1] by simp
  have 2: "token_step example_opts (0, [1], ?s1) (0, [1, 2], ?s2)"
    using token_step.call [of example_opts 0 "[1]" ?s1 2] by simp
  have 3: "token_step example_opts (0, [1, 2], ?s2) (0, [1, 2], ?s3)" by (rule token_step.answer [OF run])
  have 4: "token_step example_opts (0, [1, 2], ?s3) (0, [1, 2], ?s4)" by (rule token_step.cleared [OF settled])
  have reach: "(token_step example_opts)\<^sup>*\<^sup>* (0, [], token_service_new) (0, [1, 2], ?s4)"
    using 1 2 3 4 by (meson converse_rtranclp_into_rtranclp rtranclp.rtrancl_refl)
  have "ts_answers ?s4 = [(1, Inr ''tok''), (2, Inr ''tok'')]" by code_simp
  moreover have "length (ts_requests ?s4) = 1" by code_simp
  ultimately show ?thesis using reach token_exchange_single_flight [OF reach] by blast
qed

text \<open>
  What is answered from the cache, and what gets into it.  A caller is answered at once exactly
  when a cached token has more than the skew to live, and with that token; otherwise it waits, and
  an exchange is started when none is shared.  An exchange that fails, whether the network, the
  status or the shape of the body is to blame, leaves the cache as it was, so the next caller
  tries again; one that succeeds caches a token that expires after it arrived; and after an
  invalidation no caller is answered from the cache.
\<close>

theorem token_cache_rule:
  "(case ts_cached s of
      Some c \<Rightarrow> if now + so_refreshSkewSeconds opts * 1000 < ct_expiresAt c
        then getAccessToken opts now caller s = s\<lparr>ts_answers := ts_answers s @ [(caller, Inr (ct_accessToken c))]\<rparr>
        else ts_waiting (getAccessToken opts now caller s) = ts_waiting s @ [caller]
    | None \<Rightarrow> ts_waiting (getAccessToken opts now caller s) = ts_waiting s @ [caller]) \<and>
   (case fst (fetch_outcome now res) of
      Inl _ \<Rightarrow> ts_cached (fetch_end now res s) = ts_cached s
    | Inr c \<Rightarrow> ts_cached (fetch_end now res s) = Some c \<and> ct_accessToken c \<noteq> '''' \<and> now < ct_expiresAt c) \<and>
   is_ok (fst (fetch_outcome now (HttpResponse status body))) =
     (200 \<le> status \<and> status < 300 \<and>
      (\<exists>token n. js_prop body ''accessToken'' = Some (JStr token) \<and> token \<noteq> '''' \<and>
         js_prop body ''expiresInSeconds'' = Some (JNum n) \<and> 0 < n)) \<and>
   ts_answers (getAccessToken opts now caller (invalidate s)) = ts_answers s"
proof (intro conjI)
  show "case ts_cached s of
      Some c \<Rightarrow> if now + so_refreshSkewSeconds opts * 1000 < ct_expiresAt c
        then getAccessToken opts now caller s = s\<lparr>ts_answers := ts_answers s @ [(caller, Inr (ct_accessToken c))]\<rparr>
        else ts_waiting (getAccessToken opts now caller s) = ts_waiting s @ [caller]
    | None \<Rightarrow> ts_waiting (getAccessToken opts now caller s) = ts_waiting s @ [caller]"
    by (auto simp: getAccessToken_def is_fresh_def fetch_start_def Let_def split: option.split)
  show "case fst (fetch_outcome now res) of
      Inl _ \<Rightarrow> ts_cached (fetch_end now res s) = ts_cached s
    | Inr c \<Rightarrow> ts_cached (fetch_end now res s) = Some c \<and> ct_accessToken c \<noteq> '''' \<and> now < ct_expiresAt c"
    using fetch_outcome_ok [of now res]
    by (auto simp: fetch_end_def Let_def split: sum.splits prod.split)
  have obj: "js_prop body k = Some v \<Longrightarrow> is_object body" for k v by (cases body) auto
  show "is_ok (fst (fetch_outcome now (HttpResponse status body))) =
     (200 \<le> status \<and> status < 300 \<and>
      (\<exists>token n. js_prop body ''accessToken'' = Some (JStr token) \<and> token \<noteq> '''' \<and>
         js_prop body ''expiresInSeconds'' = Some (JNum n) \<and> 0 < n))"
    by (auto simp: fetch_outcome_def narrowToken_def is_ok_iff dest: obj split: option.split js.split)
  show "ts_answers (getAccessToken opts now caller (invalidate s)) = ts_answers s"
    by (simp add: getAccessToken_def invalidate_def fetch_start_def Let_def)
qed

end
