(* ===== verification/Base64.thy ===== *)
theory Base64
  imports Prelude "HOL-Library.Word"
begin

section \<open>Bytes, Base64 and UTF-8\<close>

text \<open>
  The three conversions of Node's \<open>Buffer\<close> that the encryption service uses: \<open>toString('base64')\<close>,
  \<open>Buffer.from(s, 'base64')\<close> and \<open>Buffer.from(s, 'utf8')\<close>.  Encoding is RFC 4648 with padding;
  decoding is lenient, as Node documents: characters outside the two Base64 alphabets are skipped.
  Strings hold code units below 256, whose UTF-8 form has one or two bytes.
\<close>

type_synonym byte = "8 word"
type_synonym bytes = "byte list"

definition BASE64_ALPHABET :: string where
  "BASE64_ALPHABET = ''ABCDEFGHIJKLMNOPQRSTUVWXYZabcdefghijklmnopqrstuvwxyz0123456789+/''"

definition b64_char :: "nat \<Rightarrow> char" where
  "b64_char n = BASE64_ALPHABET ! n"

fun index_of :: "char \<Rightarrow> string \<Rightarrow> nat option" where
  "index_of c [] = None"
| "index_of c (x # xs) = (if x = c then Some 0 else map_option Suc (index_of c xs))"

definition b64_val :: "char \<Rightarrow> nat option" where
  "b64_val c = (if c = CHR ''-'' then Some 62 else if c = CHR ''_'' then Some 63
     else index_of c BASE64_ALPHABET)"

fun encode_sextets :: "bytes \<Rightarrow> nat list" where
  "encode_sextets (a # b # c # rest) =
     (unat a div 4) # ((unat a mod 4) * 16 + unat b div 16) # ((unat b mod 16) * 4 + unat c div 64) #
     (unat c mod 64) # encode_sextets rest"
| "encode_sextets [a, b] =
     [unat a div 4, (unat a mod 4) * 16 + unat b div 16, (unat b mod 16) * 4]"
| "encode_sextets [a] = [unat a div 4, (unat a mod 4) * 16]"
| "encode_sextets [] = []"

definition padding :: "bytes \<Rightarrow> string" where
  "padding bs = (if length bs mod 3 = 1 then ''=='' else if length bs mod 3 = 2 then ''='' else '''')"

definition base64_encode :: "bytes \<Rightarrow> string" where
  "base64_encode bs = map b64_char (encode_sextets bs) @ padding bs"

fun decode_sextets :: "nat list \<Rightarrow> bytes" where
  "decode_sextets (a # b # c # d # rest) =
     word_of_nat (a * 4 + b div 16) # word_of_nat ((b mod 16) * 16 + c div 4) #
     word_of_nat ((c mod 4) * 64 + d) # decode_sextets rest"
| "decode_sextets [a, b, c] = [word_of_nat (a * 4 + b div 16), word_of_nat ((b mod 16) * 16 + c div 4)]"
| "decode_sextets [a, b] = [word_of_nat (a * 4 + b div 16)]"
| "decode_sextets _ = []"

definition base64_decode :: "string \<Rightarrow> bytes" where
  "base64_decode s = decode_sextets (List.map_filter b64_val s)"

definition utf8_bytes :: "string \<Rightarrow> bytes" where
  "utf8_bytes s = concat (map (\<lambda>c. let n = of_char c :: nat in
     if n < 128 then [word_of_nat n] else [word_of_nat (192 + n div 64), word_of_nat (128 + n mod 64)]) s)"

subsection \<open>Round trip\<close>

lemma unat_byte: "unat (a :: byte) < 256"
  using unsigned_less [of a] by simp

lemma two_digits: "y < k \<Longrightarrow> (x * k + y) div k = x" "y < k \<Longrightarrow> (x * k + y) mod k = y" for x y k :: nat
  by simp_all

lemma sextet_parts:
  fixes a b c :: nat
  assumes "a < 256" "b < 256" "c < 256"
  shows "a div 4 * 4 + ((a mod 4) * 16 + b div 16) div 16 = a"
    and "(((a mod 4) * 16 + b div 16) mod 16) * 16 + ((b mod 16) * 4 + c div 64) div 4 = b"
    and "(((b mod 16) * 4 + c div 64) mod 4) * 64 + c mod 64 = c"
    and "(a mod 4) * 16 div 16 = a mod 4" and "(b mod 16) * 4 div 4 = b mod 16"
    and "(a mod 4) * 16 + b div 16 < 64" and "(b mod 16) * 4 + c div 64 < 64"
    and "a div 4 < 64" and "c mod 64 < 64"
proof -
  have bd: "b div 16 < 16" and cd: "c div 64 < 4" using assms by simp_all
  show "a div 4 * 4 + ((a mod 4) * 16 + b div 16) div 16 = a"
    by (simp only: two_digits(1) [OF bd] div_mult_mod_eq)
  show "(((a mod 4) * 16 + b div 16) mod 16) * 16 + ((b mod 16) * 4 + c div 64) div 4 = b"
    by (simp only: two_digits(2) [OF bd] two_digits(1) [OF cd] div_mult_mod_eq)
  show "(((b mod 16) * 4 + c div 64) mod 4) * 64 + c mod 64 = c"
    by (simp only: two_digits(2) [OF cd] div_mult_mod_eq)
  have "a mod 4 < 4" "b mod 16 < 16" by simp_all
  then show "(a mod 4) * 16 + b div 16 < 64" and "(b mod 16) * 4 + c div 64 < 64"
    using bd cd by linarith+
qed (use assms in simp_all)

lemma decode_encode_sextets: "decode_sextets (encode_sextets bs) = bs"
proof (induction bs rule: encode_sextets.induct)
  case (1 a b c rest)
  then show ?case
    using sextet_parts [OF unat_byte [of a] unat_byte [of b] unat_byte [of c]] by simp
next
  case (2 a b)
  then show ?case
    using sextet_parts [OF unat_byte [of a] unat_byte [of b], of 0] by simp
next
  case (3 a)
  then show ?case using sextet_parts [OF unat_byte [of a], of 0 0] by simp
qed simp

lemma sextets_small: "\<forall>n \<in> set (encode_sextets bs). n < 64"
proof (induction bs rule: encode_sextets.induct)
  case (1 a b c rest)
  then show ?case
    using sextet_parts(6-9) [OF unat_byte [of a] unat_byte [of b] unat_byte [of c]] by simp
next
  case (2 a b)
  then show ?case
    using sextet_parts(6-8) [OF unat_byte [of a] unat_byte [of b], of 0] by simp
next
  case (3 a)
  then show ?case
    using sextet_parts(6,8) [OF unat_byte [of a], of 0 0] by simp
qed simp

lemma alphabet_facts:
  "list_all (\<lambda>n. b64_val (b64_char n) = Some n \<and> b64_char n \<notin> {CHR ''.'', CHR ''='', CHR ''-'', CHR ''_''}) [0..<64]"
  by code_simp

lemma b64_char_facts:
  assumes "n < 64"
  shows "b64_val (b64_char n) = Some n" and "b64_char n \<noteq> CHR ''.''"
  using alphabet_facts assms by (simp_all add: list_all_iff)

lemma padding_skipped: "List.map_filter b64_val (padding bs) = []"
proof -
  have "b64_val CHR ''='' = None" by code_simp
  then show ?thesis by (simp add: padding_def List.map_filter_simps)
qed

lemma map_filter_chars: "\<forall>n \<in> set ns. n < 64 \<Longrightarrow> List.map_filter b64_val (map b64_char ns) = ns"
  by (induction ns) (simp_all add: List.map_filter_simps b64_char_facts)

lemma map_filter_append: "List.map_filter f (xs @ ys) = List.map_filter f xs @ List.map_filter f ys"
  by (simp add: List.map_filter_def)

lemma base64_round_trip [simp]: "base64_decode (base64_encode bs) = bs"
  by (simp add: base64_decode_def base64_encode_def map_filter_append map_filter_chars sextets_small
      padding_skipped decode_encode_sextets)

lemma base64_no_dot: "CHR ''.'' \<notin> set (base64_encode bs)"
proof -
  have "CHR ''.'' \<notin> set (map b64_char (encode_sextets bs))"
    using sextets_small b64_char_facts(2) by fastforce
  then show ?thesis by (simp add: base64_encode_def padding_def)
qed

subsection \<open>UTF-8 of code units below 256 is injective\<close>

fun latin_of_utf8 :: "bytes \<Rightarrow> string" where
  "latin_of_utf8 [] = []"
| "latin_of_utf8 (a # rest) =
     (if unat a < 128 then char_of (unat a) # latin_of_utf8 rest
      else case rest of
        [] \<Rightarrow> []
      | b # rest' \<Rightarrow> char_of ((unat a - 192) * 64 + (unat b - 128)) # latin_of_utf8 rest')"

lemma utf8_Cons: "utf8_bytes (c # s) = (let n = of_char c :: nat in
    if n < 128 then [word_of_nat n] else [word_of_nat (192 + n div 64), word_of_nat (128 + n mod 64)]) @ utf8_bytes s"
  by (simp add: utf8_bytes_def)

lemma unat_small: "n < 256 \<Longrightarrow> unat (word_of_nat n :: byte) = n"
  by (simp add: unat_of_nat)

lemma utf8_round_trip [simp]: "latin_of_utf8 (utf8_bytes s) = s"
proof (induction s)
  case (Cons c s)
  let ?n = "of_char c :: nat"
  have n: "?n < 256" by (rule of_char_lt)
  then have d: "?n div 64 < 4" "192 + ?n div 64 < 256" "128 + ?n mod 64 < 256" by linarith+
  show ?case
  proof (cases "?n < 128")
    case True
    then show ?thesis using Cons by (simp add: utf8_Cons unat_small)
  next
    case False
    have "unat (word_of_nat (192 + ?n div 64) :: byte) = 192 + ?n div 64"
      and "unat (word_of_nat (128 + ?n mod 64) :: byte) = 128 + ?n mod 64"
      using d by (simp_all only: unat_small)
    then show ?thesis using Cons False by (simp add: utf8_Cons Let_def del: of_nat_add)
  qed
qed (simp add: utf8_bytes_def)

lemma utf8_bytes_inj: "utf8_bytes s = utf8_bytes t \<longleftrightarrow> s = t"
  by (metis utf8_round_trip)

end
