(* ===== verification/Encryption.thy ===== *)
theory Encryption
  imports Exceptions Base64
begin

section \<open>Envelope encryption\<close>

text \<open>
  \<^verbatim>\<open>encryption/encryption.service.ts\<close> and its constants.  AES-256-GCM is a parameter: a record of
  sealing (key, nonce, plaintext to ciphertext and tag) and opening (which fails for a wrong tag, and
  for a key, nonce or tag of the wrong length, where \<open>node:crypto\<close> throws).  The random bytes of each
  call are arguments.  Lenient Base64 decoding and UTF-8 decoding are fields of the same record,
  for what is needed of them is only that they undo the encodings.  A dash in a message stands for
  the source's em dash.
\<close>

definition ENCRYPTION_KEY_BYTES :: nat where "ENCRYPTION_KEY_BYTES = 32"
definition ENCRYPTION_IV_BYTES :: nat where "ENCRYPTION_IV_BYTES = 12"
definition ENCRYPTION_AUTH_TAG_BYTES :: nat where "ENCRYPTION_AUTH_TAG_BYTES = 16"
definition ENVELOPE_VERSION :: string where "ENVELOPE_VERSION = ''v1''"
definition ENVELOPE_SEPARATOR :: char where "ENVELOPE_SEPARATOR = CHR ''.''"
definition ENVELOPE_FIELD_COUNT :: nat where "ENVELOPE_FIELD_COUNT = 5"

record crypto =
  cr_seal :: "bytes \<Rightarrow> bytes \<Rightarrow> bytes \<Rightarrow> bytes \<times> bytes"
  cr_open :: "bytes \<Rightarrow> bytes \<Rightarrow> bytes \<Rightarrow> bytes \<Rightarrow> bytes option"
  cr_unbase64 :: "string \<Rightarrow> bytes"
  cr_of_utf8 :: "bytes \<Rightarrow> string"

text \<open>
  What is documented of them: decoding undoes encoding, tags have sixteen bytes, and what was sealed
  under a key and a nonce of the right lengths opens under them to the plaintext.
\<close>

definition crypto_documented :: "crypto \<Rightarrow> bool" where
  "crypto_documented C \<longleftrightarrow>
     (\<forall>bs. cr_unbase64 C (base64_encode bs) = bs) \<and>
     (\<forall>s. cr_of_utf8 C (utf8_bytes s) = s) \<and>
     (\<forall>k iv p. length (snd (cr_seal C k iv p)) = 16) \<and>
     (\<forall>k iv p. length k = 32 \<longrightarrow> length iv = 12 \<longrightarrow>
        cr_open C k iv (fst (cr_seal C k iv p)) (snd (cr_seal C k iv p)) = Some p)"

text \<open>Authenticity: what opens was sealed, under that very key and nonce.\<close>

definition crypto_authentic :: "crypto \<Rightarrow> bool" where
  "crypto_authentic C \<longleftrightarrow> (\<forall>k iv c t p. cr_open C k iv c t = Some p \<longrightarrow> cr_seal C k iv p = (c, t))"

subsection \<open>The master key\<close>

definition master_key_error :: thrown where
  "master_key_error = ThrowError \<lparr>eo_message = ''ENCRYPTION_KEY must be exactly 32 base64-encoded bytes. Generate one with: openssl rand -base64 32'',
     eo_stack = None, eo_props = []\<rparr>"

text \<open>The configured value, or what \<open>getOrThrow\<close> throws when there is none.\<close>

definition readMasterKey :: "crypto \<Rightarrow> thrown + string \<Rightarrow> thrown + bytes" where
  "readMasterKey C config = bind_res config (\<lambda>encoded.
     let key = cr_unbase64 C encoded in
     if length key \<noteq> ENCRYPTION_KEY_BYTES \<or> base64_encode key \<noteq> encoded
     then Inl master_key_error else Inr key)"

subsection \<open>Encrypting and decrypting\<close>

record wrapped_key =
  wk_iv :: bytes
  wk_key :: bytes
  wk_authTag :: bytes

definition wrapDataKey :: "crypto \<Rightarrow> bytes \<Rightarrow> bytes \<Rightarrow> bytes \<Rightarrow> wrapped_key" where
  "wrapDataKey C masterKey wrapIv dataKey =
     (let (key, authTag) = cr_seal C masterKey wrapIv dataKey
      in \<lparr>wk_iv = wrapIv, wk_key = key, wk_authTag = authTag\<rparr>)"

definition NOT_AN_ENVELOPE :: string where
  "NOT_AN_ENVELOPE = ''Stored secret is not a recognised encryption envelope''"

definition TRUNCATED :: string where
  "TRUNCATED = ''Stored secret is truncated''"

definition UNDECRYPTABLE :: string where
  "UNDECRYPTABLE = ''Stored secret could not be decrypted - ENCRYPTION_KEY may have changed''"

definition unwrapDataKey :: "crypto \<Rightarrow> bytes \<Rightarrow> wrapped_key \<Rightarrow> domain_exception + bytes" where
  "unwrapDataKey C masterKey w = (case cr_open C masterKey (wk_iv w) (wk_key w) (wk_authTag w) of
     None \<Rightarrow> Inl (InternalException UNDECRYPTABLE None)
   | Some dataKey \<Rightarrow> Inr dataKey)"

definition encrypt :: "crypto \<Rightarrow> bytes \<Rightarrow> bytes \<Rightarrow> bytes \<Rightarrow> bytes \<Rightarrow> string \<Rightarrow> string" where
  "encrypt C masterKey dataKey iv wrapIv plaintext =
     (let (sealed, tag) = cr_seal C dataKey iv (utf8_bytes plaintext);
          ciphertext = sealed @ tag;
          wrapped = wrapDataKey C masterKey wrapIv dataKey
      in join [ENVELOPE_SEPARATOR]
           [ENVELOPE_VERSION, base64_encode (wk_iv wrapped), base64_encode (wk_key wrapped),
            base64_encode (wk_authTag wrapped), base64_encode iv, base64_encode ciphertext])"

text \<open>\<open>subarray(boundary)\<close> and \<open>subarray(0, boundary)\<close>, for a boundary that is not negative.\<close>

definition open_payload :: "crypto \<Rightarrow> bytes \<Rightarrow> string \<Rightarrow> string \<Rightarrow> domain_exception + string" where
  "open_payload C dataKey iv payload =
     (let ciphertextWithTag = cr_unbase64 C payload;
          boundary = int (length ciphertextWithTag) - int ENCRYPTION_AUTH_TAG_BYTES
      in if boundary < 0 then Inl (InternalException TRUNCATED None)
         else case cr_open C dataKey (cr_unbase64 C iv) (take (nat boundary) ciphertextWithTag)
                     (drop (nat boundary) ciphertextWithTag) of
                None \<Rightarrow> Inl (InternalException UNDECRYPTABLE None)
              | Some plaintext \<Rightarrow> Inr (cr_of_utf8 C plaintext))"

definition decrypt :: "crypto \<Rightarrow> bytes \<Rightarrow> string \<Rightarrow> domain_exception + string" where
  "decrypt C masterKey envelope =
     (let parts = split_on ENVELOPE_SEPARATOR envelope in
      if hd parts \<noteq> ENVELOPE_VERSION \<or> length parts \<noteq> ENVELOPE_FIELD_COUNT + 1
      then Inl (InternalException NOT_AN_ENVELOPE None)
      else bind_res (unwrapDataKey C masterKey
             \<lparr>wk_iv = cr_unbase64 C (parts ! 1), wk_key = cr_unbase64 C (parts ! 2),
              wk_authTag = cr_unbase64 C (parts ! 3)\<rparr>)
             (\<lambda>dataKey. open_payload C dataKey (parts ! 4) (parts ! 5)))"

text \<open>\<open>timingSafeEqual\<close> is equality of the bytes, and throws on different lengths.\<close>

definition secretsMatch :: "string \<Rightarrow> string \<Rightarrow> bool" where
  "secretsMatch left right =
     (let leftBytes = utf8_bytes left; rightBytes = utf8_bytes right in
      if length leftBytes \<noteq> length rightBytes then False else leftBytes = rightBytes)"

subsection \<open>A Base64 codec\<close>

text \<open>What the envelope's text rests on: an encoding free of the separator that decoding undoes.\<close>

locale field_codec =
  fixes enc :: "bytes \<Rightarrow> string" and dec :: "string \<Rightarrow> bytes" and sep :: char
  assumes dec_enc: "dec (enc bs) = bs"
    and sep_free: "sep \<notin> set (enc bs)"
begin

lemma parse_fields:
  assumes "sep \<notin> set version"
  shows "split_on sep (join [sep] (version # map enc fs)) = version # map enc fs"
  by (rule split_join) (use assms sep_free in auto)

lemma fields_back: "map dec (tl (split_on sep (join [sep] (version # map enc fs)))) = fs"
  if "sep \<notin> set version"
  by (simp add: parse_fields [OF that] comp_def dec_enc)

end

interpretation b64: field_codec base64_encode base64_decode "CHR ''.''"
  by unfold_locales (simp_all add: base64_no_dot)

definition envelope_fields :: "crypto \<Rightarrow> bytes \<Rightarrow> bytes \<Rightarrow> bytes \<Rightarrow> bytes \<Rightarrow> string \<Rightarrow> bytes list" where
  "envelope_fields C masterKey dataKey iv wrapIv plaintext =
     [wrapIv, fst (cr_seal C masterKey wrapIv dataKey), snd (cr_seal C masterKey wrapIv dataKey), iv,
      fst (cr_seal C dataKey iv (utf8_bytes plaintext)) @ snd (cr_seal C dataKey iv (utf8_bytes plaintext))]"

lemma encrypt_fields:
  "encrypt C masterKey dataKey iv wrapIv plaintext =
     join ''.'' (''v1'' # map base64_encode (envelope_fields C masterKey dataKey iv wrapIv plaintext))"
  by (simp add: encrypt_def wrapDataKey_def envelope_fields_def ENVELOPE_SEPARATOR_def ENVELOPE_VERSION_def
      Let_def split: prod.split)

lemma encrypt_parts:
  "split_on CHR ''.'' (encrypt C masterKey dataKey iv wrapIv plaintext) =
     ''v1'' # map base64_encode (envelope_fields C masterKey dataKey iv wrapIv plaintext)"
  unfolding encrypt_fields by (rule b64.parse_fields) simp

subsection \<open>Properties\<close>

text \<open>
  C19: a stored secret can be read back.  For any master key of 32 bytes and whatever random data key
  and nonces encryption draws, decrypting the envelope returns the plaintext; the envelope is six
  fields separated by dots, the version first, and the five others decode to exactly the bytes put
  in, so neither the plaintext nor the data key is in it but sealed.
\<close>

theorem decrypt_encrypt:
  assumes "crypto_documented C" and "length masterKey = 32" and "length dataKey = 32"
    and "length iv = 12" and "length wrapIv = 12"
  shows "decrypt C masterKey (encrypt C masterKey dataKey iv wrapIv plaintext) = Inr plaintext \<and>
    length (split_on CHR ''.'' (encrypt C masterKey dataKey iv wrapIv plaintext)) = 6 \<and>
    hd (split_on CHR ''.'' (encrypt C masterKey dataKey iv wrapIv plaintext)) = ''v1'' \<and>
    map (cr_unbase64 C) (tl (split_on CHR ''.'' (encrypt C masterKey dataKey iv wrapIv plaintext))) =
      envelope_fields C masterKey dataKey iv wrapIv plaintext"
proof -
  let ?s = "cr_seal C dataKey iv (utf8_bytes plaintext)"
  have unb: "cr_unbase64 C (base64_encode bs) = bs" and utf: "cr_of_utf8 C (utf8_bytes s) = s"
    and tag: "length (snd (cr_seal C k i p)) = 16" for bs s k i p
    using assms(1) by (auto simp: crypto_documented_def)
  have wrap: "cr_open C masterKey wrapIv (fst (cr_seal C masterKey wrapIv dataKey)) (snd (cr_seal C masterKey wrapIv dataKey)) = Some dataKey"
    and payload: "cr_open C dataKey iv (fst ?s) (snd ?s) = Some (utf8_bytes plaintext)"
    using assms by (auto simp: crypto_documented_def)
  have open_it: "open_payload C dataKey (base64_encode iv) (base64_encode (fst ?s @ snd ?s)) = Inr plaintext"
    using payload by (simp add: open_payload_def Let_def unb utf tag ENCRYPTION_AUTH_TAG_BYTES_def)
  have "decrypt C masterKey (encrypt C masterKey dataKey iv wrapIv plaintext) = Inr plaintext"
    unfolding decrypt_def ENVELOPE_SEPARATOR_def encrypt_parts Let_def
    by (simp add: envelope_fields_def ENVELOPE_VERSION_def ENVELOPE_FIELD_COUNT_def unwrapDataKey_def
        unb wrap open_it)
  then show ?thesis unfolding encrypt_parts by (simp add: envelope_fields_def unb)
qed

text \<open>A cipher that behaves as documented, for the witnesses.\<close>

definition toy_crypto :: crypto where
  "toy_crypto = \<lparr>cr_seal = (\<lambda>k iv p. (rev p, replicate 16 7)),
     cr_open = (\<lambda>k iv c t. if t = replicate 16 7 then Some (rev c) else None),
     cr_unbase64 = base64_decode, cr_of_utf8 = latin_of_utf8\<rparr>"

lemma toy_crypto_documented: "crypto_documented toy_crypto"
  by (simp add: crypto_documented_def toy_crypto_def)

lemma toy_crypto_authentic: "crypto_authentic toy_crypto"
  by (auto simp: crypto_authentic_def toy_crypto_def split: if_splits)

lemma decrypt_encrypt_witness:
  "decrypt toy_crypto (replicate 32 1)
     (encrypt toy_crypto (replicate 32 1) (replicate 32 2) (replicate 12 3) (replicate 12 4) ''s3cret'')
   = Inr ''s3cret''"
  using decrypt_encrypt [OF toy_crypto_documented, of "replicate 32 1" "replicate 32 2" "replicate 12 3"
      "replicate 12 4" "''s3cret''"]
  by simp

text \<open>
  C20: a tampered or foreign envelope is refused, never misread.  Decryption is total: it ends with
  a plaintext or with an \<open>InternalException\<close> of one of three messages; and with an authentic cipher
  a plaintext is returned only for an envelope whose fields were sealed under the master key, the
  data key in the wrapper and the plaintext under that data key.
\<close>

theorem decrypt_accepts_only_sealed:
  assumes "crypto_authentic C"
  shows "case decrypt C masterKey envelope of
      Inl e \<Rightarrow> de_code e = INTERNAL_ERROR \<and> de_details e = None \<and>
        de_message e \<in> {NOT_AN_ENVELOPE, TRUNCATED, UNDECRYPTABLE}
    | Inr plaintext \<Rightarrow> \<exists>wrapIv wrappedKey wrapTag iv payload dataKey p.
        envelope = join ''.'' [''v1'', wrapIv, wrappedKey, wrapTag, iv, payload] \<and>
        cr_seal C masterKey (cr_unbase64 C wrapIv) dataKey = (cr_unbase64 C wrappedKey, cr_unbase64 C wrapTag) \<and>
        (case cr_seal C dataKey (cr_unbase64 C iv) p of (c, t) \<Rightarrow> c @ t = cr_unbase64 C payload) \<and>
        plaintext = cr_of_utf8 C p"
proof (cases "decrypt C masterKey envelope")
  case (Inl e)
  then show ?thesis
    by (auto simp: decrypt_def unwrapDataKey_def open_payload_def Let_def sdk_exception_defs
        split: if_splits option.splits elim!: bind_res.elims)
next
  case (Inr plaintext)
  let ?parts = "split_on CHR ''.'' envelope"
  have len: "length ?parts = 6" and v: "hd ?parts = ''v1''"
    using Inr by (auto simp: decrypt_def Let_def ENVELOPE_SEPARATOR_def ENVELOPE_VERSION_def
        ENVELOPE_FIELD_COUNT_def split: if_splits)
  then obtain a b c d e where parts: "?parts = [''v1'', a, b, c, d, e]"
    by (auto simp: length_Suc_conv numeral_eq_Suc)
  have env: "envelope = join ''.'' [''v1'', a, b, c, d, e]"
    using join_split [of "CHR ''.''" envelope] by (simp only: parts)
  from Inr obtain dataKey where un: "unwrapDataKey C masterKey
      \<lparr>wk_iv = cr_unbase64 C a, wk_key = cr_unbase64 C b, wk_authTag = cr_unbase64 C c\<rparr> = Inr dataKey"
    and op: "open_payload C dataKey d e = Inr plaintext"
    by (auto simp: decrypt_def Let_def ENVELOPE_SEPARATOR_def parts ENVELOPE_VERSION_def
        ENVELOPE_FIELD_COUNT_def numeral_eq_Suc split: if_splits)
  have "cr_seal C masterKey (cr_unbase64 C a) dataKey = (cr_unbase64 C b, cr_unbase64 C c)"
    using un assms by (auto simp: unwrapDataKey_def crypto_authentic_def split: option.splits)
  moreover obtain p n where "cr_open C dataKey (cr_unbase64 C d) (take n (cr_unbase64 C e)) (drop n (cr_unbase64 C e)) = Some p"
    and "plaintext = cr_of_utf8 C p"
    using op by (auto simp: open_payload_def Let_def split: if_splits option.splits)
  moreover from this assms have "cr_seal C dataKey (cr_unbase64 C d) p = (take n (cr_unbase64 C e), drop n (cr_unbase64 C e))"
    by (auto simp: crypto_authentic_def)
  ultimately have "case cr_seal C dataKey (cr_unbase64 C d) p of (c', t) \<Rightarrow> c' @ t = cr_unbase64 C e"
    and "cr_seal C masterKey (cr_unbase64 C a) dataKey = (cr_unbase64 C b, cr_unbase64 C c)"
    and "plaintext = cr_of_utf8 C p" by simp_all
  with env show ?thesis unfolding Inr sum.case
    by (intro exI [of _ a] exI [of _ b] exI [of _ c] exI [of _ d] exI [of _ e] exI [of _ dataKey]
        exI [of _ p] conjI)
qed

lemma decrypt_accepts_only_sealed_witness:
  "case decrypt toy_crypto (replicate 32 1) ''v1.AAAA'' of
     Inl e \<Rightarrow> de_message e = NOT_AN_ENVELOPE \<and> de_code e = INTERNAL_ERROR | Inr _ \<Rightarrow> False"
proof -
  have d: "decrypt toy_crypto (replicate 32 1) ''v1.AAAA'' = Inl (InternalException NOT_AN_ENVELOPE None)"
    by (simp add: decrypt_def ENVELOPE_SEPARATOR_def ENVELOPE_VERSION_def ENVELOPE_FIELD_COUNT_def Let_def)
  from decrypt_accepts_only_sealed [OF toy_crypto_authentic, where masterKey = "replicate 32 1" and envelope = "''v1.AAAA''"]
  show ?thesis by (simp add: d sdk_exception_defs)
qed

text \<open>
  The boot accepts exactly the well-formed keys.  \<open>ENCRYPTION_KEY\<close> is accepted when it is the
  canonical Base64 of some 32 bytes, which then are the key; any other text, one that decodes to 32
  bytes leniently included, and an absent one fail the construction.
\<close>

theorem readMasterKey_accepts:
  assumes "crypto_documented C"
  shows "(readMasterKey C (Inr encoded) = Inr key) = (length key = 32 \<and> encoded = base64_encode key) \<and>
    is_ok (readMasterKey C (Inr encoded)) = (\<exists>key. length key = 32 \<and> encoded = base64_encode key) \<and>
    readMasterKey C (Inl missing) = Inl missing"
proof -
  have unb: "cr_unbase64 C (base64_encode bs) = bs" for bs
    using assms by (auto simp: crypto_documented_def)
  have iff: "(readMasterKey C (Inr encoded) = Inr key) = (length key = 32 \<and> encoded = base64_encode key)" for key
    by (auto simp: readMasterKey_def Let_def ENCRYPTION_KEY_BYTES_def unb)
  then show ?thesis by (auto simp: is_ok_iff readMasterKey_def)
qed

lemma readMasterKey_accepts_witness:
  "\<not> is_ok (readMasterKey toy_crypto (Inr ''AAAA'')) \<and>
   is_ok (readMasterKey toy_crypto (Inr (base64_encode (replicate 32 0))))"
proof -
  have "length (base64_decode ''AAAA'') = 3" by code_simp
  then have bad: "\<not> (\<exists>key. length key = 32 \<and> ''AAAA'' = base64_encode key)"
    by (metis base64_round_trip numeral_eq_iff semiring_norm(84,86,89))
  have good: "\<exists>key. length key = 32 \<and> base64_encode (replicate 32 0) = base64_encode key"
    by (rule exI [of _ "replicate 32 0"]) simp
  have rule: "is_ok (readMasterKey toy_crypto (Inr s)) = (\<exists>key. length key = 32 \<and> s = base64_encode key)" for s
    by (rule readMasterKey_accepts [OF toy_crypto_documented, THEN conjunct2, THEN conjunct1])
  show ?thesis unfolding rule using bad good by blast
qed

text \<open>Comparing two secrets in constant time decides their equality.\<close>

theorem secretsMatch_iff: "secretsMatch left right = (left = right)"
  by (auto simp: secretsMatch_def Let_def utf8_bytes_inj)

end
