(* ===== verification/Redis.thy ===== *)
theory Redis
  imports Exceptions
begin

section \<open>The Redis connection\<close>

text \<open>
  \<^verbatim>\<open>redis/redis.service.ts\<close> with its options and constants.  The client is the one of \<open>ioredis\<close>:
  what the service decides of it is the configuration it is created with, the two events it
  listens to, and how it is closed.  The clock is \<open>now\<close>, in milliseconds.
\<close>

definition REDIS_ERROR_LOG_INTERVAL_MS :: int where "REDIS_ERROR_LOG_INTERVAL_MS = 60000"
definition REDIS_RECONNECT_MAX_DELAY_MS :: nat where "REDIS_RECONNECT_MAX_DELAY_MS = 5000"
definition REDIS_CONNECT_TIMEOUT_MS :: nat where "REDIS_CONNECT_TIMEOUT_MS = 5000"
definition REDIS_DEFAULT_COMMAND_TIMEOUT_MS :: nat where "REDIS_DEFAULT_COMMAND_TIMEOUT_MS = 1000"

lemmas redis_constants = REDIS_ERROR_LOG_INTERVAL_MS_def REDIS_RECONNECT_MAX_DELAY_MS_def
  REDIS_CONNECT_TIMEOUT_MS_def REDIS_DEFAULT_COMMAND_TIMEOUT_MS_def

record redis_module_options =
  ro_url :: "string option"
  ro_commandTimeoutMs :: "nat option"

definition retryStrategy :: "nat \<Rightarrow> nat" where
  "retryStrategy attempt = min (attempt * 200) REDIS_RECONNECT_MAX_DELAY_MS"

record redis_config =
  rk_url :: string
  rk_enableOfflineQueue :: bool
  rk_maxRetriesPerRequest :: nat
  rk_connectTimeout :: nat
  rk_commandTimeout :: nat
  rk_retryStrategy :: "nat \<Rightarrow> nat"

datatype redis_log =
    NoUrlConfigured
  | ConnectionReady
  | ConnectionError int string nat \<comment> \<open>when, the message, \<open>suppressedSinceLastLog\<close>\<close>

record redis_service =
  rd_client :: "redis_config option"
  rd_lastErrorLoggedAt :: int
  rd_suppressedErrorCount :: nat
  rd_log :: "redis_log list"

definition RedisService_new :: "redis_module_options \<Rightarrow> redis_service" where
  "RedisService_new options =
     (if \<not> str_truthy (ro_url options)
      then \<lparr>rd_client = None, rd_lastErrorLoggedAt = 0, rd_suppressedErrorCount = 0, rd_log = [NoUrlConfigured]\<rparr>
      else \<lparr>rd_client = Some \<lparr>rk_url = the (ro_url options), rk_enableOfflineQueue = False,
              rk_maxRetriesPerRequest = 1, rk_connectTimeout = REDIS_CONNECT_TIMEOUT_MS,
              rk_commandTimeout = nullish (ro_commandTimeoutMs options) REDIS_DEFAULT_COMMAND_TIMEOUT_MS,
              rk_retryStrategy = retryStrategy\<rparr>,
            rd_lastErrorLoggedAt = 0, rd_suppressedErrorCount = 0, rd_log = []\<rparr>)"

definition RedisService_getClient :: "redis_service \<Rightarrow> redis_config option" where
  "RedisService_getClient s = rd_client s"

definition RedisService_isConfigured :: "redis_service \<Rightarrow> bool" where
  "RedisService_isConfigured s = (rd_client s \<noteq> None)"

text \<open>The calls a shutdown makes on the client; \<open>quits\<close> is whether \<open>quit()\<close> resolves.\<close>

datatype client_call = Quit | Disconnect

definition RedisService_onApplicationShutdown :: "bool \<Rightarrow> redis_service \<Rightarrow> client_call list" where
  "RedisService_onApplicationShutdown quits s =
     (case rd_client s of None \<Rightarrow> [] | Some _ \<Rightarrow> if quits then [Quit] else [Quit, Disconnect])"

definition logConnectionError :: "int \<Rightarrow> string \<Rightarrow> redis_service \<Rightarrow> redis_service" where
  "logConnectionError now message s =
     (if now - rd_lastErrorLoggedAt s < REDIS_ERROR_LOG_INTERVAL_MS
      then s\<lparr>rd_suppressedErrorCount := rd_suppressedErrorCount s + 1\<rparr>
      else s\<lparr>rd_log := rd_log s @ [ConnectionError now message (rd_suppressedErrorCount s)],
             rd_lastErrorLoggedAt := now, rd_suppressedErrorCount := 0\<rparr>)"

text \<open>The two events the constructor listens to.\<close>

datatype client_event = ErrorEvent int string | ReadyEvent

fun on_event :: "client_event \<Rightarrow> redis_service \<Rightarrow> redis_service" where
  "on_event (ErrorEvent now message) s = logConnectionError now message s"
| "on_event ReadyEvent s = s\<lparr>rd_log := rd_log s @ [ConnectionReady]\<rparr>"

definition on_events :: "client_event list \<Rightarrow> redis_service \<Rightarrow> redis_service" where
  "on_events evs s = foldl (\<lambda>s e. on_event e s) s evs"

subsection \<open>Facts about the throttle\<close>

fun is_error :: "client_event \<Rightarrow> bool" where
  "is_error (ErrorEvent _ _) = True"
| "is_error ReadyEvent = False"

fun error_lines :: "redis_log list \<Rightarrow> (int \<times> string \<times> nat) list" where
  "error_lines [] = []"
| "error_lines (ConnectionError t m n # ls) = (t, m, n) # error_lines ls"
| "error_lines (_ # ls) = error_lines ls"

text \<open>How many errors a log accounts for: each line for itself and for those it says were suppressed.\<close>

definition accounted :: "redis_log list \<Rightarrow> nat" where
  "accounted ls = sum_list (map (\<lambda>(_, _, n). Suc n) (error_lines ls))"

lemma error_lines_append [simp]: "error_lines (ls @ ls') = error_lines ls @ error_lines ls'"
  by (induction ls rule: error_lines.induct) auto

lemma on_events_simps [simp]:
  "on_events [] s = s" "on_events (evs @ [e]) s = on_event e (on_events evs s)"
  by (simp_all add: on_events_def)

definition throttle_ok :: "redis_service \<Rightarrow> nat \<Rightarrow> bool" where
  "throttle_ok s errors =
     (sorted_wrt (\<lambda>a b. a + REDIS_ERROR_LOG_INTERVAL_MS \<le> b) (map fst (error_lines (rd_log s))) \<and>
      rd_lastErrorLoggedAt s = last (0 # map fst (error_lines (rd_log s))) \<and>
      accounted (rd_log s) + rd_suppressedErrorCount s = errors)"

lemma sorted_gap_snoc:
  assumes "sorted_wrt (\<lambda>a b. a + d \<le> b) ts" and "last (0 # ts) + d \<le> t" and "0 \<le> d"
  shows "sorted_wrt (\<lambda>a b. a + d \<le> b) (ts @ [t :: int])"
proof -
  have "x + d \<le> t" if "x \<in> set ts" for x
  proof -
    obtain us where us: "ts = us @ [last ts]" using \<open>x \<in> set ts\<close> by (metis append_butlast_last_id empty_iff list.set(1))
    have "x \<le> last ts"
    proof (cases "x = last ts")
      case False
      then have "x \<in> set us" using that us by (metis Un_iff empty_iff list.set(1) set_ConsD set_append)
      then have "x + d \<le> last ts" using assms(1) us by (metis in_set_conv_decomp sorted_wrt_append list.set_intros(1))
      then show ?thesis using assms(3) by linarith
    qed simp
    moreover have "last (0 # ts) = last ts" using that by auto
    ultimately show ?thesis using assms(2) by linarith
  qed
  then show ?thesis using assms(1) by (simp add: sorted_wrt_append)
qed

lemma throttle_step:
  assumes "throttle_ok s errors"
  shows "throttle_ok (on_event e s) (errors + (if is_error e then 1 else 0))"
proof (cases e)
  case ReadyEvent
  then show ?thesis using assms by (simp add: throttle_ok_def accounted_def)
next
  case (ErrorEvent now message)
  show ?thesis
  proof (cases "now - rd_lastErrorLoggedAt s < REDIS_ERROR_LOG_INTERVAL_MS")
    case True
    then show ?thesis using assms ErrorEvent by (simp add: throttle_ok_def logConnectionError_def)
  next
    case False
    have "sorted_wrt (\<lambda>a b. a + REDIS_ERROR_LOG_INTERVAL_MS \<le> b) (map fst (error_lines (rd_log s)) @ [now])"
      by (rule sorted_gap_snoc) (use assms False in \<open>auto simp: throttle_ok_def redis_constants\<close>)
    then show ?thesis
      using assms ErrorEvent False by (simp add: throttle_ok_def logConnectionError_def accounted_def)
  qed
qed

lemma throttle_run:
  "throttle_ok (RedisService_new options) 0 \<and>
   throttle_ok (on_events evs (RedisService_new options)) (length (filter is_error evs))"
proof (induction evs rule: rev_induct)
  case Nil
  show ?case by (simp add: throttle_ok_def RedisService_new_def accounted_def)
next
  case (snoc e evs)
  then have "throttle_ok (on_events evs (RedisService_new options)) (length (filter is_error evs))" by blast
  from throttle_step [OF this, of e] snoc.IH show ?case by (cases "is_error e") simp_all
qed

subsection \<open>Properties\<close>

text \<open>
  An outage is logged at most once a minute and no error is forgotten.  For any sequence of
  connection errors and recoveries, two error lines are a minute apart or more, the lines with the
  counts they carry and the count still pending add up to the errors there were, and an error that
  comes a minute or more after the last line is logged at once, with that count.
\<close>

theorem redis_errors_throttled:
  "(let s = on_events evs (RedisService_new options);
        s' = on_event (ErrorEvent now message) s in
     sorted_wrt (\<lambda>a b. a + 60000 \<le> b) (map fst (error_lines (rd_log s))) \<and>
     accounted (rd_log s) + rd_suppressedErrorCount s = length (filter is_error evs) \<and>
     error_lines (rd_log s') = error_lines (rd_log s) @
       (if last (0 # map fst (error_lines (rd_log s))) + 60000 \<le> now
        then [(now, message, length (filter is_error evs) - accounted (rd_log s))] else []))"
proof -
  let ?s = "on_events evs (RedisService_new options)"
  have "throttle_ok ?s (length (filter is_error evs))" using throttle_run by blast
  then show ?thesis
    by (auto simp: Let_def throttle_ok_def logConnectionError_def redis_constants)
qed

text \<open>
  A Redis that is down or absent never holds a request.  Without a URL there is no client, and
  shutting down calls nothing.  With one, the client does not queue commands while offline, retries
  a command once at most, and bounds connecting, every command and every reconnection delay; the
  delays never decrease; and shutting down closes the client whether or not it can quit.
\<close>

theorem redis_client_fails_fast:
  "(case RedisService_getClient (RedisService_new options) of
      None \<Rightarrow> \<not> str_truthy (ro_url options) \<and> \<not> RedisService_isConfigured (RedisService_new options) \<and>
        RedisService_onApplicationShutdown quits (RedisService_new options) = []
    | Some c \<Rightarrow> ro_url options = Some (rk_url c) \<and> rk_url c \<noteq> '''' \<and> \<not> rk_enableOfflineQueue c \<and>
        rk_maxRetriesPerRequest c = 1 \<and> rk_connectTimeout c = 5000 \<and>
        rk_commandTimeout c = (case ro_commandTimeoutMs options of None \<Rightarrow> 1000 | Some ms \<Rightarrow> ms) \<and>
        rk_retryStrategy c attempt \<le> 5000 \<and>
        rk_retryStrategy c attempt \<le> rk_retryStrategy c (attempt + later) \<and>
        (hd (RedisService_onApplicationShutdown quits (RedisService_new options)) = Quit) \<and>
        (quits \<noteq> (last (RedisService_onApplicationShutdown quits (RedisService_new options)) = Disconnect)))"
  by (auto simp: RedisService_getClient_def RedisService_isConfigured_def RedisService_new_def RedisService_onApplicationShutdown_def
      retryStrategy_def redis_constants nullish_case str_truthy_iff min_def split: option.split)

end
