(* ===== verification/Health.thy ===== *)
theory Health
  imports ExceptionFilter
begin

section \<open>The health probes\<close>

text \<open>
  The files of \<^verbatim>\<open>health/\<close>: the controller of the three probes, the module that wires the checks
  and the database check.  A check sees a world \<open>'w\<close> and resolves or throws.

  Parameter: \<open>unavailable\<close> is the constructor of Nest's own \<open>ServiceUnavailableException\<close>, which is
  documented to have the status 503 and, for an object, that object as its response; for a string,
  a response whose \<open>message\<close> is the string.
\<close>

definition unavailable_documented :: "(js \<Rightarrow> http_exception) \<Rightarrow> bool" where
  "unavailable_documented unavailable \<longleftrightarrow>
     (\<forall>body. he_status (unavailable body) = 503) \<and>
     (\<forall>ps. he_response (unavailable (JObj ps)) = JObj ps) \<and>
     (\<forall>s. js_prop (he_response (unavailable (JStr s))) ''message'' = Some (JStr s))"

definition nest_unavailable :: "js \<Rightarrow> http_exception" where
  "nest_unavailable body = \<lparr>he_status = 503,
     he_response = (case body of JStr s \<Rightarrow> JObj [(''message'', JStr s), (''statusCode'', JNum 503)] | _ \<Rightarrow> body),
     he_message = (case body of JStr s \<Rightarrow> s | _ \<Rightarrow> ''Service Unavailable Exception''), he_stack = None\<rparr>"

lemma nest_unavailable_documented: "unavailable_documented nest_unavailable"
  by (simp add: unavailable_documented_def nest_unavailable_def)

subsection \<open>Paths\<close>

definition HEALTH_ROUTE_PATH :: string where "HEALTH_ROUTE_PATH = ''health''"
definition HEALTH_LIVENESS_ROUTE :: string where "HEALTH_LIVENESS_ROUTE = HEALTH_ROUTE_PATH @ ''/live''"
definition HEALTH_READINESS_ROUTE :: string where "HEALTH_READINESS_ROUTE = HEALTH_ROUTE_PATH @ ''/ready''"
definition HEALTH_STARTUP_ROUTE :: string where "HEALTH_STARTUP_ROUTE = HEALTH_ROUTE_PATH @ ''/startup''"

text \<open>Each is excluded for \<open>GET\<close>.\<close>

definition HEALTH_ROUTE_EXCLUSIONS :: "string list" where
  "HEALTH_ROUTE_EXCLUSIONS = [HEALTH_LIVENESS_ROUTE, HEALTH_READINESS_ROUTE, HEALTH_STARTUP_ROUTE]"

subsection \<open>Checks\<close>

record 'w health_check =
  hc_name :: string
  hc_check :: "'w \<Rightarrow> thrown + unit"

text \<open>\<open>query\<close> is \<open>dataSource.query\<close>, on the text of a statement.\<close>

definition DatabaseReadinessCheck :: "(string \<Rightarrow> 'w \<Rightarrow> thrown + 'r) \<Rightarrow> 'w health_check" where
  "DatabaseReadinessCheck query = \<lparr>hc_name = ''database'',
     hc_check = (\<lambda>w. bind_res (query ''SELECT 1'' w) (\<lambda>_. Inr ()))\<rparr>"

datatype check_status = Up | Down

record health_check_result =
  hr_name :: string
  hr_status :: check_status
  hr_error :: "string option"

definition health_runOne :: "'w \<Rightarrow> 'w health_check \<Rightarrow> health_check_result" where
  "health_runOne w check = (case hc_check check w of
     Inr _ \<Rightarrow> \<lparr>hr_name = hc_name check, hr_status = Up, hr_error = None\<rparr>
   | Inl error \<Rightarrow> \<lparr>hr_name = hc_name check, hr_status = Down,
       hr_error = Some (error_message_or ''unknown failure'' error)\<rparr>)"

definition health_run :: "'w \<Rightarrow> 'w health_check list \<Rightarrow> health_check_result list" where
  "health_run w checks = map (health_runOne w) checks"

definition allUp :: "health_check_result list \<Rightarrow> bool" where
  "allUp checks = list_all (\<lambda>result. hr_status result = Up) checks"

subsection \<open>The controller\<close>

record 'w health_controller =
  ct_readinessChecks :: "'w health_check list"
  ct_startupChecks :: "'w health_check list"
  ct_started :: bool
  ct_startupResults :: "health_check_result list"

definition HealthController_new :: "'w health_check list \<Rightarrow> 'w health_check list \<Rightarrow> 'w health_controller" where
  "HealthController_new readiness startup = \<lparr>ct_readinessChecks = readiness, ct_startupChecks = startup,
     ct_started = False, ct_startupResults = []\<rparr>"

datatype probe_status = Ok | Ready | Not_ready | Started | Starting

fun probe_text :: "probe_status \<Rightarrow> string" where
  "probe_text Ok = ''ok''"
| "probe_text Ready = ''ready''"
| "probe_text Not_ready = ''not_ready''"
| "probe_text Started = ''started''"
| "probe_text Starting = ''starting''"

record probe_response =
  pb_status :: probe_status
  pb_checks :: "health_check_result list"

definition js_of_result :: "health_check_result \<Rightarrow> js" where
  "js_of_result r = JObj ([(''name'', JStr (hr_name r)),
      (''status'', JStr (case hr_status r of Up \<Rightarrow> ''up'' | Down \<Rightarrow> ''down''))] @
      (case hr_error r of None \<Rightarrow> [] | Some e \<Rightarrow> [(''error'', JStr e)]))"

definition js_of_response :: "probe_response \<Rightarrow> js" where
  "js_of_response r = JObj [(''status'', JStr (probe_text (pb_status r))),
     (''checks'', JArr (map js_of_result (pb_checks r)))]"

definition live :: probe_status where
  "live = Ok"

definition ready :: "(js \<Rightarrow> http_exception) \<Rightarrow> 'w \<Rightarrow> 'w health_controller \<Rightarrow> thrown + probe_response" where
  "ready unavailable w ctl =
     (let checks = health_run w (ct_readinessChecks ctl);
          response = \<lparr>pb_status = (if allUp checks then Ready else Not_ready), pb_checks = checks\<rparr>
      in if pb_status response = Not_ready then Inl (ThrowHttp (unavailable (js_of_response response)))
         else Inr response)"

text \<open>
  The startup probe in the two parts the awaited checks divide it into: what is answered at once,
  and what is done with the checks' results when they are in.
\<close>

definition startup_begins :: "'w health_controller \<Rightarrow> probe_response option" where
  "startup_begins ctl = (if ct_started ctl
     then Some \<lparr>pb_status = Started, pb_checks = ct_startupResults ctl\<rparr> else None)"

definition startup_ends ::
    "(js \<Rightarrow> http_exception) \<Rightarrow> health_check_result list \<Rightarrow> 'w health_controller \<Rightarrow>
     (thrown + probe_response) \<times> 'w health_controller" where
  "startup_ends unavailable checks ctl =
     (if \<not> allUp checks
      then (Inl (ThrowHttp (unavailable (js_of_response \<lparr>pb_status = Starting, pb_checks = checks\<rparr>))), ctl)
      else (Inr \<lparr>pb_status = Started, pb_checks = checks\<rparr>,
            ctl\<lparr>ct_started := True, ct_startupResults := checks\<rparr>))"

definition startup ::
    "(js \<Rightarrow> http_exception) \<Rightarrow> 'w \<Rightarrow> 'w health_controller \<Rightarrow> (thrown + probe_response) \<times> 'w health_controller" where
  "startup unavailable w ctl = (case startup_begins ctl of
     Some response \<Rightarrow> (Inr response, ctl)
   | None \<Rightarrow> startup_ends unavailable (health_run w (ct_startupChecks ctl)) ctl)"

subsection \<open>The module\<close>

record 'k health_module_options =
  hm_checks :: "'k list option"
  hm_startupChecks :: "'k list option"

text \<open>
  What \<open>forRoot\<close> provides: each check class once, and the two lists the controller injects.  A set
  keeps the first occurrence of each element.
\<close>

record 'k health_module =
  hd_providers :: "'k list"
  hd_readiness :: "'k list"
  hd_startup :: "'k list"

fun js_new_set :: "'k list \<Rightarrow> 'k list" where
  "js_new_set [] = []"
| "js_new_set (x # xs) = x # filter (\<lambda>y. y \<noteq> x) (js_new_set xs)"

definition HealthModule_forRoot :: "'k health_module_options \<Rightarrow> 'k health_module" where
  "HealthModule_forRoot options =
     (let readinessChecks = nullish (hm_checks options) [];
          startupChecks = nullish (hm_startupChecks options) readinessChecks
      in \<lparr>hd_providers = js_new_set (readinessChecks @ startupChecks),
          hd_readiness = readinessChecks, hd_startup = startupChecks\<rparr>)"

lemma set_js_new_set [simp]: "set (js_new_set xs) = set xs"
  by (induction xs) auto

lemma distinct_js_new_set [simp]: "distinct (js_new_set xs)"
  by (induction xs) auto

subsection \<open>Overlapping startup probes\<close>

text \<open>
  Probes overlap: while one awaits its checks, others are answered.  \<open>pr_open\<close> counts the probes whose
  checks run, \<open>pr_answers\<close> are the answers given, in order.
\<close>

record 'w probing =
  pr_ctl :: "'w health_controller"
  pr_open :: nat
  pr_answers :: "(thrown + probe_response) list"

inductive probe_step :: "(js \<Rightarrow> http_exception) \<Rightarrow> 'w probing \<Rightarrow> 'w probing \<Rightarrow> bool"
  for unavailable :: "js \<Rightarrow> http_exception" where
  answered: "startup_begins (pr_ctl s) = Some r \<Longrightarrow>
    probe_step unavailable s (s\<lparr>pr_answers := pr_answers s @ [Inr r]\<rparr>)"
| begins: "startup_begins (pr_ctl s) = None \<Longrightarrow>
    probe_step unavailable s (s\<lparr>pr_open := Suc (pr_open s)\<rparr>)"
| ends: "0 < pr_open s \<Longrightarrow>
    startup_ends unavailable (health_run w (ct_startupChecks (pr_ctl s))) (pr_ctl s) = (answer, ctl') \<Longrightarrow>
    probe_step unavailable s (s\<lparr>pr_ctl := ctl', pr_open := pr_open s - 1, pr_answers := pr_answers s @ [answer]\<rparr>)"

inductive_cases probe_stepE: "probe_step unavailable s s'"

text \<open>The one answer of a service that has started: every check, up.\<close>

definition started_answer :: "'w health_check list \<Rightarrow> probe_response" where
  "started_answer checks = \<lparr>pb_status = Started,
     pb_checks = map (\<lambda>c. \<lparr>hr_name = hc_name c, hr_status = Up, hr_error = None\<rparr>) checks\<rparr>"

lemma all_up_results: "allUp (health_run w checks) \<Longrightarrow> health_run w checks = pb_checks (started_answer checks)"
  by (induction checks)
    (auto simp: allUp_def health_run_def started_answer_def health_runOne_def split: sum.splits)

definition probing_ok :: "'w health_check list \<Rightarrow> 'w probing \<Rightarrow> bool" where
  "probing_ok checks s \<longleftrightarrow>
     ct_startupChecks (pr_ctl s) = checks \<and>
     (ct_started (pr_ctl s) \<longleftrightarrow> Inr (started_answer checks) \<in> set (pr_answers s)) \<and>
     (ct_started (pr_ctl s) \<longrightarrow> ct_startupResults (pr_ctl s) = pb_checks (started_answer checks)) \<and>
     list_all (case_sum (\<lambda>e. \<exists>h. e = ThrowHttp h \<and> he_status h = 503) (\<lambda>r. r = started_answer checks)) (pr_answers s)"

lemma started_answer_eta: "\<lparr>pb_status = Started, pb_checks = pb_checks (started_answer checks)\<rparr> = started_answer checks"
  by (simp add: started_answer_def)

lemma probe_step_ok:
  assumes "unavailable_documented unavailable" and "probe_step unavailable s s'" and "probing_ok checks s"
  shows "probing_ok checks s'"
  using assms(2)
proof cases
  case (answered r)
  then show ?thesis using assms(3)
    by (auto simp: probing_ok_def startup_begins_def started_answer_eta split: if_splits)
next
  case begins
  then show ?thesis using assms(3) by (auto simp: probing_ok_def)
next
  case (ends w answer ctl')
  let ?results = "health_run w (ct_startupChecks (pr_ctl s))"
  show ?thesis
  proof (cases "allUp ?results")
    case True
    then show ?thesis using ends assms(3) all_up_results [OF True]
      by (auto simp: probing_ok_def startup_ends_def started_answer_eta)
  next
    case False
    then show ?thesis using ends assms(1,3)
      by (auto simp: probing_ok_def startup_ends_def unavailable_documented_def)
  qed
qed

lemma probe_run_ok:
  assumes "unavailable_documented unavailable" and "(probe_step unavailable)\<^sup>*\<^sup>* s s'" and "probing_ok checks s"
  shows "probing_ok checks s'"
  using assms(2,3) by (induction rule: rtranclp_induct) (auto intro: probe_step_ok [OF assms(1)])

abbreviation first_boot :: "'w health_check list \<Rightarrow> 'w health_check list \<Rightarrow> 'w probing" where
  "first_boot readiness checks \<equiv>
     \<lparr>pr_ctl = HealthController_new readiness checks, pr_open = 0, pr_answers = []\<rparr>"

lemma first_boot_ok: "probing_ok checks (first_boot readiness checks)"
  by (simp add: probing_ok_def HealthController_new_def)

subsection \<open>Properties\<close>

text \<open>
  C26: the startup probe latches.  Whatever the interleaving of overlapping probes and whatever the
  checks answered, once one probe was answered with success every later one is, at once and with
  the same body, whatever the state of the dependencies; and before and after, every answer is
  that body, in which every check is up, or a 503.
\<close>

theorem startup_latches:
  assumes "unavailable_documented unavailable"
    and "(probe_step unavailable)\<^sup>*\<^sup>* (first_boot readiness checks) s"
    and "(probe_step unavailable)\<^sup>*\<^sup>* s s'"
    and "list_ex is_ok (pr_answers s)"
  shows "startup unavailable w (pr_ctl s') = (Inr (started_answer checks), pr_ctl s') \<and>
    startup_begins (pr_ctl s') = Some (started_answer checks) \<and>
    list_all (case_sum (\<lambda>e. \<exists>h. e = ThrowHttp h \<and> he_status h = 503) (\<lambda>r. r = started_answer checks)) (pr_answers s')"
proof -
  have ok: "probing_ok checks s" by (rule probe_run_ok [OF assms(1,2) first_boot_ok])
  then have "ct_started (pr_ctl s)"
    using assms(4) by (auto simp: probing_ok_def list_ex_iff list_all_iff is_ok_iff)
  moreover have "ct_started (pr_ctl s) \<Longrightarrow> ct_started (pr_ctl s')"
    using assms(3) by (induction rule: rtranclp_induct)
      (auto elim!: probe_stepE simp: startup_ends_def split: if_splits)
  moreover have "probing_ok checks s'" by (rule probe_run_ok [OF assms(1,3) ok])
  ultimately show ?thesis
    by (simp add: probing_ok_def startup_def startup_begins_def started_answer_eta)
qed

definition flag_check :: "bool health_check" where
  "flag_check = \<lparr>hc_name = ''db'', hc_check = (\<lambda>up. if up then Inr () else Inl (ThrowValue JUndefined))\<rparr>"

lemma startup_latches_witness:
  "startup nest_unavailable False
     (snd (startup_ends nest_unavailable (health_run True [flag_check]) (HealthController_new [] [flag_check]))) =
   (Inr (started_answer [flag_check]),
    snd (startup_ends nest_unavailable (health_run True [flag_check]) (HealthController_new [] [flag_check])))"
proof -
  let ?s0 = "first_boot [] [flag_check]"
  let ?s1 = "?s0\<lparr>pr_open := 1\<rparr>"
  obtain a ctl' where e: "startup_ends nest_unavailable (health_run True [flag_check])
      (HealthController_new [] [flag_check]) = (a, ctl')" using prod.exhaust by blast
  have up: "is_ok a" using e
    by (auto simp: startup_ends_def allUp_def health_run_def health_runOne_def flag_check_def)
  let ?s2 = "?s1\<lparr>pr_ctl := ctl', pr_open := 0, pr_answers := [a]\<rparr>"
  have one: "probe_step nest_unavailable ?s0 ?s1"
    using probe_step.begins [of ?s0 nest_unavailable]
    by (simp add: startup_begins_def HealthController_new_def)
  have two: "probe_step nest_unavailable ?s1 ?s2"
    using probe_step.ends [of ?s1 nest_unavailable True a ctl'] e by (simp add: HealthController_new_def)
  have "(probe_step nest_unavailable)\<^sup>*\<^sup>* ?s0 ?s2" using one two by (meson converse_rtranclp_into_rtranclp r_into_rtranclp)
  from startup_latches [OF nest_unavailable_documented this rtranclp.rtrancl_refl, of False] up e
  show ?thesis by simp
qed

text \<open>
  Readiness is the conjunction of its checks and reports each of them.  The probe succeeds
  exactly when every readiness check resolves; otherwise it is a 503; either way the body lists one
  result per check, in their order, with the reason of each failure; and the database check is up
  exactly when a round trip to the database succeeds.
\<close>

theorem readiness_reports_checks:
  assumes "unavailable_documented unavailable"
  shows "(let results = map (\<lambda>c. case hc_check c w of
            Inr _ \<Rightarrow> \<lparr>hr_name = hc_name c, hr_status = Up, hr_error = None\<rparr>
          | Inl e \<Rightarrow> \<lparr>hr_name = hc_name c, hr_status = Down, hr_error = Some (error_message_or ''unknown failure'' e)\<rparr>)
          (ct_readinessChecks ctl) in
      if list_all (\<lambda>c. is_ok (hc_check c w)) (ct_readinessChecks ctl)
      then ready unavailable w ctl = Inr \<lparr>pb_status = Ready, pb_checks = results\<rparr>
      else (case ready unavailable w ctl of
          Inl (ThrowHttp h) \<Rightarrow> he_status h = 503 \<and>
            he_response h = js_of_response \<lparr>pb_status = Not_ready, pb_checks = results\<rparr>
        | _ \<Rightarrow> False)) \<and>
    is_ok (hc_check (DatabaseReadinessCheck query) w) = is_ok (query ''SELECT 1'' w)"
proof -
  have results: "health_run w (ct_readinessChecks ctl) = map (\<lambda>c. case hc_check c w of
            Inr _ \<Rightarrow> \<lparr>hr_name = hc_name c, hr_status = Up, hr_error = None\<rparr>
          | Inl e \<Rightarrow> \<lparr>hr_name = hc_name c, hr_status = Down, hr_error = Some (error_message_or ''unknown failure'' e)\<rparr>)
          (ct_readinessChecks ctl)"
    by (simp add: health_run_def health_runOne_def)
  have up: "allUp (health_run w cs) = list_all (\<lambda>c. is_ok (hc_check c w)) cs" for cs :: "'a health_check list"
    by (induction cs) (auto simp: allUp_def health_run_def health_runOne_def is_ok_iff split: sum.splits)
  have body: "he_status (unavailable (js_of_response r)) = 503 \<and>
      he_response (unavailable (js_of_response r)) = js_of_response r" for r
    using assms by (simp add: unavailable_documented_def js_of_response_def)
  have "is_ok (hc_check (DatabaseReadinessCheck query) w) = is_ok (query ''SELECT 1'' w)"
    by (cases "query ''SELECT 1'' w") (simp_all add: DatabaseReadinessCheck_def)
  then show ?thesis
    unfolding Let_def results [symmetric] by (simp add: ready_def up body)
qed

lemma readiness_reports_checks_witness:
  "(case ready nest_unavailable False (HealthController_new [flag_check] []) of
      Inl (ThrowHttp h) \<Rightarrow> he_status h = 503 | _ \<Rightarrow> False)"
  using readiness_reports_checks [OF nest_unavailable_documented, where w = False and
      ctl = "HealthController_new [flag_check] []" and query = "\<lambda>_ _. Inr ()", THEN conjunct1]
  by (simp add: HealthController_new_def flag_check_def split: sum.splits thrown.splits)

text \<open>
  Behind the global filter a failed readiness probe says nothing of its checks.  The body the
  caller sees is the same whichever dependency is down and why, the code being the only content.
\<close>

theorem failed_probe_loses_its_checks:
  assumes "unavailable_documented unavailable"
  shows "(let n = normalize expose (ThrowHttp (unavailable (js_of_response r))) in
    ne_code n = SERVICE_UNAVAILABLE \<and> ne_status n = 503 \<and> ne_details n = None \<and>
    ne_message n = he_message (unavailable (js_of_response r)))"
proof -
  have "he_status (unavailable (js_of_response r)) = 503"
    and "he_response (unavailable (js_of_response r)) = js_of_response r"
    using assms by (simp_all add: unavailable_documented_def js_of_response_def)
  then show ?thesis
    by (simp add: fromHttpException_def js_of_response_def readValidationViolations_def readStringProperty_def
        STATUS_TO_ERROR_CODE_def Let_def)
qed

lemma failed_probe_loses_its_checks_witness:
  "ne_details (normalize False (ThrowHttp (nest_unavailable
     (js_of_response \<lparr>pb_status = Not_ready, pb_checks = health_run False [flag_check]\<rparr>)))) = None"
  using failed_probe_loses_its_checks [OF nest_unavailable_documented, where expose = False and
      r = "\<lparr>pb_status = Not_ready, pb_checks = health_run False [flag_check]\<rparr>"]
  unfolding Let_def by (elim conjE)

text \<open>
  The module provides every check class once, whichever lists name it; startup falls back on the
  readiness checks only when it is not given, so an empty list opts out.
\<close>

lemma forRoot_provides_once:
  "(let m = HealthModule_forRoot options in
     distinct (hd_providers m) \<and> set (hd_providers m) = set (hd_readiness m) \<union> set (hd_startup m) \<and>
     hd_startup m = (case hm_startupChecks options of None \<Rightarrow> hd_readiness m | Some cs \<Rightarrow> cs))"
  by (simp add: HealthModule_forRoot_def Let_def nullish_case split: option.split)

end
