(* ===== verification/Storage.thy ===== *)
theory Storage
  imports Health
begin

section \<open>Object storage\<close>

text \<open>
  \<^verbatim>\<open>storage/object-storage.service.ts\<close>.  Parameter: \<open>send\<close> is \<open>send\<close> of the S3 client on a command
  and a time limit, which reads and changes the bucket's state \<open>'s\<close> and may throw; \<open>unavailable\<close>
  is the exception of Nest as for the health probes.  The client's configuration is a record.
\<close>

record object_storage_module_options =
  os_bucket :: string
  os_endpoint :: "string option"
  os_region :: "string option"
  os_accessKeyId :: "string option"
  os_secretAccessKey :: "string option"
  os_timeoutMs :: nat

record s3_client_config =
  sc_region :: string
  sc_endpoint :: "string option"
  sc_forcePathStyle :: bool
  sc_credentials :: "(string \<times> string) option"

definition ObjectStorageService_client :: "object_storage_module_options \<Rightarrow> s3_client_config" where
  "ObjectStorageService_client options =
     \<lparr>sc_region = nullish (os_region options) ''us-east-1'', sc_endpoint = os_endpoint options,
      sc_forcePathStyle = str_truthy (os_endpoint options),
      sc_credentials = (if str_truthy (os_accessKeyId options) \<and> str_truthy (os_secretAccessKey options)
        then Some (the (os_accessKeyId options), the (os_secretAccessKey options)) else None)\<rparr>"

record put_object =
  po_bucket :: string
  po_key :: string
  po_body :: "nat list"
  po_contentType :: string
  po_cacheControl :: "string option"
  po_serverSideEncryption :: string

datatype s3_command = PutObject put_object | DeleteObject string string

type_synonym 's s3_send = "s3_command \<Rightarrow> nat \<Rightarrow> 's \<Rightarrow> (thrown + unit) \<times> 's"

record put_dto =
  pd_key :: string
  pd_bytes :: "nat list"
  pd_contentType :: string
  pd_cacheControl :: "string option"

definition storage_put ::
    "(js \<Rightarrow> http_exception) \<Rightarrow> 's s3_send \<Rightarrow> object_storage_module_options \<Rightarrow> put_dto \<Rightarrow> 's \<Rightarrow> (thrown + unit) \<times> 's" where
  "storage_put unavailable send options dto s =
     (let (res, s') = send (PutObject \<lparr>po_bucket = os_bucket options, po_key = pd_key dto, po_body = pd_bytes dto,
            po_contentType = pd_contentType dto, po_cacheControl = pd_cacheControl dto,
            po_serverSideEncryption = ''AES256''\<rparr>) (os_timeoutMs options) s
      in (case res of
            Inr _ \<Rightarrow> Inr ()
          | Inl _ \<Rightarrow> Inl (ThrowHttp (unavailable (JStr ''Object storage is unavailable''))), s'))"

definition storage_remove ::
    "'s s3_send \<Rightarrow> object_storage_module_options \<Rightarrow> string \<Rightarrow> 's \<Rightarrow> bool \<times> 's" where
  "storage_remove send options key s =
     (let (res, s') = send (DeleteObject (os_bucket options) key) (os_timeoutMs options) s in
      (case res of Inr _ \<Rightarrow> True | Inl _ \<Rightarrow> False, s'))"

subsection \<open>Properties\<close>

text \<open>
  An outage of the bucket is a 503 that says no more.  A write that fails, for any reason and
  whatever the provider's message, makes the caller's body the fixed text, without the bucket, the
  key or the reason; a write succeeds exactly when the provider took it; a removal never throws and
  answers whether the object is known to be gone.
\<close>

theorem storage_outage_tells_nothing:
  assumes "unavailable_documented unavailable"
  shows "(let (res, s') = send (PutObject \<lparr>po_bucket = os_bucket options, po_key = pd_key dto,
            po_body = pd_bytes dto, po_contentType = pd_contentType dto, po_cacheControl = pd_cacheControl dto,
            po_serverSideEncryption = ''AES256''\<rparr>) (os_timeoutMs options) s
      in snd (storage_put unavailable send options dto s) = s' \<and>
        (case fst (storage_put unavailable send options dto s) of
           Inr _ \<Rightarrow> is_ok res
         | Inl e \<Rightarrow> \<not> is_ok res \<and>
             ne_code (normalize expose e) = SERVICE_UNAVAILABLE \<and> ne_status (normalize expose e) = 503 \<and>
             ne_message (normalize expose e) = ''Object storage is unavailable'' \<and>
             ne_details (normalize expose e) = None)) \<and>
    fst (storage_remove send options key s) =
      is_ok (fst (send (DeleteObject (os_bucket options) key) (os_timeoutMs options) s))"
proof -
  let ?u = "unavailable (JStr ''Object storage is unavailable'')"
  have u: "he_status ?u = 503" "js_prop (he_response ?u) ''message'' = Some (JStr ''Object storage is unavailable'')"
    using assms by (simp_all add: unavailable_documented_def)
  have not_str: "he_response ?u \<noteq> JStr x" for x using u(2) by auto
  have n: "fromHttpException ?u = \<lparr>ne_code = SERVICE_UNAVAILABLE, ne_status = 503,
      ne_message = ''Object storage is unavailable'', ne_details = None\<rparr>"
    using u not_str by (auto simp: fromHttpException_def readValidationViolations_def readStringProperty_def
        STATUS_TO_ERROR_CODE_def Let_def split: js.split)
  show ?thesis
    by (auto simp: storage_put_def storage_remove_def Let_def n split: prod.split sum.split)
qed

lemma storage_outage_tells_nothing_witness:
  "ne_message (normalize False (projl (fst (storage_put nest_unavailable (\<lambda>_ _ s. (Inl (ThrowValue JUndefined), s))
     \<lparr>os_bucket = ''b'', os_endpoint = None, os_region = None, os_accessKeyId = None, os_secretAccessKey = None,
      os_timeoutMs = 5\<rparr> \<lparr>pd_key = ''tenant'', pd_bytes = [], pd_contentType = ''x'', pd_cacheControl = None\<rparr> ())))) =
   ''Object storage is unavailable''"
  using storage_outage_tells_nothing [OF nest_unavailable_documented, where
      send = "\<lambda>_ _ s. (Inl (ThrowValue JUndefined), s)" and expose = False and s = "()" and key = "''k''" and
      options = "\<lparr>os_bucket = ''b'', os_endpoint = None, os_region = None, os_accessKeyId = None,
        os_secretAccessKey = None, os_timeoutMs = 5\<rparr>" and
      dto = "\<lparr>pd_key = ''tenant'', pd_bytes = [], pd_contentType = ''x'', pd_cacheControl = None\<rparr>"]
  by (simp add: storage_put_def Let_def)

text \<open>
  Path style follows an explicit endpoint, and credentials are given to the client only as a pair.
\<close>

lemma storage_client_config:
  "sc_forcePathStyle (ObjectStorageService_client options) = str_truthy (sc_endpoint (ObjectStorageService_client options)) \<and>
   (sc_credentials (ObjectStorageService_client options) \<noteq> None) =
     (str_truthy (os_accessKeyId options) \<and> str_truthy (os_secretAccessKey options))"
  by (simp add: ObjectStorageService_client_def)

end
