(* ===== verification/RouteMatrix.thy ===== *)
theory RouteMatrix
  imports Auth "HOL-Library.List_Lexorder" "HOL-Library.Char_ord"
begin

section \<open>The authorization matrix\<close>

text \<open>
  \<^verbatim>\<open>testing/registered-route.ts\<close>: the routes an application registers, read from Nest's metadata,
  and the two reports a service's authorization spec pins.  The container is what is read of it: per
  module its controllers, absent where a wrapper has no class; per controller its path prefix, its
  metadata and the members the scanner names, absent where a name has none behind it.  A verb is the
  name Nest's \<open>RequestMethod\<close> has for it.
\<close>

record route_handler =
  hn_path :: "string option"
  hn_verb :: "string option"
  hn_meta :: route_metadata

record route_controller =
  rc_prefix :: "string option"
  rc_meta :: route_metadata
  rc_methods :: "route_handler option list"

type_synonym container = "route_controller option list list"

record registered_route =
  rr_signature :: string
  rr_isPublic :: bool
  rr_permissions :: "string list"

text \<open>\<open>s.replace(/\\/+/g, '/')\<close> and \<open>s.replace(/\\/$/, '')\<close>.\<close>

fun collapse_slashes :: "string \<Rightarrow> string" where
  "collapse_slashes [] = []"
| "collapse_slashes [c] = [c]"
| "collapse_slashes (c # d # cs) =
     (if c = CHR ''/'' \<and> d = CHR ''/'' then collapse_slashes (d # cs) else c # collapse_slashes (d # cs))"

definition strip_slash :: "string \<Rightarrow> string" where
  "strip_slash s = (if s \<noteq> '''' \<and> last s = CHR ''/'' then butlast s else s)"

definition route_signature :: "string \<Rightarrow> string \<Rightarrow> string \<Rightarrow> string" where
  "route_signature verb pre path = strip_slash (collapse_slashes (verb @ '' /'' @ pre @ ''/'' @ path))"

definition registered_handler :: "route_controller \<Rightarrow> route_handler \<Rightarrow> registered_route list" where
  "registered_handler controller handler = (case hn_path handler of
     None \<Rightarrow> []
   | Some path \<Rightarrow>
       [\<lparr>rr_signature = route_signature (nullish (hn_verb handler) ''GET'') (nullish (rc_prefix controller) '''') path,
         rr_isPublic = (rm_isPublic (hn_meta handler) = Some True \<or> rm_isPublic (rc_meta controller) = Some True),
         rr_permissions = nullish (rm_required (hn_meta handler)) [] @ nullish (rm_required (rc_meta controller)) []\<rparr>])"

definition registered_controller :: "route_controller option \<Rightarrow> registered_route list" where
  "registered_controller metatype = (case metatype of
     None \<Rightarrow> []
   | Some controller \<Rightarrow>
       concat (map (\<lambda>h. case h of None \<Rightarrow> [] | Some handler \<Rightarrow> registered_handler controller handler)
         (rc_methods controller)))"

definition registeredRoutes :: "container \<Rightarrow> registered_route list" where
  "registeredRoutes app = concat (map (\<lambda>controllers. concat (map registered_controller controllers)) app)"

definition undeclaredRoutes :: "registered_route list \<Rightarrow> string list" where
  "undeclaredRoutes routes =
     map rr_signature (filter (\<lambda>route. \<not> rr_isPublic route \<and> length (rr_permissions route) = 0) routes)"

text \<open>
  \<open>sort()\<close> orders by code units and sorts the route's own array: the second component is the routes
  as the call leaves them.
\<close>

definition permissionMatrix :: "registered_route list \<Rightarrow> (string \<times> string) list \<times> registered_route list" where
  "permissionMatrix routes =
     (spread [] (map (\<lambda>route. (rr_signature route, join ''+'' (sort (rr_permissions route))))
        (filter (\<lambda>route. \<not> rr_isPublic route) routes)),
      map (\<lambda>route. if rr_isPublic route then route
        else route\<lparr>rr_permissions := sort (rr_permissions route)\<rparr>) routes)"

subsection \<open>Facts about the list of routes\<close>

lemma registeredRoutes_mem:
  assumes "controllers \<in> set app" and "Some controller \<in> set controllers"
    and "Some handler \<in> set (rc_methods controller)" and "hn_path handler = Some path"
  shows "\<exists>route \<in> set (registeredRoutes app).
    rr_signature route = route_signature (nullish (hn_verb handler) ''GET'') (nullish (rc_prefix controller) '''') path \<and>
    rr_isPublic route = (rm_isPublic (hn_meta handler) = Some True \<or> rm_isPublic (rc_meta controller) = Some True) \<and>
    rr_permissions route = nullish (rm_required (hn_meta handler)) [] @ nullish (rm_required (rc_meta controller)) []"
proof -
  let ?routes = "registered_handler controller handler"
  have "set ?routes \<subseteq> set (registered_controller (Some controller))"
    using assms(3) by (force simp: registered_controller_def)
  moreover have "set (registered_controller (Some controller)) \<subseteq> set (registeredRoutes app)"
    using assms(1,2) by (force simp: registeredRoutes_def)
  moreover have "\<exists>route \<in> set ?routes.
    rr_signature route = route_signature (nullish (hn_verb handler) ''GET'') (nullish (rc_prefix controller) '''') path \<and>
    rr_isPublic route = (rm_isPublic (hn_meta handler) = Some True \<or> rm_isPublic (rc_meta controller) = Some True) \<and>
    rr_permissions route = nullish (rm_required (hn_meta handler)) [] @ nullish (rm_required (rc_meta controller)) []"
    by (simp add: registered_handler_def assms(4))
  ultimately show ?thesis by blast
qed

lemma undeclared_empty:
  assumes "undeclaredRoutes routes = []" and "route \<in> set routes"
  shows "rr_isPublic route \<or> rr_permissions route \<noteq> []"
  using assms by (auto simp: undeclaredRoutes_def filter_empty_conv)

lemma guard_requires:
  assumes "is_ok (PermissionGuard_canActivate rf ctx)"
    and "rf_required rf [ec_handler ctx, ec_class ctx] = Some required" and "required \<noteq> []"
  shows "\<exists>c. req_context (ec_request ctx) = Some c \<and> set required \<subseteq> set (rc_permissions c)"
  using assms by (auto simp: PermissionGuard_canActivate_def Let_def filter_empty_conv
      split: option.splits if_splits)

subsection \<open>Properties\<close>

text \<open>
  C30: an empty report of undeclared routes means that no route is open by omission.  For every
  route of the application that is not declared public, if the spec's list of undeclared routes is
  empty and the handler does not itself declare an empty list of permissions, then a request passes
  the permission guard only with a context that grants at least one permission, and every one the
  guard requires is in the matrix's entry for the route.
\<close>

theorem declared_routes_are_guarded:
  assumes "reflects_documented rf" and "undeclaredRoutes (registeredRoutes app) = []"
    and "controllers \<in> set app" and "Some controller \<in> set controllers"
    and "Some handler \<in> set (rc_methods controller)" and "hn_path handler = Some path"
    and "rm_required (hn_meta handler) \<noteq> Some []"
    and "rm_isPublic (hn_meta handler) \<noteq> Some True" and "rm_isPublic (rc_meta controller) \<noteq> Some True"
    and "ec_handler ctx = hn_meta handler" and "ec_class ctx = rc_meta controller"
    and "is_ok (PermissionGuard_canActivate rf ctx)"
  shows "\<not> isPublic rf ctx \<and>
    (\<exists>c required. req_context (ec_request ctx) = Some c \<and> required \<noteq> [] \<and> set required \<subseteq> set (rc_permissions c) \<and>
      set required \<subseteq> set (nullish (rm_required (hn_meta handler)) [] @ nullish (rm_required (rc_meta controller)) []))"
proof
  have rf: "rf_isPublic rf = first_defined rm_isPublic" "rf_required rf = first_defined rm_required"
    using assms(1) by (simp_all add: reflects_documented_def)
  show "\<not> isPublic rf ctx"
    using assms(8,9) by (auto simp: isPublic_def rf assms(10,11) nullish_case split: option.splits)
  obtain route where "route \<in> set (registeredRoutes app)" "\<not> rr_isPublic route"
    "rr_permissions route = nullish (rm_required (hn_meta handler)) [] @ nullish (rm_required (rc_meta controller)) []"
    using registeredRoutes_mem [OF assms(3-6)] assms(8,9) by blast
  then have ne: "nullish (rm_required (hn_meta handler)) [] @ nullish (rm_required (rc_meta controller)) [] \<noteq> []"
    using undeclared_empty [OF assms(2)] by metis
  obtain required where req: "rf_required rf [ec_handler ctx, ec_class ctx] = Some required" "required \<noteq> []"
    "set required \<subseteq> set (nullish (rm_required (hn_meta handler)) [] @ nullish (rm_required (rc_meta controller)) [])"
    using ne assms(7) by (cases "rm_required (hn_meta handler)"; cases "rm_required (rc_meta controller)")
      (auto simp: rf assms(10,11))
  then show "\<exists>c required. req_context (ec_request ctx) = Some c \<and> required \<noteq> [] \<and> set required \<subseteq> set (rc_permissions c) \<and>
      set required \<subseteq> set (nullish (rm_required (hn_meta handler)) [] @ nullish (rm_required (rc_meta controller)) [])"
    using guard_requires [OF assms(12) req(1,2)] by blast
qed

definition plain_meta :: route_metadata where
  "plain_meta = \<lparr>rm_isPublic = None, rm_required = None\<rparr>"

definition sample_caller :: "string list \<Rightarrow> request" where
  "sample_caller permissions = \<lparr>req_headers = Map.empty, req_method = ''GET'', req_path = ''/'', req_baseUrl = '''',
     req_originalUrl = ''/'', req_url = ''/'', req_route = JUndefined,
     req_context = Some \<lparr>rc_tenantId = ''t'', rc_userId = Some ''u'', rc_permissions = permissions,
       rc_locale = ''en'', rc_correlationId = ''c'', rc_apiKeyId = None\<rparr>\<rparr>"

definition job_handler :: route_handler where
  "job_handler = \<lparr>hn_path = Some '':id'', hn_verb = None, hn_meta = RequirePermission [''job.read''] plain_meta\<rparr>"

definition job_controller :: "route_metadata \<Rightarrow> route_handler \<Rightarrow> route_controller" where
  "job_controller m handler = \<lparr>rc_prefix = Some ''jobs'', rc_meta = m, rc_methods = [None, Some handler]\<rparr>"

lemma declared_routes_are_guarded_witness:
  "\<not> isPublic nest_reflector \<lparr>ec_type = ''http'', ec_handler = hn_meta job_handler, ec_class = plain_meta,
     ec_request = sample_caller [''job.read'']\<rparr>"
proof (rule declared_routes_are_guarded [where handler = job_handler and path = "'':id''" and
      app = "[[None, Some (job_controller plain_meta job_handler)]]" and
      controllers = "[None, Some (job_controller plain_meta job_handler)]" and
      controller = "job_controller plain_meta job_handler", THEN conjunct1])
  show "undeclaredRoutes (registeredRoutes [[None, Some (job_controller plain_meta job_handler)]]) = []"
    by (simp add: undeclaredRoutes_def registeredRoutes_def registered_controller_def registered_handler_def
        job_controller_def job_handler_def RequirePermission_def plain_meta_def)
  show "Some job_handler \<in> set (rc_methods (job_controller plain_meta job_handler))" by (simp add: job_controller_def)
  show "hn_path job_handler = Some '':id''" by (simp add: job_handler_def)
qed (simp_all add: job_controller_def job_handler_def RequirePermission_def plain_meta_def reflects_documented_def
    nest_reflector_def PermissionGuard_canActivate_def sample_caller_def)

definition open_handler :: route_handler where
  "open_handler = \<lparr>hn_path = Some '':id'', hn_verb = None, hn_meta = RequirePermission [] plain_meta\<rparr>"

text \<open>
  C37: where both the class and the handler declare permissions, the matrix shows more than is
  enforced.  Its entry for the route joins both lists, and reports the route as declared when either has an element; the guard lets a
  request through exactly when its context grants the handler's, whatever the class declares: everybody, when
  the handler's list is empty.
\<close>

theorem matrix_overstates_overridden_class:
  assumes "reflects_documented rf"
    and "rm_required (hn_meta handler) = Some declared" and "rm_required (rc_meta controller) = Some own"
    and "hn_path handler = Some path"
    and "rm_isPublic (hn_meta handler) \<noteq> Some True" and "rm_isPublic (rc_meta controller) \<noteq> Some True"
    and "ec_handler ctx = hn_meta handler" and "ec_class ctx = rc_meta controller"
  shows "map snd (fst (permissionMatrix (registered_handler controller handler))) = [join ''+'' (sort (declared @ own))] \<and>
    (undeclaredRoutes (registered_handler controller handler) = []) = (declared @ own \<noteq> []) \<and>
    is_ok (PermissionGuard_canActivate rf ctx) =
      (declared = [] \<or> (case req_context (ec_request ctx) of None \<Rightarrow> False | Some c \<Rightarrow> set declared \<subseteq> set (rc_permissions c)))"
proof (intro conjI)
  show "map snd (fst (permissionMatrix (registered_handler controller handler))) = [join ''+'' (sort (declared @ own))]"
    and "(undeclaredRoutes (registered_handler controller handler) = []) = (declared @ own \<noteq> [])"
    using assms(2-6) by (simp_all add: permissionMatrix_def undeclaredRoutes_def registered_handler_def)
  show "is_ok (PermissionGuard_canActivate rf ctx) =
      (declared = [] \<or> (case req_context (ec_request ctx) of None \<Rightarrow> False | Some c \<Rightarrow> set declared \<subseteq> set (rc_permissions c)))"
    using assms(1,2,7,8)
    by (auto simp: PermissionGuard_canActivate_def reflects_documented_def Let_def is_ok_iff filter_empty_conv split: option.split)
qed

lemma matrix_overstates_overridden_class_witness:
  "fst (permissionMatrix (registered_handler (job_controller (RequirePermission [''job.read''] plain_meta) open_handler) open_handler)) =
     [(''GET /jobs/:id'', ''job.read'')] \<and>
   is_ok (PermissionGuard_canActivate nest_reflector \<lparr>ec_type = ''http'', ec_handler = hn_meta open_handler,
     ec_class = RequirePermission [''job.read''] plain_meta, ec_request = sample_caller []\<rparr>)"
proof (rule conjI)
  let ?c = "job_controller (RequirePermission [''job.read''] plain_meta) open_handler"
  let ?ctx = "\<lparr>ec_type = ''http'', ec_handler = hn_meta open_handler, ec_class = RequirePermission [''job.read''] plain_meta,
     ec_request = sample_caller []\<rparr>"
  show "fst (permissionMatrix (registered_handler ?c open_handler)) = [(''GET /jobs/:id'', ''job.read'')]" by code_simp
  have "reflects_documented nest_reflector" by (simp add: reflects_documented_def nest_reflector_def)
  from matrix_overstates_overridden_class [OF this, of open_handler "[]" ?c "[''job.read'']" "'':id''" ?ctx]
  show "is_ok (PermissionGuard_canActivate nest_reflector ?ctx)"
    by (simp add: open_handler_def job_controller_def RequirePermission_def plain_meta_def)
qed

text \<open>
  A signature has no two slashes in a row and does not end with one, the same route written with
  more slashes having the same signature.
\<close>

lemma collapse_hd: "collapse_slashes s = [] \<longleftrightarrow> s = []"
  by (induction s rule: collapse_slashes.induct) auto

lemma collapse_hd': "s \<noteq> [] \<Longrightarrow> hd (collapse_slashes s) = hd s"
  by (induction s rule: collapse_slashes.induct) auto

fun no_double_slash :: "string \<Rightarrow> bool" where
  "no_double_slash (c # d # cs) = (\<not> (c = CHR ''/'' \<and> d = CHR ''/'') \<and> no_double_slash (d # cs))"
| "no_double_slash _ = True"

lemma collapse_no_double: "no_double_slash (collapse_slashes s)"
proof (induction s rule: collapse_slashes.induct)
  case (3 c d cs)
  then show ?case
    using collapse_hd' [of "d # cs"] by (cases "collapse_slashes (d # cs)") auto
qed auto

lemma no_double_butlast: "no_double_slash s \<Longrightarrow> no_double_slash (butlast s)"
  by (induction s rule: no_double_slash.induct) auto

lemma no_double_last: "no_double_slash s \<Longrightarrow> last s = CHR ''/'' \<Longrightarrow> butlast s \<noteq> [] \<Longrightarrow> last (butlast s) \<noteq> CHR ''/''"
  by (induction s rule: no_double_slash.induct) (auto split: if_splits)

lemma signature_normal:
  "no_double_slash (route_signature verb pre path) \<and>
   (route_signature verb pre path = '''' \<or> last (route_signature verb pre path) \<noteq> CHR ''/'')"
  using collapse_no_double no_double_butlast no_double_last
  by (auto simp: route_signature_def strip_slash_def)

end
