(* ===== verification/Config.thy ===== *)
theory Config
  imports Exceptions
begin

section \<open>Environment configuration\<close>

text \<open>
  The files of \<^verbatim>\<open>config/\<close>.  Parameters: \<open>toInstance\<close> is \<open>plainToInstance\<close> of
  \<^verbatim>\<open>class-transformer\<close> without implicit conversion, \<open>validateSync\<close> that of \<^verbatim>\<open>class-validator\<close>; the
  decorators of a config class are theirs to interpret.
\<close>

datatype environment = LOCAL | TEST | STAGING | PRODUCTION

fun environment_text :: "environment \<Rightarrow> string" where
  "environment_text LOCAL = ''local''"
| "environment_text TEST = ''test''"
| "environment_text STAGING = ''staging''"
| "environment_text PRODUCTION = ''production''"

text \<open>Ordered least to most severe.\<close>

datatype log_level = TRACE | DEBUG | INFO | WARN | ERROR | FATAL

fun log_level_text :: "log_level \<Rightarrow> string" where
  "log_level_text TRACE = ''trace''"
| "log_level_text DEBUG = ''debug''"
| "log_level_text INFO = ''info''"
| "log_level_text WARN = ''warn''"
| "log_level_text ERROR = ''error''"
| "log_level_text FATAL = ''fatal''"

fun severity :: "log_level \<Rightarrow> nat" where
  "severity TRACE = 0" | "severity DEBUG = 1" | "severity INFO = 2"
| "severity WARN = 3" | "severity ERROR = 4" | "severity FATAL = 5"

lemma severity_inj: "severity a = severity b \<Longrightarrow> a = b"
  by (cases a; cases b) auto

instantiation log_level :: linorder
begin

definition less_eq_log_level :: "log_level \<Rightarrow> log_level \<Rightarrow> bool" where
  "less_eq_log_level a b = (severity a \<le> severity b)"

definition less_log_level :: "log_level \<Rightarrow> log_level \<Rightarrow> bool" where
  "less_log_level a b = (severity a < severity b)"

instance
  by standard (auto simp: less_eq_log_level_def less_log_level_def severity_inj)

end

record base_env_config =
  ec_NODE_ENV :: environment
  ec_PORT :: nat
  ec_LOG_LEVEL :: log_level

text \<open>The property initialiser: what \<open>LOG_LEVEL\<close> is when the environment does not set it.\<close>

definition BaseEnvConfig_LOG_LEVEL :: "log_level option \<Rightarrow> log_level" where
  "BaseEnvConfig_LOG_LEVEL given = nullish given INFO"

record validation_error =
  ve_property :: string
  ve_constraints :: "(string \<times> string) list option"

definition report_line :: "validation_error \<Rightarrow> string" where
  "report_line error = ''  '' @ ve_property error @ '': '' @
     join '', '' (map snd (nullish (ve_constraints error) []))"

definition env_report :: "validation_error list \<Rightarrow> string" where
  "env_report errors = ''Invalid environment configuration:'' @ [CHR 0x0A] @ join [CHR 0x0A] (map report_line errors)"

definition validateEnv ::
    "(js_object \<Rightarrow> 'c) \<Rightarrow> ('c \<Rightarrow> validation_error list) \<Rightarrow> js_object \<Rightarrow> thrown + 'c" where
  "validateEnv toInstance validateSync raw =
     (let config = toInstance raw; errors = validateSync config in
      if length errors > 0
      then Inl (ThrowError \<lparr>eo_message = env_report errors, eo_stack = None, eo_props = []\<rparr>)
      else Inr config)"

subsection \<open>Property\<close>

definition single_line :: "validation_error \<Rightarrow> bool" where
  "single_line error = (CHR 0x0A \<notin> set (report_line error))"

text \<open>
  A service starts with a valid configuration or says everything that is wrong with it.  The
  configuration is returned exactly when the validator finds no error; otherwise the message thrown
  is a heading and then one line per error, in order, with the variable and all its constraints, no
  error being left out.
\<close>

theorem validateEnv_reports_all:
  assumes "list_all single_line (validateSync (toInstance raw))"
  shows "(case validateEnv toInstance validateSync raw of
      Inr config \<Rightarrow> config = toInstance raw \<and> validateSync config = []
    | Inl error \<Rightarrow> validateSync (toInstance raw) \<noteq> [] \<and>
        split_on (CHR 0x0A) (error_message_or '''' error) =
          ''Invalid environment configuration:'' # map report_line (validateSync (toInstance raw)))"
proof (cases "validateSync (toInstance raw)")
  case (Cons e es)
  let ?errors = "validateSync (toInstance raw)"
  have "split_on (CHR 0x0A) (join [CHR 0x0A] (map report_line ?errors)) = map report_line ?errors"
    by (rule split_join) (use assms Cons in \<open>auto simp: list_all_iff single_line_def\<close>)
  then have "split_on (CHR 0x0A) (env_report ?errors) =
      ''Invalid environment configuration:'' # map report_line ?errors"
    unfolding env_report_def by (simp add: split_on_append)
  then show ?thesis using Cons by (simp add: validateEnv_def Let_def)
qed (simp add: validateEnv_def)

lemma validateEnv_reports_all_witness:
  "split_on (CHR 0x0A) (error_message_or '''' (projl (validateEnv (\<lambda>_. ())
     (\<lambda>_. [\<lparr>ve_property = ''PORT'', ve_constraints = Some [(''isInt'', ''PORT must be an integer''), (''max'', ''too big'')]\<rparr>,
           \<lparr>ve_property = ''URL'', ve_constraints = None\<rparr>]) []))) =
   [''Invalid environment configuration:'', ''  PORT: PORT must be an integer, too big'', ''  URL: '']"
proof -
  let ?v = "\<lambda>_ :: unit. [\<lparr>ve_property = ''PORT'', ve_constraints = Some [(''isInt'', ''PORT must be an integer''), (''max'', ''too big'')]\<rparr>,
           \<lparr>ve_property = ''URL'', ve_constraints = None\<rparr>]"
  have "list_all single_line (?v ((\<lambda>_ :: js_object. ()) []))" by (simp add: single_line_def report_line_def)
  then show ?thesis
    using validateEnv_reports_all [where toInstance = "\<lambda>_. ()" and validateSync = ?v and raw = "[]"]
    by (simp add: validateEnv_def Let_def report_line_def)
qed

end
