(* ===== verification/Socket.thy ===== *)
theory Socket
  imports Prelude
begin

section \<open>The origin of a socket handshake\<close>

text \<open>
  \<^verbatim>\<open>socket/allowed-origin.util.ts\<close>.  \<open>origin\<close> is the header of the handshake; what the callback is
  called with, and whether the refusal is logged, is the result.
\<close>

definition isAllowedSocketOrigin :: "string option \<Rightarrow> string list \<Rightarrow> bool" where
  "isAllowedSocketOrigin origin allowedOrigins =
     (if length allowedOrigins = 0 then True
      else if \<not> str_truthy origin then True
      else the origin \<in> set allowedOrigins)"

record handshake =
  hs_error :: "string option"
  hs_allowed :: bool
  hs_warned :: "string option list"

definition socketOriginAllowRequest :: "string list \<Rightarrow> bool \<Rightarrow> string option \<Rightarrow> handshake" where
  "socketOriginAllowRequest allowedOrigins hasLogger origin =
     (if isAllowedSocketOrigin origin allowedOrigins
      then \<lparr>hs_error = None, hs_allowed = True, hs_warned = []\<rparr>
      else \<lparr>hs_error = Some ''Origin not allowed'', hs_allowed = False,
            hs_warned = (if hasLogger then [origin] else [])\<rparr>)"

text \<open>
  A page of a foreign origin cannot open a socket, and nobody else is refused.  With a list of
  origins, a handshake is refused exactly when it names an origin, which a browser always does, that
  is not literally in the list; the refusal carries a fixed text, and is logged where there is a
  logger; without a list everything is allowed.
\<close>

theorem socket_origin_rule:
  "hs_allowed (socketOriginAllowRequest allowed hasLogger origin) =
     (allowed = [] \<or> origin = None \<or> origin = Some '''' \<or> origin \<in> Some ` set allowed) \<and>
   (hs_error (socketOriginAllowRequest allowed hasLogger origin) =
     (if hs_allowed (socketOriginAllowRequest allowed hasLogger origin) then None else Some ''Origin not allowed'')) \<and>
   (hs_warned (socketOriginAllowRequest allowed hasLogger origin) =
     (if \<not> hs_allowed (socketOriginAllowRequest allowed hasLogger origin) \<and> hasLogger then [origin] else []))"
  by (cases origin) (auto simp: socketOriginAllowRequest_def isAllowedSocketOrigin_def)

end
