(* ===== verification/E2e.thy ===== *)
theory E2e
  imports Exceptions
begin

section \<open>The end-to-end test support\<close>

text \<open>
  \<^verbatim>\<open>e2e/truncate-all-tables.util.ts\<close>, \<^verbatim>\<open>e2e/e2e-context.ts\<close> and the constants.  The catalogue
  query is translated as a filter on the rows of \<open>pg_tables\<close>; what is sent to the database is the
  text of a statement, and \<open>inject\<close> is the value Vitest provides for a key.
\<close>

definition E2E_MIGRATIONS_TABLE :: string where "E2E_MIGRATIONS_TABLE = ''migrations''"

definition E2E_PRESERVED_TABLES :: "string list" where
  "E2E_PRESERVED_TABLES = [E2E_MIGRATIONS_TABLE, ''spatial_ref_sys'']"

subsection \<open>Truncation\<close>

abbreviation quote :: char where "quote \<equiv> CHR 0x22"

text \<open>\<open>name.replaceAll('"', '""')\<close>.\<close>

fun double_quotes :: "string \<Rightarrow> string" where
  "double_quotes [] = []"
| "double_quotes (c # cs) = (if c = quote then [quote, quote] else [c]) @ double_quotes cs"

definition quoted_table :: "string \<Rightarrow> string" where
  "quoted_table tablename = [quote] @ ''public'' @ [quote] @ ''.'' @ [quote] @ double_quotes tablename @ [quote]"

text \<open>A row of \<open>pg_tables\<close> is its schema and its table; the statement sent, if one is.\<close>

definition truncatable :: "(string \<times> string) list \<Rightarrow> string list" where
  "truncatable pg_tables =
     map snd (filter (\<lambda>(schemaname, tablename). schemaname = ''public'' \<and> tablename \<notin> set E2E_PRESERVED_TABLES) pg_tables)"

definition truncateAllTables :: "(string \<times> string) list \<Rightarrow> string option" where
  "truncateAllTables pg_tables = (let rows = truncatable pg_tables in
     if length rows = 0 then None
     else Some (''TRUNCATE TABLE '' @ join '', '' (map quoted_table rows) @ '' RESTART IDENTITY CASCADE''))"

subsection \<open>The URLs of a suite\<close>

text \<open>
  An \<open>Error\<close> with a message; its stack is not looked at.  The dash of the two messages, which is
  outside the model's characters, stands as its three UTF-8 bytes.
\<close>

definition plain_error :: "string \<Rightarrow> thrown" where
  "plain_error message = ThrowError \<lparr>eo_message = message, eo_stack = None, eo_props = []\<rparr>"

definition e2eDatabaseUrl :: "(string \<Rightarrow> string option) \<Rightarrow> thrown + string" where
  "e2eDatabaseUrl inject = (let url = inject ''iveriE2eDatabaseUrl'' in
     if \<not> str_truthy url
     then Inl (plain_error (''No e2e database URL was provided '' @ [char_of (226 :: nat), char_of (128 :: nat), char_of (148 :: nat)] @
       '' is e2eGlobalSetup() the globalSetup of this project?''))
     else Inr (the url))"

definition e2eRedisUrl :: "(string \<Rightarrow> string option) \<Rightarrow> thrown + string" where
  "e2eRedisUrl inject = (let url = inject ''iveriE2eRedisUrl'' in
     if \<not> str_truthy url
     then Inl (plain_error (''No e2e Redis URL was provided '' @ [char_of (226 :: nat), char_of (128 :: nat), char_of (148 :: nat)] @
       '' pass { redis: true } to e2eGlobalSetup().''))
     else Inr (the url))"

subsection \<open>Reading a statement back\<close>

text \<open>
  The lexical rule of a quoted identifier in SQL, from after its opening quote: a doubled quote is
  a quote of the name, a single one ends it.  The result is the name and what follows.
\<close>

fun read_quoted :: "string \<Rightarrow> (string \<times> string) option" where
  "read_quoted [] = None"
| "read_quoted [c] = (if c = quote then Some ([], []) else None)"
| "read_quoted (c # d # cs) =
     (if c \<noteq> quote then map_option (apfst ((#) c)) (read_quoted (d # cs))
      else if d = quote then map_option (apfst ((#) quote)) (read_quoted cs)
      else Some ([], d # cs))"

lemma read_quoted_shorter: "read_quoted s = Some (n, rest) \<Longrightarrow> length rest < length s"
  by (induction s arbitrary: n rest rule: read_quoted.induct) (fastforce split: if_splits)+

lemma read_quoted_double:
  "rest = [] \<or> hd rest \<noteq> quote \<Longrightarrow> read_quoted (double_quotes n @ quote # rest) = Some (n, rest)"
proof (induction n)
  case Nil
  then show ?case by (cases rest) auto
next
  case (Cons c n)
  then show ?case
    by (cases "double_quotes n @ quote # rest") auto
qed

definition strip_prefix :: "string \<Rightarrow> string \<Rightarrow> string option" where
  "strip_prefix p s = (if starts_with s p then Some (drop (length p) s) else None)"

lemma strip_prefix_append [simp]: "strip_prefix p (p @ s) = Some s"
  by (simp add: strip_prefix_def starts_with_def)

lemma strip_prefix_length: "strip_prefix p s = Some r \<Longrightarrow> length r \<le> length s"
  by (auto simp: strip_prefix_def split: if_splits)

text \<open>The list of tables of a statement: quoted names of the schema, and the two clauses at the end.\<close>

abbreviation schema_prefix :: string where
  "schema_prefix \<equiv> [quote] @ ''public'' @ [quote] @ ''.'' @ [quote]"

function read_tables :: "string \<Rightarrow> string list option" where
  "read_tables s = (case Option.bind (strip_prefix schema_prefix s) read_quoted of
     None \<Rightarrow> None
   | Some (n, rest) \<Rightarrow>
       if rest = '' RESTART IDENTITY CASCADE'' then Some [n]
       else (case strip_prefix '', '' rest of
          None \<Rightarrow> None
        | Some s' \<Rightarrow> map_option ((#) n) (read_tables s')))"
  by pat_completeness auto

termination
proof (relation "measure length")
  fix s x n rest s'
  assume a: "Option.bind (strip_prefix schema_prefix s) read_quoted = Some x" "(n, rest) = x"
    and b: "strip_prefix '', '' rest = Some s'"
  then obtain r where "strip_prefix schema_prefix s = Some r" "read_quoted r = Some (n, rest)"
    by (auto simp: bind_eq_Some_conv)
  then have "length rest < length s" using read_quoted_shorter strip_prefix_length by fastforce
  then show "(s', s) \<in> measure length" using strip_prefix_length [OF b] by simp
qed simp

declare read_tables.simps [simp del]

lemma read_tables_last:
  "read_tables (quoted_table t @ '' RESTART IDENTITY CASCADE'') = Some [t]"
proof -
  have "strip_prefix schema_prefix (quoted_table t @ '' RESTART IDENTITY CASCADE'') =
      Some (double_quotes t @ quote # '' RESTART IDENTITY CASCADE'')"
    using strip_prefix_append [of schema_prefix "double_quotes t @ quote # '' RESTART IDENTITY CASCADE''"]
    by (simp add: quoted_table_def)
  moreover have "read_quoted (double_quotes t @ quote # '' RESTART IDENTITY CASCADE'') =
      Some (t, '' RESTART IDENTITY CASCADE'')"
    by (rule read_quoted_double) simp
  ultimately show ?thesis by (subst read_tables.simps) simp
qed

lemma read_tables_more:
  "read_tables (quoted_table t @ '', '' @ s) = map_option ((#) t) (read_tables s)"
proof -
  have "strip_prefix schema_prefix (quoted_table t @ '', '' @ s) = Some (double_quotes t @ quote # '', '' @ s)"
    using strip_prefix_append [of schema_prefix "double_quotes t @ quote # '', '' @ s"]
    by (simp add: quoted_table_def)
  moreover have "read_quoted (double_quotes t @ quote # '', '' @ s) = Some (t, '', '' @ s)"
    by (rule read_quoted_double) simp
  moreover have "strip_prefix '', '' ('', '' @ s) = Some s" by (rule strip_prefix_append)
  ultimately show ?thesis by (subst read_tables.simps) simp
qed

lemma read_tables_join:
  "ts \<noteq> [] \<Longrightarrow> read_tables (join '', '' (map quoted_table ts) @ '' RESTART IDENTITY CASCADE'') = Some ts"
proof (induction ts)
  case (Cons t ts)
  show ?case
  proof (cases ts)
    case Nil
    then show ?thesis using read_tables_last by simp
  next
    case (Cons u us)
    then have "join '', '' (map quoted_table (t # ts)) @ '' RESTART IDENTITY CASCADE'' =
        quoted_table t @ '', '' @ (join '', '' (map quoted_table ts) @ '' RESTART IDENTITY CASCADE'')"
      by simp
    then show ?thesis using Cons.IH Cons by (simp only: read_tables_more) simp
  qed
qed simp

definition read_statement :: "string \<Rightarrow> string list option" where
  "read_statement s = Option.bind (strip_prefix ''TRUNCATE TABLE '' s) read_tables"

subsection \<open>Property\<close>

text \<open>
  The suite empties its own tables, each of them and no other, whatever their names.  The
  statement sent, read back by SQL's rule for quoted identifiers, names exactly the tables of the
  schema \<open>public\<close> that are not preserved, in the order of the catalogue; a quote in a name neither
  ends the identifier nor lets anything of the name be read as SQL.  With no such table nothing is
  sent.
\<close>

theorem truncation_names_exactly:
  "(case truncateAllTables pg_tables of
      None \<Rightarrow> truncatable pg_tables = []
    | Some statement \<Rightarrow> read_statement statement = Some (truncatable pg_tables) \<and>
        truncatable pg_tables \<noteq> []) \<and>
   set (truncatable pg_tables) = {t. (''public'', t) \<in> set pg_tables \<and> t \<noteq> ''migrations'' \<and> t \<noteq> ''spatial_ref_sys''}"
proof -
  have "read_statement (''TRUNCATE TABLE '' @ join '', '' (map quoted_table ts) @ '' RESTART IDENTITY CASCADE'') = Some ts"
    if "ts \<noteq> []" for ts
    unfolding read_statement_def strip_prefix_append using read_tables_join [OF that] by simp
  moreover have "set (truncatable pg_tables) =
      {t. (''public'', t) \<in> set pg_tables \<and> t \<noteq> ''migrations'' \<and> t \<noteq> ''spatial_ref_sys''}"
    by (force simp: truncatable_def E2E_PRESERVED_TABLES_def E2E_MIGRATIONS_TABLE_def)
  ultimately show ?thesis by (simp add: truncateAllTables_def Let_def)
qed

end
