(* ===== verification/Containers.thy ===== *)
theory Containers
  imports E2e
begin

section \<open>The containers of an end-to-end run\<close>

text \<open>
  \<^verbatim>\<open>e2e/e2e-containers.ts\<close>: the global setup starts a Postgres, applies the migrations to it, starts a
  Redis when asked, hands the two URLs to the workers and returns the teardown.

  The container library and TypeORM are arguments: \<open>fails\<close> says which of the calls that are awaited rejects, and with
  what.  A run is the list of the calls made, in order, with the setup's result.
\<close>

subsection \<open>Options and constants\<close>

definition E2E_POSTGRES_IMAGE :: string where "E2E_POSTGRES_IMAGE = ''postgres:17-alpine''"
definition E2E_POSTGIS_IMAGE :: string where "E2E_POSTGIS_IMAGE = ''postgis/postgis:17-3.5''"
definition E2E_REDIS_IMAGE :: string where "E2E_REDIS_IMAGE = ''redis:7-alpine''"

definition E2E_POSTGRES_COMMAND :: "string list" where
  "E2E_POSTGRES_COMMAND =
     [''postgres'', ''-c'', ''fsync=off'', ''-c'', ''synchronous_commit=off'', ''-c'', ''full_page_writes=off'']"

record 'm e2e_containers_options =
  eo_database :: string
  eo_migrations :: 'm
  eo_postgresImage :: "string option"
  eo_redis :: "bool option"

subsection \<open>The calls\<close>

record postgres_container =
  pg_image :: string
  pg_database :: string
  pg_username :: string
  pg_password :: string
  pg_command :: "string list"

datatype 'm e2e_call =
    Start_postgres postgres_container
  | Initialize string 'm string \<comment> \<open>the URL, the migrations, the migrations table\<close>
  | Run_migrations
  | Destroy
  | Start_redis string
  | Provide string "string option"
  | Stop_postgres
  | Stop_redis

text \<open>
  An awaited call is made and may reject; \<open>try\<close> with \<open>finally\<close> makes the call of the second in any case,
  and its rejection replaces the first one.
\<close>

type_synonym 'm e2e_run = "'m e2e_call list \<times> (thrown + unit)"

definition await :: "('m e2e_call \<Rightarrow> thrown option) \<Rightarrow> 'm e2e_call \<Rightarrow> 'm e2e_run" where
  "await fails call = ([call], case fails call of None \<Rightarrow> Inr () | Some e \<Rightarrow> Inl e)"

definition and_then :: "'m e2e_run \<Rightarrow> 'm e2e_call list \<times> (thrown + 'a) \<Rightarrow> 'm e2e_call list \<times> (thrown + 'a)" where
  "and_then a b = (case snd a of Inl e \<Rightarrow> (fst a, Inl e) | Inr _ \<Rightarrow> (fst a @ fst b, snd b))"

definition try_finally :: "'m e2e_run \<Rightarrow> 'm e2e_run \<Rightarrow> 'm e2e_run" where
  "try_finally body finalizer =
     (fst body @ fst finalizer, case snd finalizer of Inl e \<Rightarrow> Inl e | Inr _ \<Rightarrow> snd body)"

definition startRedis :: "('m e2e_call \<Rightarrow> thrown option) \<Rightarrow> 'm e2e_run" where
  "startRedis fails = await fails (Start_redis E2E_REDIS_IMAGE)"

text \<open>The teardown keeps whether there is a Redis; both stops are called before either is awaited.\<close>

definition e2e_teardown :: "bool \<Rightarrow> 'm e2e_call list" where
  "e2e_teardown redis = Stop_postgres # (if redis then [Stop_redis] else [])"

definition postgres_of :: "'m e2e_containers_options \<Rightarrow> postgres_container" where
  "postgres_of options =
     \<lparr>pg_image = nullish (eo_postgresImage options) E2E_POSTGRES_IMAGE, pg_database = eo_database options,
      pg_username = ''iveri'', pg_password = ''iveri'', pg_command = E2E_POSTGRES_COMMAND\<rparr>"

text \<open>
  The setup, given the URLs the two containers answer with; its result is the teardown.
\<close>

definition e2eGlobalSetup ::
    "('m e2e_call \<Rightarrow> thrown option) \<Rightarrow> string \<Rightarrow> string \<Rightarrow> 'm e2e_containers_options \<Rightarrow>
     'm e2e_call list \<times> (thrown + 'm e2e_call list)" where
  "e2eGlobalSetup fails databaseUrl redisUrl options =
     (let redis = nullish (eo_redis options) False in
      and_then (await fails (Start_postgres (postgres_of options)))
       (and_then (await fails (Initialize databaseUrl (eo_migrations options) E2E_MIGRATIONS_TABLE))
       (and_then (try_finally (await fails Run_migrations) (await fails Destroy))
       (and_then (if redis then startRedis fails else ([], Inr ()))
         ([Provide ''iveriE2eDatabaseUrl'' (Some databaseUrl),
           Provide ''iveriE2eRedisUrl'' (if redis then Some redisUrl else None)],
          Inr (e2e_teardown redis))))))"

lemmas setup_defs = e2eGlobalSetup_def Let_def and_then_def await_def try_finally_def startRedis_def
  e2e_teardown_def

text \<open>What Vitest's \<open>inject\<close> answers in a worker: what was last provided for the key.\<close>

definition injected_by :: "'m e2e_call list \<Rightarrow> string \<Rightarrow> string option" where
  "injected_by calls k = fold (\<lambda>c v. case c of Provide k' u \<Rightarrow> if k' = k then u else v | _ \<Rightarrow> v) calls None"

subsection \<open>Properties\<close>

text \<open>
  A suite runs against the migrated throwaway database or not at all.  The workers are given URLs only when
  every awaited call succeeded, and the setup then returns its teardown; they read the URL of the container with
  the migrations applied before, the Redis URL exactly when a Redis was asked for, and the teardown stops
  each container the setup started, once.  A connection that was opened is closed, whether the migrations succeed or not.
\<close>

theorem suite_runs_on_migrated_database:
  "let run = e2eGlobalSetup fails databaseUrl redisUrl options;
       calls = fst run;
       redis = (eo_redis options = Some True);
       planned = [Start_postgres (postgres_of options),
          Initialize databaseUrl (eo_migrations options) E2E_MIGRATIONS_TABLE, Run_migrations, Destroy] @
          (if redis then [Start_redis E2E_REDIS_IMAGE] else []) in
   (is_ok (snd run) = list_all (\<lambda>c. fails c = None) planned) \<and>
   (case snd run of
      Inr teardown \<Rightarrow>
        calls = planned @ [Provide ''iveriE2eDatabaseUrl'' (Some databaseUrl),
          Provide ''iveriE2eRedisUrl'' (if redis then Some redisUrl else None)] \<and>
        injected_by calls ''iveriE2eDatabaseUrl'' = Some databaseUrl \<and>
        injected_by calls ''iveriE2eRedisUrl'' = (if redis then Some redisUrl else None) \<and>
        teardown = (if redis then [Stop_postgres, Stop_redis] else [Stop_postgres])
    | Inl e \<Rightarrow> list_all (\<lambda>c. case c of Provide _ _ \<Rightarrow> False | _ \<Rightarrow> True) calls \<and>
        \<not> is_ok (e2eDatabaseUrl (injected_by calls)) \<and> \<not> is_ok (e2eRedisUrl (injected_by calls))) \<and>
   (Run_migrations \<in> set calls) = (Destroy \<in> set calls)"
proof -
  have redis: "nullish (eo_redis options) False = (eo_redis options = Some True)"
    by (cases "eo_redis options") auto
  show ?thesis
    unfolding Let_def setup_defs redis
    by (cases "eo_redis options = Some True")
      (auto simp: injected_by_def e2eDatabaseUrl_def e2eRedisUrl_def Let_def split: option.splits)
qed

text \<open>
  A setup that fails after Postgres started leaves the container running: the only stop is in the
  teardown, which is not returned.
\<close>

lemma failed_setup_stops_nothing:
  assumes "snd (e2eGlobalSetup fails databaseUrl redisUrl options) = Inl e"
  shows "Stop_postgres \<notin> set (fst (e2eGlobalSetup fails databaseUrl redisUrl options)) \<and>
     Stop_redis \<notin> set (fst (e2eGlobalSetup fails databaseUrl redisUrl options))"
  using assms by (auto simp: setup_defs split: option.splits if_splits)

end
