(* ===== verification/NestModules.thy ===== *)
theory NestModules
  imports Auth Redis Metrics Health Storage ServiceToken RateLimit ErrorReporter Correlation
begin

section \<open>The wiring of the modules\<close>

text \<open>
  The \<^verbatim>\<open>*.module.ts\<close> files: what each module hands to Nest's injector, and what the constructors of
  the classes it provides ask for.  The injector is an argument \<open>resolve\<close>, which answers a token with
  a value when it can make one; \<open>injector_documented\<close> is what Nest documents of it.

  A class is named by its name, a symbol by its description.  The values a service
  supplies are opaque, except for the options of \<open>AuthModule\<close>, which the SDK's own factory reads.
\<close>

subsection \<open>Tokens, providers and modules\<close>

datatype token = Class string | Symbol string | Text string

datatype 'v injected =
    Supplied 'v
  | Auth_options auth_module_options
  | Jwt_service jwt_service_options
  | Instance string "'v injected list"
  | Resolved "'v injected list"

text \<open>A factory that throws, or whose promise is rejected, answers \<^const>\<open>None\<close>.\<close>

type_synonym 'v factory = "'v injected list \<Rightarrow> 'v injected option"

datatype 'v provider =
    By_class string
  | Use_value token "'v injected"
  | Use_factory token "token list" "'v factory"

fun provided_token :: "'v provider \<Rightarrow> token" where
  "provided_token (By_class c) = Class c"
| "provided_token (Use_value t _) = t"
| "provided_token (Use_factory t _ _) = t"

record 'v dynamic_module =
  dm_module :: string
  dm_global :: bool
  dm_imports :: "string list"
  dm_controllers :: "string list"
  dm_providers :: "'v provider list"
  dm_exports :: "token list"

text \<open>The options of every \<open>forRootAsync\<close>.\<close>

record 'v async_options =
  ap_imports :: "string list option"
  ap_inject :: "token list option"
  ap_useFactory :: "'v factory"

subsection \<open>What the constructors ask for\<close>

abbreviation option_token :: "string \<Rightarrow> token" where
  "option_token prefix \<equiv> Symbol (prefix @ ''_MODULE_OPTIONS'')"

definition AUTH_MODULE_OPTIONS :: token where "AUTH_MODULE_OPTIONS = Text ''IVERI_AUTH_MODULE_OPTIONS''"
definition REDIS_MODULE_OPTIONS :: token where "REDIS_MODULE_OPTIONS = option_token ''REDIS''"
definition ERROR_REPORTER_MODULE_OPTIONS :: token where
  "ERROR_REPORTER_MODULE_OPTIONS = option_token ''ERROR_REPORTER''"
definition METRICS_MODULE_OPTIONS :: token where "METRICS_MODULE_OPTIONS = option_token ''METRICS''"
definition OBJECT_STORAGE_MODULE_OPTIONS :: token where
  "OBJECT_STORAGE_MODULE_OPTIONS = option_token ''OBJECT_STORAGE''"
definition SERVICE_TOKEN_MODULE_OPTIONS :: token where
  "SERVICE_TOKEN_MODULE_OPTIONS = option_token ''SERVICE_TOKEN''"
definition RATE_LIMIT_MODULE_OPTIONS :: token where "RATE_LIMIT_MODULE_OPTIONS = option_token ''RATE_LIMIT''"
definition READINESS_CHECKS :: token where "READINESS_CHECKS = Symbol ''IVERI_READINESS_CHECKS''"
definition STARTUP_CHECKS :: token where "STARTUP_CHECKS = Symbol ''IVERI_STARTUP_CHECKS''"

lemmas token_defs = AUTH_MODULE_OPTIONS_def REDIS_MODULE_OPTIONS_def ERROR_REPORTER_MODULE_OPTIONS_def
  METRICS_MODULE_OPTIONS_def OBJECT_STORAGE_MODULE_OPTIONS_def SERVICE_TOKEN_MODULE_OPTIONS_def
  RATE_LIMIT_MODULE_OPTIONS_def READINESS_CHECKS_def STARTUP_CHECKS_def

definition AccessTokenService_needs :: "token list" where
  "AccessTokenService_needs = [Class ''JwtService'']"

definition AuthGuard_needs :: "token list" where
  "AuthGuard_needs = [Class ''Reflector'', Class ''AccessTokenService'']"

definition PermissionGuard_needs :: "token list" where
  "PermissionGuard_needs = [Class ''Reflector'']"

definition RedisService_needs :: "token list" where
  "RedisService_needs = [REDIS_MODULE_OPTIONS]"

definition ErrorReporterService_needs :: "token list" where
  "ErrorReporterService_needs = [ERROR_REPORTER_MODULE_OPTIONS]"

definition ObjectStorageService_needs :: "token list" where
  "ObjectStorageService_needs = [OBJECT_STORAGE_MODULE_OPTIONS]"

definition ServiceTokenService_needs :: "token list" where
  "ServiceTokenService_needs = [SERVICE_TOKEN_MODULE_OPTIONS, Class ''HttpService'']"

definition RateLimitService_needs :: "token list" where
  "RateLimitService_needs = [Class ''RedisService'', RATE_LIMIT_MODULE_OPTIONS]"

definition MetricsService_needs :: "token list" where
  "MetricsService_needs = [METRICS_MODULE_OPTIONS]"

definition RetentionSweepMetrics_needs :: "token list" where
  "RetentionSweepMetrics_needs = [Class ''MetricsService'']"

definition HttpMetricsMiddleware_needs :: "token list" where
  "HttpMetricsMiddleware_needs = [METRICS_MODULE_OPTIONS, Class ''MetricsService'']"

definition MetricsController_needs :: "token list" where
  "MetricsController_needs = [Class ''MetricsService'']"

definition CorrelationIdMiddleware_needs :: "token list" where
  "CorrelationIdMiddleware_needs = [Class ''CorrelationIdService'']"

definition HealthController_needs :: "token list" where
  "HealthController_needs = [READINESS_CHECKS, STARTUP_CHECKS]"

lemmas need_defs = AccessTokenService_needs_def AuthGuard_needs_def PermissionGuard_needs_def
  RedisService_needs_def ErrorReporterService_needs_def ObjectStorageService_needs_def
  ServiceTokenService_needs_def RateLimitService_needs_def MetricsService_needs_def
  RetentionSweepMetrics_needs_def HttpMetricsMiddleware_needs_def MetricsController_needs_def
  CorrelationIdMiddleware_needs_def HealthController_needs_def

text \<open>
  What the constructor of a class asks for; \<open>outside\<close> answers for the classes a service brings, such
  as its health checks, whose names are not those of the SDK's classes.
\<close>

definition sdk_classes :: "(string \<times> token list) list" where
  "sdk_classes =
     [(''AccessTokenService'', AccessTokenService_needs), (''RedisService'', RedisService_needs),
      (''ErrorReporterService'', ErrorReporterService_needs),
      (''ObjectStorageService'', ObjectStorageService_needs),
      (''ServiceTokenService'', ServiceTokenService_needs), (''RateLimitService'', RateLimitService_needs),
      (''MetricsService'', MetricsService_needs), (''RetentionSweepMetrics'', RetentionSweepMetrics_needs),
      (''HttpMetricsMiddleware'', HttpMetricsMiddleware_needs),
      (''MetricsController'', MetricsController_needs), (''CorrelationIdService'', []),
      (''CorrelationIdMiddleware'', CorrelationIdMiddleware_needs),
      (''HealthController'', HealthController_needs), (''AuthGuard'', AuthGuard_needs),
      (''PermissionGuard'', PermissionGuard_needs)]"

definition constructor_needs :: "(string \<Rightarrow> token list) \<Rightarrow> string \<Rightarrow> token list" where
  "constructor_needs outside c = (case map_of sdk_classes c of Some ts \<Rightarrow> ts | None \<Rightarrow> outside c)"

subsection \<open>The modules\<close>

definition ContextModule :: "'v dynamic_module" where
  "ContextModule = \<lparr>dm_module = ''ContextModule'', dm_global = True, dm_imports = [], dm_controllers = [],
     dm_providers = [By_class ''CorrelationIdService'', By_class ''CorrelationIdMiddleware''],
     dm_exports = [Class ''CorrelationIdService'', Class ''CorrelationIdMiddleware'']\<rparr>"

definition RedisModule_forRootAsync :: "'v async_options \<Rightarrow> 'v dynamic_module" where
  "RedisModule_forRootAsync options = \<lparr>dm_module = ''RedisModule'', dm_global = True,
     dm_imports = nullish (ap_imports options) [], dm_controllers = [],
     dm_providers = [Use_factory REDIS_MODULE_OPTIONS (nullish (ap_inject options) []) (ap_useFactory options),
       By_class ''RedisService''],
     dm_exports = [Class ''RedisService'']\<rparr>"

definition ErrorReporterModule_forRootAsync :: "'v async_options \<Rightarrow> 'v dynamic_module" where
  "ErrorReporterModule_forRootAsync options = \<lparr>dm_module = ''ErrorReporterModule'', dm_global = True,
     dm_imports = nullish (ap_imports options) [], dm_controllers = [],
     dm_providers =
       [Use_factory ERROR_REPORTER_MODULE_OPTIONS (nullish (ap_inject options) []) (ap_useFactory options),
        By_class ''ErrorReporterService''],
     dm_exports = [Class ''ErrorReporterService'']\<rparr>"

definition ObjectStorageModule_forRootAsync :: "'v async_options \<Rightarrow> 'v dynamic_module" where
  "ObjectStorageModule_forRootAsync options = \<lparr>dm_module = ''ObjectStorageModule'', dm_global = False,
     dm_imports = nullish (ap_imports options) [], dm_controllers = [],
     dm_providers =
       [Use_factory OBJECT_STORAGE_MODULE_OPTIONS (nullish (ap_inject options) []) (ap_useFactory options),
        By_class ''ObjectStorageService''],
     dm_exports = [Class ''ObjectStorageService'']\<rparr>"

definition ServiceTokenModule_forRootAsync :: "'v async_options \<Rightarrow> 'v dynamic_module" where
  "ServiceTokenModule_forRootAsync options = \<lparr>dm_module = ''ServiceTokenModule'', dm_global = True,
     dm_imports = ''HttpModule'' # nullish (ap_imports options) [], dm_controllers = [],
     dm_providers =
       [Use_factory SERVICE_TOKEN_MODULE_OPTIONS (nullish (ap_inject options) []) (ap_useFactory options),
        By_class ''ServiceTokenService''],
     dm_exports = [Class ''ServiceTokenService'']\<rparr>"

definition RateLimitModule_forRoot :: "'v injected \<Rightarrow> 'v dynamic_module" where
  "RateLimitModule_forRoot options = \<lparr>dm_module = ''RateLimitModule'', dm_global = True, dm_imports = [],
     dm_controllers = [],
     dm_providers = [Use_value RATE_LIMIT_MODULE_OPTIONS options, By_class ''RateLimitService''],
     dm_exports = [Class ''RateLimitService'']\<rparr>"

definition MetricsModule_forRoot :: "'v injected \<Rightarrow> 'v dynamic_module" where
  "MetricsModule_forRoot options = \<lparr>dm_module = ''MetricsModule'', dm_global = True, dm_imports = [],
     dm_controllers = [''MetricsController''],
     dm_providers = [Use_value METRICS_MODULE_OPTIONS options, By_class ''MetricsService'',
       By_class ''RetentionSweepMetrics'', By_class ''HttpMetricsMiddleware''],
     dm_exports = [Class ''MetricsService'', Class ''RetentionSweepMetrics'']\<rparr>"

text \<open>The factory of the JWT service, on the options it injects.\<close>

fun jwt_factory :: "'v factory" where
  "jwt_factory [Auth_options options] = Some (Jwt_service (AuthModule_jwt_options options))"
| "jwt_factory _ = None"

definition AuthModule_build :: "'v provider \<Rightarrow> string list option \<Rightarrow> 'v dynamic_module" where
  "AuthModule_build optionsProvider imports = \<lparr>dm_module = ''AuthModule'', dm_global = True,
     dm_imports = nullish imports [], dm_controllers = [],
     dm_providers = [optionsProvider, Use_factory (Class ''JwtService'') [AUTH_MODULE_OPTIONS] jwt_factory,
       By_class ''AccessTokenService''],
     dm_exports = [Class ''AccessTokenService'']\<rparr>"

definition AuthModule_forRoot :: "auth_module_options \<Rightarrow> 'v dynamic_module" where
  "AuthModule_forRoot options = AuthModule_build (Use_value AUTH_MODULE_OPTIONS (Auth_options options)) None"

definition AuthModule_forRootAsync :: "'v async_options \<Rightarrow> 'v dynamic_module" where
  "AuthModule_forRootAsync options =
     AuthModule_build
       (Use_factory AUTH_MODULE_OPTIONS (nullish (ap_inject options) []) (ap_useFactory options))
       (ap_imports options)"

text \<open>\<open>HealthModule.collect\<close>, and the module \<open>forRoot\<close> builds from the two lists of check classes.\<close>

definition HealthModule_collect :: "token \<Rightarrow> string list \<Rightarrow> 'v provider" where
  "HealthModule_collect token checks = Use_factory token (map Class checks) (\<lambda>resolved. Some (Resolved resolved))"

definition HealthModule_dynamic ::
    "string health_module_options \<Rightarrow> string list option \<Rightarrow> 'v dynamic_module" where
  "HealthModule_dynamic options imports = (let m = HealthModule_forRoot options in
     \<lparr>dm_module = ''HealthModule'', dm_global = False, dm_imports = nullish imports [],
      dm_controllers = [''HealthController''],
      dm_providers = map By_class (hd_providers m) @
        [HealthModule_collect READINESS_CHECKS (hd_readiness m),
         HealthModule_collect STARTUP_CHECKS (hd_startup m)],
      dm_exports = []\<rparr>)"

lemmas module_defs = ContextModule_def RedisModule_forRootAsync_def ErrorReporterModule_forRootAsync_def
  ObjectStorageModule_forRootAsync_def ServiceTokenModule_forRootAsync_def RateLimitModule_forRoot_def
  MetricsModule_forRoot_def AuthModule_build_def AuthModule_forRoot_def AuthModule_forRootAsync_def

subsection \<open>A well-formed module\<close>

fun provider_needs :: "(string \<Rightarrow> token list) \<Rightarrow> 'v provider \<Rightarrow> token list" where
  "provider_needs outside (By_class c) = constructor_needs outside c"
| "provider_needs outside (Use_value _ _) = []"
| "provider_needs outside (Use_factory _ inject _) = inject"

definition provided_tokens :: "'v dynamic_module \<Rightarrow> token list" where
  "provided_tokens m = map provided_token (dm_providers m)"

text \<open>What a module leaves for others to provide.\<close>

definition open_needs :: "(string \<Rightarrow> token list) \<Rightarrow> 'v dynamic_module \<Rightarrow> token list" where
  "open_needs outside m = filter (\<lambda>t. t \<notin> set (provided_tokens m))
     (concat (map (provider_needs outside) (dm_providers m)) @
      concat (map (constructor_needs outside) (dm_controllers m)))"

fun is_service :: "token \<Rightarrow> bool" where
  "is_service (Class c) = (c \<noteq> ''JwtService'')"
| "is_service _ = False"

definition well_formed_module :: "'v dynamic_module \<Rightarrow> bool" where
  "well_formed_module m \<longleftrightarrow> distinct (provided_tokens m) \<and>
     list_all (\<lambda>t. t \<in> set (provided_tokens m) \<and> is_service t) (dm_exports m)"

subsection \<open>What Nest documents of the injector\<close>

fun resolve_all :: "(token \<Rightarrow> 'v injected option) \<Rightarrow> token list \<Rightarrow> 'v injected list option" where
  "resolve_all resolve [] = Some []"
| "resolve_all resolve (t # ts) =
     (case resolve t of None \<Rightarrow> None | Some v \<Rightarrow> map_option ((#) v) (resolve_all resolve ts))"

fun provider_documented ::
    "(string \<Rightarrow> token list) \<Rightarrow> (token \<Rightarrow> 'v injected option) \<Rightarrow> 'v provider \<Rightarrow> bool" where
  "provider_documented outside resolve (By_class c) \<longleftrightarrow>
     resolve (Class c) = map_option (Instance c) (resolve_all resolve (constructor_needs outside c))"
| "provider_documented outside resolve (Use_value t v) \<longleftrightarrow> resolve t = Some v"
| "provider_documented outside resolve (Use_factory t inject useFactory) \<longleftrightarrow>
     resolve t = Option.bind (resolve_all resolve inject) useFactory"

text \<open>
  \<open>resolve m t\<close> is the answer inside module \<open>m\<close>: its own providers first, and otherwise what a
  global module exports.
\<close>

definition injector_documented ::
    "(string \<Rightarrow> token list) \<Rightarrow> (string \<Rightarrow> token \<Rightarrow> 'v injected option) \<Rightarrow> 'v dynamic_module list \<Rightarrow> bool" where
  "injector_documented outside resolve ms \<longleftrightarrow>
     list_all (\<lambda>m. list_all (provider_documented outside (resolve (dm_module m))) (dm_providers m) \<and>
       list_all (\<lambda>g. list_all (\<lambda>t. t \<in> set (provided_tokens m) \<or> \<not> dm_global g \<or>
           resolve (dm_module m) t = resolve (dm_module g) t) (dm_exports g)) ms) ms"

text \<open>The options an asynchronous module ends up with, and the instance a class token stands for.\<close>

definition made_options :: "(token \<Rightarrow> 'v injected option) \<Rightarrow> 'v async_options \<Rightarrow> 'v injected option" where
  "made_options resolve options =
     Option.bind (resolve_all resolve (nullish (ap_inject options) [])) (ap_useFactory options)"

lemma resolve_all_Some:
  "resolve_all resolve ts = Some vs \<longleftrightarrow> map resolve ts = map Some vs"
  by (induction ts arbitrary: vs) (auto split: option.splits simp: Cons_eq_map_conv)

lemma resolve_all_single: "resolve_all resolve [t] = map_option (\<lambda>v. [v]) (resolve t)"
  by (cases "resolve t") auto

definition made_class ::
    "(string \<Rightarrow> token list) \<Rightarrow> (token \<Rightarrow> 'v injected option) \<Rightarrow> token \<Rightarrow> 'v injected option" where
  "made_class outside resolve t = (case t of
     Class c \<Rightarrow> map_option (Instance c) (resolve_all resolve (constructor_needs outside c)) | _ \<Rightarrow> None)"

lemma resolve_all_cong: "(\<And>t. t \<in> set ts \<Longrightarrow> r t = r' t) \<Longrightarrow> resolve_all r ts = resolve_all r' ts"
  by (induction ts) (auto split: option.split)

lemma injector_own:
  "injector_documented outside resolve ms \<Longrightarrow> m \<in> set ms \<Longrightarrow>
   list_all (provider_documented outside (resolve (dm_module m))) (dm_providers m)"
  by (simp add: injector_documented_def list_all_iff)

lemma injector_exported:
  "injector_documented outside resolve ms \<Longrightarrow> m \<in> set ms \<Longrightarrow> g \<in> set ms \<Longrightarrow> t \<in> set (dm_exports g) \<Longrightarrow>
   dm_global g \<Longrightarrow> t \<notin> set (provided_tokens m) \<Longrightarrow> resolve (dm_module m) t = resolve (dm_module g) t"
  by (force simp: injector_documented_def list_all_iff)

lemma single_option_service:
  "provider_documented outside resolve (By_class c) \<Longrightarrow> constructor_needs outside c = [t] \<Longrightarrow>
   provider_documented outside resolve (Use_factory t (nullish (ap_inject options) []) (ap_useFactory options)) \<Longrightarrow>
   resolve (Class c) = map_option (\<lambda>v. Instance c [v]) (made_options resolve options)"
  by (auto simp: made_options_def split: option.split)

lemma constructor_needs_sdk:
  "constructor_needs outside ''RedisService'' = [REDIS_MODULE_OPTIONS]"
  "constructor_needs outside ''ErrorReporterService'' = [ERROR_REPORTER_MODULE_OPTIONS]"
  "constructor_needs outside ''ObjectStorageService'' = [OBJECT_STORAGE_MODULE_OPTIONS]"
  "constructor_needs outside ''ServiceTokenService'' = [SERVICE_TOKEN_MODULE_OPTIONS, Class ''HttpService'']"
  "constructor_needs outside ''RateLimitService'' = [Class ''RedisService'', RATE_LIMIT_MODULE_OPTIONS]"
  "constructor_needs outside ''AccessTokenService'' = [Class ''JwtService'']"
  "constructor_needs outside ''MetricsService'' = [METRICS_MODULE_OPTIONS]"
  "constructor_needs outside ''RetentionSweepMetrics'' = [Class ''MetricsService'']"
  "constructor_needs outside ''HttpMetricsMiddleware'' = [METRICS_MODULE_OPTIONS, Class ''MetricsService'']"
  "constructor_needs outside ''MetricsController'' = [Class ''MetricsService'']"
  "constructor_needs outside ''CorrelationIdService'' = []"
  "constructor_needs outside ''CorrelationIdMiddleware'' = [Class ''CorrelationIdService'']"
  "constructor_needs outside ''HealthController'' = [READINESS_CHECKS, STARTUP_CHECKS]"
  by (simp_all add: constructor_needs_def sdk_classes_def need_defs)

lemma health_provided_tokens:
  "provided_tokens (HealthModule_dynamic options imports) =
     map Class (hd_providers (HealthModule_forRoot options)) @ [READINESS_CHECKS, STARTUP_CHECKS]"
  by (simp add: HealthModule_dynamic_def Let_def provided_tokens_def HealthModule_collect_def comp_def)

lemma health_hd_facts:
  "distinct (hd_providers (HealthModule_forRoot options))"
  "set (hd_readiness (HealthModule_forRoot options)) \<subseteq> set (hd_providers (HealthModule_forRoot options))"
  "set (hd_startup (HealthModule_forRoot options)) \<subseteq> set (hd_providers (HealthModule_forRoot options))"
  using forRoot_provides_once [of options] by (auto simp: Let_def)

lemma health_well_formed: "well_formed_module (HealthModule_dynamic options imports)"
  unfolding well_formed_module_def health_provided_tokens
  by (simp add: HealthModule_dynamic_def Let_def health_hd_facts distinct_map inj_on_def token_defs image_iff)

lemma health_open_needs:
  "set (open_needs outside (HealthModule_dynamic options imports)) \<subseteq>
     set (concat (map (constructor_needs outside) (hd_providers (HealthModule_forRoot options))))"
  using health_hd_facts(2,3) [of options] unfolding open_needs_def health_provided_tokens
  by (auto simp: HealthModule_dynamic_def Let_def HealthModule_collect_def constructor_needs_sdk)

subsection \<open>Properties\<close>

text \<open>
  C27: the wiring type checks.  In every module of the SDK, whatever options it is given, no token is provided
  twice, every exported token is provided, and neither an options token nor the \<open>JwtService\<close>, which
  could mint tokens, is exported; and what a module asks for and does not provide itself is only what the service's
  own factory or check classes ask for, the HTTP client of the imported \<open>HttpModule\<close>, and the Redis service of the
  global \<open>RedisModule\<close>.
\<close>

theorem modules_well_formed:
  "list_all (\<lambda>(m, supplied). well_formed_module m \<and> set (open_needs outside m) \<subseteq> set supplied)
     [(ContextModule, []),
      (AuthModule_forRoot auth, []),
      (AuthModule_forRootAsync options, nullish (ap_inject options) []),
      (RedisModule_forRootAsync options, nullish (ap_inject options) []),
      (ErrorReporterModule_forRootAsync options, nullish (ap_inject options) []),
      (ObjectStorageModule_forRootAsync options, nullish (ap_inject options) []),
      (ServiceTokenModule_forRootAsync options, Class ''HttpService'' # nullish (ap_inject options) []),
      (RateLimitModule_forRoot v, [Class ''RedisService'']),
      (MetricsModule_forRoot v, []),
      (HealthModule_dynamic checks imported,
       concat (map (constructor_needs outside) (hd_providers (HealthModule_forRoot checks))))]"
proof -
  have wf: "well_formed_module ContextModule" "well_formed_module (AuthModule_forRoot auth)"
    "well_formed_module (AuthModule_forRootAsync options)" "well_formed_module (RedisModule_forRootAsync options)"
    "well_formed_module (ErrorReporterModule_forRootAsync options)"
    "well_formed_module (ObjectStorageModule_forRootAsync options)"
    "well_formed_module (ServiceTokenModule_forRootAsync options)"
    "well_formed_module (RateLimitModule_forRoot v)" "well_formed_module (MetricsModule_forRoot v)"
    by (simp_all add: well_formed_module_def provided_tokens_def module_defs token_defs)
  have needs: "open_needs outside ContextModule = []" "open_needs outside (AuthModule_forRoot auth) = []"
    "set (open_needs outside (AuthModule_forRootAsync options)) \<subseteq> set (nullish (ap_inject options) [])"
    "set (open_needs outside (RedisModule_forRootAsync options)) \<subseteq> set (nullish (ap_inject options) [])"
    "set (open_needs outside (ErrorReporterModule_forRootAsync options)) \<subseteq> set (nullish (ap_inject options) [])"
    "set (open_needs outside (ObjectStorageModule_forRootAsync options)) \<subseteq> set (nullish (ap_inject options) [])"
    "set (open_needs outside (ServiceTokenModule_forRootAsync options))
       \<subseteq> set (Class ''HttpService'' # nullish (ap_inject options) [])"
    "open_needs outside (RateLimitModule_forRoot v) = [Class ''RedisService'']"
    "open_needs outside (MetricsModule_forRoot v) = []"
    by (auto simp: open_needs_def provided_tokens_def module_defs constructor_needs_sdk token_defs)
  show ?thesis
    using health_open_needs [of outside checks imported] needs(3-7)
    by (simp add: wf health_well_formed needs(1,2,8,9) del: set_concat)
qed

text \<open>
  C29: under the injector Nest documents, each service holds exactly the options its module's factory makes of
  what it injects, and cannot be made when the factory fails; the limiter works on the client of the
  Redis module, and the token verifier on a JWT service with the one algorithm, issuer and audience of
  its options.
\<close>

theorem services_get_their_options:
  assumes "injector_documented outside resolve
     [RedisModule_forRootAsync redis, ErrorReporterModule_forRootAsync reporter,
      ObjectStorageModule_forRootAsync storage, ServiceTokenModule_forRootAsync tokens,
      RateLimitModule_forRoot limits, AuthModule_forRootAsync auth]"
  shows "resolve ''RedisModule'' (Class ''RedisService'') =
      map_option (\<lambda>v. Instance ''RedisService'' [v]) (made_options (resolve ''RedisModule'') redis) \<and>
    resolve ''ErrorReporterModule'' (Class ''ErrorReporterService'') =
      map_option (\<lambda>v. Instance ''ErrorReporterService'' [v]) (made_options (resolve ''ErrorReporterModule'') reporter) \<and>
    resolve ''ObjectStorageModule'' (Class ''ObjectStorageService'') =
      map_option (\<lambda>v. Instance ''ObjectStorageService'' [v]) (made_options (resolve ''ObjectStorageModule'') storage) \<and>
    resolve ''ServiceTokenModule'' (Class ''ServiceTokenService'') =
      Option.bind (made_options (resolve ''ServiceTokenModule'') tokens) (\<lambda>v.
        map_option (\<lambda>http. Instance ''ServiceTokenService'' [v, http])
          (resolve ''ServiceTokenModule'' (Class ''HttpService''))) \<and>
    resolve ''RateLimitModule'' (Class ''RateLimitService'') =
      map_option (\<lambda>v. Instance ''RateLimitService'' [Instance ''RedisService'' [v], limits])
        (made_options (resolve ''RedisModule'') redis) \<and>
    resolve ''AuthModule'' (Class ''AccessTokenService'') =
      (case made_options (resolve ''AuthModule'') auth of
         Some (Auth_options o') \<Rightarrow>
           Some (Instance ''AccessTokenService'' [Jwt_service (AuthModule_jwt_options o')])
       | _ \<Rightarrow> None)"
proof (intro conjI)
  note own = injector_own [OF assms] and ex = injector_exported [OF assms]
  note [simp] = module_defs provided_tokens_def constructor_needs_sdk
  show redis: "resolve ''RedisModule'' (Class ''RedisService'') =
      map_option (\<lambda>v. Instance ''RedisService'' [v]) (made_options (resolve ''RedisModule'') redis)"
    using own [of "RedisModule_forRootAsync redis"] by (intro single_option_service) auto
  show "resolve ''ErrorReporterModule'' (Class ''ErrorReporterService'') =
      map_option (\<lambda>v. Instance ''ErrorReporterService'' [v]) (made_options (resolve ''ErrorReporterModule'') reporter)"
    using own [of "ErrorReporterModule_forRootAsync reporter"] by (intro single_option_service) auto
  show "resolve ''ObjectStorageModule'' (Class ''ObjectStorageService'') =
      map_option (\<lambda>v. Instance ''ObjectStorageService'' [v]) (made_options (resolve ''ObjectStorageModule'') storage)"
    using own [of "ObjectStorageModule_forRootAsync storage"] by (intro single_option_service) auto
  have "resolve ''ServiceTokenModule'' SERVICE_TOKEN_MODULE_OPTIONS =
        made_options (resolve ''ServiceTokenModule'') tokens \<and>
      provider_documented outside (resolve ''ServiceTokenModule'') (By_class ''ServiceTokenService'')"
    using own [of "ServiceTokenModule_forRootAsync tokens"] by (simp add: made_options_def)
  then show "resolve ''ServiceTokenModule'' (Class ''ServiceTokenService'') =
      Option.bind (made_options (resolve ''ServiceTokenModule'') tokens) (\<lambda>v.
        map_option (\<lambda>http. Instance ''ServiceTokenService'' [v, http])
          (resolve ''ServiceTokenModule'' (Class ''HttpService'')))"
    by (auto split: option.split)
  have "resolve ''RateLimitModule'' (Class ''RedisService'') = resolve ''RedisModule'' (Class ''RedisService'')"
    using ex [of "RateLimitModule_forRoot limits" "RedisModule_forRootAsync redis" "Class ''RedisService''"]
    by (simp add: token_defs)
  then show "resolve ''RateLimitModule'' (Class ''RateLimitService'') =
      map_option (\<lambda>v. Instance ''RateLimitService'' [Instance ''RedisService'' [v], limits])
        (made_options (resolve ''RedisModule'') redis)"
    using own [of "RateLimitModule_forRoot limits"] unfolding redis by (auto split: option.split)
  show "resolve ''AuthModule'' (Class ''AccessTokenService'') =
      (case made_options (resolve ''AuthModule'') auth of
         Some (Auth_options o') \<Rightarrow>
           Some (Instance ''AccessTokenService'' [Jwt_service (AuthModule_jwt_options o')])
       | _ \<Rightarrow> None)"
    using own [of "AuthModule_forRootAsync auth"]
    by (auto simp: made_options_def split: option.split injected.split)
qed

text \<open>An injector that makes what the six modules above ask for, from one secret and one set of JWT options.\<close>

definition plain_options :: "string async_options" where
  "plain_options = \<lparr>ap_imports = None, ap_inject = Some [Class ''ConfigService''], ap_useFactory = (\<lambda>vs. Some (Resolved vs))\<rparr>"

definition jwt_auth_options :: auth_module_options where
  "jwt_auth_options = \<lparr>ao_secret = ''s'', ao_issuer = ''i'', ao_audience = ''a'', ao_algorithm = None\<rparr>"

definition auth_options :: "string async_options" where
  "auth_options = \<lparr>ap_imports = None, ap_inject = None, ap_useFactory = (\<lambda>_. Some (Auth_options jwt_auth_options))\<rparr>"

definition plain_injector :: "string \<Rightarrow> token \<Rightarrow> string injected option" where
  "plain_injector _ t = (let config = Supplied ''config''; v = Resolved [config]; redis = Instance ''RedisService'' [v];
       jwt = Jwt_service (AuthModule_jwt_options jwt_auth_options) in
     map_of [(Class ''ConfigService'', config), (Class ''HttpService'', Supplied ''http''),
       (REDIS_MODULE_OPTIONS, v), (ERROR_REPORTER_MODULE_OPTIONS, v), (OBJECT_STORAGE_MODULE_OPTIONS, v),
       (SERVICE_TOKEN_MODULE_OPTIONS, v), (RATE_LIMIT_MODULE_OPTIONS, Supplied ''limits''),
       (AUTH_MODULE_OPTIONS, Auth_options jwt_auth_options), (Class ''JwtService'', jwt),
       (Class ''RedisService'', redis), (Class ''ErrorReporterService'', Instance ''ErrorReporterService'' [v]),
       (Class ''ObjectStorageService'', Instance ''ObjectStorageService'' [v]),
       (Class ''ServiceTokenService'', Instance ''ServiceTokenService'' [v, Supplied ''http'']),
       (Class ''RateLimitService'', Instance ''RateLimitService'' [redis, Supplied ''limits'']),
       (Class ''AccessTokenService'', Instance ''AccessTokenService'' [jwt])] t)"

lemma plain_injector_documented:
  "injector_documented outside plain_injector
     [RedisModule_forRootAsync plain_options, ErrorReporterModule_forRootAsync plain_options,
      ObjectStorageModule_forRootAsync plain_options, ServiceTokenModule_forRootAsync plain_options,
      RateLimitModule_forRoot (Supplied ''limits''), AuthModule_forRootAsync auth_options]"
  by (simp add: injector_documented_def module_defs provided_tokens_def constructor_needs_sdk plain_options_def
      auth_options_def plain_injector_def Let_def token_defs)

lemma services_get_their_options_witness:
  "plain_injector ''RateLimitModule'' (Class ''RateLimitService'') =
     Some (Instance ''RateLimitService''
       [Instance ''RedisService'' [Resolved [Supplied ''config'']], Supplied ''limits''])"
  using services_get_their_options [OF plain_injector_documented]
  by (simp add: made_options_def plain_options_def plain_injector_def token_defs)

text \<open>
  Whatever lists of check classes a service registers, the health controller is constructed with one
  instance for each entry of the readiness list and of the startup list, in order, and the same class in
  both lists is the same instance; the startup list is the readiness list when it is not given.
\<close>

theorem health_controller_gets_the_checks:
  assumes "injector_documented outside resolve [HealthModule_dynamic options imported]"
  shows "let readiness = nullish (hm_checks options) [];
             startup = nullish (hm_startupChecks options) readiness;
             instances = (\<lambda>cs. resolve_all (made_class outside (resolve ''HealthModule'')) (map Class cs))
         in resolve_all (resolve ''HealthModule'') (constructor_needs outside ''HealthController'') =
           Option.bind (instances readiness) (\<lambda>rs. map_option (\<lambda>ss. [Resolved rs, Resolved ss]) (instances startup))"
proof -
  let ?r = "resolve ''HealthModule''" and ?m = "HealthModule_forRoot options"
  have own: "list_all (provider_documented outside ?r) (dm_providers (HealthModule_dynamic options imported))"
    using injector_own [OF assms, of "HealthModule_dynamic options imported"]
    by (simp add: HealthModule_dynamic_def Let_def)
  have made: "resolve_all ?r (map Class cs) = resolve_all (made_class outside ?r) (map Class cs)"
    if "set cs \<subseteq> set (hd_providers ?m)" for cs
    using that own by (intro resolve_all_cong) (auto simp: HealthModule_dynamic_def Let_def list_all_iff made_class_def)
  have "?r READINESS_CHECKS = map_option Resolved (resolve_all (made_class outside ?r) (map Class (hd_readiness ?m)))"
    "?r STARTUP_CHECKS = map_option Resolved (resolve_all (made_class outside ?r) (map Class (hd_startup ?m)))"
    using own made [OF health_hd_facts(2)] made [OF health_hd_facts(3)]
    by (simp_all add: HealthModule_dynamic_def HealthModule_collect_def Let_def map_conv_bind_option comp_def)
  then show ?thesis
    by (simp add: Let_def constructor_needs_sdk HealthModule_forRoot_def split: option.split)
qed

definition two_checks :: "string health_module_options" where
  "two_checks = \<lparr>hm_checks = Some [''A'', ''B''], hm_startupChecks = Some [''B'']\<rparr>"

definition health_injector :: "string \<Rightarrow> token \<Rightarrow> unit injected option" where
  "health_injector _ t = map_of
     [(Class ''A'', Instance ''A'' []), (Class ''B'', Instance ''B'' []),
      (READINESS_CHECKS, Resolved [Instance ''A'' [], Instance ''B'' []]),
      (STARTUP_CHECKS, Resolved [Instance ''B'' []])] t"

lemma health_injector_documented:
  "injector_documented (\<lambda>_. []) health_injector [HealthModule_dynamic two_checks None]"
  by (simp add: injector_documented_def HealthModule_dynamic_def HealthModule_forRoot_def two_checks_def Let_def
      HealthModule_collect_def constructor_needs_def sdk_classes_def health_injector_def token_defs)

lemma health_controller_gets_the_checks_witness:
  "resolve_all (health_injector ''HealthModule'') (constructor_needs (\<lambda>_. []) ''HealthController'') =
     Some [Resolved [Instance ''A'' [], Instance ''B'' []], Resolved [Instance ''B'' []]]"
  using health_controller_gets_the_checks [OF health_injector_documented]
  by (simp add: two_checks_def Let_def made_class_def constructor_needs_def sdk_classes_def)

end
