(* ===== verification/Scrape.thy ===== *)
theory Scrape
  imports Metrics
begin

section \<open>Scrapes that overlap\<close>

text \<open>
  \<open>MetricsService.render\<close> as it runs when two scrapes overlap: it awaits its collectors and sources, and between
  those awaits another scrape may begin on the same registry.  \<open>Metrics.render\<close> is a scrape nothing
  overlaps.  Also here is the handler of \<^verbatim>\<open>metrics.controller.ts\<close>; the text of the exposition format and its content
  type are the client's.
\<close>

definition MetricsController_scrape ::
    "string \<Rightarrow> (registry \<Rightarrow> string) \<Rightarrow> 'w \<Rightarrow> 'b response \<Rightarrow> 'w metrics_service \<Rightarrow>
     string \<times> 'b response \<times> 'w metrics_service" where
  "MetricsController_scrape contentType exposition w res s =
     (let (r, s') = render w s in
      (exposition r, res\<lparr>res_headers := (res_headers res)(''Content-Type'' \<mapsto> contentType)\<rparr>, s'))"

subsection \<open>The steps\<close>

text \<open>What an open scrape still awaits; what has been rendered, by scrape.\<close>

record 'w open_scrape =
  os_collectors :: "'w queue_depth_collector list"
  os_sources :: "'w metric_source list"

record 'w scraping =
  sg_service :: "'w metrics_service"
  sg_open :: "(nat \<times> 'w open_scrape) list"
  sg_rendered :: "(nat \<times> registry) list"

definition scrape_begins :: "nat \<Rightarrow> 'w scraping \<Rightarrow> 'w scraping" where
  "scrape_begins i s = s\<lparr>sg_service := reset_depths (sg_service s),
     sg_open := js_set i \<lparr>os_collectors = ms_collectors (sg_service s), os_sources = ms_sources (sg_service s)\<rparr> (sg_open s)\<rparr>"

definition collector_answers ::
    "'w \<Rightarrow> nat \<Rightarrow> 'w queue_depth_collector \<Rightarrow> 'w queue_depth_collector list \<Rightarrow> 'w metric_source list \<Rightarrow>
     'w scraping \<Rightarrow> 'w scraping" where
  "collector_answers w i c others sources s = s\<lparr>sg_service := refreshOne w c (sg_service s),
     sg_open := js_set i \<lparr>os_collectors = others, os_sources = sources\<rparr> (sg_open s)\<rparr>"

definition source_answers ::
    "'w \<Rightarrow> nat \<Rightarrow> 'w metric_source \<Rightarrow> 'w queue_depth_collector list \<Rightarrow> 'w metric_source list \<Rightarrow>
     'w scraping \<Rightarrow> 'w scraping" where
  "source_answers w i c collectors others s = s\<lparr>sg_service := refreshSource w c (sg_service s),
     sg_open := js_set i \<lparr>os_collectors = collectors, os_sources = others\<rparr> (sg_open s)\<rparr>"

definition scrape_renders :: "nat \<Rightarrow> 'w scraping \<Rightarrow> 'w scraping" where
  "scrape_renders i s = s\<lparr>sg_open := filter (\<lambda>(j, _). j \<noteq> i) (sg_open s),
     sg_rendered := sg_rendered s @ [(i, ms_registry (sg_service s))]\<rparr>"

inductive scrape_step :: "'w scraping \<Rightarrow> 'w scraping \<Rightarrow> bool" where
  begins: "map_of (sg_open s) i = None \<Longrightarrow> scrape_step s (scrape_begins i s)"
| collected: "map_of (sg_open s) i = Some \<lparr>os_collectors = cs @ c # ds, os_sources = sources\<rparr> \<Longrightarrow>
    scrape_step s (collector_answers w i c (cs @ ds) sources s)"
| sampled: "map_of (sg_open s) i = Some \<lparr>os_collectors = collectors, os_sources = cs @ c # ds\<rparr> \<Longrightarrow>
    scrape_step s (source_answers w i c collectors (cs @ ds) s)"
| renders: "map_of (sg_open s) i = Some \<lparr>os_collectors = [], os_sources = []\<rparr> \<Longrightarrow>
    scrape_step s (scrape_renders i s)"

definition scraping_start :: "'w metrics_service \<Rightarrow> 'w scraping" where
  "scraping_start s = \<lparr>sg_service = s, sg_open = [], sg_rendered = []\<rparr>"

lemmas scraping_defs = scrape_begins_def collector_answers_def source_answers_def scrape_renders_def
  scraping_start_def

text \<open>A series of the depth gauge that some collector answered.\<close>

definition answered :: "'w queue_depth_collector list \<Rightarrow> labels \<times> rat \<Rightarrow> bool" where
  "answered cs p \<longleftrightarrow> (\<exists>c w readings st d. c \<in> set cs \<and> qc_collect c w = Inr readings \<and> (st, d) \<in> set readings \<and>
     p = (depth_labels (qc_queue c) st, of_nat d))"

subsection \<open>Every depth rendered was answered\<close>

lemma set_js_set: "set (js_set k v ps) \<subseteq> insert (k, v) (set ps)"
  by (induction ps) auto

lemma set_depths_series:
  "set (series_of QUEUE_DEPTH_GAUGE (set_depths q rs r)) \<subseteq>
     set (series_of QUEUE_DEPTH_GAUGE r) \<union> {(depth_labels q st, of_nat d) |st d. (st, d) \<in> set rs}"
proof (induction q rs r rule: set_depths.induct)
  case (2 q st d rs r)
  then show ?case using set_js_set [of "depth_labels q st" "of_nat d" "series_of QUEUE_DEPTH_GAUGE r"]
    by (fastforce simp: series_of_set)
qed simp

definition gauge_ok :: "'w queue_depth_collector list \<Rightarrow> registry \<Rightarrow> bool" where
  "gauge_ok cs r \<longleftrightarrow> list_all (answered cs) (series_of QUEUE_DEPTH_GAUGE r)"

definition pending_ok :: "'w metrics_service \<Rightarrow> 'w open_scrape \<Rightarrow> bool" where
  "pending_ok s os \<longleftrightarrow> set (os_collectors os) \<subseteq> set (ms_collectors s) \<and> set (os_sources os) \<subseteq> set (ms_sources s)"

definition scraping_ok :: "'w queue_depth_collector list \<Rightarrow> 'w metric_source list \<Rightarrow> 'w scraping \<Rightarrow> bool" where
  "scraping_ok cs srcs s \<longleftrightarrow> gauge_ok cs (ms_registry (sg_service s)) \<and>
     ms_collectors (sg_service s) = cs \<and> ms_sources (sg_service s) = srcs \<and>
     list_all (pending_ok (sg_service s)) (map snd (sg_open s)) \<and> list_all (gauge_ok cs) (map snd (sg_rendered s))"

lemma list_all_js_set: "list_all P (map snd ps) \<Longrightarrow> P v \<Longrightarrow> list_all P (map snd (js_set k v ps))"
  by (induction ps) auto

lemma list_all_map_of: "list_all P (map snd ps) \<Longrightarrow> map_of ps k = Some v \<Longrightarrow> P v"
  by (force simp: list_all_iff dest: map_of_SomeD)

lemma list_all_filter_snd: "list_all P (map snd ps) \<Longrightarrow> list_all P (map snd (filter Q ps))"
  by (simp add: list_all_iff)

lemma pending_ok_cong:
  "ms_collectors s' = ms_collectors s \<Longrightarrow> ms_sources s' = ms_sources s \<Longrightarrow> pending_ok s' = pending_ok s"
  by (simp add: pending_ok_def fun_eq_iff)

lemma refreshOne_gauge: "c \<in> set cs \<Longrightarrow> gauge_ok cs (ms_registry s) \<Longrightarrow> gauge_ok cs (ms_registry (refreshOne w c s))"
proof (cases "qc_collect c w")
  case (Inr readings)
  assume "c \<in> set cs" and "gauge_ok cs (ms_registry s)"
  then show ?thesis using Inr set_depths_series [of "qc_queue c" readings "ms_registry s"]
    unfolding gauge_ok_def list_all_iff refreshOne_def by (auto simp: answered_def) blast
qed (simp add: refreshOne_def)

lemma scrape_step_ok:
  assumes "scrape_step s s'" and "scraping_ok cs srcs s"
    and sources: "list_all (writes_none_of [QUEUE_DEPTH_GAUGE]) srcs"
  shows "scraping_ok cs srcs s'"
  using assms(1,2)
proof (induction rule: scrape_step.cases)
  case (begins s i)
  let ?t = "reset_depths (sg_service s)"
  have "gauge_ok cs (ms_registry ?t)" by (simp add: gauge_ok_def reset_depths_def series_of_reset)
  moreover have "pending_ok ?t = pending_ok (sg_service s)" by (rule pending_ok_cong) (simp_all add: reset_depths_def)
  ultimately show ?case using begins
    by (auto simp: scraping_ok_def scrape_begins_def reset_depths_def intro!: list_all_js_set)
      (simp add: pending_ok_def)
next
  case (collected s i as c ds srcs' w)
  then have pend: "pending_ok (sg_service s) \<lparr>os_collectors = as @ c # ds, os_sources = srcs'\<rparr>"
    by (auto simp: scraping_ok_def dest: list_all_map_of)
  then have "c \<in> set cs" using collected by (auto simp: scraping_ok_def pending_ok_def)
  moreover have "pending_ok (refreshOne w c (sg_service s)) = pending_ok (sg_service s)"
    by (rule pending_ok_cong) simp_all
  ultimately show ?case using collected pend
    by (auto simp: scraping_ok_def collector_answers_def refreshOne_gauge intro!: list_all_js_set)
      (simp add: pending_ok_def)
next
  case (sampled s i collectors as c ds w)
  then have pend: "pending_ok (sg_service s) \<lparr>os_collectors = collectors, os_sources = as @ c # ds\<rparr>"
    by (auto simp: scraping_ok_def dest: list_all_map_of)
  then have "writes_none_of [QUEUE_DEPTH_GAUGE] c"
    using sampled sources by (auto simp: scraping_ok_def pending_ok_def list_all_iff)
  note keeps = refreshSource_keeps [OF this, of QUEUE_DEPTH_GAUGE w "sg_service s"]
  then have "pending_ok (refreshSource w c (sg_service s)) = pending_ok (sg_service s)"
    by (intro pending_ok_cong) simp_all
  then show ?case using sampled pend keeps
    by (auto simp: scraping_ok_def source_answers_def gauge_ok_def intro!: list_all_js_set)
      (simp add: pending_ok_def)
next
  case (renders s i)
  then show ?case by (auto simp: scraping_ok_def scrape_renders_def list_all_filter_snd)
qed

lemma scrapes_ok:
  "scrape_step\<^sup>*\<^sup>* s s' \<Longrightarrow> scraping_ok cs srcs s \<Longrightarrow> list_all (writes_none_of [QUEUE_DEPTH_GAUGE]) srcs \<Longrightarrow>
   scraping_ok cs srcs s'"
  by (induction rule: rtranclp_induct) (auto intro: scrape_step_ok)

subsection \<open>Properties\<close>

text \<open>
  However scrapes overlap, every queue depth that is rendered is one that a registered
  collector answered: no depth is invented, and a queue is never shown another's.
\<close>

theorem rendered_depths_were_answered:
  assumes "scrape_step\<^sup>*\<^sup>* (scraping_start s) s'"
    and "list_all (writes_none_of [QUEUE_DEPTH_GAUGE]) (ms_sources s)"
    and "series_of QUEUE_DEPTH_GAUGE (ms_registry s) = []"
    and "(i, r) \<in> set (sg_rendered s')"
  shows "list_all (answered (ms_collectors s)) (series_of QUEUE_DEPTH_GAUGE r)"
proof -
  have "scraping_ok (ms_collectors s) (ms_sources s) s'"
    by (rule scrapes_ok [OF assms(1) _ assms(2)]) (simp add: scraping_ok_def scraping_start_def gauge_ok_def assms(3))
  then show ?thesis using assms(4) by (force simp: scraping_ok_def gauge_ok_def list_all_iff)
qed

text \<open>
  C35: overlapping scrapes lose depths that were answered.  A second scrape that begins while the
  first has one queue's answer and awaits another's resets the gauge: the first then renders no depth for
  the queue that was answered, though nothing failed and nothing is logged, where a scrape on its own renders that depth.
\<close>

theorem overlapping_scrape_loses_depths:
  assumes "ms_collectors s = [c, c']" and "ms_sources s = []" and "qc_queue c \<noteq> qc_queue c'"
    and "qc_collect c w = Inr [(st, d)]" and "qc_collect c' w = Inr readings"
  shows "metric_value QUEUE_DEPTH_GAUGE (depth_labels (qc_queue c) st) (fst (render w s)) = Some (of_nat d) \<and>
    (\<exists>s' r. scrape_step\<^sup>*\<^sup>* (scraping_start s) s' \<and> map_of (sg_rendered s') 1 = Some r \<and>
       ms_warnings (sg_service s') = ms_warnings s \<and>
       metric_value QUEUE_DEPTH_GAUGE (depth_labels (qc_queue c) st) r = None)"
proof
  show "metric_value QUEUE_DEPTH_GAUGE (depth_labels (qc_queue c) st) (fst (render w s)) = Some (of_nat d)"
    using assms by (simp add: render_def Let_def refreshSources_def refreshQueueDepth_def reset_depths_def
        refreshOne_value reported_def)
  define s1 where "s1 = scrape_begins 1 (scraping_start s)"
  define s2 where "s2 = collector_answers w 1 c [c'] [] s1"
  define s3 where "s3 = scrape_begins 2 s2"
  define s4 where "s4 = collector_answers w 1 c' [] [] s3"
  define s5 where "s5 = scrape_renders 1 s4"
  note steps = s1_def s2_def s3_def s4_def s5_def scraping_defs reset_depths_def
  have "scrape_step (scraping_start s) s1" unfolding s1_def by (rule begins) (simp add: scraping_start_def)
  moreover have "scrape_step s1 s2" unfolding s2_def using collected [of s1 1 "[]" c "[c']" "[]" w] assms
    by (simp add: s1_def scrape_begins_def scraping_start_def)
  moreover have "scrape_step s2 s3" unfolding s3_def by (rule begins) (simp add: steps)
  moreover have "scrape_step s3 s4" unfolding s4_def using collected [of s3 1 "[]" c' "[]" "[]" w] assms
    by (simp add: steps)
  moreover have "scrape_step s4 s5" unfolding s5_def by (rule renders) (simp add: steps)
  ultimately have run: "scrape_step\<^sup>*\<^sup>* (scraping_start s) s5"
    by (meson rtranclp.rtrancl_into_rtrancl rtranclp.rtrancl_refl)
  have service: "sg_service s5 = refreshOne w c' (reset_depths (refreshOne w c (reset_depths s)))"
    and rendered: "sg_rendered s5 = [(1, ms_registry (sg_service s5))]"
    by (simp_all add: steps)
  have "metric_value QUEUE_DEPTH_GAUGE (depth_labels (qc_queue c) st) (ms_registry (sg_service s5)) = None"
    unfolding service using assms(3) by (simp add: refreshOne_value) (simp add: reset_depths_def)
  moreover have "ms_warnings (sg_service s5) = ms_warnings s"
    unfolding service using assms(4,5) by (simp add: refreshOne_def reset_depths_def)
  ultimately show "\<exists>s' r. scrape_step\<^sup>*\<^sup>* (scraping_start s) s' \<and> map_of (sg_rendered s') 1 = Some r \<and>
       ms_warnings (sg_service s') = ms_warnings s \<and>
       metric_value QUEUE_DEPTH_GAUGE (depth_labels (qc_queue c) st) r = None"
    using run rendered by (intro exI [of _ s5]) simp
qed

definition fixed_queue :: "string \<Rightarrow> nat \<Rightarrow> 'w queue_depth_collector" where
  "fixed_queue queue depth = \<lparr>qc_queue = queue, qc_collect = (\<lambda>_. Inr [(Pending, depth)])\<rparr>"

definition fresh_metrics :: "unit metrics_service" where
  "fresh_metrics = MetricsService_new \<lparr>mo_serviceName = ''api'', mo_defaultLabels = None,
     mo_collectDefaultMetrics = None, mo_ignoredRoutes = None\<rparr>"

lemma overlapping_scrape_loses_depths_witness:
  "\<exists>s' r. scrape_step\<^sup>*\<^sup>* (scraping_start (registerQueueDepthCollector (fixed_queue ''webhooks'' 5)
       (registerQueueDepthCollector (fixed_queue ''outbox'' 3) fresh_metrics))) s' \<and>
     map_of (sg_rendered s') 1 = Some r \<and> metric_value QUEUE_DEPTH_GAUGE (depth_labels ''outbox'' Pending) r = None"
  using overlapping_scrape_loses_depths [of "registerQueueDepthCollector (fixed_queue ''webhooks'' 5)
      (registerQueueDepthCollector (fixed_queue ''outbox'' 3) fresh_metrics)" "fixed_queue ''outbox'' 3"
      "fixed_queue ''webhooks'' 5" "()" Pending 3 "[(Pending, 5)]"]
  by (auto simp: registerQueueDepthCollector_def fresh_metrics_def MetricsService_new_def fixed_queue_def)

definition one_queue :: "unit metrics_service" where
  "one_queue = registerQueueDepthCollector (fixed_queue ''outbox'' 3) fresh_metrics"

lemmas one_queue_defs = one_queue_def registerQueueDepthCollector_def fresh_metrics_def MetricsService_new_def

lemma one_queue_renders:
  "scrape_step\<^sup>*\<^sup>* (scraping_start one_queue)
     (scrape_renders 1 (collector_answers () 1 (fixed_queue ''outbox'' 3) [] []
       (scrape_begins 1 (scraping_start one_queue))))"
proof -
  let ?c = "fixed_queue ''outbox'' 3"
  let ?s1 = "scrape_begins 1 (scraping_start one_queue)"
  have "scrape_step (scraping_start one_queue) ?s1" by (rule begins) (simp add: scraping_start_def)
  moreover have "scrape_step ?s1 (collector_answers () 1 ?c [] [] ?s1)"
    using collected [of ?s1 1 "[]" ?c "[]" "[]" "()"]
    by (simp add: scraping_defs reset_depths_def one_queue_defs)
  moreover have "scrape_step (collector_answers () 1 ?c [] [] ?s1) (scrape_renders 1 (collector_answers () 1 ?c [] [] ?s1))"
    by (rule renders) (simp add: scraping_defs)
  ultimately show ?thesis by (meson rtranclp.rtrancl_into_rtrancl rtranclp.rtrancl_refl)
qed

lemma rendered_depths_were_answered_witness:
  "list_all (answered (ms_collectors one_queue)) (series_of QUEUE_DEPTH_GAUGE
     (snd (hd (sg_rendered (scrape_renders 1
       (collector_answers () 1 (fixed_queue ''outbox'' 3) [] []
         (scrape_begins 1 (scraping_start one_queue))))))))"
  by (rule rendered_depths_were_answered [OF one_queue_renders])
    (simp_all add: one_queue_defs series_of_def scraping_defs
      metric_names)

end
