(* ===== verification/Cascade.thy ===== *)
theory Cascade
  imports Prelude
begin

section \<open>Style sheets and the cascade\<close>

text \<open>
  As much of CSS as \<^verbatim>\<open>swagger/index.ts\<close> writes: compound selectors under the descendant combinator,
  declarations with and without \<open>!important\<close>, and the cascade that picks one of them for an element, by importance,
  then specificity, then order.  An element is given with its ancestors, the root first.  Properties are known by
  their names: a shorthand is not related to its longhands.
\<close>

subsection \<open>Style sheets\<close>

datatype simple_selector =
    Universal
  | Tag string
  | Cls string
  | Pseudo_class string
  | Pseudo_element string

type_synonym compound = "simple_selector list"
type_synonym selector = "compound list"

text \<open>A colour is its six hexadecimal digits; other values are kept as they are written.\<close>

datatype css_value = Colour int | Transparent | Text string

type_synonym css_declaration = "string \<times> css_value \<times> bool"
type_synonym css_rule = "selector list \<times> css_declaration list"
type_synonym stylesheet = "css_rule list"

text \<open>The declarations of a sheet in order, each with one of the selectors of its rule.\<close>

definition scoped_declarations :: "stylesheet \<Rightarrow> (selector \<times> css_declaration) list" where
  "scoped_declarations sheet = concat (map (\<lambda>(sels, ds). concat (map (\<lambda>sel. map (Pair sel) ds) sels)) sheet)"

lemma scoped_append: "scoped_declarations (s1 @ s2) = scoped_declarations s1 @ scoped_declarations s2"
  by (simp add: scoped_declarations_def)

subsection \<open>Elements and matching\<close>

record element =
  el_tag :: string
  el_classes :: "string list"
  el_states :: "string list"
  el_pseudo :: "string option"

type_synonym path = "element list"

fun holds :: "element \<Rightarrow> simple_selector \<Rightarrow> bool" where
  "holds e Universal = True"
| "holds e (Tag t) = (el_tag e = t)"
| "holds e (Cls c) = (c \<in> set (el_classes e))"
| "holds e (Pseudo_class p) = (p \<in> set (el_states e))"
| "holds e (Pseudo_element p) = (el_pseudo e = Some p)"

fun is_pseudo_element :: "simple_selector \<Rightarrow> bool" where
  "is_pseudo_element (Pseudo_element _) = True"
| "is_pseudo_element _ = False"

text \<open>A selector that names no pseudo-element is about the element itself.\<close>

definition compound_matches :: "compound \<Rightarrow> element \<Rightarrow> bool" where
  "compound_matches c e \<longleftrightarrow> list_all (holds e) c \<and> (el_pseudo e = None \<or> list_ex is_pseudo_element c)"

fun embeds :: "selector \<Rightarrow> path \<Rightarrow> bool" where
  "embeds [] es = True"
| "embeds (c # cs) [] = False"
| "embeds (c # cs) (e # es) = (if compound_matches c e then embeds cs es else embeds (c # cs) es)"

text \<open>The last compound is about the element, the others about ancestors of it in that order.\<close>

definition selects :: "selector \<Rightarrow> path \<Rightarrow> bool" where
  "selects sel p \<longleftrightarrow> sel \<noteq> [] \<and> p \<noteq> [] \<and> compound_matches (last sel) (last p) \<and> embeds (butlast sel) (butlast p)"

text \<open>Matching ancestors from the root on misses nothing.\<close>

fun subsequence_of :: "selector \<Rightarrow> path \<Rightarrow> bool" where
  "subsequence_of [] es = True"
| "subsequence_of (c # cs) [] = False"
| "subsequence_of (c # cs) (e # es) \<longleftrightarrow> compound_matches c e \<and> subsequence_of cs es \<or> subsequence_of (c # cs) es"

lemma embeds_weaken: "embeds (c # cs) es \<Longrightarrow> embeds cs es"
proof (induction es arbitrary: c cs)
  case (Cons e es)
  then show ?case by (cases cs) (auto split: if_splits)
qed simp

lemma subsequence_weaken: "subsequence_of (c # cs) es \<Longrightarrow> subsequence_of cs es"
proof (induction es arbitrary: c cs)
  case (Cons e es)
  then show ?case by (cases cs) auto
qed simp

lemma embeds_iff: "embeds cs es \<longleftrightarrow> subsequence_of cs es"
  by (induction cs es rule: embeds.induct) (auto dest: subsequence_weaken)

lemma embeds_compound: "embeds cs es \<Longrightarrow> c \<in> set cs \<Longrightarrow> \<exists>e \<in> set es. compound_matches c e"
  by (induction cs es rule: embeds.induct) (auto split: if_splits)

lemma selects_compound:
  assumes "selects sel p" and "c \<in> set sel" shows "\<exists>e \<in> set p. compound_matches c e"
proof (cases "c \<in> set (butlast sel)")
  case True
  then show ?thesis using assms embeds_compound [of "butlast sel" "butlast p" c] by (auto simp: selects_def dest: in_set_butlastD)
next
  case False
  then have "c = last sel" using assms by (metis append_butlast_last_id in_set_conv_decomp rotate1.simps(2) selects_def set_ConsD set_rotate1)
  then show ?thesis using assms(1) unfolding selects_def by (metis last_in_set)
qed

lemma subsequence_append: "subsequence_of cs p \<Longrightarrow> subsequence_of ds q \<Longrightarrow> subsequence_of (cs @ ds) (p @ q)"
proof (induction cs p rule: subsequence_of.induct)
  case (1 es)
  then show ?case
  proof (induction es)
    case (Cons e es)
    then show ?case by (cases ds) auto
  qed simp
qed auto

lemma embeds_append: "embeds cs p \<Longrightarrow> embeds ds q \<Longrightarrow> embeds (cs @ ds) (p @ q)"
  by (simp add: embeds_iff subsequence_append)

lemma embeds_one: "compound_matches c e \<Longrightarrow> embeds [c] (e # es)"
  by simp

lemma selects_last: "embeds cs p \<Longrightarrow> compound_matches c e \<Longrightarrow> selects (cs @ [c]) (p @ [e])"
  by (simp add: selects_def)

lemma compound_class: "compound_matches c e \<Longrightarrow> Cls x \<in> set c \<Longrightarrow> x \<in> set (el_classes e)"
  by (auto simp: compound_matches_def list_all_iff)

lemma scoped_mem:
  "(sel, d) \<in> set (scoped_declarations sheet) \<longleftrightarrow> (\<exists>sels ds. (sels, ds) \<in> set sheet \<and> sel \<in> set sels \<and> d \<in> set ds)"
  by (fastforce simp: scoped_declarations_def)

subsection \<open>The cascade\<close>

type_synonym weight = "bool \<times> nat \<times> nat"

fun specificity :: "simple_selector list \<Rightarrow> nat \<times> nat" where
  "specificity [] = (0, 0)"
| "specificity (s # ss) = (case specificity ss of (a, b) \<Rightarrow> (case s of
     Universal \<Rightarrow> (a, b) | Tag _ \<Rightarrow> (a, Suc b) | Pseudo_element _ \<Rightarrow> (a, Suc b)
   | Cls _ \<Rightarrow> (Suc a, b) | Pseudo_class _ \<Rightarrow> (Suc a, b)))"

definition weight_of :: "bool \<Rightarrow> selector \<Rightarrow> weight" where
  "weight_of important sel = (important, specificity (concat sel))"

fun at_most :: "weight \<Rightarrow> weight \<Rightarrow> bool" where
  "at_most (i, a, b) (i', a', b') \<longleftrightarrow>
     (if i = i' then (if a = a' then b \<le> b' else a < a') else i')"

text \<open>A later declaration wins over an earlier one that weighs as much.\<close>

definition prevails :: "(weight \<times> css_value) option \<Rightarrow> weight \<times> css_value \<Rightarrow> (weight \<times> css_value) option" where
  "prevails best new = (case best of None \<Rightarrow> Some new
     | Some old \<Rightarrow> if at_most (fst old) (fst new) then Some new else Some old)"

fun cascade ::
    "string \<Rightarrow> path \<Rightarrow> (selector \<times> css_declaration) list \<Rightarrow> (weight \<times> css_value) option \<Rightarrow> (weight \<times> css_value) option" where
  "cascade name p [] best = best"
| "cascade name p ((sel, name', v, important) # ds) best =
     cascade name p ds (if name' = name \<and> selects sel p then prevails best (weight_of important sel, v) else best)"

definition specified :: "stylesheet \<Rightarrow> string \<Rightarrow> path \<Rightarrow> css_value option" where
  "specified sheet name p = map_option snd (cascade name p (scoped_declarations sheet) None)"

lemma cascade_append: "cascade name p (ds @ ds') best = cascade name p ds' (cascade name p ds best)"
  by (induction name p ds best rule: cascade.induct) simp_all

lemma specified_append:
  "specified (s1 @ s2) name p =
   map_option snd (cascade name p (scoped_declarations s2) (cascade name p (scoped_declarations s1) None))"
  by (simp add: specified_def scoped_append cascade_append)

text \<open>Whether a declaration is about the property and the element.\<close>

definition applies :: "string \<Rightarrow> path \<Rightarrow> selector \<times> css_declaration \<Rightarrow> bool" where
  "applies name p d = (case d of (sel, name', _, _) \<Rightarrow> name' = name \<and> selects sel p)"

lemma cascade_none: "list_all (\<lambda>d. \<not> applies name p d) ds \<Longrightarrow> cascade name p ds best = best"
  by (induction name p ds best rule: cascade.induct) (auto simp: applies_def)

lemma cascade_winner:
  "cascade name p ds best = Some (w, v) \<Longrightarrow> best = Some (w, v) \<or>
   (\<exists>sel important. (sel, name, v, important) \<in> set ds \<and> selects sel p \<and> w = weight_of important sel)"
proof (induction name p ds best rule: cascade.induct)
  case (2 name p sel name' v' important ds best)
  show ?case using 2 by (fastforce simp: prevails_def split: if_splits option.splits)
qed simp

subsection \<open>What importance settles\<close>

definition unimportant :: "(weight \<times> css_value) option \<Rightarrow> bool" where
  "unimportant best \<longleftrightarrow> (case best of None \<Rightarrow> True | Some (w, _) \<Rightarrow> \<not> fst w)"

definition settles :: "string \<Rightarrow> path \<Rightarrow> selector \<times> css_declaration \<Rightarrow> bool" where
  "settles name p d = (case d of (_, _, _, important) \<Rightarrow> applies name p d \<and> important)"

lemma settles_pair: "settles name p (sel, name', v, important) \<longleftrightarrow> applies name p (sel, name', v, important) \<and> important"
  by (simp add: settles_def)

lemma unimportant_at_most: "at_most (False, sp) (True, sp')"
  by (cases sp; cases sp') simp

lemma prevails_important: "unimportant best \<Longrightarrow> prevails best (weight_of True sel, v) = Some (weight_of True sel, v)"
  by (cases best) (auto simp: unimportant_def prevails_def weight_of_def unimportant_at_most)

lemma prevails_unimportant: "unimportant best \<Longrightarrow> unimportant (prevails best (weight_of False sel, v))"
  by (auto simp: unimportant_def prevails_def weight_of_def split: option.splits)

lemma cascade_unimportant:
  "unimportant best \<Longrightarrow> list_all (\<lambda>(_, name', _, important). name' \<noteq> name \<or> \<not> important) ds \<Longrightarrow>
   unimportant (cascade name p ds best)"
  by (induction name p ds best rule: cascade.induct) (auto simp: prevails_unimportant)

lemma cascade_settled:
  "list_ex (settles name p) ds \<Longrightarrow> unimportant best \<Longrightarrow> unimportant best' \<Longrightarrow>
   cascade name p ds best = cascade name p ds best'"
proof (induction ds arbitrary: best best')
  case (Cons d ds)
  obtain sel name' v important where d: "d = (sel, name', v, important)" by (cases d)
  show ?case
  proof (cases "applies name p d")
    case True
    note here = True
    show ?thesis
    proof (cases important)
      case True
      then show ?thesis using here Cons.prems(2,3) by (simp add: d applies_def prevails_important)
    next
      case False
      then have "list_ex (settles name p) ds" using Cons.prems(1) by (simp add: settles_pair d)
      then have "cascade name p ds (prevails best (weight_of False sel, v)) =
          cascade name p ds (prevails best' (weight_of False sel, v))"
        by (rule Cons.IH) (simp_all add: prevails_unimportant Cons.prems(2,3))
      then show ?thesis using here False by (simp add: d applies_def)
    qed
  next
    case False
    then have "list_ex (settles name p) ds" using Cons.prems(1) by (simp add: settles_pair d)
    then have "cascade name p ds best = cascade name p ds best'"
      by (rule Cons.IH) (rule Cons.prems(2,3))+
    moreover have "cascade name p (d # ds) b = cascade name p ds b" for b
      using False unfolding d applies_def by (simp only: cascade.simps prod.case if_False)
    ultimately show ?thesis by (simp only:)
  qed
qed simp

text \<open>A sheet that declares nothing of the property as important.\<close>

definition yields_on :: "string \<Rightarrow> stylesheet \<Rightarrow> bool" where
  "yields_on name sheet = list_all (\<lambda>(_, name', _, important). name' \<noteq> name \<or> \<not> important) (scoped_declarations sheet)"

lemma important_wins:
  assumes "yields_on name host" and "list_ex (settles name p) (scoped_declarations sheet)"
  shows "specified (host @ sheet) name p = specified sheet name p"
proof -
  have n: "unimportant None" by (simp add: unimportant_def)
  then have "unimportant (cascade name p (scoped_declarations host) None)"
    using assms(1) by (simp add: yields_on_def cascade_unimportant)
  then show ?thesis using cascade_settled [OF assms(2) _ n] unfolding specified_append by (simp add: specified_def)
qed

subsection \<open>The heaviest declaration\<close>

lemma at_most_refl: "at_most w w"
  by (cases w) simp

lemma at_most_trans: "at_most u v \<Longrightarrow> at_most v w \<Longrightarrow> at_most u w"
  by (cases u; cases v; cases w) (auto split: if_splits)

lemma at_most_total: "\<not> at_most u v \<Longrightarrow> at_most v u"
  by (cases u; cases v) (auto split: if_splits)

text \<open>What is chosen weighs at least as much as what is already there and as every declaration that applies.\<close>

definition outweighs :: "(weight \<times> css_value) option \<Rightarrow> weight \<Rightarrow> bool" where
  "outweighs best w = (case best of None \<Rightarrow> False | Some (w', _) \<Rightarrow> at_most w w')"

lemma prevails_outweighs: "outweighs (prevails best new) (fst new)"
  by (cases new; cases best) (auto simp: prevails_def outweighs_def at_most_refl dest: at_most_total)

lemma prevails_keeps: "outweighs best w \<Longrightarrow> outweighs (prevails best new) w"
  by (cases new; cases best) (auto simp: prevails_def outweighs_def intro: at_most_trans)

lemma cascade_keeps: "outweighs best w \<Longrightarrow> outweighs (cascade name p ds best) w"
  by (induction name p ds best rule: cascade.induct) (simp_all add: prevails_keeps)

lemma cascade_outweighs:
  "(sel, name, v, important) \<in> set ds \<Longrightarrow> selects sel p \<Longrightarrow> outweighs (cascade name p ds best) (weight_of important sel)"
proof (induction name p ds best rule: cascade.induct)
  case (2 name p sel' name' v' important' ds best)
  show ?case
  proof (cases "(sel, name, v, important) = (sel', name', v', important')")
    case True
    then show ?thesis using 2(3) prevails_outweighs [of best "(weight_of important sel, v)"] by (simp add: cascade_keeps)
  next
    case False
    then have "(sel, name, v, important) \<in> set ds" using 2(2) by auto
    from 2(1) [OF this 2(3)] show ?thesis by (simp only: cascade.simps)
  qed
qed simp

text \<open>
  So one declaration that applies settles the value, when those as heavy that can be about the element give the same value.
\<close>

lemma cascade_value:
  assumes "(sel, name, v, important) \<in> set ds" and "selects sel p"
    and "\<And>sel' v' important'. (sel', name, v', important') \<in> set ds \<Longrightarrow> selects sel' p \<Longrightarrow>
      at_most (weight_of important sel) (weight_of important' sel') \<Longrightarrow> v' = v"
  shows "map_option snd (cascade name p ds None) = Some v"
proof -
  have heavy: "outweighs (cascade name p ds None) (weight_of important sel)" by (rule cascade_outweighs) (rule assms(1,2))+
  then obtain w v' where c: "cascade name p ds None = Some (w, v')" by (auto simp: outweighs_def split: option.splits)
  then obtain sel' important' where "(sel', name, v', important') \<in> set ds" "selects sel' p" "w = weight_of important' sel'"
    using cascade_winner by blast
  with heavy have "v' = v" by (intro assms(3)) (simp_all add: c outweighs_def)
  then show ?thesis by (simp add: c)
qed

text \<open>An element with some tag, classes and states.\<close>

definition an_element :: "string \<Rightarrow> string list \<Rightarrow> string list \<Rightarrow> element" where
  "an_element tag classes states = \<lparr>el_tag = tag, el_classes = classes, el_states = states, el_pseudo = None\<rparr>"

text \<open>Whether a compound can be about an element with that tag and some of these classes.\<close>

fun may_hold :: "string \<Rightarrow> string list \<Rightarrow> simple_selector \<Rightarrow> bool" where
  "may_hold tag classes (Tag t) = (t = tag)"
| "may_hold tag classes (Cls c) = (c \<in> set classes)"
| "may_hold tag classes (Pseudo_element _) = False"
| "may_hold tag classes _ = True"

definition may_be_about :: "string \<Rightarrow> string list \<Rightarrow> selector \<Rightarrow> bool" where
  "may_be_about tag classes sel = list_all (may_hold tag classes) (last sel)"

lemma holds_may: "holds (an_element tag cs st) s \<Longrightarrow> set cs \<subseteq> set classes \<Longrightarrow> may_hold tag classes s"
  by (cases s) (auto simp: an_element_def)

lemma selects_may:
  "selects sel (up @ [an_element tag cs st]) \<Longrightarrow> set cs \<subseteq> set classes \<Longrightarrow> may_be_about tag classes sel"
  by (auto simp: selects_def compound_matches_def may_be_about_def list_all_iff intro: holds_may)

text \<open>Whether every declaration of the property that can be about the element and is as heavy has the value.\<close>

definition agrees :: "string \<Rightarrow> string \<Rightarrow> string list \<Rightarrow> weight \<Rightarrow> css_value \<Rightarrow> selector \<times> css_declaration \<Rightarrow> bool" where
  "agrees name tag classes w v d = (case d of (sel, name', v', important) \<Rightarrow>
     if name' = name then if v' = v then True
       else if may_be_about tag classes sel then \<not> at_most w (weight_of important sel) else True
     else True)"

lemma agreed_value:
  assumes "list_all (agrees name tag classes (weight_of important sel) v) ds"
    and "(sel, name, v, important) \<in> set ds" and "selects sel (up @ [an_element tag cs st])" and "set cs \<subseteq> set classes"
  shows "map_option snd (cascade name (up @ [an_element tag cs st]) ds None) = Some v"
  using assms(2,3)
proof (rule cascade_value)
  fix sel' v' important'
  assume "(sel', name, v', important') \<in> set ds" and s: "selects sel' (up @ [an_element tag cs st])"
    and w: "at_most (weight_of important sel) (weight_of important' sel')"
  then have "agrees name tag classes (weight_of important sel) v (sel', name, v', important')"
    using assms(1) by (auto simp: list_all_iff)
  with selects_may [OF s assms(4)] w show "v' = v" by (simp add: agrees_def split: if_splits)
qed

subsection \<open>Colours that stand out\<close>

text \<open>
  The brightness of a colour, in thousandths, and the difference the W3C's accessibility techniques ask of a text and its background.
\<close>

definition brightness :: "int \<Rightarrow> int" where
  "brightness c = 299 * (c div 65536) + 587 * (c div 256 mod 256) + 114 * (c mod 256)"

definition READABLE_DIFFERENCE :: int where
  "READABLE_DIFFERENCE = 125000"

fun stands_out :: "css_value \<Rightarrow> css_value \<Rightarrow> bool" where
  "stands_out (Colour c) (Colour b) \<longleftrightarrow> READABLE_DIFFERENCE \<le> \<bar>brightness c - brightness b\<bar>"
| "stands_out _ _ \<longleftrightarrow> False"

end
