(* ===== verification/SwaggerUi.thy ===== *)
theory SwaggerUi
  imports Prelude
begin

section \<open>The script of the Swagger page\<close>

text \<open>
  \<^verbatim>\<open>swagger/index.ts\<close>: the options of Swagger UI and the script every service mounts beside it, which adds a
  copy button to each example and a theme toggle to the top bar.  The script is held in the source as
  lines of text; it is translated as the program it is.

  The page is what the script reads and writes of it: whether the root element has the dark class, the
  stored theme, the browser's preference, the top bar Swagger UI has rendered, if any, and
  the rendered examples.  An element the script creates is a record of what it sets on it.  What Swagger UI
  renders, and when, is a step the script does not control.
\<close>

subsection \<open>Options\<close>

record swagger_ui_options =
  sw_persistAuthorization :: bool
  sw_docExpansion :: string
  sw_tagsSorter :: string
  sw_operationsSorter :: string
  sw_defaultModelsExpandDepth :: int

definition SWAGGER_UI_OPTIONS :: swagger_ui_options where
  "SWAGGER_UI_OPTIONS = \<lparr>sw_persistAuthorization = True, sw_docExpansion = ''none'', sw_tagsSorter = ''alpha'',
     sw_operationsSorter = ''alpha'', sw_defaultModelsExpandDepth = -1\<rparr>"

definition SWAGGER_UI_CUSTOM_JS_PATH :: string where
  "SWAGGER_UI_CUSTOM_JS_PATH = ''/docs/swagger-ui.js''"

subsection \<open>The page\<close>

record theme_toggle =
  tg_id :: nat
  tg_text :: string
  tg_ariaLabel :: string

text \<open>The top bar, with the toggles in it and in its wrapper, when it has one.\<close>

record topbar =
  tb_wrapper :: "theme_toggle list option"
  tb_toggles :: "theme_toggle list"

record copy_button =
  cb_text :: string
  cb_isCopied :: bool
  cb_timers :: nat

text \<open>An example: the \<open>innerText\<close> and \<open>textContent\<close> of its first source element, and its copy button.\<close>

record model_example =
  ex_source :: "(string option \<times> string option) option"
  ex_button :: "copy_button option"

record page =
  pg_darkClass :: bool
  pg_storedTheme :: "string option"
  pg_prefersDark :: bool
  pg_topbar :: "topbar option"
  pg_examples :: "model_example list"
  pg_clipboard :: "string option"
  pg_nextId :: nat
  pg_polling :: bool

subsection \<open>The copy buttons\<close>

definition copy_button_new :: copy_button where
  "copy_button_new = \<lparr>cb_text = ''Copy JSON'', cb_isCopied = False, cb_timers = 0\<rparr>"

definition add_copy_button :: "model_example \<Rightarrow> model_example" where
  "add_copy_button e =
     (if ex_button e \<noteq> None then e
      else if ex_source e = None then e
      else e\<lparr>ex_button := Some copy_button_new\<rparr>)"

definition addCopyButtons :: "page \<Rightarrow> page" where
  "addCopyButtons p = p\<lparr>pg_examples := map add_copy_button (pg_examples p)\<rparr>"

definition source_text :: "string option \<times> string option \<Rightarrow> string" where
  "source_text source = nullish (fst source) (nullish (snd source) '''')"

text \<open>
  The click handler once the clipboard has answered, accepting or refusing, and the timer it starts.
\<close>

definition copy_settles :: "bool \<Rightarrow> copy_button \<Rightarrow> copy_button" where
  "copy_settles accepted b =
     (if accepted then \<lparr>cb_text = ''Copied'', cb_isCopied = True, cb_timers = Suc (cb_timers b)\<rparr>
      else b\<lparr>cb_text := ''Copy failed''\<rparr>)"

definition copy_timer :: "copy_button \<Rightarrow> copy_button" where
  "copy_timer b = \<lparr>cb_text = ''Copy JSON'', cb_isCopied = False, cb_timers = cb_timers b - 1\<rparr>"

definition copy_clicked :: "nat \<Rightarrow> bool \<Rightarrow> page \<Rightarrow> page" where
  "copy_clicked k accepted p = (let e = pg_examples p ! k in
     p\<lparr>pg_examples := (pg_examples p)[k := e\<lparr>ex_button := map_option (copy_settles accepted) (ex_button e)\<rparr>],
       pg_clipboard := (if accepted then map_option source_text (ex_source e) else pg_clipboard p)\<rparr>)"

definition copy_timer_fires :: "nat \<Rightarrow> page \<Rightarrow> page" where
  "copy_timer_fires k p = (let e = pg_examples p ! k in
     p\<lparr>pg_examples := (pg_examples p)[k := e\<lparr>ex_button := map_option copy_timer (ex_button e)\<rparr>]\<rparr>)"

subsection \<open>The theme\<close>

definition resolveInitialDark :: "page \<Rightarrow> bool" where
  "resolveInitialDark p = (let saved = pg_storedTheme p in
     if saved = Some ''dark'' then True
     else if saved = Some ''light'' then False
     else pg_prefersDark p)"

text \<open>\<open>setTheme\<close>, on the page and on the button it belongs to.\<close>

definition theme_page :: "bool \<Rightarrow> page \<Rightarrow> page" where
  "theme_page dark p = p\<lparr>pg_darkClass := dark, pg_storedTheme := Some (if dark then ''dark'' else ''light'')\<rparr>"

definition theme_button :: "bool \<Rightarrow> theme_toggle \<Rightarrow> theme_toggle" where
  "theme_button dark b = b\<lparr>tg_text := (if dark then ''Light'' else ''Dark''),
     tg_ariaLabel := (if dark then ''Switch to light mode'' else ''Switch to dark mode'')\<rparr>"

text \<open>The container is the wrapper, or the bar when it has none.\<close>

definition container_toggles :: "topbar \<Rightarrow> theme_toggle list" where
  "container_toggles tb = nullish (tb_wrapper tb) (tb_toggles tb)"

definition append_toggle :: "theme_toggle \<Rightarrow> topbar \<Rightarrow> topbar" where
  "append_toggle b tb = (case tb_wrapper tb of
     Some ts \<Rightarrow> tb\<lparr>tb_wrapper := Some (ts @ [b])\<rparr>
   | None \<Rightarrow> tb\<lparr>tb_toggles := tb_toggles tb @ [b]\<rparr>)"

text \<open>The toggles of the document.\<close>

definition document_toggles :: "page \<Rightarrow> theme_toggle list" where
  "document_toggles p = (case pg_topbar p of
     None \<Rightarrow> [] | Some tb \<Rightarrow> tb_toggles tb @ nullish (tb_wrapper tb) [])"

definition addThemeToggle :: "page \<Rightarrow> page" where
  "addThemeToggle p = (case pg_topbar p of
     None \<Rightarrow> p
   | Some tb \<Rightarrow>
       if container_toggles tb \<noteq> [] then p
       else let dark = resolveInitialDark p;
                button = theme_button dark \<lparr>tg_id = pg_nextId p, tg_text = '''', tg_ariaLabel = ''''\<rparr>
            in (theme_page dark p)\<lparr>pg_topbar := Some (append_toggle button tb), pg_nextId := Suc (pg_nextId p)\<rparr>)"

text \<open>The click handler of the toggle with handle \<open>i\<close>.\<close>

definition toggle_clicked :: "nat \<Rightarrow> page \<Rightarrow> page" where
  "toggle_clicked i p =
     (let dark = (\<not> pg_darkClass p); themed = map (\<lambda>b. if tg_id b = i then theme_button dark b else b) in
      (theme_page dark p)\<lparr>pg_topbar := map_option (\<lambda>tb. tb\<lparr>tb_wrapper := map_option themed (tb_wrapper tb),
        tb_toggles := themed (tb_toggles tb)\<rparr>) (pg_topbar p)\<rparr>)"

subsection \<open>Mounting\<close>

text \<open>\<open>pg_polling\<close> is whether a timer that runs \<open>mountControls\<close> again is pending.\<close>

definition mountControls :: "page \<Rightarrow> page" where
  "mountControls p = (let p' = addThemeToggle (addCopyButtons p) in
     p'\<lparr>pg_polling := (document_toggles p' = [])\<rparr>)"

definition observed :: "page \<Rightarrow> page" where
  "observed p = addThemeToggle (addCopyButtons p)"

definition script_starts :: "page \<Rightarrow> page" where
  "script_starts p = mountControls p"

text \<open>A page as it is loaded: nothing rendered, no dark class, the theme stored by earlier visits.\<close>

definition loaded_page :: "string option \<Rightarrow> bool \<Rightarrow> page" where
  "loaded_page stored prefersDark =
     \<lparr>pg_darkClass = False, pg_storedTheme = stored, pg_prefersDark = prefersDark, pg_topbar = None, pg_examples = [],
      pg_clipboard = None, pg_nextId = 0, pg_polling = False\<rparr>"

definition bare_topbar :: "bool \<Rightarrow> topbar" where
  "bare_topbar wrapped = \<lparr>tb_wrapper = (if wrapped then Some [] else None), tb_toggles = []\<rparr>"

text \<open>
  The life of a page.  Swagger UI renders and re-renders its parts, without the script's elements; the observer and the
  poll run the script; the user clicks; the browser's preference changes.
\<close>

inductive page_step :: "page \<Rightarrow> page \<Rightarrow> bool" where
  renders_topbar: "page_step p (p\<lparr>pg_topbar := map_option bare_topbar tb\<rparr>)"
| renders_examples: "list_all (\<lambda>e. ex_button e = None) es \<Longrightarrow> page_step p (p\<lparr>pg_examples := es\<rparr>)"
| observes: "page_step p (observed p)"
| polls: "pg_polling p \<Longrightarrow> page_step p (mountControls p)"
| clicks: "i \<in> set (map tg_id (document_toggles p)) \<Longrightarrow> page_step p (toggle_clicked i p)"
| copies: "k < length (pg_examples p) \<Longrightarrow> ex_button (pg_examples p ! k) \<noteq> None \<Longrightarrow>
    page_step p (copy_clicked k accepted p)"
| timer: "k < length (pg_examples p) \<Longrightarrow> ex_button (pg_examples p ! k) = Some b \<Longrightarrow> 0 < cb_timers b \<Longrightarrow>
    page_step p (copy_timer_fires k p)"
| preference: "page_step p (p\<lparr>pg_prefersDark := dark\<rparr>)"

inductive_cases page_stepE: "page_step p p'"

lemmas page_defs = addCopyButtons_def addThemeToggle_def toggle_clicked_def mountControls_def observed_def
  copy_clicked_def copy_timer_fires_def theme_page_def Let_def

subsection \<open>What holds of every page\<close>

definition theme_name :: "bool \<Rightarrow> string" where
  "theme_name dark = (if dark then ''dark'' else ''light'')"

definition toggle_ok :: "bool \<Rightarrow> nat \<Rightarrow> theme_toggle \<Rightarrow> bool" where
  "toggle_ok dark n b \<longleftrightarrow> b = theme_button dark b \<and> tg_id b < n"

definition topbar_ok :: "topbar \<Rightarrow> bool" where
  "topbar_ok tb \<longleftrightarrow> tb_wrapper tb = None \<or> tb_toggles tb = []"

definition button_ok :: "copy_button \<Rightarrow> bool" where
  "button_ok b \<longleftrightarrow> (if 0 < cb_timers b then cb_text b \<in> {''Copy JSON'', ''Copied'', ''Copy failed''}
     else cb_text b \<in> {''Copy JSON'', ''Copy failed''} \<and> \<not> cb_isCopied b)"

text \<open>Once a toggle has been mounted, the stored theme is the one shown, whatever happens to the bar.\<close>

definition page_ok :: "page \<Rightarrow> bool" where
  "page_ok p \<longleftrightarrow>
     length (document_toggles p) \<le> 1 \<and> list_all (toggle_ok (pg_darkClass p) (pg_nextId p)) (document_toggles p) \<and>
     pred_option topbar_ok (pg_topbar p) \<and>
     (0 < pg_nextId p \<longrightarrow> pg_storedTheme p = Some (theme_name (pg_darkClass p))) \<and>
     list_all (\<lambda>e. pred_option button_ok (ex_button e)) (pg_examples p)"

lemma theme_button_idem [simp]: "theme_button d (theme_button d' b) = theme_button d b"
  by (simp add: theme_button_def)

lemma tg_id_theme [simp]: "tg_id (theme_button d b) = tg_id b"
  by (simp add: theme_button_def)

lemma add_copy_button_idem: "add_copy_button (add_copy_button e) = add_copy_button e"
  by (simp add: add_copy_button_def)

lemma addCopyButtons_ok: "page_ok p \<Longrightarrow> page_ok (addCopyButtons p)"
  by (auto simp: page_ok_def addCopyButtons_def document_toggles_def toggle_ok_def list_all_iff add_copy_button_def
      button_ok_def copy_button_new_def)

lemma container_toggles_ok: "topbar_ok tb \<Longrightarrow> container_toggles tb = tb_toggles tb @ nullish (tb_wrapper tb) []"
  by (cases "tb_wrapper tb") (auto simp: topbar_ok_def container_toggles_def)

lemma append_toggle_ok:
  assumes "topbar_ok tb" and "container_toggles tb = []"
  shows "topbar_ok (append_toggle b tb)"
    and "tb_toggles (append_toggle b tb) @ nullish (tb_wrapper (append_toggle b tb)) [] = [b]"
  using assms by (auto simp: topbar_ok_def append_toggle_def container_toggles_def split: option.splits)

lemma addThemeToggle_ok:
  assumes "page_ok p"
  shows "page_ok (addThemeToggle p)"
proof (cases "pg_topbar p")
  case (Some tb)
  show ?thesis
  proof (cases "container_toggles tb = []")
    case True
    have "topbar_ok tb" using assms Some by (simp add: page_ok_def)
    from append_toggle_ok [OF this True] Some True assms show ?thesis
      by (simp add: page_ok_def addThemeToggle_def theme_page_def Let_def document_toggles_def toggle_ok_def
          theme_name_def)
  qed (use Some assms in \<open>simp add: addThemeToggle_def\<close>)
qed (use assms in \<open>simp add: addThemeToggle_def\<close>)

lemma observed_ok: "page_ok p \<Longrightarrow> page_ok (observed p)"
  by (simp add: observed_def addThemeToggle_ok addCopyButtons_ok)

lemma mountControls_ok: "page_ok p \<Longrightarrow> page_ok (mountControls p)"
  using addThemeToggle_ok [OF addCopyButtons_ok, of p]
  by (simp add: mountControls_def Let_def page_ok_def document_toggles_def toggle_ok_def)

lemma copy_ok: "button_ok b \<Longrightarrow> button_ok (copy_settles accepted b)" "0 < cb_timers b \<Longrightarrow> button_ok (copy_timer b)"
  by (auto simp: button_ok_def copy_settles_def copy_timer_def)

text \<open>The click reaches the one toggle there is.\<close>

lemma toggle_clicked_ok:
  assumes "page_ok p" and "i \<in> set (map tg_id (document_toggles p))"
  shows "page_ok (toggle_clicked i p)"
proof -
  obtain tb where tb: "pg_topbar p = Some tb"
    using assms(2) by (cases "pg_topbar p") (auto simp: document_toggles_def)
  then have all: "document_toggles p = tb_toggles tb @ nullish (tb_wrapper tb) []"
    by (simp add: document_toggles_def)
  obtain b where one: "document_toggles p = [b]"
    using assms by (cases "document_toggles p") (auto simp: page_ok_def)
  have b: "tg_id b = i" "tg_id b < pg_nextId p" using assms by (simp_all add: page_ok_def toggle_ok_def one)
  have bar: "(tb_wrapper tb = Some [b] \<and> tb_toggles tb = []) \<or> (tb_toggles tb = [b] \<and> nullish (tb_wrapper tb) [] = [])"
    using all one by (cases "tb_wrapper tb"; cases "tb_toggles tb") auto
  then show ?thesis using assms(1) tb b
    by (cases "tb_wrapper tb")
      (auto simp: page_ok_def toggle_clicked_def theme_page_def Let_def document_toggles_def toggle_ok_def
        topbar_ok_def theme_name_def)
qed

lemma page_step_ok: "page_step p p' \<Longrightarrow> page_ok p \<Longrightarrow> page_ok p'"
proof (induction rule: page_step.induct)
  case (renders_topbar p tb)
  then show ?case
    by (cases tb) (auto simp: page_ok_def document_toggles_def bare_topbar_def topbar_ok_def)
next
  case (copies k p accepted)
  then show ?case
    by (auto simp: page_ok_def copy_clicked_def Let_def document_toggles_def toggle_ok_def list_all_length nth_list_update
        option.pred_map comp_def copy_ok elim: option.pred_mono_strong)
next
  case (timer k p b)
  then show ?case
    by (auto simp: page_ok_def copy_timer_fires_def Let_def document_toggles_def toggle_ok_def list_all_length
        nth_list_update copy_ok)
next
  case (renders_examples es p)
  then show ?case by (auto simp: page_ok_def document_toggles_def list_all_iff)
next
  case (preference p dark)
  then show ?case by (simp add: page_ok_def document_toggles_def)
qed (simp_all add: observed_ok mountControls_ok toggle_clicked_ok)

lemma script_starts_ok: "page_ok (script_starts (loaded_page stored prefersDark))"
  unfolding script_starts_def by (rule mountControls_ok) (simp add: page_ok_def loaded_page_def document_toggles_def)

lemma page_steps_ok: "page_step\<^sup>*\<^sup>* p p' \<Longrightarrow> page_ok p \<Longrightarrow> page_ok p'"
  by (induction rule: rtranclp_induct) (auto intro: page_step_ok)

lemma mounted_toggles:
  assumes "page_ok p" and "pg_topbar p \<noteq> None"
  shows "length (document_toggles (observed p)) = 1" and "0 < pg_nextId (observed p)"
proof -
  let ?q = "addCopyButtons p"
  obtain tb where tb: "pg_topbar ?q = Some tb" using assms(2) by (auto simp: addCopyButtons_def)
  have ok: "page_ok ?q" by (rule addCopyButtons_ok [OF assms(1)])
  then have shape: "topbar_ok tb" using tb by (simp add: page_ok_def)
  have "length (document_toggles (observed p)) = 1 \<and> 0 < pg_nextId (observed p)"
  proof (cases "container_toggles tb = []")
    case True
    then show ?thesis using append_toggle_ok(2) [OF shape True] tb
      by (simp add: observed_def addThemeToggle_def theme_page_def Let_def document_toggles_def)
  next
    case False
    then have "document_toggles ?q \<noteq> []" using tb container_toggles_ok [OF shape] by (simp add: document_toggles_def)
    then obtain b where "document_toggles ?q = [b]"
      using ok by (cases "document_toggles ?q") (auto simp: page_ok_def)
    moreover from this have "0 < pg_nextId ?q" using ok by (simp add: page_ok_def toggle_ok_def)
    ultimately show ?thesis using False tb by (simp add: observed_def addThemeToggle_def)
  qed
  then show "length (document_toggles (observed p)) = 1" and "0 < pg_nextId (observed p)" by simp_all
qed

lemma addThemeToggle_settled:
  assumes "pred_option topbar_ok (pg_topbar p)"
  shows "addThemeToggle (addThemeToggle p) = addThemeToggle p"
proof (cases "pg_topbar p")
  case (Some tb)
  then show ?thesis using assms append_toggle_ok [of tb]
    by (cases "container_toggles tb = []")
      (auto simp: addThemeToggle_def theme_page_def Let_def container_toggles_ok)
qed (simp add: addThemeToggle_def)

lemma addCopyButtons_settled: "addCopyButtons (addThemeToggle (addCopyButtons p)) = addThemeToggle (addCopyButtons p)"
proof -
  have "pg_examples (addThemeToggle q) = pg_examples q" for q
    by (simp add: addThemeToggle_def theme_page_def Let_def split: option.split)
  moreover have "q\<lparr>pg_examples := pg_examples q\<rparr> = q" for q :: page by simp
  ultimately show ?thesis
    by (simp add: addCopyButtons_def comp_def add_copy_button_idem)
qed

subsection \<open>Properties\<close>

text \<open>
  C38: the toggle says what the page shows, and the choice outlives the page.  However Swagger UI re-renders, the
  observer and the poll interleave and the user clicks, there is at most one toggle; its text and label
  name the theme that is not shown; the stored theme is the one shown; and a later visit, on a browser that
  prefers either, begins with that theme.  A click changes it.
\<close>

theorem theme_controls_agree:
  assumes "page_step\<^sup>*\<^sup>* (script_starts (loaded_page stored prefersDark)) p" and "document_toggles p = b # bs"
  shows "bs = [] \<and> tg_text b = (if pg_darkClass p then ''Light'' else ''Dark'') \<and>
    tg_ariaLabel b = (if pg_darkClass p then ''Switch to light mode'' else ''Switch to dark mode'') \<and>
    pg_darkClass (observed ((script_starts (loaded_page (pg_storedTheme p) prefers))\<lparr>pg_topbar := Some (bare_topbar w)\<rparr>)) =
      pg_darkClass p \<and>
    pg_darkClass (toggle_clicked (tg_id b) p) = (\<not> pg_darkClass p)"
proof -
  have ok: "page_ok p" by (rule page_steps_ok [OF assms(1) script_starts_ok])
  then have b: "bs = []" "b = theme_button (pg_darkClass p) b" "0 < pg_nextId p"
    and stored: "pg_storedTheme p = Some (theme_name (pg_darkClass p))"
    using assms(2) by (auto simp: page_ok_def toggle_ok_def)
  have "tg_text b = (if pg_darkClass p then ''Light'' else ''Dark'')"
    "tg_ariaLabel b = (if pg_darkClass p then ''Switch to light mode'' else ''Switch to dark mode'')"
    by (subst b(2), simp add: theme_button_def)+
  then show ?thesis using b(1) stored
    by (simp add: script_starts_def page_defs loaded_page_def document_toggles_def container_toggles_def
        bare_topbar_def resolveInitialDark_def theme_name_def)
qed

lemma visit_mounts:
  "page_step\<^sup>*\<^sup>* (script_starts (loaded_page stored prefersDark))
     (observed ((script_starts (loaded_page stored prefersDark))\<lparr>pg_topbar := Some (bare_topbar w)\<rparr>))"
  using renders_topbar [of "script_starts (loaded_page stored prefersDark)" "Some w"]
  by (intro converse_rtranclp_into_rtranclp [OF _ r_into_rtranclp [of page_step, OF observes]]) simp

lemma theme_controls_agree_witness:
  "tg_text (hd (document_toggles (observed ((script_starts (loaded_page (Some ''dark'') False))\<lparr>pg_topbar := Some (bare_topbar True)\<rparr>)))) =
     ''Light''"
proof -
  let ?p = "observed ((script_starts (loaded_page (Some ''dark'') False))\<lparr>pg_topbar := Some (bare_topbar True)\<rparr>)"
  have "document_toggles ?p = hd (document_toggles ?p) # tl (document_toggles ?p)" and "pg_darkClass ?p"
    by (simp_all add: script_starts_def page_defs loaded_page_def document_toggles_def container_toggles_def
        bare_topbar_def resolveInitialDark_def append_toggle_def)
  from theme_controls_agree [OF visit_mounts this(1)] this(2) show ?thesis by simp
qed

text \<open>
  The script comes to rest.  A run of the observer leaves nothing for the run its own changes cause, so
  the observer wakes itself at most once; and once Swagger UI has rendered its bar, the next poll, or the
  observer before it, mounts the one toggle, and the polling ends.
\<close>

theorem mounting_comes_to_rest:
  assumes "page_step\<^sup>*\<^sup>* (script_starts (loaded_page stored prefersDark)) p"
  shows "observed (observed p) = observed p \<and>
    pg_polling (mountControls p) = (pg_topbar p = None) \<and>
    length (document_toggles (mountControls p)) = (if pg_topbar p = None then 0 else 1) \<and>
    mountControls (mountControls p) = mountControls p"
proof -
  have ok: "page_ok p" by (rule page_steps_ok [OF assms script_starts_ok])
  have shape: "pred_option topbar_ok (pg_topbar (addCopyButtons p))"
    using addCopyButtons_ok [OF ok] by (simp add: page_ok_def)
  have rest: "observed (observed p) = observed p"
    by (simp add: observed_def addCopyButtons_settled addThemeToggle_settled [OF shape])
  have mount: "mountControls q = (observed q)\<lparr>pg_polling := (document_toggles (observed q) = [])\<rparr>" for q
    by (simp add: mountControls_def observed_def Let_def)
  have poll: "observed (q\<lparr>pg_polling := v\<rparr>) = (observed q)\<lparr>pg_polling := v\<rparr>" for q v
    by (simp add: observed_def addCopyButtons_def addThemeToggle_def theme_page_def resolveInitialDark_def Let_def
        split: option.split)
  have tog: "document_toggles (q\<lparr>pg_polling := v\<rparr>) = document_toggles q" for q v
    by (simp add: document_toggles_def)
  have none: "document_toggles (observed p) = []" if "pg_topbar p = None"
    using that by (simp add: observed_def addCopyButtons_def addThemeToggle_def document_toggles_def)
  have count: "length (document_toggles (observed p)) = (if pg_topbar p = None then 0 else 1)"
    using none mounted_toggles(1) [OF ok] by simp
  then have "(document_toggles (observed p) = []) = (pg_topbar p = None)"
    by (metis length_0_conv zero_neq_one)
  then show ?thesis using rest count by (simp add: mount poll tog)
qed

lemma mounting_comes_to_rest_witness:
  "length (document_toggles (mountControls (observed ((script_starts (loaded_page None True))\<lparr>pg_topbar := Some (bare_topbar False)\<rparr>)))) = 1"
proof -
  have "pg_topbar (observed ((script_starts (loaded_page None True))\<lparr>pg_topbar := Some (bare_topbar False)\<rparr>)) \<noteq> None"
    by (simp add: observed_def addCopyButtons_def addThemeToggle_def theme_page_def Let_def)
  then show ?thesis using mounting_comes_to_rest [OF visit_mounts [of None True False]] by presburger
qed

text \<open>
  The first visit inherits the browser's theme, and keeps it.  With nothing stored, a browser that prefers dark gets
  the dark page, though nobody chose it; what it got is stored as if chosen, so that when the browser's preference
  changes, this visit and the next stay as they were.
\<close>

theorem first_visit_inherits_browser_theme:
  "let p = observed ((script_starts (loaded_page None prefersDark))\<lparr>pg_topbar := Some (bare_topbar w)\<rparr>);
       again = observed ((script_starts (loaded_page (pg_storedTheme p) (\<not> prefersDark)))\<lparr>pg_topbar := Some (bare_topbar w)\<rparr>)
   in pg_darkClass p = prefersDark \<and> pg_storedTheme p = Some (if prefersDark then ''dark'' else ''light'') \<and>
      pg_darkClass (observed (p\<lparr>pg_prefersDark := \<not> prefersDark\<rparr>)) = prefersDark \<and>
      pg_darkClass again = prefersDark"
  by (cases w) (simp_all add: script_starts_def page_defs loaded_page_def document_toggles_def container_toggles_def
      bare_topbar_def resolveInitialDark_def append_toggle_def)

text \<open>
  A copy button never claims success without a timer pending to take the claim back; when no timer is, it
  offers to copy or says that the last copy failed.
\<close>

lemma copy_button_claims_expire:
  assumes "page_step\<^sup>*\<^sup>* (script_starts (loaded_page stored prefersDark)) p" and "k < length (pg_examples p)"
    and "ex_button (pg_examples p ! k) = Some b"
  shows "cb_isCopied b \<or> cb_text b = ''Copied'' \<Longrightarrow> 0 < cb_timers b"
    and "cb_text b \<in> {''Copy JSON'', ''Copied'', ''Copy failed''}"
proof -
  have "page_ok p" by (rule page_steps_ok [OF assms(1) script_starts_ok])
  then have "button_ok b" using assms(2,3) by (auto simp: page_ok_def list_all_length)
  then show "cb_isCopied b \<or> cb_text b = ''Copied'' \<Longrightarrow> 0 < cb_timers b"
    and "cb_text b \<in> {''Copy JSON'', ''Copied'', ''Copy failed''}"
    by (auto simp: button_ok_def split: if_splits)
qed

text \<open>A second click within the delay is undone by the timer of the first.\<close>

lemma second_claim_is_cut_short:
  "cb_text (copy_timer (copy_settles True (copy_settles True copy_button_new))) = ''Copy JSON'' \<and>
   cb_timers (copy_timer (copy_settles True (copy_settles True copy_button_new))) = 1"
  by (simp add: copy_timer_def copy_settles_def copy_button_new_def)

end
