(* ===== verification/Stylesheet.thy ===== *)
theory Stylesheet
  imports Cascade SwaggerUi
begin

section \<open>The style sheet of the Swagger page\<close>

text \<open>
  \<^verbatim>\<open>SWAGGER_UI_CUSTOM_CSS\<close> of \<^verbatim>\<open>swagger/index.ts\<close>, rule by rule: nine tables in the order of the source, each a list of
  rules with their selectors and declarations.  The last three are behind the class the script's toggle puts on the
  root element.  Proved of them, over the cascade: where the colour of a method is and is not, for any page and any nesting, and three
  texts that keep the colours of the light theme when the page is switched to the dark one.
\<close>

subsection \<open>The rules\<close>

definition css_page :: stylesheet where
  "css_page =
    [([[[Tag ''html'']], [[Tag ''body'']], [[Cls ''swagger-ui'']]],
      [(''background'', Colour 0xffffff, True), (''color'', Colour 0x0f172a, True)]),
     ([[[Cls ''swagger-ui'']]],
      [(''max-width'', Text ''1120px'', False), (''margin'', Text ''0 auto'', False),
       (''padding'', Text ''0 20px 56px'', False),
       (''font-family'', Text ''ui-sans-serif, system-ui, -apple-system, BlinkMacSystemFont, \"Segoe UI\", sans-serif'', False),
       (''font-size'', Text ''14px'', False), (''line-height'', Text ''1.5'', False)]),
     ([[[Cls ''swagger-ui''], [Cls ''wrapper'']]],
      [(''max-width'', Text ''1120px'', False), (''padding'', Text ''0'', False)]),
     ([[[Cls ''swagger-ui''], [Cls ''topbar'']]],
      [(''min-height'', Text ''56px'', False), (''margin'', Text ''0 -20px 8px'', False),
       (''padding'', Text ''0 20px'', False), (''background'', Colour 0x0f172a, True),
       (''border-bottom'', Text ''1px solid #0f172a'', True), (''box-shadow'', Text ''none'', True)]),
     ([[[Cls ''swagger-ui''], [Cls ''topbar''], [Cls ''wrapper'']]],
      [(''display'', Text ''flex'', False), (''align-items'', Text ''center'', False),
       (''gap'', Text ''16px'', False), (''min-height'', Text ''56px'', False), (''padding'', Text ''0'', False)]),
     ([[[Cls ''swagger-ui''], [Cls ''topbar''], [Tag ''a'']],
       [[Cls ''swagger-ui''], [Cls ''topbar''], [Cls ''link'']]],
      [(''display'', Text ''flex'', False), (''align-items'', Text ''center'', False),
       (''min-height'', Text ''56px'', False), (''color'', Colour 0xf8fafc, True),
       (''font-weight'', Text ''650'', False), (''letter-spacing'', Text ''0.01em'', False)]),
     ([[[Cls ''swagger-ui''], [Cls ''topbar''], [Cls ''download-url-wrapper'']]],
      [(''display'', Text ''none'', True)]),
     ([[[Cls ''swagger-ui''], [Cls ''topbar''], [Cls ''link''], [Tag ''img'']]],
      [(''display'', Text ''none'', True)]),
     ([[[Cls ''swagger-ui''], [Cls ''info'']]],
      [(''margin'', Text ''28px 0 20px'', True), (''padding'', Text ''0'', True), (''border'', Text ''0'', True),
       (''border-radius'', Text ''0'', True), (''background'', Transparent, True),
       (''box-shadow'', Text ''none'', True)]),
     ([[[Cls ''swagger-ui''], [Cls ''info''], [Cls ''title'']]],
      [(''margin'', Text ''0 0 10px'', False), (''color'', Colour 0x0f172a, True),
       (''font-size'', Text ''26px'', True), (''font-weight'', Text ''750'', True),
       (''letter-spacing'', Text ''-0.03em'', True)]),
     ([[[Cls ''swagger-ui''], [Cls ''info''], [Cls ''title''], [Tag ''small'']]],
      [(''display'', Text ''inline-flex'', False), (''align-items'', Text ''center'', False),
       (''margin-left'', Text ''8px'', False), (''padding'', Text ''2px 8px'', False),
       (''border'', Text ''1px solid #e2e8f0'', False), (''border-radius'', Text ''999px'', False),
       (''background'', Colour 0xf8fafc, True), (''color'', Colour 0x475569, True),
       (''font-size'', Text ''11px'', True), (''font-weight'', Text ''650'', False),
       (''letter-spacing'', Text ''0.02em'', False), (''vertical-align'', Text ''middle'', False)]),
     ([[[Cls ''swagger-ui''], [Cls ''info''], [Cls ''description'']], [[Cls ''swagger-ui''], [Cls ''markdown'']],
       [[Cls ''swagger-ui''], [Cls ''renderedMarkdown'']]],
      [(''max-width'', Text ''68ch'', False), (''color'', Colour 0x475569, True),
       (''font-size'', Text ''14px'', False), (''line-height'', Text ''1.65'', False)]),
     ([[[Cls ''swagger-ui''], [Cls ''info''], [Tag ''a'']],
       [[Cls ''swagger-ui''], [Cls ''markdown''], [Tag ''a'']],
       [[Cls ''swagger-ui''], [Cls ''renderedMarkdown''], [Tag ''a'']]],
      [(''color'', Colour 0x2563eb, True), (''font-weight'', Text ''600'', False)]),
     ([[[Cls ''swagger-ui''], [Cls ''markdown''], [Tag ''code'']],
       [[Cls ''swagger-ui''], [Cls ''renderedMarkdown''], [Tag ''code'']]],
      [(''padding'', Text ''1px 5px'', False), (''border'', Text ''1px solid #e2e8f0'', False),
       (''border-radius'', Text ''4px'', False), (''background'', Colour 0xf8fafc, True),
       (''color'', Colour 0x0f172a, True), (''font-size'', Text ''12px'', False)]),
     ([[[Cls ''swagger-ui''], [Tag ''section'', Cls ''models'']]],
      [(''margin-top'', Text ''28px'', False), (''border'', Text ''1px solid #e2e8f0'', True),
       (''border-radius'', Text ''10px'', True), (''background'', Colour 0xffffff, True),
       (''box-shadow'', Text ''none'', True)]),
     ([[[Cls ''swagger-ui''], [Tag ''section'', Cls ''models''], [Tag ''h4'']],
       [[Cls ''swagger-ui''], [Cls ''models-control'']]],
      [(''color'', Colour 0x0f172a, True)])]"

definition css_chrome :: stylesheet where
  "css_chrome =
    [([[[Cls ''swagger-ui''], [Cls ''iveri-theme-toggle'']]],
      [(''margin-left'', Text ''auto'', False), (''min-width'', Text ''88px'', False),
       (''min-height'', Text ''32px'', False), (''padding'', Text ''0 12px'', False),
       (''border'', Text ''1px solid rgb(255 255 255 / 28%)'', False), (''border-radius'', Text ''8px'', False),
       (''background'', Text ''rgb(255 255 255 / 8%)'', False), (''color'', Colour 0xf8fafc, False),
       (''cursor'', Text ''pointer'', False), (''font-size'', Text ''12px'', False),
       (''font-weight'', Text ''650'', False), (''letter-spacing'', Text ''0.01em'', False)]),
     ([[[Cls ''swagger-ui''], [Cls ''iveri-theme-toggle'', Pseudo_class ''hover'']]],
      [(''background'', Text ''rgb(255 255 255 / 16%)'', False)]),
     ([[[Cls ''swagger-ui''], [Cls ''scheme-container'']]],
      [(''margin'', Text ''0 0 20px'', True), (''padding'', Text ''12px 0'', True),
       (''background'', Transparent, True), (''box-shadow'', Text ''none'', True)]),
     ([[[Cls ''swagger-ui''], [Cls ''auth-wrapper'']]],
      [(''display'', Text ''flex'', False), (''justify-content'', Text ''flex-end'', False)]),
     ([[[Cls ''swagger-ui''], [Cls ''btn'', Cls ''authorize'']]],
      [(''display'', Text ''inline-flex'', True), (''align-items'', Text ''center'', True),
       (''justify-content'', Text ''center'', True), (''gap'', Text ''8px'', True),
       (''min-width'', Text ''132px'', False), (''min-height'', Text ''40px'', False),
       (''padding'', Text ''0 16px'', True), (''border'', Text ''1px solid #0f172a'', True),
       (''border-radius'', Text ''8px'', True), (''background'', Colour 0x0f172a, True),
       (''color'', Colour 0xffffff, True), (''font-size'', Text ''13px'', True),
       (''font-weight'', Text ''700'', True), (''box-shadow'', Text ''none'', True)]),
     ([[[Cls ''swagger-ui''], [Cls ''btn'', Cls ''authorize''], [Tag ''svg'']]],
      [(''display'', Text ''block'', False), (''width'', Text ''14px'', False), (''height'', Text ''14px'', False),
       (''margin'', Text ''0'', True), (''fill'', Colour 0x34d399, True)]),
     ([[[Cls ''swagger-ui''], [Cls ''btn'', Cls ''authorize'', Pseudo_class ''hover'']]],
      [(''background'', Colour 0x1e293b, True), (''border-color'', Colour 0x1e293b, True),
       (''color'', Colour 0xffffff, True)]),
     ([[[Cls ''swagger-ui''], [Cls ''authorization__btn'']]],
      [(''margin-right'', Text ''8px'', False)]),
     ([[[Cls ''swagger-ui''], [Cls ''authorization__btn''], [Tag ''svg'']]],
      [(''fill'', Colour 0x64748b, True)]),
     ([[[Cls ''swagger-ui''], [Cls ''opblock-tag-section'']]],
      [(''margin'', Text ''0 0 6px'', False)]),
     ([[[Cls ''swagger-ui''], [Cls ''opblock-tag'']]],
      [(''min-height'', Text ''36px'', True), (''margin'', Text ''0'', True),
       (''padding'', Text ''8px 12px'', True), (''border'', Text ''1px solid #e2e8f0'', True),
       (''border-radius'', Text ''8px'', True), (''background'', Colour 0xffffff, True),
       (''box-shadow'', Text ''none'', True), (''font-size'', Text ''14px'', True),
       (''font-weight'', Text ''700'', True), (''color'', Colour 0x0f172a, True),
       (''transform'', Text ''none'', True)]),
     ([[[Cls ''swagger-ui''], [Cls ''opblock-tag'', Pseudo_class ''hover'']]],
      [(''border-color'', Colour 0xcbd5e1, True), (''background'', Colour 0xf8fafc, True),
       (''box-shadow'', Text ''none'', True), (''transform'', Text ''none'', True)]),
     ([[[Cls ''swagger-ui''], [Cls ''opblock-tag''], [Tag ''small'']]],
      [(''color'', Colour 0x64748b, True), (''font-size'', Text ''12px'', True),
       (''font-weight'', Text ''500'', True)])]"

definition css_operations :: stylesheet where
  "css_operations =
    [([[[Cls ''swagger-ui''], [Cls ''opblock'']]],
      [(''margin'', Text ''4px 0'', True), (''border'', Text ''1px solid #e2e8f0'', True),
       (''border-radius'', Text ''8px'', True), (''background'', Colour 0xffffff, True),
       (''box-shadow'', Text ''none'', True), (''overflow'', Text ''hidden'', False)]),
     ([[[Cls ''swagger-ui''], [Cls ''opblock'', Cls ''opblock-get'']],
       [[Cls ''swagger-ui''], [Cls ''opblock'', Cls ''opblock-post'']],
       [[Cls ''swagger-ui''], [Cls ''opblock'', Cls ''opblock-put'']],
       [[Cls ''swagger-ui''], [Cls ''opblock'', Cls ''opblock-patch'']],
       [[Cls ''swagger-ui''], [Cls ''opblock'', Cls ''opblock-delete'']],
       [[Cls ''swagger-ui''], [Cls ''opblock'', Cls ''opblock-head'']],
       [[Cls ''swagger-ui''], [Cls ''opblock'', Cls ''opblock-options'']]],
      [(''border-color'', Colour 0xe2e8f0, True), (''background'', Colour 0xffffff, True)]),
     ([[[Cls ''swagger-ui''], [Cls ''opblock'', Cls ''opblock-get''], [Cls ''opblock-summary'']],
       [[Cls ''swagger-ui''], [Cls ''opblock'', Cls ''opblock-post''], [Cls ''opblock-summary'']],
       [[Cls ''swagger-ui''], [Cls ''opblock'', Cls ''opblock-put''], [Cls ''opblock-summary'']],
       [[Cls ''swagger-ui''], [Cls ''opblock'', Cls ''opblock-patch''], [Cls ''opblock-summary'']],
       [[Cls ''swagger-ui''], [Cls ''opblock'', Cls ''opblock-delete''], [Cls ''opblock-summary'']],
       [[Cls ''swagger-ui''], [Cls ''opblock'', Cls ''opblock-head''], [Cls ''opblock-summary'']],
       [[Cls ''swagger-ui''], [Cls ''opblock'', Cls ''opblock-options''], [Cls ''opblock-summary'']]],
      [(''border-color'', Transparent, True), (''background'', Colour 0xffffff, True)]),
     ([[[Cls ''swagger-ui''], [Cls ''opblock''], [Cls ''opblock-summary'']]],
      [(''min-height'', Text ''36px'', True), (''padding'', Text ''4px 10px'', True),
       (''border'', Text ''0'', True), (''background'', Colour 0xffffff, True)]),
     ([[[Cls ''swagger-ui''], [Cls ''opblock-summary-control'']]],
      [(''align-items'', Text ''center'', False), (''gap'', Text ''8px'', False), (''min-width'', Text ''0'', False)]),
     ([[[Cls ''swagger-ui''], [Cls ''opblock-summary-method'']]],
      [(''display'', Text ''inline-flex'', True), (''align-items'', Text ''center'', True),
       (''justify-content'', Text ''center'', True), (''flex'', Text ''0 0 58px'', False),
       (''min-height'', Text ''22px'', False), (''padding'', Text ''0 6px'', True),
       (''border-radius'', Text ''4px'', True), (''box-shadow'', Text ''none'', True),
       (''font-size'', Text ''10px'', True), (''font-weight'', Text ''800'', True),
       (''letter-spacing'', Text ''0.06em'', False), (''text-shadow'', Text ''none'', True)]),
     ([[[Cls ''swagger-ui''], [Cls ''opblock-get''], [Cls ''opblock-summary-method'']]],
      [(''background'', Colour 0x0284c7, True)]),
     ([[[Cls ''swagger-ui''], [Cls ''opblock-post''], [Cls ''opblock-summary-method'']]],
      [(''background'', Colour 0x059669, True)]),
     ([[[Cls ''swagger-ui''], [Cls ''opblock-put''], [Cls ''opblock-summary-method'']],
       [[Cls ''swagger-ui''], [Cls ''opblock-patch''], [Cls ''opblock-summary-method'']]],
      [(''background'', Colour 0xd97706, True)]),
     ([[[Cls ''swagger-ui''], [Cls ''opblock-delete''], [Cls ''opblock-summary-method'']]],
      [(''background'', Colour 0xe11d48, True)]),
     ([[[Cls ''swagger-ui''], [Cls ''opblock-head''], [Cls ''opblock-summary-method'']],
       [[Cls ''swagger-ui''], [Cls ''opblock-options''], [Cls ''opblock-summary-method'']]],
      [(''background'', Colour 0x475569, True)]),
     ([[[Cls ''swagger-ui''], [Cls ''opblock-summary-path'']]],
      [(''min-width'', Text ''0'', False), (''color'', Colour 0x0f172a, True),
       (''font-family'', Text ''ui-monospace, SFMono-Regular, Menlo, Monaco, Consolas, monospace'', True),
       (''font-size'', Text ''12px'', True), (''font-weight'', Text ''600'', True)]),
     ([[[Cls ''swagger-ui''], [Cls ''opblock-summary-description'']]],
      [(''color'', Colour 0x64748b, True), (''font-size'', Text ''12px'', True),
       (''font-weight'', Text ''500'', True)]),
     ([[[Cls ''swagger-ui''], [Cls ''opblock-body'']]],
      [(''padding'', Text ''0 16px 16px'', True), (''background'', Colour 0xffffff, True)])]"

definition css_details :: stylesheet where
  "css_details =
    [([[[Cls ''swagger-ui''], [Cls ''opblock-section-header'']]],
      [(''margin'', Text ''0 -16px 14px'', False), (''padding'', Text ''12px 16px'', True),
       (''border-top'', Text ''1px solid #e2e8f0'', False), (''border-bottom'', Text ''1px solid #e2e8f0'', False),
       (''background'', Colour 0xf8fafc, True), (''box-shadow'', Text ''none'', True)]),
     ([[[Cls ''swagger-ui''], [Cls ''opblock-section-header''], [Tag ''h4'']],
       [[Cls ''swagger-ui''], [Cls ''opblock-section-header''], [Tag ''label'']]],
      [(''color'', Colour 0x0f172a, True), (''font-size'', Text ''13px'', True),
       (''font-weight'', Text ''700'', True)]),
     ([[[Cls ''swagger-ui''], [Cls ''parameters''], [Tag ''thead''], [Tag ''tr''], [Tag ''th'']],
       [[Cls ''swagger-ui''], [Cls ''parameters''], [Tag ''thead''], [Tag ''tr''], [Tag ''td'']],
       [[Cls ''swagger-ui''], [Cls ''responses-table''], [Tag ''thead''], [Tag ''tr''], [Tag ''th'']],
       [[Cls ''swagger-ui''], [Cls ''responses-table''], [Tag ''thead''], [Tag ''tr''], [Tag ''td'']]],
      [(''border-bottom'', Text ''1px solid #e2e8f0'', True), (''background'', Colour 0xf8fafc, True),
       (''color'', Colour 0x475569, True), (''font-size'', Text ''11px'', True),
       (''font-weight'', Text ''700'', True), (''letter-spacing'', Text ''0.04em'', False),
       (''text-transform'', Text ''uppercase'', False)]),
     ([[[Cls ''swagger-ui''], [Cls ''parameter__name'']]],
      [(''color'', Colour 0x0f172a, True), (''font-size'', Text ''13px'', True),
       (''font-weight'', Text ''700'', True)]),
     ([[[Cls ''swagger-ui''], [Cls ''parameter__name'', Cls ''required'']]],
      [(''color'', Colour 0xbe123c, True)]),
     ([[[Cls ''swagger-ui''], [Cls ''parameter__type'']], [[Cls ''swagger-ui''], [Cls ''prop-type'']]],
      [(''color'', Colour 0x2563eb, True), (''font-size'', Text ''12px'', True)]),
     ([[[Cls ''swagger-ui''], [Cls ''parameters-col_description'']],
       [[Cls ''swagger-ui''], [Cls ''parameters-col_description''], [Tag ''p'']]],
      [(''color'', Colour 0x475569, True), (''font-size'', Text ''13px'', True),
       (''line-height'', Text ''1.55'', True)]),
     ([[[Cls ''swagger-ui''], [Cls ''response-col_status'']]],
      [(''color'', Colour 0x047857, True), (''font-weight'', Text ''750'', True)]),
     ([[[Cls ''swagger-ui''], [Cls ''tab'']]],
      [(''border-bottom'', Text ''1px solid #e2e8f0'', False)]),
     ([[[Cls ''swagger-ui''], [Cls ''tab''], [Tag ''li''], [Tag ''button'', Cls ''tablinks'']]],
      [(''color'', Colour 0x64748b, True), (''font-weight'', Text ''650'', True)]),
     ([[[Cls ''swagger-ui''], [Cls ''tab''], [Tag ''li'', Cls ''active''], [Tag ''button'', Cls ''tablinks'']]],
      [(''color'', Colour 0x0f172a, True)])]"

definition css_examples :: stylesheet where
  "css_examples =
    [([[[Cls ''swagger-ui''], [Cls ''model-example'']]],
      [(''position'', Text ''relative'', True), (''margin-top'', Text ''8px'', False),
       (''padding'', Text ''44px 12px 12px'', True), (''border'', Text ''1px solid #e2e8f0'', True),
       (''border-radius'', Text ''8px'', True), (''background'', Colour 0xf8fafc, True)]),
     ([[[Cls ''swagger-ui''], [Cls ''highlight-code'']]],
      [(''position'', Text ''relative'', True), (''padding-top'', Text ''44px'', True)]),
     ([[[Cls ''swagger-ui''], [Cls ''microlight'']], [[Cls ''swagger-ui''], [Tag ''pre'', Cls ''microlight'']],
       [[Cls ''swagger-ui''], [Cls ''model-example''], [Tag ''pre'']],
       [[Cls ''swagger-ui''], [Cls ''response-col_description__inner''], [Tag ''pre'']]],
      [(''border'', Text ''1px solid #e2e8f0'', True), (''border-radius'', Text ''8px'', True),
       (''background'', Colour 0xf8fafc, True), (''color'', Colour 0x0f172a, True),
       (''text-shadow'', Text ''none'', True)]),
     ([[[Cls ''swagger-ui''], [Cls ''microlight''], [Universal]],
       [[Cls ''swagger-ui''], [Tag ''pre'', Cls ''microlight''], [Universal]]],
      [(''background'', Transparent, True), (''text-shadow'', Text ''none'', True)]),
     ([[[Cls ''swagger-ui''], [Cls ''iveri-copy-json'']]],
      [(''position'', Text ''absolute'', False), (''top'', Text ''10px'', False),
       (''right'', Text ''10px'', False), (''z-index'', Text ''5'', False), (''min-width'', Text ''88px'', False),
       (''min-height'', Text ''30px'', False), (''border'', Text ''1px solid #cbd5e1'', False),
       (''border-radius'', Text ''6px'', False), (''background'', Colour 0xffffff, False),
       (''color'', Colour 0x0f172a, False), (''cursor'', Text ''pointer'', False),
       (''font-size'', Text ''12px'', False), (''font-weight'', Text ''650'', False)]),
     ([[[Cls ''swagger-ui''], [Cls ''iveri-copy-json'', Pseudo_class ''hover'']]],
      [(''border-color'', Colour 0x94a3b8, False), (''background'', Colour 0xf8fafc, False)]),
     ([[[Cls ''swagger-ui''], [Cls ''iveri-copy-json'', Cls ''is-copied'']]],
      [(''border-color'', Colour 0x6ee7b7, False), (''background'', Colour 0xecfdf5, False),
       (''color'', Colour 0x047857, False)]),
     ([[[Cls ''swagger-ui''], [Cls ''highlight-code''], [Cls ''copy-to-clipboard'']],
       [[Cls ''swagger-ui''], [Cls ''curl-command''], [Cls ''copy-to-clipboard'']]],
      [(''display'', Text ''flex'', True), (''visibility'', Text ''visible'', True),
       (''opacity'', Text ''1'', True), (''top'', Text ''10px'', True), (''right'', Text ''10px'', True),
       (''bottom'', Text ''auto'', True), (''width'', Text ''88px'', True), (''height'', Text ''30px'', True),
       (''border'', Text ''1px solid #cbd5e1'', True), (''border-radius'', Text ''6px'', True),
       (''background'', Colour 0xffffff, True), (''box-shadow'', Text ''none'', True),
       (''z-index'', Text ''3'', True)]),
     ([[[Cls ''swagger-ui''], [Cls ''highlight-code''], [Cls ''copy-to-clipboard''], [Tag ''button'']],
       [[Cls ''swagger-ui''], [Cls ''curl-command''], [Cls ''copy-to-clipboard''], [Tag ''button'']]],
      [(''width'', Text ''100%'', True), (''height'', Text ''100%'', True), (''border'', Text ''0'', True),
       (''background'', Transparent, True), (''background-image'', Text ''none'', True),
       (''color'', Transparent, True), (''font-size'', Text ''0'', True)]),
     ([
       [[Cls ''swagger-ui''], [Cls ''highlight-code''], [Cls ''copy-to-clipboard''], [Tag ''button'', Pseudo_element ''before'']],
       [[Cls ''swagger-ui''], [Cls ''curl-command''], [Cls ''copy-to-clipboard''], [Tag ''button'', Pseudo_element ''before'']]],
      [(''content'', Text ''none'', True)]),
     ([[[Cls ''swagger-ui''], [Cls ''highlight-code''], [Cls ''copy-to-clipboard'', Pseudo_element ''after'']],
       [[Cls ''swagger-ui''], [Cls ''curl-command''], [Cls ''copy-to-clipboard'', Pseudo_element ''after'']]],
      [(''position'', Text ''absolute'', False), (''inset'', Text ''0'', False),
       (''display'', Text ''flex'', False), (''align-items'', Text ''center'', False),
       (''justify-content'', Text ''center'', False), (''content'', Text ''\"Copy JSON\"'', False),
       (''color'', Colour 0x0f172a, True), (''font-size'', Text ''12px'', True),
       (''font-weight'', Text ''650'', True), (''pointer-events'', Text ''none'', False),
       (''z-index'', Text ''4'', False)]),
     ([
       [[Cls ''swagger-ui''], [Cls ''opblock''], [Cls ''opblock-summary''], [Cls ''view-line-link'', Cls ''copy-to-clipboard'']]],
      [(''display'', Text ''none'', True)])]"

definition css_dialogs :: stylesheet where
  "css_dialogs =
    [([[[Cls ''swagger-ui''], [Cls ''dialog-ux''], [Cls ''backdrop-ux'']]],
      [(''background'', Text ''rgb(15 23 42 / 45%)'', True)]),
     ([[[Cls ''swagger-ui''], [Cls ''dialog-ux''], [Cls ''modal-ux'']]],
      [(''width'', Text ''min(520px, calc(100vw - 32px))'', False), (''border'', Text ''1px solid #e2e8f0'', True),
       (''border-radius'', Text ''12px'', True), (''background'', Colour 0xffffff, True),
       (''box-shadow'', Text ''0 20px 50px rgb(15 23 42 / 18%)'', True), (''overflow'', Text ''hidden'', False)]),
     ([[[Cls ''swagger-ui''], [Cls ''dialog-ux''], [Cls ''modal-ux-header'']]],
      [(''padding'', Text ''18px 20px'', True), (''border-bottom'', Text ''1px solid #e2e8f0'', True),
       (''background'', Colour 0xffffff, True)]),
     ([[[Cls ''swagger-ui''], [Cls ''dialog-ux''], [Cls ''modal-ux-header''], [Tag ''h3'']]],
      [(''color'', Colour 0x0f172a, True), (''font-size'', Text ''17px'', True),
       (''font-weight'', Text ''750'', True)]),
     ([[[Cls ''swagger-ui''], [Cls ''dialog-ux''], [Cls ''modal-ux-close'']]],
      [(''color'', Colour 0x64748b, True)]),
     ([[[Cls ''swagger-ui''], [Cls ''dialog-ux''], [Cls ''modal-ux-content'']]],
      [(''padding'', Text ''20px'', True), (''background'', Colour 0xffffff, True)]),
     ([[[Cls ''swagger-ui''], [Cls ''auth-container'']]],
      [(''margin'', Text ''0'', True), (''padding'', Text ''14px'', True),
       (''border'', Text ''1px solid #e2e8f0'', False), (''border-radius'', Text ''8px'', False),
       (''background'', Colour 0xf8fafc, True)]),
     ([[[Cls ''swagger-ui''], [Cls ''auth-container''], [Tag ''h4'']],
       [[Cls ''swagger-ui''], [Cls ''auth-container''], [Tag ''label'']]],
      [(''color'', Colour 0x0f172a, True)]),
     ([[[Cls ''swagger-ui''], [Cls ''auth-container''], [Tag ''p'']]],
      [(''color'', Colour 0x64748b, True)]),
     ([[[Cls ''swagger-ui''], [Cls ''auth-container''], [Tag ''input'']]],
      [(''min-height'', Text ''40px'', False), (''border'', Text ''1px solid #cbd5e1'', True),
       (''border-radius'', Text ''8px'', True), (''background'', Colour 0xffffff, True),
       (''color'', Colour 0x0f172a, True)]),
     ([[[Cls ''swagger-ui''], [Cls ''auth-btn-wrapper'']]],
      [(''display'', Text ''flex'', False), (''gap'', Text ''10px'', False), (''padding-top'', Text ''16px'', True)]),
     ([[[Cls ''swagger-ui''], [Cls ''auth-btn-wrapper''], [Cls ''btn'']]],
      [(''min-height'', Text ''38px'', False), (''border-radius'', Text ''8px'', True)]),
     ([[[Cls ''swagger-ui''], [Cls ''auth-btn-wrapper''], [Cls ''btn'', Cls ''authorize'']]],
      [(''background'', Colour 0x0f172a, True), (''border-color'', Colour 0x0f172a, True),
       (''color'', Colour 0xffffff, True)]),
     ([[[Cls ''swagger-ui''], [Cls ''auth-btn-wrapper''], [Cls ''btn'', Cls ''modal-btn'']]],
      [(''background'', Colour 0xffffff, True), (''border'', Text ''1px solid #cbd5e1'', True),
       (''color'', Colour 0x0f172a, True)]),
     ([[[Cls ''swagger-ui''], [Tag ''input'']], [[Cls ''swagger-ui''], [Tag ''select'']],
       [[Cls ''swagger-ui''], [Tag ''textarea'']], [[Cls ''swagger-ui''], [Cls ''body-param__text'']]],
      [(''border'', Text ''1px solid #cbd5e1'', True), (''border-radius'', Text ''8px'', True),
       (''background'', Colour 0xffffff, True), (''color'', Colour 0x0f172a, True),
       (''box-shadow'', Text ''none'', True)]),
     ([[[Cls ''swagger-ui''], [Cls ''btn'', Cls ''execute'']]],
      [(''background'', Colour 0x2563eb, True), (''border-color'', Colour 0x2563eb, True),
       (''color'', Colour 0xffffff, True)])]"

definition css_dark_page :: stylesheet where
  "css_dark_page =
    [([[[Tag ''html'', Cls ''iveri-dark-mode'']], [[Tag ''html'', Cls ''iveri-dark-mode''], [Tag ''body'']],
       [[Tag ''html'', Cls ''iveri-dark-mode''], [Cls ''swagger-ui'']]],
      [(''color-scheme'', Text ''dark'', True), (''background'', Colour 0x0b1220, True),
       (''color'', Colour 0xe2e8f0, True)]),
     ([[[Tag ''html'', Cls ''iveri-dark-mode''], [Cls ''swagger-ui''], [Cls ''topbar'']]],
      [(''background'', Colour 0x020617, True), (''border-bottom-color'', Colour 0x1e293b, True)]),
     ([[[Tag ''html'', Cls ''iveri-dark-mode''], [Cls ''swagger-ui''], [Cls ''info'']]],
      [(''border'', Text ''0'', True), (''background'', Transparent, True), (''box-shadow'', Text ''none'', True)]),
     ([[[Tag ''html'', Cls ''iveri-dark-mode''], [Cls ''swagger-ui''], [Cls ''info''], [Cls ''title'']],
       [[Tag ''html'', Cls ''iveri-dark-mode''], [Cls ''swagger-ui''], [Cls ''info''], [Cls ''description'']],
       [[Tag ''html'', Cls ''iveri-dark-mode''], [Cls ''swagger-ui''], [Cls ''info''], [Cls ''description''], [Tag ''p'']],
       [[Tag ''html'', Cls ''iveri-dark-mode''], [Cls ''swagger-ui''], [Cls ''info''], [Cls ''description''], [Tag ''li'']],
       [[Tag ''html'', Cls ''iveri-dark-mode''], [Cls ''swagger-ui''], [Cls ''info''], [Cls ''description''], [Tag ''strong'']],
       [[Tag ''html'', Cls ''iveri-dark-mode''], [Cls ''swagger-ui''], [Cls ''markdown'']],
       [[Tag ''html'', Cls ''iveri-dark-mode''], [Cls ''swagger-ui''], [Cls ''markdown''], [Tag ''p'']],
       [[Tag ''html'', Cls ''iveri-dark-mode''], [Cls ''swagger-ui''], [Cls ''markdown''], [Tag ''li'']],
       [[Tag ''html'', Cls ''iveri-dark-mode''], [Cls ''swagger-ui''], [Cls ''markdown''], [Tag ''strong'']]],
      [(''color'', Colour 0xe2e8f0, True)]),
     ([
       [[Tag ''html'', Cls ''iveri-dark-mode''], [Cls ''swagger-ui''], [Cls ''info''], [Cls ''title''], [Tag ''small'']]],
      [(''border-color'', Colour 0x334155, True), (''background'', Colour 0x0f172a, True),
       (''color'', Colour 0x94a3b8, True)]),
     ([[[Tag ''html'', Cls ''iveri-dark-mode''], [Cls ''swagger-ui''], [Cls ''markdown''], [Tag ''code'']],
       [[Tag ''html'', Cls ''iveri-dark-mode''], [Cls ''swagger-ui''], [Cls ''renderedMarkdown''], [Tag ''code'']]],
      [(''border-color'', Colour 0x334155, True), (''background'', Colour 0x0b1220, True),
       (''color'', Colour 0xe2e8f0, True)]),
     ([[[Tag ''html'', Cls ''iveri-dark-mode''], [Cls ''swagger-ui''], [Cls ''scheme-container'']]],
      [(''background'', Transparent, True), (''box-shadow'', Text ''none'', True)]),
     ([[[Tag ''html'', Cls ''iveri-dark-mode''], [Cls ''swagger-ui''], [Cls ''btn'', Cls ''authorize'']]],
      [(''border-color'', Colour 0xe2e8f0, True), (''background'', Colour 0xe2e8f0, True),
       (''color'', Colour 0x0b1220, True)]),
     ([
       [[Tag ''html'', Cls ''iveri-dark-mode''], [Cls ''swagger-ui''], [Cls ''btn'', Cls ''authorize''], [Tag ''svg'']]],
      [(''fill'', Colour 0x059669, True)]),
     ([
       [[Tag ''html'', Cls ''iveri-dark-mode''], [Cls ''swagger-ui''], [Cls ''btn'', Cls ''authorize'', Pseudo_class ''hover'']]],
      [(''background'', Colour 0xffffff, True), (''border-color'', Colour 0xffffff, True),
       (''color'', Colour 0x0b1220, True)]),
     ([[[Tag ''html'', Cls ''iveri-dark-mode''], [Cls ''swagger-ui''], [Cls ''authorization__btn''], [Tag ''svg'']]],
      [(''fill'', Colour 0x94a3b8, True)])]"

definition css_dark_operations :: stylesheet where
  "css_dark_operations =
    [([[[Tag ''html'', Cls ''iveri-dark-mode''], [Cls ''swagger-ui''], [Cls ''opblock-tag'']]],
      [(''border-color'', Colour 0x1e293b, True), (''background'', Colour 0x111827, True),
       (''color'', Colour 0xf8fafc, True)]),
     ([
       [[Tag ''html'', Cls ''iveri-dark-mode''], [Cls ''swagger-ui''], [Cls ''opblock-tag'', Pseudo_class ''hover'']]],
      [(''border-color'', Colour 0x334155, True), (''background'', Colour 0x0f172a, True)]),
     ([[[Tag ''html'', Cls ''iveri-dark-mode''], [Cls ''swagger-ui''], [Cls ''opblock-tag''], [Tag ''a'']],
       [[Tag ''html'', Cls ''iveri-dark-mode''], [Cls ''swagger-ui''], [Cls ''opblock-tag''], [Tag ''small'']]],
      [(''color'', Colour 0xcbd5e1, True)]),
     ([[[Tag ''html'', Cls ''iveri-dark-mode''], [Cls ''swagger-ui''], [Cls ''opblock'']]],
      [(''border-color'', Colour 0x1e293b, True), (''background'', Colour 0x111827, True)]),
     ([[[Tag ''html'', Cls ''iveri-dark-mode''], [Cls ''swagger-ui''], [Cls ''opblock'', Cls ''opblock-get'']],
       [[Tag ''html'', Cls ''iveri-dark-mode''], [Cls ''swagger-ui''], [Cls ''opblock'', Cls ''opblock-post'']],
       [[Tag ''html'', Cls ''iveri-dark-mode''], [Cls ''swagger-ui''], [Cls ''opblock'', Cls ''opblock-put'']],
       [[Tag ''html'', Cls ''iveri-dark-mode''], [Cls ''swagger-ui''], [Cls ''opblock'', Cls ''opblock-patch'']],
       [[Tag ''html'', Cls ''iveri-dark-mode''], [Cls ''swagger-ui''], [Cls ''opblock'', Cls ''opblock-delete'']],
       [[Tag ''html'', Cls ''iveri-dark-mode''], [Cls ''swagger-ui''], [Cls ''opblock'', Cls ''opblock-head'']],
       [[Tag ''html'', Cls ''iveri-dark-mode''], [Cls ''swagger-ui''], [Cls ''opblock'', Cls ''opblock-options'']]],
      [(''border-color'', Colour 0x1e293b, True), (''background'', Colour 0x111827, True)]),
     ([
       [[Tag ''html'', Cls ''iveri-dark-mode''], [Cls ''swagger-ui''], [Cls ''opblock''], [Cls ''opblock-summary'']],
       [[Tag ''html'', Cls ''iveri-dark-mode''], [Cls ''swagger-ui''], [Cls ''opblock-body'']],
       [[Tag ''html'', Cls ''iveri-dark-mode''], [Cls ''swagger-ui''], [Cls ''opblock'', Cls ''opblock-get''], [Cls ''opblock-summary'']],
       [[Tag ''html'', Cls ''iveri-dark-mode''], [Cls ''swagger-ui''], [Cls ''opblock'', Cls ''opblock-post''], [Cls ''opblock-summary'']],
       [[Tag ''html'', Cls ''iveri-dark-mode''], [Cls ''swagger-ui''], [Cls ''opblock'', Cls ''opblock-put''], [Cls ''opblock-summary'']],
       [[Tag ''html'', Cls ''iveri-dark-mode''], [Cls ''swagger-ui''], [Cls ''opblock'', Cls ''opblock-patch''], [Cls ''opblock-summary'']],
       [[Tag ''html'', Cls ''iveri-dark-mode''], [Cls ''swagger-ui''], [Cls ''opblock'', Cls ''opblock-delete''], [Cls ''opblock-summary'']],
       [[Tag ''html'', Cls ''iveri-dark-mode''], [Cls ''swagger-ui''], [Cls ''opblock'', Cls ''opblock-head''], [Cls ''opblock-summary'']],
       [[Tag ''html'', Cls ''iveri-dark-mode''], [Cls ''swagger-ui''], [Cls ''opblock'', Cls ''opblock-options''], [Cls ''opblock-summary'']]],
      [(''background'', Colour 0x111827, True)]),
     ([[[Tag ''html'', Cls ''iveri-dark-mode''], [Cls ''swagger-ui''], [Cls ''opblock-summary-path'']]],
      [(''color'', Colour 0xf8fafc, True)]),
     ([[[Tag ''html'', Cls ''iveri-dark-mode''], [Cls ''swagger-ui''], [Cls ''opblock-summary-description'']]],
      [(''color'', Colour 0x94a3b8, True)]),
     ([[[Tag ''html'', Cls ''iveri-dark-mode''], [Cls ''swagger-ui''], [Cls ''opblock-section-header'']]],
      [(''border-color'', Colour 0x1e293b, True), (''background'', Colour 0x0f172a, True)]),
     ([
       [[Tag ''html'', Cls ''iveri-dark-mode''], [Cls ''swagger-ui''], [Cls ''opblock-section-header''], [Tag ''h4'']],
       [[Tag ''html'', Cls ''iveri-dark-mode''], [Cls ''swagger-ui''], [Cls ''opblock-section-header''], [Tag ''label'']],
       [[Tag ''html'', Cls ''iveri-dark-mode''], [Cls ''swagger-ui''], [Cls ''parameter__name'']],
       [[Tag ''html'', Cls ''iveri-dark-mode''], [Cls ''swagger-ui''], [Cls ''response-col_description'']],
       [[Tag ''html'', Cls ''iveri-dark-mode''], [Cls ''swagger-ui''], [Cls ''parameters-col_description'']],
       [[Tag ''html'', Cls ''iveri-dark-mode''], [Cls ''swagger-ui''], [Cls ''parameters-col_description''], [Tag ''p'']]],
      [(''color'', Colour 0xe2e8f0, True)]),
     ([
       [[Tag ''html'', Cls ''iveri-dark-mode''], [Cls ''swagger-ui''], [Cls ''parameters''], [Tag ''thead''], [Tag ''tr''], [Tag ''th'']],
       [[Tag ''html'', Cls ''iveri-dark-mode''], [Cls ''swagger-ui''], [Cls ''parameters''], [Tag ''thead''], [Tag ''tr''], [Tag ''td'']],
       [[Tag ''html'', Cls ''iveri-dark-mode''], [Cls ''swagger-ui''], [Cls ''responses-table''], [Tag ''thead''], [Tag ''tr''], [Tag ''th'']],
       [[Tag ''html'', Cls ''iveri-dark-mode''], [Cls ''swagger-ui''], [Cls ''responses-table''], [Tag ''thead''], [Tag ''tr''], [Tag ''td'']]],
      [(''border-color'', Colour 0x1e293b, True), (''background'', Colour 0x0f172a, True),
       (''color'', Colour 0x94a3b8, True)]),
     ([[[Tag ''html'', Cls ''iveri-dark-mode''], [Cls ''swagger-ui''], [Cls ''parameter__type'']],
       [[Tag ''html'', Cls ''iveri-dark-mode''], [Cls ''swagger-ui''], [Cls ''prop-type'']]],
      [(''color'', Colour 0x93c5fd, True)]),
     ([[[Tag ''html'', Cls ''iveri-dark-mode''], [Cls ''swagger-ui''], [Cls ''parameter__name'', Cls ''required'']]],
      [(''color'', Colour 0xfda4af, True)])]"

definition css_dark_dialogs :: stylesheet where
  "css_dark_dialogs =
    [([[[Tag ''html'', Cls ''iveri-dark-mode''], [Cls ''swagger-ui''], [Cls ''tab'']]],
      [(''border-color'', Colour 0x1e293b, True)]),
     ([
       [[Tag ''html'', Cls ''iveri-dark-mode''], [Cls ''swagger-ui''], [Cls ''tab''], [Tag ''li''], [Tag ''button'', Cls ''tablinks'']]],
      [(''color'', Colour 0x94a3b8, True)]),
     ([
       [[Tag ''html'', Cls ''iveri-dark-mode''], [Cls ''swagger-ui''], [Cls ''tab''], [Tag ''li'', Cls ''active''], [Tag ''button'', Cls ''tablinks'']]],
      [(''color'', Colour 0xf8fafc, True)]),
     ([[[Tag ''html'', Cls ''iveri-dark-mode''], [Cls ''swagger-ui''], [Cls ''model-example'']]],
      [(''border-color'', Colour 0x1e293b, True), (''background'', Colour 0x0b1220, True)]),
     ([[[Tag ''html'', Cls ''iveri-dark-mode''], [Cls ''swagger-ui''], [Cls ''microlight'']],
       [[Tag ''html'', Cls ''iveri-dark-mode''], [Cls ''swagger-ui''], [Tag ''pre'', Cls ''microlight'']],
       [[Tag ''html'', Cls ''iveri-dark-mode''], [Cls ''swagger-ui''], [Cls ''model-example''], [Tag ''pre'']],
       [[Tag ''html'', Cls ''iveri-dark-mode''], [Cls ''swagger-ui''], [Cls ''highlight-code'']],
       [[Tag ''html'', Cls ''iveri-dark-mode''], [Cls ''swagger-ui''], [Cls ''response-col_description__inner''], [Tag ''pre'']]],
      [(''border-color'', Colour 0x1e293b, True), (''background'', Colour 0x0b1220, True),
       (''color'', Colour 0xe2e8f0, True)]),
     ([[[Tag ''html'', Cls ''iveri-dark-mode''], [Cls ''swagger-ui''], [Cls ''microlight''], [Universal]],
       [[Tag ''html'', Cls ''iveri-dark-mode''], [Cls ''swagger-ui''], [Tag ''pre'', Cls ''microlight''], [Universal]]],
      [(''color'', Colour 0xe2e8f0, True)]),
     ([[[Tag ''html'', Cls ''iveri-dark-mode''], [Cls ''swagger-ui''], [Cls ''iveri-copy-json'']],
       [[Tag ''html'', Cls ''iveri-dark-mode''], [Cls ''swagger-ui''], [Cls ''highlight-code''], [Cls ''copy-to-clipboard'']],
       [[Tag ''html'', Cls ''iveri-dark-mode''], [Cls ''swagger-ui''], [Cls ''curl-command''], [Cls ''copy-to-clipboard'']]],
      [(''border-color'', Colour 0x334155, True), (''background'', Colour 0x111827, True),
       (''color'', Colour 0xe2e8f0, True)]),
     ([
       [[Tag ''html'', Cls ''iveri-dark-mode''], [Cls ''swagger-ui''], [Cls ''highlight-code''], [Cls ''copy-to-clipboard'', Pseudo_element ''after'']],
       [[Tag ''html'', Cls ''iveri-dark-mode''], [Cls ''swagger-ui''], [Cls ''curl-command''], [Cls ''copy-to-clipboard'', Pseudo_element ''after'']]],
      [(''color'', Colour 0xe2e8f0, True)]),
     ([[[Tag ''html'', Cls ''iveri-dark-mode''], [Cls ''swagger-ui''], [Cls ''iveri-copy-json'', Cls ''is-copied'']]],
      [(''border-color'', Colour 0x34d399, True), (''background'', Colour 0x064e3b, True),
       (''color'', Colour 0xa7f3d0, True)]),
     ([[[Tag ''html'', Cls ''iveri-dark-mode''], [Cls ''swagger-ui''], [Cls ''dialog-ux''], [Cls ''backdrop-ux'']]],
      [(''background'', Text ''rgb(0 0 0 / 65%)'', True)]),
     ([[[Tag ''html'', Cls ''iveri-dark-mode''], [Cls ''swagger-ui''], [Cls ''dialog-ux''], [Cls ''modal-ux'']]],
      [(''border-color'', Colour 0x1e293b, True), (''background'', Colour 0x111827, True),
       (''box-shadow'', Text ''0 24px 60px rgb(0 0 0 / 45%)'', True)]),
     ([
       [[Tag ''html'', Cls ''iveri-dark-mode''], [Cls ''swagger-ui''], [Cls ''dialog-ux''], [Cls ''modal-ux-header'']]],
      [(''border-color'', Colour 0x1e293b, True), (''background'', Colour 0x0f172a, True)]),
     ([
       [[Tag ''html'', Cls ''iveri-dark-mode''], [Cls ''swagger-ui''], [Cls ''dialog-ux''], [Cls ''modal-ux-header''], [Tag ''h3'']],
       [[Tag ''html'', Cls ''iveri-dark-mode''], [Cls ''swagger-ui''], [Cls ''dialog-ux''], [Cls ''modal-ux-close'']]],
      [(''color'', Colour 0xf8fafc, True)]),
     ([
       [[Tag ''html'', Cls ''iveri-dark-mode''], [Cls ''swagger-ui''], [Cls ''dialog-ux''], [Cls ''modal-ux-content'']]],
      [(''background'', Colour 0x111827, True)]),
     ([[[Tag ''html'', Cls ''iveri-dark-mode''], [Cls ''swagger-ui''], [Cls ''auth-container'']]],
      [(''border-color'', Colour 0x1e293b, True), (''background'', Colour 0x0b1220, True)]),
     ([[[Tag ''html'', Cls ''iveri-dark-mode''], [Cls ''swagger-ui''], [Cls ''auth-container''], [Tag ''h4'']],
       [[Tag ''html'', Cls ''iveri-dark-mode''], [Cls ''swagger-ui''], [Cls ''auth-container''], [Tag ''label'']]],
      [(''color'', Colour 0xf8fafc, True)]),
     ([[[Tag ''html'', Cls ''iveri-dark-mode''], [Cls ''swagger-ui''], [Cls ''auth-container''], [Tag ''p'']]],
      [(''color'', Colour 0x94a3b8, True)]),
     ([[[Tag ''html'', Cls ''iveri-dark-mode''], [Cls ''swagger-ui''], [Cls ''auth-container''], [Tag ''input'']],
       [[Tag ''html'', Cls ''iveri-dark-mode''], [Cls ''swagger-ui''], [Tag ''input'']],
       [[Tag ''html'', Cls ''iveri-dark-mode''], [Cls ''swagger-ui''], [Tag ''select'']],
       [[Tag ''html'', Cls ''iveri-dark-mode''], [Cls ''swagger-ui''], [Tag ''textarea'']],
       [[Tag ''html'', Cls ''iveri-dark-mode''], [Cls ''swagger-ui''], [Cls ''body-param__text'']]],
      [(''border-color'', Colour 0x334155, True), (''background'', Colour 0x0b1220, True),
       (''color'', Colour 0xf8fafc, True)]),
     ([
       [[Tag ''html'', Cls ''iveri-dark-mode''], [Cls ''swagger-ui''], [Cls ''auth-btn-wrapper''], [Cls ''btn'', Cls ''authorize'']]],
      [(''background'', Colour 0xe2e8f0, True), (''border-color'', Colour 0xe2e8f0, True),
       (''color'', Colour 0x0b1220, True)]),
     ([
       [[Tag ''html'', Cls ''iveri-dark-mode''], [Cls ''swagger-ui''], [Cls ''auth-btn-wrapper''], [Cls ''btn'', Cls ''modal-btn'']]],
      [(''background'', Transparent, True), (''border-color'', Colour 0x334155, True),
       (''color'', Colour 0xe2e8f0, True)]),
     ([[[Tag ''html'', Cls ''iveri-dark-mode''], [Cls ''swagger-ui''], [Tag ''section'', Cls ''models'']]],
      [(''border-color'', Colour 0x1e293b, True), (''background'', Colour 0x111827, True)]),
     ([
       [[Tag ''html'', Cls ''iveri-dark-mode''], [Cls ''swagger-ui''], [Tag ''section'', Cls ''models''], [Tag ''h4'']],
       [[Tag ''html'', Cls ''iveri-dark-mode''], [Cls ''swagger-ui''], [Cls ''models-control'']]],
      [(''color'', Colour 0xf8fafc, True)])]"

definition light_sheet :: stylesheet where
  "light_sheet = css_page @ css_chrome @ css_operations @ css_details @ css_examples @ css_dialogs"

definition dark_sheet :: stylesheet where
  "dark_sheet = css_dark_page @ css_dark_operations @ css_dark_dialogs"

definition SWAGGER_UI_CUSTOM_CSS :: stylesheet where
  "SWAGGER_UI_CUSTOM_CSS = light_sheet @ dark_sheet"

subsection \<open>The dark rules are behind the dark class\<close>

text \<open>The class the script of the page puts on the root element.\<close>

definition DARK_CLASS :: string where
  "DARK_CLASS = ''iveri-dark-mode''"

definition behind_dark_class :: "css_rule \<Rightarrow> bool" where
  "behind_dark_class r = list_all (\<lambda>sel. list_ex (\<lambda>c. Cls DARK_CLASS \<in> set c) sel) (fst r)"

lemma dark_sheet_behind: "list_all behind_dark_class dark_sheet"
  by code_simp

definition undarkened :: "path \<Rightarrow> bool" where
  "undarkened p = list_all (\<lambda>e. DARK_CLASS \<notin> set (el_classes e)) p"

lemma behind_selects:
  "behind_dark_class (sels, ds) \<Longrightarrow> sel \<in> set sels \<Longrightarrow> undarkened p \<Longrightarrow> \<not> selects sel p"
  by (fastforce simp: behind_dark_class_def undarkened_def list_all_iff list_ex_iff dest: selects_compound compound_class)

lemma undarkened_none:
  assumes "undarkened p" shows "cascade name p (scoped_declarations dark_sheet) best = best"
proof (rule cascade_none, unfold list_all_iff, rule ballI)
  fix d assume "d \<in> set (scoped_declarations dark_sheet)"
  then obtain sels ds where "(sels, ds) \<in> set dark_sheet" "fst d \<in> set sels"
    using scoped_mem [of "fst d" "snd d" dark_sheet] by auto
  then have "\<not> selects (fst d) p" using dark_sheet_behind assms behind_selects by (auto simp: list_all_iff)
  then show "\<not> applies name p d" by (auto simp: applies_def split: prod.splits)
qed

subsection \<open>An operation row and its verb\<close>

definition METHODS :: "string list" where
  "METHODS = [''get'', ''post'', ''put'', ''patch'', ''delete'', ''head'', ''options'']"

definition row_class :: "string \<Rightarrow> string" where
  "row_class m = ''opblock-'' @ m"

definition ROW_CLASSES :: "string list" where
  "ROW_CLASSES = ''opblock'' # ''is-open'' # map row_class METHODS"

definition SUMMARY_CLASSES :: "string list" where
  "SUMMARY_CLASSES = ''opblock-summary'' # map (\<lambda>m. ''opblock-summary-'' @ m) METHODS"

definition PILL_CLASSES :: "string list" where
  "PILL_CLASSES = [''opblock-summary-method'']"

text \<open>The colour behind an operation in either theme, and the colour of each verb.\<close>

definition row_colour :: "bool \<Rightarrow> css_value" where
  "row_colour dark = Colour (if dark then 0x111827 else 0xffffff)"

definition verb_colours :: "(string \<times> int) list" where
  "verb_colours = [(''get'', 0x0284c7), (''post'', 0x059669), (''put'', 0xd97706), (''patch'', 0xd97706),
     (''delete'', 0xe11d48), (''head'', 0x475569), (''options'', 0x475569)]"

definition verb_colour :: "string \<Rightarrow> css_value" where
  "verb_colour m = (case map_of verb_colours m of Some c \<Rightarrow> Colour c | None \<Rightarrow> Transparent)"

text \<open>The selectors that settle the three, in either theme.\<close>

definition theme_scope :: "bool \<Rightarrow> selector" where
  "theme_scope dark = (if dark then [[Tag ''html'', Cls DARK_CLASS], [Cls ''swagger-ui'']] else [[Cls ''swagger-ui'']])"

definition row_selector :: "bool \<Rightarrow> string \<Rightarrow> selector" where
  "row_selector dark m = theme_scope dark @ [[Cls ''opblock'', Cls (row_class m)]]"

definition summary_selector :: "bool \<Rightarrow> string \<Rightarrow> selector" where
  "summary_selector dark m = row_selector dark m @ [[Cls ''opblock-summary'']]"

definition pill_selector :: "string \<Rightarrow> selector" where
  "pill_selector m = [[Cls ''swagger-ui''], [Cls (row_class m)], [Cls ''opblock-summary-method'']]"

definition row_weight :: "bool \<Rightarrow> weight" where
  "row_weight dark = (if dark then (True, 4, 1) else (True, 3, 0))"

definition summary_weight :: "bool \<Rightarrow> weight" where
  "summary_weight dark = (if dark then (True, 5, 1) else (True, 4, 0))"

lemma selector_weights:
  "weight_of True (row_selector dark m) = row_weight dark"
  "weight_of True (summary_selector dark m) = summary_weight dark"
  "weight_of True (pill_selector m) = (True, 3, 0)"
  by (simp_all add: weight_of_def row_selector_def summary_selector_def pill_selector_def theme_scope_def
      row_weight_def summary_weight_def)

definition declares :: "stylesheet \<Rightarrow> string \<Rightarrow> selector \<Rightarrow> css_value \<Rightarrow> bool" where
  "declares sheet name sel v = list_ex (\<lambda>(sels, ds). if (name, v, True) \<in> set ds then sel \<in> set sels else False) sheet"

abbreviation paints :: "stylesheet \<Rightarrow> selector \<Rightarrow> css_value \<Rightarrow> bool" where
  "paints sheet \<equiv> declares sheet ''background''"

lemma declares_scoped: "declares sheet name sel v \<Longrightarrow> (sel, name, v, True) \<in> set (scoped_declarations sheet)"
  by (auto simp: declares_def list_ex_iff scoped_mem split: if_splits)

lemma light_paints:
  "list_all (\<lambda>m. paints css_operations (row_selector False m) (row_colour False)) METHODS"
  "list_all (\<lambda>m. paints css_operations (summary_selector False m) (row_colour False)) METHODS"
  "list_all (\<lambda>m. paints css_operations (pill_selector m) (verb_colour m)) METHODS"
  by code_simp+

lemma dark_paints:
  "list_all (\<lambda>m. paints css_dark_operations (row_selector True m) (row_colour True)) METHODS"
  "list_all (\<lambda>m. paints css_dark_operations (summary_selector True m) (row_colour True)) METHODS"
  by code_simp+

text \<open>Whether a declaration leaves an operation to those selectors.\<close>

definition leaves_pills :: "selector \<times> css_declaration \<Rightarrow> bool" where
  "leaves_pills d = (case d of (sel, _, v, important) \<Rightarrow>
     if may_be_about ''span'' PILL_CLASSES sel then
       if at_most (True, 3, 0) (weight_of important sel)
       then list_ex (\<lambda>m. if v = verb_colour m then [Cls (row_class m)] \<in> set sel else False) METHODS else True
     else True)"

definition leaves_rows :: "bool \<Rightarrow> selector \<times> css_declaration \<Rightarrow> bool" where
  "leaves_rows dark d \<longleftrightarrow>
     agrees ''background'' ''div'' ROW_CLASSES (row_weight dark) (row_colour dark) d \<and>
     agrees ''background'' ''div'' SUMMARY_CLASSES (summary_weight dark) (row_colour dark) d"

definition leaves_operations :: "bool list \<Rightarrow> selector \<times> css_declaration \<Rightarrow> bool" where
  "leaves_operations themes d = (if fst (snd d) = ''background''
     then leaves_pills d \<and> list_all (\<lambda>dark. leaves_rows dark d) themes else True)"

definition leaves_all :: "bool list \<Rightarrow> stylesheet \<Rightarrow> bool" where
  "leaves_all themes sheet = list_all (leaves_operations themes) (scoped_declarations sheet)"

lemma leaves_page: "leaves_all [False, True] css_page" by code_simp
lemma leaves_chrome: "leaves_all [False, True] css_chrome" by code_simp
lemma leaves_css_operations: "leaves_all [False, True] css_operations" by code_simp
lemma leaves_details: "leaves_all [False, True] css_details" by code_simp
lemma leaves_examples: "leaves_all [False, True] css_examples" by code_simp
lemma leaves_dialogs: "leaves_all [False, True] css_dialogs" by code_simp
lemma leaves_dark_page: "leaves_all [True] css_dark_page" by code_simp
lemma leaves_dark_operations: "leaves_all [True] css_dark_operations" by code_simp
lemma leaves_dark_dialogs: "leaves_all [True] css_dark_dialogs" by code_simp

lemma leaves_weaken: "leaves_all themes sheet \<Longrightarrow> dark \<in> set themes \<Longrightarrow> leaves_all [dark] sheet"
  by (auto simp: leaves_all_def leaves_operations_def list_all_iff)

lemma leaves_append: "leaves_all themes (s1 @ s2) \<longleftrightarrow> leaves_all themes s1 \<and> leaves_all themes s2"
  by (simp add: leaves_all_def scoped_append)

lemmas light_leaves = leaves_page leaves_chrome leaves_css_operations leaves_details leaves_examples leaves_dialogs

lemma light_sheet_leaves: "dark \<in> set [False, True] \<Longrightarrow> leaves_all [dark] light_sheet"
  unfolding light_sheet_def leaves_append by (intro conjI light_leaves [THEN leaves_weaken]) simp_all

lemma dark_sheet_leaves: "leaves_all [True] dark_sheet"
  unfolding dark_sheet_def leaves_append by (intro conjI leaves_dark_page leaves_dark_operations leaves_dark_dialogs)

text \<open>The declarations that count in a theme.\<close>

definition themed_sheet :: "bool \<Rightarrow> stylesheet" where
  "themed_sheet dark = (if dark then SWAGGER_UI_CUSTOM_CSS else light_sheet)"

lemma themed_leaves: "leaves_all [dark] (themed_sheet dark)"
  by (cases dark) (simp_all add: themed_sheet_def SWAGGER_UI_CUSTOM_CSS_def leaves_append dark_sheet_leaves light_sheet_leaves)

lemma themed_specified:
  assumes "dark \<or> undarkened p"
  shows "specified SWAGGER_UI_CUSTOM_CSS name p = specified (themed_sheet dark) name p"
  using assms by (cases dark) (simp_all add: themed_sheet_def SWAGGER_UI_CUSTOM_CSS_def specified_def scoped_append cascade_append undarkened_none)

lemma declares_append: "declares s1 name sel v \<or> declares s2 name sel v \<Longrightarrow> declares (s1 @ s2) name sel v"
  by (auto simp: declares_def)

lemma themed_paints:
  assumes "m \<in> set METHODS"
  shows "paints (themed_sheet dark) (row_selector dark m) (row_colour dark)"
    and "paints (themed_sheet dark) (summary_selector dark m) (row_colour dark)"
    and "paints (themed_sheet dark) (pill_selector m) (verb_colour m)"
  using light_paints dark_paints assms
  by (cases dark; simp add: themed_sheet_def SWAGGER_UI_CUSTOM_CSS_def light_sheet_def dark_sheet_def list_all_iff declares_append)+

text \<open>Where an operation is: under the root element and the container of the page, with no other operation around it.\<close>

definition in_theme :: "bool \<Rightarrow> path \<Rightarrow> bool" where
  "in_theme dark p \<longleftrightarrow> embeds (theme_scope dark) p \<and> (dark \<or> undarkened p)"

definition no_rows :: "path \<Rightarrow> bool" where
  "no_rows p = list_all (\<lambda>e. list_all (\<lambda>m. row_class m \<notin> set (el_classes e)) METHODS) p"

definition operation_row :: "string \<Rightarrow> bool \<Rightarrow> string list \<Rightarrow> element" where
  "operation_row m opened states =
     an_element ''div'' ([''opblock'', row_class m] @ (if opened then [''is-open''] else [])) states"

definition operation_summary :: "string \<Rightarrow> string list \<Rightarrow> element" where
  "operation_summary m states = an_element ''div'' [''opblock-summary'', ''opblock-summary-'' @ m] states"

definition verb_pill :: "string list \<Rightarrow> element" where
  "verb_pill states = an_element ''span'' [''opblock-summary-method''] states"

lemma row_matches: "compound_matches [Cls ''opblock'', Cls (row_class m)] (operation_row m opened states)"
  by (simp add: compound_matches_def operation_row_def an_element_def)

lemma row_selected: "in_theme dark up \<Longrightarrow> selects (row_selector dark m) (up @ [operation_row m opened states])"
  unfolding row_selector_def in_theme_def by (blast intro: selects_last row_matches)

lemma summary_selected:
  "in_theme dark up \<Longrightarrow>
   selects (summary_selector dark m) (up @ operation_row m opened states # mid @ [operation_summary m states'])"
  using selects_last [OF embeds_append [OF _ embeds_one [OF row_matches]], of "theme_scope dark" up
      "[Cls ''opblock-summary'']" "operation_summary m states'" m opened states mid]
  by (simp add: in_theme_def summary_selector_def row_selector_def compound_matches_def operation_summary_def an_element_def)

lemma in_theme_container: "in_theme dark up \<Longrightarrow> embeds [[Cls ''swagger-ui'']] up"
  by (cases dark) (auto simp: in_theme_def theme_scope_def intro: embeds_weaken)

lemma pill_selected:
  "in_theme dark up \<Longrightarrow>
   selects (pill_selector m) (up @ operation_row m opened states # mid @ [verb_pill states'])"
  using selects_last [OF embeds_append [OF in_theme_container embeds_one], of dark up "[Cls (row_class m)]"
      "operation_row m opened states" "[Cls ''opblock-summary-method'']" "verb_pill states'" mid]
  by (simp add: pill_selector_def compound_matches_def operation_row_def verb_pill_def an_element_def)

lemma leaves_agrees:
  assumes "leaves_all [dark] sheet"
  shows "list_all (agrees ''background'' ''div'' ROW_CLASSES (row_weight dark) (row_colour dark)) (scoped_declarations sheet)"
    and "list_all (agrees ''background'' ''div'' SUMMARY_CLASSES (summary_weight dark) (row_colour dark)) (scoped_declarations sheet)"
  using assms
  by (auto simp: leaves_all_def list_all_iff leaves_operations_def leaves_rows_def agrees_def split: if_splits)

lemma undarkened_simps [simp]:
  "undarkened []"
  "undarkened (e # p) \<longleftrightarrow> DARK_CLASS \<notin> set (el_classes e) \<and> undarkened p"
  "undarkened (p @ q) \<longleftrightarrow> undarkened p \<and> undarkened q"
  by (simp_all add: undarkened_def)

lemma operation_undarkened [simp]:
  "DARK_CLASS \<notin> set (el_classes (operation_row m opened states))"
  "DARK_CLASS \<notin> set (el_classes (operation_summary m states))"
  "DARK_CLASS \<notin> set (el_classes (verb_pill states))"
  by (simp_all add: operation_row_def operation_summary_def verb_pill_def an_element_def DARK_CLASS_def row_class_def)

lemma row_background:
  assumes "m \<in> set METHODS" and "in_theme dark up"
  shows "specified SWAGGER_UI_CUSTOM_CSS ''background'' (up @ [operation_row m opened states]) = Some (row_colour dark)"
proof -
  let ?cs = "[''opblock'', row_class m] @ (if opened then [''is-open''] else [])"
  have p: "dark \<or> undarkened (up @ [operation_row m opened states])" using assms(2) by (auto simp: in_theme_def)
  have c: "set ?cs \<subseteq> set ROW_CLASSES" using assms(1) by (auto simp: ROW_CLASSES_def)
  show ?thesis
    unfolding themed_specified [OF p] unfolding specified_def operation_row_def
    by (rule agreed_value [where important = True and sel = "row_selector dark m" and classes = ROW_CLASSES])
      (use themed_leaves assms c in \<open>simp_all only: selector_weights leaves_agrees declares_scoped [OF themed_paints(1)]
        row_selected [unfolded operation_row_def]\<close>)
qed

lemma summary_background:
  assumes "m \<in> set METHODS" and "in_theme dark up" and "dark \<or> undarkened mid"
  shows "specified SWAGGER_UI_CUSTOM_CSS ''background'' (up @ operation_row m opened states # mid @ [operation_summary m states']) =
    Some (row_colour dark)"
proof -
  let ?up = "up @ operation_row m opened states # mid"
  have p: "dark \<or> undarkened (?up @ [operation_summary m states'])" using assms(2,3) by (auto simp: in_theme_def)
  have c: "set [''opblock-summary'', ''opblock-summary-'' @ m] \<subseteq> set SUMMARY_CLASSES"
    using assms(1) by (auto simp: SUMMARY_CLASSES_def)
  have s: "selects (summary_selector dark m) (?up @ [operation_summary m states'])"
    using summary_selected [OF assms(2)] by simp
  have "specified SWAGGER_UI_CUSTOM_CSS ''background'' (?up @ [operation_summary m states']) = Some (row_colour dark)"
    unfolding themed_specified [OF p] unfolding specified_def operation_summary_def
    by (rule agreed_value [where important = True and sel = "summary_selector dark m" and classes = SUMMARY_CLASSES])
      (use themed_leaves assms c s in \<open>simp_all only: selector_weights leaves_agrees declares_scoped [OF themed_paints(2)]
        operation_summary_def\<close>)
  then show ?thesis by simp
qed

lemma no_rows_simps [simp]:
  "no_rows []"
  "no_rows (e # p) \<longleftrightarrow> list_all (\<lambda>m. row_class m \<notin> set (el_classes e)) METHODS \<and> no_rows p"
  "no_rows (p @ q) \<longleftrightarrow> no_rows p \<and> no_rows q"
  by (simp_all add: no_rows_def)

lemma row_of: "row_class m \<in> set (el_classes (operation_row m' opened states)) \<longleftrightarrow> m = m'"
  by (auto simp: operation_row_def an_element_def row_class_def)

lemma no_pill_row: "m \<in> set METHODS \<Longrightarrow> row_class m \<notin> set (el_classes (verb_pill states))"
  by (auto simp: METHODS_def verb_pill_def an_element_def row_class_def)

lemma rowless: "no_rows p \<Longrightarrow> e \<in> set p \<Longrightarrow> m \<in> set METHODS \<Longrightarrow> row_class m \<notin> set (el_classes e)"
  by (auto simp: no_rows_def list_all_iff)

text \<open>A rule for the verb of some method selects only in a row of that method.\<close>

lemma pill_method:
  assumes "selects sel (up @ operation_row m opened states # mid @ [verb_pill states'])"
    and "[Cls (row_class m')] \<in> set sel" and "m' \<in> set METHODS" and "no_rows up" and "no_rows mid"
  shows "m' = m"
proof -
  obtain e where "e \<in> set (up @ operation_row m opened states # mid @ [verb_pill states'])" "row_class m' \<in> set (el_classes e)"
    using selects_compound [OF assms(1,2)] compound_class by fastforce
  then show ?thesis using assms(3-5) rowless no_pill_row row_of by auto
qed

lemma pill_background:
  assumes "m \<in> set METHODS" and "in_theme dark up" and "dark \<or> undarkened mid" and "no_rows up" and "no_rows mid"
  shows "specified SWAGGER_UI_CUSTOM_CSS ''background'' (up @ operation_row m opened states # mid @ [verb_pill states']) =
    Some (verb_colour m)"
proof -
  let ?p = "up @ operation_row m opened states # mid @ [verb_pill states']"
  have p: "dark \<or> undarkened ?p" using assms(2,3) by (auto simp: in_theme_def)
  show ?thesis
    unfolding themed_specified [OF p] unfolding specified_def
  proof (rule cascade_value)
    show "(pill_selector m, ''background'', verb_colour m, True) \<in> set (scoped_declarations (themed_sheet dark))"
      by (rule declares_scoped [OF themed_paints(3) [OF assms(1)]])
    show "selects (pill_selector m) ?p" by (rule pill_selected [OF assms(2)])
    fix sel v important
    assume d: "(sel, ''background'', v, important) \<in> set (scoped_declarations (themed_sheet dark))" and s: "selects sel ?p"
      and w: "at_most (weight_of True (pill_selector m)) (weight_of important sel)"
    from s have "may_be_about ''span'' PILL_CLASSES sel"
      using selects_may [of sel "up @ operation_row m opened states # mid" "''span''" "[''opblock-summary-method'']" states' PILL_CLASSES]
      by (simp add: verb_pill_def PILL_CLASSES_def)
    moreover have "leaves_pills (sel, ''background'', v, important)"
      using d themed_leaves [of dark] by (auto simp: leaves_all_def list_all_iff leaves_operations_def)
    ultimately obtain m' where "m' \<in> set METHODS" "v = verb_colour m'" "[Cls (row_class m')] \<in> set sel"
      using w by (auto simp: leaves_pills_def selector_weights list_ex_iff split: if_splits)
    with pill_method [OF s _ _ assms(4,5)] show "v = verb_colour m" by blast
  qed
qed

subsection \<open>The theme of the page\<close>

text \<open>The root element of a page, which is where the script's toggle puts the dark class.\<close>

definition theme_root :: "bool \<Rightarrow> element" where
  "theme_root dark = an_element ''html'' (if dark then [DARK_CLASS] else []) []"

definition root_element :: "page \<Rightarrow> element" where
  "root_element pg = theme_root (pg_darkClass pg)"

lemma root_in_theme:
  assumes "undarkened rest" and "embeds [[Cls ''swagger-ui'']] rest"
  shows "in_theme (pg_darkClass pg) (root_element pg # rest)"
  using assms by (auto simp: in_theme_def theme_scope_def root_element_def theme_root_def an_element_def compound_matches_def)

lemma settles_value:
  assumes "specified sheet name p = Some v" and "yields_on name host"
    and "declares sheet name sel u" and "selects sel p"
  shows "specified (host @ sheet) name p = Some v"
proof -
  have "list_ex (settles name p) (scoped_declarations sheet)"
    using declares_scoped [OF assms(3)] assms(4) by (auto simp: list_ex_iff settles_def applies_def)
  from important_wins [OF assms(2) this] show ?thesis by (simp add: assms(1))
qed

lemma custom_paints:
  assumes "m \<in> set METHODS"
  shows "paints SWAGGER_UI_CUSTOM_CSS (row_selector dark m) (row_colour dark)"
    and "paints SWAGGER_UI_CUSTOM_CSS (summary_selector dark m) (row_colour dark)"
    and "paints SWAGGER_UI_CUSTOM_CSS (pill_selector m) (verb_colour m)"
  using themed_paints [OF assms, of dark] by (cases dark; auto simp: themed_sheet_def SWAGGER_UI_CUSTOM_CSS_def intro: declares_append)+

text \<open>
  C39: whatever else styles the page, as long as it marks no background as important, the row and the summary of
  every operation have the colour of the page's theme, white or dark, and only the pill with the verb has the
  colour of the method: method colour is on the verb alone, in the theme that the class on the root
  element says, for every method, opened or closed, hovered or not, wherever Swagger UI nests them.
\<close>

theorem method_colour_only_on_the_verb:
  assumes "yields_on ''background'' host" and "m \<in> set METHODS"
    and "undarkened (rest @ mid)" and "embeds [[Cls ''swagger-ui'']] rest" and "no_rows (root_element pg # rest @ mid)"
  shows "specified (host @ SWAGGER_UI_CUSTOM_CSS) ''background'' (root_element pg # rest @ [operation_row m opened st]) =
      Some (row_colour (pg_darkClass pg)) \<and>
    specified (host @ SWAGGER_UI_CUSTOM_CSS) ''background''
      (root_element pg # rest @ operation_row m opened st # mid @ [operation_summary m st']) =
      Some (row_colour (pg_darkClass pg)) \<and>
    specified (host @ SWAGGER_UI_CUSTOM_CSS) ''background''
      (root_element pg # rest @ operation_row m opened st # mid @ [verb_pill st'']) = Some (verb_colour m)"
proof -
  let ?up = "root_element pg # rest" and ?dark = "pg_darkClass pg"
  have t: "in_theme ?dark ?up" using assms(3,4) by (intro root_in_theme) simp_all
  have u: "?dark \<or> undarkened mid" using assms(3) by simp
  have n: "no_rows ?up" "no_rows mid" using assms(5) by simp_all
  note bg = settles_value [OF _ assms(1)]
  have "specified (host @ SWAGGER_UI_CUSTOM_CSS) ''background'' (?up @ [operation_row m opened st]) = Some (row_colour ?dark)"
    by (rule bg [OF row_background custom_paints(1) row_selected]) (rule assms(2) t)+
  moreover have "specified (host @ SWAGGER_UI_CUSTOM_CSS) ''background'' (?up @ operation_row m opened st # mid @ [operation_summary m st']) = Some (row_colour ?dark)"
    by (rule bg [OF summary_background custom_paints(2) summary_selected]) (rule assms(2) t u)+
  moreover have "specified (host @ SWAGGER_UI_CUSTOM_CSS) ''background'' (?up @ operation_row m opened st # mid @ [verb_pill st'']) = Some (verb_colour m)"
    by (rule bg [OF pill_background custom_paints(3) pill_selected]) (rule assms(2) t u n)+
  ultimately show ?thesis by simp
qed

lemma method_colour_only_on_the_verb_witness:
  "specified ([([[[Cls ''opblock'', Cls ''opblock-get'']]], [(''background'', Colour 0xebf3fb, False)])] @ SWAGGER_UI_CUSTOM_CSS)
     ''background'' (root_element (toggle_clicked 0 (loaded_page None False)) #
       [an_element ''body'' [] [], an_element ''div'' [''swagger-ui''] []] @ [operation_row ''get'' True []]) = Some (Colour 0x111827)"
proof -
  let ?host = "[([[[Cls ''opblock'', Cls ''opblock-get'']]], [(''background'', Colour 0xebf3fb, False)])] :: stylesheet"
  let ?rest = "[an_element ''body'' [] [], an_element ''div'' [''swagger-ui''] []]"
  let ?pg = "toggle_clicked 0 (loaded_page None False)"
  have "yields_on ''background'' ?host" and "''get'' \<in> set METHODS" and "undarkened (?rest @ [])"
    and "embeds [[Cls ''swagger-ui'']] ?rest" and "no_rows (root_element ?pg # ?rest @ [])" and "pg_darkClass ?pg"
    by code_simp+
  then show ?thesis using method_colour_only_on_the_verb [of ?host "''get''" ?rest "[]" ?pg] by (simp add: row_colour_def)
qed

subsection \<open>Texts that keep the colours of the light theme\<close>

text \<open>The status of a response, a rendered description, and a link in one, with the selectors that colour them.\<close>

definition status_cell :: "string list \<Rightarrow> element" where
  "status_cell states = an_element ''td'' [''response-col_status''] states"

definition description_block :: "string list \<Rightarrow> element" where
  "description_block states = an_element ''div'' [''renderedMarkdown''] states"

definition description_link :: "string list \<Rightarrow> element" where
  "description_link states = an_element ''a'' [] states"

abbreviation status_selector :: selector where
  "status_selector \<equiv> [[Cls ''swagger-ui''], [Cls ''response-col_status'']]"

abbreviation description_selector :: selector where
  "description_selector \<equiv> [[Cls ''swagger-ui''], [Cls ''renderedMarkdown'']]"

abbreviation link_selector :: selector where
  "link_selector \<equiv> [[Cls ''swagger-ui''], [Cls ''renderedMarkdown''], [Tag ''a'']]"

text \<open>
  Places with rules of their own for what is in them: the head of a table, a highlighted example, the title of a tag and the top bar.
\<close>

definition ELSEWHERE :: "simple_selector list" where
  "ELSEWHERE = [Tag ''thead'', Cls ''microlight'', Cls ''opblock-tag'', Cls ''topbar'']"

definition outside_these :: "path \<Rightarrow> bool" where
  "outside_these p = list_all (\<lambda>e. list_all (\<lambda>s. \<not> holds e s) ELSEWHERE) p"

definition about_elsewhere :: "selector \<Rightarrow> bool" where
  "about_elsewhere sel = list_ex (list_ex (\<lambda>s. s \<in> set ELSEWHERE)) sel"

lemma elsewhere_unselected: "about_elsewhere sel \<Longrightarrow> outside_these p \<Longrightarrow> \<not> selects sel p"
  by (fastforce simp: about_elsewhere_def outside_these_def list_ex_iff list_all_iff compound_matches_def dest: selects_compound)

text \<open>Whether a declaration leaves the colour of such an element to a selector.\<close>

definition leaves_colour :: "string \<Rightarrow> string list \<Rightarrow> selector \<Rightarrow> css_value \<Rightarrow> selector \<times> css_declaration \<Rightarrow> bool" where
  "leaves_colour tag classes sel v d = (case d of (sel', name, v', important) \<Rightarrow>
     if name = ''color'' then
       if v' = v then True
       else if may_be_about tag classes sel' then
         if at_most (weight_of True sel) (weight_of important sel') then about_elsewhere sel' else True
       else True
     else True)"

definition leaves_texts :: "stylesheet \<Rightarrow> bool" where
  "leaves_texts sheet = list_all (\<lambda>d.
     leaves_colour ''td'' [''response-col_status''] status_selector (Colour 0x047857) d \<and>
     leaves_colour ''div'' [''renderedMarkdown''] description_selector (Colour 0x475569) d \<and>
     leaves_colour ''a'' [] link_selector (Colour 0x2563eb) d) (scoped_declarations sheet)"

lemma texts_page: "leaves_texts css_page" by code_simp
lemma texts_chrome: "leaves_texts css_chrome" by code_simp
lemma texts_operations: "leaves_texts css_operations" by code_simp
lemma texts_details: "leaves_texts css_details" by code_simp
lemma texts_examples: "leaves_texts css_examples" by code_simp
lemma texts_dialogs: "leaves_texts css_dialogs" by code_simp
lemma texts_dark_page: "leaves_texts css_dark_page" by code_simp
lemma texts_dark_operations: "leaves_texts css_dark_operations" by code_simp
lemma texts_dark_dialogs: "leaves_texts css_dark_dialogs" by code_simp

lemma custom_leaves_texts: "leaves_texts SWAGGER_UI_CUSTOM_CSS"
  using texts_page texts_chrome texts_operations texts_details texts_examples texts_dialogs texts_dark_page
    texts_dark_operations texts_dark_dialogs
  by (simp add: leaves_texts_def SWAGGER_UI_CUSTOM_CSS_def light_sheet_def dark_sheet_def scoped_append)

lemma light_inks:
  "declares css_details ''color'' status_selector (Colour 0x047857)"
  "declares css_page ''color'' description_selector (Colour 0x475569)"
  "declares css_page ''color'' link_selector (Colour 0x2563eb)"
  by code_simp+

lemma custom_inks:
  "declares SWAGGER_UI_CUSTOM_CSS ''color'' status_selector (Colour 0x047857)"
  "declares SWAGGER_UI_CUSTOM_CSS ''color'' description_selector (Colour 0x475569)"
  "declares SWAGGER_UI_CUSTOM_CSS ''color'' link_selector (Colour 0x2563eb)"
  using light_inks by (simp_all add: SWAGGER_UI_CUSTOM_CSS_def light_sheet_def declares_append)

lemma kept_colour:
  assumes "list_all (leaves_colour tag cs sel v) (scoped_declarations sheet)" and "declares sheet ''color'' sel v"
    and "selects sel (up @ [an_element tag cs st])" and "outside_these (up @ [an_element tag cs st])"
    and "yields_on ''color'' host"
  shows "specified (host @ sheet) ''color'' (up @ [an_element tag cs st]) = Some v"
proof (rule settles_value [OF _ assms(5,2,3)], unfold specified_def, rule cascade_value)
  show "(sel, ''color'', v, True) \<in> set (scoped_declarations sheet)" by (rule declares_scoped [OF assms(2)])
  show "selects sel (up @ [an_element tag cs st])" by (rule assms(3))
  fix sel' v' important'
  assume d: "(sel', ''color'', v', important') \<in> set (scoped_declarations sheet)" and s: "selects sel' (up @ [an_element tag cs st])"
    and w: "at_most (weight_of True sel) (weight_of important' sel')"
  have "leaves_colour tag cs sel v (sel', ''color'', v', important')" using assms(1) d by (auto simp: list_all_iff)
  then show "v' = v"
    using w selects_may [OF s subset_refl] elsewhere_unselected [OF _ assms(4)] s by (auto simp: leaves_colour_def split: if_splits)
qed

lemma texts_outside [simp]:
  "outside_these (p @ q) \<longleftrightarrow> outside_these p \<and> outside_these q"
  "outside_these (root_element pg # p) \<longleftrightarrow> outside_these p"
  "outside_these [status_cell st]" "outside_these [description_link st]"
  "outside_these (description_block st # p) \<longleftrightarrow> outside_these p" "outside_these []"
  by (simp_all add: outside_these_def ELSEWHERE_def root_element_def theme_root_def an_element_def DARK_CLASS_def status_cell_def
      description_block_def description_link_def)

lemma texts_selected:
  assumes "embeds [[Cls ''swagger-ui'']] up"
  shows "selects status_selector (up @ [status_cell st])"
    and "selects description_selector (up @ [description_block st])"
    and "selects link_selector ((up @ description_block st # mid) @ [description_link st'])"
proof -
  show "selects status_selector (up @ [status_cell st])" and "selects description_selector (up @ [description_block st])"
    using selects_last [OF assms, of "[Cls ''response-col_status'']" "status_cell st"]
      selects_last [OF assms, of "[Cls ''renderedMarkdown'']" "description_block st"]
    by (simp_all add: compound_matches_def status_cell_def description_block_def an_element_def)
  show "selects link_selector ((up @ description_block st # mid) @ [description_link st'])"
    using selects_last [OF embeds_append [OF assms embeds_one], of "[Cls ''renderedMarkdown'']" "description_block st" "[Tag ''a'']"
        "description_link st'" mid]
    by (simp add: compound_matches_def description_block_def description_link_def an_element_def)
qed

lemma text_contrast:
  "list_all (\<lambda>c. list_all (\<lambda>dark. stands_out (Colour c) (row_colour dark) = (\<not> dark)) [False, True])
     [0x047857, 0x475569, 0x2563eb]"
  by code_simp

text \<open>
  C40: not all text follows the theme.  Whatever else styles the page, as long as it marks no colour as important, and wherever
  Swagger UI nests them, outside the four places with rules of their own, the status of a response, a rendered description and the
  links in it have the same colour in both themes; each stands out from the colour of an operation row in the light theme, and none
  does in the dark one.
\<close>

theorem dark_theme_leaves_light_texts:
  assumes "yields_on ''color'' host" and "embeds [[Cls ''swagger-ui'']] rest" and "outside_these (rest @ mid)"
  shows "list_all (\<lambda>(p, c). specified (host @ SWAGGER_UI_CUSTOM_CSS) ''color'' (root_element pg # rest @ p) = Some c \<and>
      stands_out c (row_colour (pg_darkClass pg)) = (\<not> pg_darkClass pg))
    [([status_cell st], Colour 0x047857), ([description_block st], Colour 0x475569),
     (description_block st # mid @ [description_link st'], Colour 0x2563eb)]"
proof -
  let ?up = "root_element pg # rest"
  have c: "embeds [[Cls ''swagger-ui'']] ?up" using assms(2) by simp
  have l: "list_all (leaves_colour ''td'' [''response-col_status''] status_selector (Colour 0x047857)) (scoped_declarations SWAGGER_UI_CUSTOM_CSS)"
    "list_all (leaves_colour ''div'' [''renderedMarkdown''] description_selector (Colour 0x475569)) (scoped_declarations SWAGGER_UI_CUSTOM_CSS)"
    "list_all (leaves_colour ''a'' [] link_selector (Colour 0x2563eb)) (scoped_declarations SWAGGER_UI_CUSTOM_CSS)"
    using custom_leaves_texts by (simp_all add: leaves_texts_def list_all_iff)
  note kept = kept_colour [OF _ _ _ _ assms(1)]
  have "specified (host @ SWAGGER_UI_CUSTOM_CSS) ''color'' (?up @ [status_cell st]) = Some (Colour 0x047857)"
    using kept [OF l(1) custom_inks(1), of ?up st] texts_selected(1) [OF c, of st] assms(3) by (simp add: status_cell_def [symmetric])
  moreover have "specified (host @ SWAGGER_UI_CUSTOM_CSS) ''color'' (?up @ [description_block st]) = Some (Colour 0x475569)"
    using kept [OF l(2) custom_inks(2), of ?up st] texts_selected(2) [OF c, of st] assms(3) by (simp add: description_block_def [symmetric])
  moreover have "specified (host @ SWAGGER_UI_CUSTOM_CSS) ''color'' ((?up @ description_block st # mid) @ [description_link st']) = Some (Colour 0x2563eb)"
    using kept [OF l(3) custom_inks(3), of "?up @ description_block st # mid" st'] texts_selected(3) [OF c, of st mid st'] assms(3)
    by (simp add: description_link_def [symmetric])
  ultimately show ?thesis using text_contrast by (cases "pg_darkClass pg") simp_all
qed

text \<open>A description in an opened operation, on a page that has been switched to the dark theme, under a host sheet that links in blue.\<close>

lemma dark_theme_leaves_light_texts_witness:
  "specified ([([[[Tag ''a'']]], [(''color'', Colour 0x4990e2, False)])] @ SWAGGER_UI_CUSTOM_CSS) ''color''
     (root_element (toggle_clicked 0 (loaded_page None False)) #
       [an_element ''body'' [] [], an_element ''div'' [''swagger-ui''] [], operation_row ''get'' True []] @
       description_block [] # [an_element ''p'' [] []] @ [description_link [''hover'']]) = Some (Colour 0x2563eb) \<and>
   \<not> stands_out (Colour 0x2563eb) (row_colour True)"
proof -
  let ?host = "[([[[Tag ''a'']]], [(''color'', Colour 0x4990e2, False)])] :: stylesheet"
  let ?rest = "[an_element ''body'' [] [], an_element ''div'' [''swagger-ui''] [], operation_row ''get'' True []]"
  let ?mid = "[an_element ''p'' [] []]"
  let ?pg = "toggle_clicked 0 (loaded_page None False)"
  have "yields_on ''color'' ?host" and "embeds [[Cls ''swagger-ui'']] ?rest" and "outside_these (?rest @ ?mid)"
    and "pg_darkClass ?pg" by code_simp+
  then show ?thesis
    using dark_theme_leaves_light_texts [of ?host ?rest ?mid ?pg "[]" "[''hover'']"] by simp
qed

end
