(* ===== verification/EntryPoints.thy ===== *)
theory EntryPoints
  imports Prelude
begin

section \<open>The check of the package's entry points\<close>

text \<open>
  \<^verbatim>\<open>scripts/verify-entry-points.mjs\<close>, which ends the build: the manifest declares nothing but its
  exports map, every entry point offers types and a default that were emitted and loads, and the root
  loads where the optional peers are missing.

  The emitted files are arguments: \<open>exists_file\<close> answers for a target, \<open>loads\<close> for a specifier that is
  imported and required in the package's own environment, and \<open>deps\<close> gives the specifiers a module
  of the finite list \<open>modules\<close> imports.  Loading a module first links everything it imports, directly or not; that is
  what the child process does under the script's hook, and what a consumer's process does.
\<close>

subsection \<open>The manifest\<close>

text \<open>An entry of the exports map is a table of conditions or a plain target.\<close>

datatype export_entry = Conditions "(string \<times> string) list" | Target string

record manifest =
  mf_name :: string
  mf_keys :: "string list"
  mf_exports :: "(string \<times> export_entry) list"
  mf_peerDependenciesMeta :: "(string \<times> bool option) list option"

definition optionalPeers :: "manifest \<Rightarrow> string list" where
  "optionalPeers m = map fst (filter (\<lambda>(_, optional). optional = Some True) (nullish (mf_peerDependenciesMeta m) []))"

definition legacy_fields :: "string list" where
  "legacy_fields = [''main'', ''module'', ''types'', ''typesVersions'']"

text \<open>\<open>subpath === '.' ? manifest.name : `${manifest.name}/${subpath.slice(2)}`\<close>.\<close>

definition specifier_of :: "manifest \<Rightarrow> string \<Rightarrow> string" where
  "specifier_of m subpath = (if subpath = ''.'' then mf_name m else mf_name m @ ''/'' @ drop 2 subpath)"

subsection \<open>Linking\<close>

text \<open>The hook: the name of a peer, or a path below it.\<close>

definition starts_with :: "string \<Rightarrow> string \<Rightarrow> bool" where
  "starts_with s prefix = (take (length prefix) s = prefix)"

definition blocks :: "string list \<Rightarrow> string \<Rightarrow> bool" where
  "blocks blocked specifier = list_ex (\<lambda>name. specifier = name \<or> starts_with specifier (name @ ''/'')) blocked"

text \<open>
  Linking a work list: a specifier that is refused ends it; a module is linked once, with what it
  deps; a specifier that is no module of the list, a package of the runtime or of another
  author, deps nothing further here.
\<close>

function links :: "string list \<Rightarrow> (string \<Rightarrow> string list) \<Rightarrow> (string \<Rightarrow> bool) \<Rightarrow> string list \<Rightarrow> string list \<Rightarrow> bool" where
  "links modules deps refused seen [] = True"
| "links modules deps refused seen (m # work) =
     (if refused m then False
      else if m \<in> set seen \<or> m \<notin> set modules then links modules deps refused seen work
      else links modules deps refused (m # seen) (deps m @ work))"
  by pat_completeness auto

termination
proof (relation "inv_image (less_than <*lex*> less_than)
    (\<lambda>(modules, deps, refused, seen, work). (card (set modules - set seen), length work))")
  fix modules :: "string list" and deps and refused :: "string \<Rightarrow> bool" and seen m work
  assume "\<not> (m \<in> set seen \<or> m \<notin> set modules)"
  then have "card (set modules - set (m # seen)) < card (set modules - set seen)"
    by (intro psubset_card_mono) auto
  then show "((modules, deps, refused, m # seen, deps m @ work), (modules, deps, refused, seen, m # work))
      \<in> inv_image (less_than <*lex*> less_than)
        (\<lambda>(modules, deps, refused, seen, work). (card (set modules - set seen), length work))"
    by simp
qed auto

subsection \<open>The script\<close>

datatype script_failure =
    Legacy_field string
  | Wrong_conditions string
  | Not_emitted string string
  | Does_not_load string
  | No_root
  | Root_needs_optional_peer "string list"

fun check_fields :: "manifest \<Rightarrow> string list \<Rightarrow> script_failure + unit" where
  "check_fields m [] = Inr ()"
| "check_fields m (field # rest) =
     (if field \<in> set (mf_keys m) then Inl (Legacy_field field) else check_fields m rest)"

text \<open>\<open>Object.values\<close> of the conditions; of a plain target, \<open>Object.keys\<close> gives the indices of its characters.\<close>

definition condition_keys :: "export_entry \<Rightarrow> string list option" where
  "condition_keys entry = (case entry of Conditions cs \<Rightarrow> Some (map fst cs) | Target _ \<Rightarrow> None)"

fun check_targets :: "(string \<Rightarrow> bool) \<Rightarrow> string \<Rightarrow> (string \<times> string) list \<Rightarrow> script_failure + unit" where
  "check_targets exists_file specifier [] = Inr ()"
| "check_targets exists_file specifier ((_, target) # rest) =
     (if exists_file target then check_targets exists_file specifier rest else Inl (Not_emitted specifier target))"

fun check_exports ::
    "(string \<Rightarrow> bool) \<Rightarrow> (string \<Rightarrow> bool) \<Rightarrow> manifest \<Rightarrow> (string \<times> export_entry) list \<Rightarrow> script_failure + unit" where
  "check_exports exists_file loads m [] = Inr ()"
| "check_exports exists_file loads m ((subpath, entry) # rest) =
     (if subpath = ''./package.json'' then check_exports exists_file loads m rest
      else let specifier = specifier_of m subpath in
        if condition_keys entry \<noteq> Some [''types'', ''default''] then Inl (Wrong_conditions specifier)
        else bind_res (check_targets exists_file specifier (case entry of Conditions cs \<Rightarrow> cs | Target _ \<Rightarrow> [])) (\<lambda>_.
          if loads specifier then check_exports exists_file loads m rest else Inl (Does_not_load specifier)))"

text \<open>\<open>manifest.exports['.'].default\<close>.\<close>

definition root_default :: "manifest \<Rightarrow> string option" where
  "root_default m = (case map_of (mf_exports m) ''.'' of
     Some (Conditions cs) \<Rightarrow> map_of cs ''default'' | _ \<Rightarrow> None)"

text \<open>The child process ends with status 0 exactly when the root links under the hook; evaluating it then succeeds as in the
  package's own environment.\<close>

definition verify_entry_points ::
    "(string \<Rightarrow> bool) \<Rightarrow> (string \<Rightarrow> bool) \<Rightarrow> string list \<Rightarrow> (string \<Rightarrow> string list) \<Rightarrow> manifest \<Rightarrow>
     script_failure + nat" where
  "verify_entry_points exists_file loads modules deps m =
     bind_res (check_fields m legacy_fields) (\<lambda>_.
     bind_res (check_exports exists_file loads m (mf_exports m)) (\<lambda>_.
       if length (optionalPeers m) > 0
       then (case root_default m of
           None \<Rightarrow> Inl No_root
         | Some start \<Rightarrow>
             if links modules deps (blocks (optionalPeers m)) [] [start] then Inr (length (mf_exports m) - 1)
             else Inl (Root_needs_optional_peer (optionalPeers m)))
       else Inr (length (mf_exports m) - 1)))"

subsection \<open>Linking is reachability\<close>

definition imports_of :: "string list \<Rightarrow> (string \<Rightarrow> string list) \<Rightarrow> string \<Rightarrow> string \<Rightarrow> bool" where
  "imports_of modules deps m k \<longleftrightarrow> m \<in> set modules \<and> k \<in> set (deps m)"

text \<open>A set of specifiers that is linked whole: nothing in it is refused, and what its modules import is in it.\<close>

definition linked_whole :: "string list \<Rightarrow> (string \<Rightarrow> string list) \<Rightarrow> (string \<Rightarrow> bool) \<Rightarrow> string set \<Rightarrow> bool" where
  "linked_whole modules deps refused L \<longleftrightarrow>
     (\<forall>m \<in> L. \<not> refused m \<and> (\<forall>k. imports_of modules deps m k \<longrightarrow> k \<in> L))"

lemma links_sound:
  assumes "links modules deps refused seen work"
    and "\<forall>m \<in> set seen. \<not> refused m \<and> (\<forall>k. imports_of modules deps m k \<longrightarrow>
      k \<in> set seen \<union> set work \<or> (k \<notin> set modules \<and> \<not> refused k))"
  shows "\<exists>L. set work \<subseteq> L \<and> set seen \<subseteq> L \<and> linked_whole modules deps refused L"
  using assms
proof (induction modules deps refused seen work rule: links.induct)
  case (1 modules deps refused seen)
  then show ?case
    by (intro exI [of _ "set seen \<union> {k. k \<notin> set modules \<and> \<not> refused k}"])
      (auto simp: linked_whole_def imports_of_def)
next
  case (2 modules deps refused seen m work)
  have free: "\<not> refused m" using "2.prems"(1) by (simp split: if_splits)
  consider (skipped) "m \<in> set seen \<or> m \<notin> set modules" | (fresh) "m \<notin> set seen" "m \<in> set modules" by blast
  then show ?case
  proof cases
    case skipped
    have "links modules deps refused seen work" using "2.prems"(1) skipped free by auto
    moreover have "\<forall>x \<in> set seen. \<not> refused x \<and> (\<forall>k. imports_of modules deps x k \<longrightarrow>
        k \<in> set seen \<union> set work \<or> (k \<notin> set modules \<and> \<not> refused k))"
      using "2.prems"(2) skipped free by auto
    ultimately have "\<exists>L. set work \<subseteq> L \<and> set seen \<subseteq> L \<and> linked_whole modules deps refused L"
      using "2.IH"(1) [OF free skipped] by blast
    then obtain L where L: "set work \<subseteq> L" "set seen \<subseteq> L" "linked_whole modules deps refused L" by blast
    then have "linked_whole modules deps refused (insert m L)"
      using skipped free by (auto simp: linked_whole_def imports_of_def)
    then show ?thesis using L by (intro exI [of _ "insert m L"]) auto
  next
    case fresh
    have "links modules deps refused (m # seen) (deps m @ work)" using "2.prems"(1) fresh free by simp
    moreover have "\<forall>x \<in> set (m # seen). \<not> refused x \<and> (\<forall>k. imports_of modules deps x k \<longrightarrow>
        k \<in> set (m # seen) \<union> set (deps m @ work) \<or> (k \<notin> set modules \<and> \<not> refused k))"
      using "2.prems"(2) free by (auto simp: imports_of_def)
    ultimately have "\<exists>L. set (deps m @ work) \<subseteq> L \<and> set (m # seen) \<subseteq> L \<and> linked_whole modules deps refused L"
      using "2.IH"(2) fresh free by blast
    then show ?thesis by auto
  qed
qed

lemma linked_whole_reaches:
  assumes "(imports_of modules deps)\<^sup>*\<^sup>* m k" and "linked_whole modules deps refused L" and "m \<in> L"
  shows "k \<in> L"
  using assms by (induction rule: rtranclp_induct) (auto simp: linked_whole_def)

lemma links_complete:
  assumes "\<forall>m \<in> set work. \<forall>k. (imports_of modules deps)\<^sup>*\<^sup>* m k \<longrightarrow> \<not> refused k"
  shows "links modules deps refused seen work"
  using assms
proof (induction modules deps refused seen work rule: links.induct)
  case (2 modules deps refused seen m work)
  have free: "\<not> refused m" using "2.prems" by auto
  have "\<forall>x \<in> set (deps m). \<forall>k. (imports_of modules deps)\<^sup>*\<^sup>* x k \<longrightarrow> \<not> refused k" if "m \<in> set modules"
  proof (intro ballI allI impI)
    fix x k
    assume "x \<in> set (deps m)" and "(imports_of modules deps)\<^sup>*\<^sup>* x k"
    then have "(imports_of modules deps)\<^sup>*\<^sup>* m k"
      using that by (intro converse_rtranclp_into_rtranclp [of _ m x k]) (simp_all add: imports_of_def)
    then show "\<not> refused k" using "2.prems" by simp
  qed
  then show ?case using 2 free by auto
qed simp

declare links.simps [simp del]

theorem links_iff:
  "links modules deps refused [] [start] \<longleftrightarrow> (\<forall>k. (imports_of modules deps)\<^sup>*\<^sup>* start k \<longrightarrow> \<not> refused k)"
proof
  assume "links modules deps refused [] [start]"
  then obtain L where L: "start \<in> L" "linked_whole modules deps refused L"
    using links_sound [of modules deps refused "[]" "[start]"] by auto
  show "\<forall>k. (imports_of modules deps)\<^sup>*\<^sup>* start k \<longrightarrow> \<not> refused k"
  proof (intro allI impI)
    fix k
    assume "(imports_of modules deps)\<^sup>*\<^sup>* start k"
    from linked_whole_reaches [OF this L(2,1)] L(2) show "\<not> refused k" by (simp add: linked_whole_def)
  qed
qed (simp add: links_complete)

subsection \<open>Properties\<close>

lemma check_fields_ok: "is_ok (check_fields m fs) = list_all (\<lambda>f. f \<notin> set (mf_keys m)) fs"
  by (induction m fs rule: check_fields.induct) auto

lemma check_targets_ok: "is_ok (check_targets exists_file sp cs) = list_all (exists_file \<circ> snd) cs"
  by (induction exists_file sp cs rule: check_targets.induct) auto

text \<open>An entry that is as it should be: both conditions, in order, emitted, and loadable.\<close>

definition good_entry :: "(string \<Rightarrow> bool) \<Rightarrow> (string \<Rightarrow> bool) \<Rightarrow> manifest \<Rightarrow> string \<times> export_entry \<Rightarrow> bool" where
  "good_entry exists_file loads m e = (case e of (subpath, entry) \<Rightarrow> subpath = ''./package.json'' \<or>
     (case entry of
        Conditions [(k, types), (k', main)] \<Rightarrow> k = ''types'' \<and> k' = ''default'' \<and> exists_file types \<and>
          exists_file main \<and> loads (specifier_of m subpath)
      | _ \<Rightarrow> False))"

lemma check_exports_ok: "is_ok (check_exports exists_file loads m es) = list_all (good_entry exists_file loads m) es"
proof (induction exists_file loads m es rule: check_exports.induct)
  case (2 exists_file loads m subpath entry rest)
  show ?case
  proof (cases "condition_keys entry = Some [''types'', ''default'']")
    case True
    then obtain types main where "entry = Conditions [(''types'', types), (''default'', main)]"
      by (auto simp: condition_keys_def map_eq_Cons_conv split: export_entry.splits)
    then show ?thesis using 2 by (auto simp: good_entry_def condition_keys_def Let_def)
  next
    case False
    then show ?thesis using 2
      by (auto simp: good_entry_def condition_keys_def Let_def split: export_entry.splits list.splits)
  qed
qed simp

lemma is_ok_bind: "is_ok (bind_res r f) = (case r of Inl _ \<Rightarrow> False | Inr a \<Rightarrow> is_ok (f a))"
  by (cases r) auto

lemma blocks_mono: "set missing \<subseteq> set blocked \<Longrightarrow> blocks missing s \<Longrightarrow> blocks blocked s"
  by (auto simp: blocks_def list_ex_iff)

text \<open>
  A published package is wired.  The check passes exactly when no legacy field is declared, every entry point but
  the manifest's own offers types and a default, both emitted, and loads, and, with optional peers, the root is
  declared and reaches none of them, nor a path below one, through imports of any depth; then the root
  loads for every consumer, whichever of the optional peers it has left out.
\<close>

theorem published_entry_points_load:
  "is_ok (verify_entry_points exists_file loads modules deps m) =
     (list_all (\<lambda>f. f \<notin> set (mf_keys m)) legacy_fields \<and>
      list_all (good_entry exists_file loads m) (mf_exports m) \<and>
      (optionalPeers m = [] \<or> (\<exists>start. root_default m = Some start \<and>
        (\<forall>k. (imports_of modules deps)\<^sup>*\<^sup>* start k \<longrightarrow> \<not> blocks (optionalPeers m) k)))) \<and>
   (is_ok (verify_entry_points exists_file loads modules deps m) \<longrightarrow> set missing \<subseteq> set (optionalPeers m) \<longrightarrow>
      missing \<noteq> [] \<longrightarrow> links modules deps (blocks missing) [] [the (root_default m)])"
proof (intro conjI impI)
  show iff: "is_ok (verify_entry_points exists_file loads modules deps m) =
     (list_all (\<lambda>f. f \<notin> set (mf_keys m)) legacy_fields \<and>
      list_all (good_entry exists_file loads m) (mf_exports m) \<and>
      (optionalPeers m = [] \<or> (\<exists>start. root_default m = Some start \<and>
        (\<forall>k. (imports_of modules deps)\<^sup>*\<^sup>* start k \<longrightarrow> \<not> blocks (optionalPeers m) k))))"
    using check_fields_ok [of m legacy_fields] check_exports_ok [of exists_file loads m "mf_exports m"]
    by (auto simp: verify_entry_points_def is_ok_bind links_iff split: sum.split option.split)
  assume "is_ok (verify_entry_points exists_file loads modules deps m)" and sub: "set missing \<subseteq> set (optionalPeers m)"
    and "missing \<noteq> []"
  then obtain start where "root_default m = Some start"
    "\<forall>k. (imports_of modules deps)\<^sup>*\<^sup>* start k \<longrightarrow> \<not> blocks (optionalPeers m) k"
    unfolding iff by auto
  then show "links modules deps (blocks missing) [] [the (root_default m)]"
    using blocks_mono [OF sub] by (auto simp: links_iff)
qed

text \<open>The package's own manifest, as far as the script reads it.\<close>

definition package_manifest :: manifest where
  "package_manifest =
     \<lparr>mf_name = ''@iveri/nest-sdk'',
      mf_keys = [''name'', ''version'', ''description'', ''license'', ''repository'', ''publishConfig'', ''type'', ''engines'',
        ''packageManager'', ''exports'', ''files'', ''scripts'', ''prettier'', ''peerDependencies'',
        ''peerDependenciesMeta'', ''devDependencies''],
      mf_exports =
        [(''.'', Conditions [(''types'', ''./dist/index.d.ts''), (''default'', ''./dist/index.js'')]),
         (''./e2e'', Conditions [(''types'', ''./dist/e2e/index.d.ts''), (''default'', ''./dist/e2e/index.js'')]),
         (''./service-token'', Conditions [(''types'', ''./dist/service-token/index.d.ts''),
           (''default'', ''./dist/service-token/index.js'')]),
         (''./storage'', Conditions [(''types'', ''./dist/storage/index.d.ts''), (''default'', ''./dist/storage/index.js'')]),
         (''./testing'', Conditions [(''types'', ''./dist/testing/index.d.ts''), (''default'', ''./dist/testing/index.js'')]),
         (''./package.json'', Target ''./package.json'')],
      mf_peerDependenciesMeta = Some
        [(''@aws-sdk/client-s3'', Some True), (''@nestjs/axios'', Some True), (''@testcontainers/postgresql'', Some True),
         (''@testcontainers/redis'', Some True), (''axios'', Some True), (''vitest'', Some True)]\<rparr>"

text \<open>A root that imports the storage entry point drags its peer in, two imports away; without that import it passes.\<close>

definition storage_deps :: "bool \<Rightarrow> string \<Rightarrow> string list" where
  "storage_deps broken m =
     (if m = ''./dist/index.js'' then ''@nestjs/common'' # (if broken then [''./dist/storage/index.js''] else [])
      else if m = ''./dist/storage/index.js'' then [''@aws-sdk/client-s3'']
      else [])"

lemma published_entry_points_load_witness:
  "is_ok (verify_entry_points (\<lambda>_. True) (\<lambda>_. True) [''./dist/index.js'', ''./dist/storage/index.js'']
     (storage_deps False) package_manifest) \<and>
   links [''./dist/index.js'', ''./dist/storage/index.js''] (storage_deps False) (blocks [''axios'']) [] [''./dist/index.js''] \<and>
   verify_entry_points (\<lambda>_. True) (\<lambda>_. True) [''./dist/index.js'', ''./dist/storage/index.js'']
     (storage_deps True) package_manifest = Inl (Root_needs_optional_peer
       [''@aws-sdk/client-s3'', ''@nestjs/axios'', ''@testcontainers/postgresql'', ''@testcontainers/redis'', ''axios'', ''vitest''])"
proof -
  let ?ms = "[''./dist/index.js'', ''./dist/storage/index.js'']"
  have ok: "is_ok (verify_entry_points (\<lambda>_. True) (\<lambda>_. True) ?ms (storage_deps False) package_manifest)"
    by code_simp
  have "set [''axios''] \<subseteq> set (optionalPeers package_manifest)" and "root_default package_manifest = Some ''./dist/index.js''"
    by (simp_all add: optionalPeers_def package_manifest_def root_default_def)
  then have "links ?ms (storage_deps False) (blocks [''axios'']) [] [''./dist/index.js'']"
    using published_entry_points_load [of "\<lambda>_. True" "\<lambda>_. True" ?ms "storage_deps False" package_manifest "[''axios'']"] ok
    by simp
  moreover have "verify_entry_points (\<lambda>_. True) (\<lambda>_. True) ?ms (storage_deps True) package_manifest =
      Inl (Root_needs_optional_peer (optionalPeers package_manifest))"
    by code_simp
  ultimately show ?thesis using ok by (simp add: optionalPeers_def package_manifest_def)
qed

text \<open>A peer's name blocks the paths below it, not a package whose name merely begins with it.\<close>

lemma blocks_by_path:
  "blocks [''axios''] ''axios/lib'' \<and> \<not> blocks [''axios''] ''axios-retry''"
  by (simp add: blocks_def starts_with_def)

end
