(* ===== verification/ImportGraph.thy ===== *)
theory ImportGraph
  imports EntryPoints
begin

section \<open>The package's own import graph\<close>

text \<open>
  Every module of the package with the modules it imports, as the source writes them: relative
  specifiers are resolved, and \<open>import type\<close> and \<open>export type\<close>, which leave nothing behind, are left out.  The
  compiler may drop more, an import it finds used as a type only, so the emitted graph is a part of this one.
  A call of \<open>import()\<close> runs later and is no edge.
  A directory is a table, its barrel \<open>index\<close> last; where two directories import each other, the modules both
  need come first, so that every module stands after all it imports.
\<close>

type_synonym import_table = "(string \<times> string list) list"

subsection \<open>The root and what it reaches\<close>

definition config_modules :: import_table where
  "config_modules =
    [(''./config/environment.enum.js'', []),
     (''./config/log-level.enum.js'', []),
     (''./config/base-env.config.js'', [''class-transformer'', ''class-validator'',
       ''./config/environment.enum.js'', ''./config/log-level.enum.js'']),
     (''./config/validate-env.util.js'', [''class-transformer'', ''class-validator'']),
     (''./config/index.js'', [''./config/base-env.config.js'', ''./config/environment.enum.js'',
       ''./config/log-level.enum.js'', ''./config/validate-env.util.js''])]"

definition health_dto_modules :: import_table where
  "health_dto_modules =
    [(''./health/dto/health-check-result.dto.js'', [''@nestjs/swagger'']),
     (''./health/dto/liveness-response.dto.js'', [''@nestjs/swagger'']),
     (''./health/dto/readiness-response.dto.js'', [''@nestjs/swagger'',
       ''./health/dto/health-check-result.dto.js'']),
     (''./health/dto/startup-response.dto.js'', [''@nestjs/swagger'',
       ''./health/dto/health-check-result.dto.js'']),
     (''./health/dto/index.js'', [''./health/dto/health-check-result.dto.js'',
       ''./health/dto/liveness-response.dto.js'', ''./health/dto/readiness-response.dto.js'',
       ''./health/dto/startup-response.dto.js''])]"

definition redis_modules :: import_table where
  "redis_modules =
    [(''./redis/redis-module-options.interface.js'', []),
     (''./redis/redis.constant.js'', []),
     (''./redis/redis.service.js'', [''@nestjs/common'', ''ioredis'', ''./redis/redis.constant.js'']),
     (''./redis/redis.module.js'', [''@nestjs/common'', ''./redis/redis.constant.js'',
       ''./redis/redis.service.js'']),
     (''./redis/index.js'', [''./redis/redis-module-options.interface.js'', ''./redis/redis.constant.js'',
       ''./redis/redis.module.js'', ''./redis/redis.service.js''])]"

definition rate_limit_modules :: import_table where
  "rate_limit_modules =
    [(''./rate-limit/rate-limit-decision.interface.js'', []),
     (''./rate-limit/rate-limit-module-options.interface.js'', []),
     (''./rate-limit/rate-limit-policy.interface.js'', []),
     (''./rate-limit/rate-limit.constant.js'', []),
     (''./rate-limit/rate-limit-key.util.js'', [''node:crypto'', ''./rate-limit/rate-limit.constant.js'']),
     (''./rate-limit/token-bucket-command.type.js'', []),
     (''./rate-limit/token-bucket.constant.js'', []),
     (''./rate-limit/rate-limit.service.js'', [''@nestjs/common'', ''./redis/redis.service.js'',
       ''./rate-limit/rate-limit-key.util.js'', ''./rate-limit/rate-limit.constant.js'',
       ''./rate-limit/token-bucket-command.type.js'', ''./rate-limit/token-bucket.constant.js'']),
     (''./rate-limit/rate-limit.module.js'', [''@nestjs/common'', ''./rate-limit/rate-limit.constant.js'',
       ''./rate-limit/rate-limit.service.js'']),
     (''./rate-limit/index.js'', [''./rate-limit/rate-limit-decision.interface.js'',
       ''./rate-limit/rate-limit-key.util.js'', ''./rate-limit/rate-limit-module-options.interface.js'',
       ''./rate-limit/rate-limit-policy.interface.js'', ''./rate-limit/rate-limit.constant.js'',
       ''./rate-limit/rate-limit.module.js'', ''./rate-limit/rate-limit.service.js'',
       ''./rate-limit/token-bucket.constant.js''])]"

definition repository_modules :: import_table where
  "repository_modules =
    [(''./repository/base-repository.type.js'', []),
     (''./repository/tenant-scope.util.js'', []),
     (''./repository/base.repository.js'', [''./repository/tenant-scope.util.js'']),
     (''./repository/index.js'', [''./repository/base-repository.type.js'',
       ''./repository/base.repository.js'', ''./repository/tenant-scope.util.js''])]"

definition constant_modules :: import_table where
  "constant_modules =
    [(''./constant/header-key.constant.js'', []),
     (''./constant/infrastructure-route.constant.js'', []),
     (''./constant/index.js'', [''./constant/header-key.constant.js'',
       ''./constant/infrastructure-route.constant.js''])]"

definition error_reporting_modules :: import_table where
  "error_reporting_modules =
    [(''./observability/error/error-reporter-module-options.interface.js'', []),
     (''./observability/error/error-reporter.constant.js'', [''./constant/header-key.constant.js'']),
     (''./observability/error/error-reporter.interface.js'', []),
     (''./observability/error/scrub-event.util.js'', [''./observability/error/error-reporter.constant.js'']),
     (''./observability/error/error-reporter.service.js'', [''@nestjs/common'', ''@sentry/node'',
       ''./observability/error/error-reporter.constant.js'', ''./observability/error/scrub-event.util.js'']),
     (''./observability/error/error-reporter.module.js'', [''@nestjs/common'',
       ''./observability/error/error-reporter.constant.js'', ''./observability/error/error-reporter.service.js'']),
     (''./observability/error/index.js'', [
       ''./observability/error/error-reporter-module-options.interface.js'',
       ''./observability/error/error-reporter.constant.js'',
       ''./observability/error/error-reporter.interface.js'',
       ''./observability/error/error-reporter.module.js'', ''./observability/error/error-reporter.service.js'',
       ''./observability/error/scrub-event.util.js''])]"

definition entity_modules :: import_table where
  "entity_modules =
    [(''./entity/base.entity.js'', [''typeorm'']),
     (''./entity/index.js'', [''./entity/base.entity.js''])]"

definition outbox_modules :: import_table where
  "outbox_modules =
    [(''./outbox/outbox-event-status.enum.js'', []),
     (''./outbox/outbox-event.entity.js'', [''typeorm'', ''./entity/index.js'',
       ''./outbox/outbox-event-status.enum.js'']),
     (''./outbox/outbox-event.repository.js'', [''node:crypto'', ''./repository/index.js'',
       ''./outbox/outbox-event-status.enum.js'']),
     (''./outbox/outbox-retry.util.js'', []),
     (''./outbox/outbox.processor.js'', [''./outbox/outbox-event-status.enum.js'',
       ''./outbox/outbox-retry.util.js'']),
     (''./outbox/index.js'', [''./outbox/outbox-event-status.enum.js'', ''./outbox/outbox-event.entity.js'',
       ''./outbox/outbox-event.repository.js'', ''./outbox/outbox-retry.util.js'',
       ''./outbox/outbox.processor.js''])]"

definition socket_modules :: import_table where
  "socket_modules =
    [(''./socket/allowed-origin.util.js'', []),
     (''./socket/index.js'', [''./socket/allowed-origin.util.js''])]"

definition swagger_modules :: import_table where
  "swagger_modules =
    [(''./swagger/index.js'', [])]"

definition exception_leaf_modules :: import_table where
  "exception_leaf_modules =
    [(''./exception/domain.exception.js'', []),
     (''./exception/external-service.exception.js'', [''@iveri/contracts'', ''@nestjs/common'',
       ''./exception/domain.exception.js'']),
     (''./exception/forbidden-action.exception.js'', [''@iveri/contracts'', ''@nestjs/common'',
       ''./exception/domain.exception.js'']),
     (''./exception/insufficient-permission.exception.js'', [''@iveri/contracts'', ''@nestjs/common'',
       ''./exception/domain.exception.js'']),
     (''./exception/internal.exception.js'', [''@iveri/contracts'', ''@nestjs/common'',
       ''./exception/domain.exception.js'']),
     (''./exception/invalid-credentials.exception.js'', [''@iveri/contracts'', ''@nestjs/common'',
       ''./exception/domain.exception.js'']),
     (''./exception/rate-limit-exceeded.exception.js'', [''@iveri/contracts'', ''@nestjs/common'',
       ''./exception/domain.exception.js'']),
     (''./exception/resource-already-exists.exception.js'', [''@iveri/contracts'', ''@nestjs/common'',
       ''./exception/domain.exception.js'']),
     (''./exception/resource-conflict.exception.js'', [''@iveri/contracts'', ''@nestjs/common'',
       ''./exception/domain.exception.js'']),
     (''./exception/resource-not-found.exception.js'', [''@iveri/contracts'', ''@nestjs/common'',
       ''./exception/domain.exception.js'']),
     (''./exception/service-unavailable.exception.js'', [''@iveri/contracts'', ''@nestjs/common'',
       ''./exception/domain.exception.js'']),
     (''./exception/tenant-mismatch.exception.js'', [''@iveri/contracts'', ''@nestjs/common'',
       ''./exception/domain.exception.js'']),
     (''./exception/token-expired.exception.js'', [''@iveri/contracts'', ''@nestjs/common'',
       ''./exception/domain.exception.js'']),
     (''./exception/unauthenticated.exception.js'', [''@iveri/contracts'', ''@nestjs/common'',
       ''./exception/domain.exception.js'']),
     (''./exception/unprocessable-entity.exception.js'', [''@iveri/contracts'', ''@nestjs/common'',
       ''./exception/domain.exception.js'']),
     (''./exception/validation-failed.exception.js'', [''@iveri/contracts'', ''@nestjs/common'',
       ''./exception/domain.exception.js''])]"

definition context_modules :: import_table where
  "context_modules =
    [(''./context/assign-correlation-id.util.js'', [''node:crypto'', ''./constant/header-key.constant.js'']),
     (''./context/correlation-context.interface.js'', []),
     (''./context/correlation-id.service.js'', [''node:async_hooks'', ''node:crypto'', ''@nestjs/common'']),
     (''./context/correlation-id.middleware.js'', [''@nestjs/common'', ''./constant/header-key.constant.js'',
       ''./context/assign-correlation-id.util.js'', ''./context/correlation-id.service.js'']),
     (''./context/context.module.js'', [''@nestjs/common'', ''./context/correlation-id.middleware.js'',
       ''./context/correlation-id.service.js'']),
     (''./context/current-correlation-id.decorator.js'', [''@nestjs/common'',
       ''./constant/header-key.constant.js'']),
     (''./context/current-request-context.decorator.js'', [''@nestjs/common'',
       ''./exception/unauthenticated.exception.js'']),
     (''./context/request-context.interface.js'', []),
     (''./context/index.js'', [''./context/assign-correlation-id.util.js'', ''./context/context.module.js'',
       ''./context/correlation-context.interface.js'', ''./context/correlation-id.middleware.js'',
       ''./context/correlation-id.service.js'', ''./context/current-correlation-id.decorator.js'',
       ''./context/current-request-context.decorator.js'', ''./context/request-context.interface.js''])]"

definition auth_modules :: import_table where
  "auth_modules =
    [(''./auth/access-token.service.js'', [''@iveri/contracts/identity'', ''@nestjs/common'', ''@nestjs/jwt'',
       ''./exception/token-expired.exception.js'', ''./exception/unauthenticated.exception.js'']),
     (''./auth/auth-module-options.interface.js'', []),
     (''./auth/auth.module.js'', [''@nestjs/common'', ''@nestjs/jwt'', ''./auth/access-token.service.js'']),
     (''./auth/authenticated-request-context.interface.js'', []),
     (''./auth/public.decorator.js'', [''@nestjs/common'']),
     (''./auth/auth.guard.js'', [''@iveri/contracts/identity'', ''@nestjs/common'', ''@nestjs/core'',
       ''./constant/header-key.constant.js'', ''./context/current-request-context.decorator.js'',
       ''./exception/unauthenticated.exception.js'', ''./auth/access-token.service.js'',
       ''./auth/public.decorator.js'']),
     (''./auth/require-permission.decorator.js'', [''@nestjs/common'']),
     (''./auth/permission.guard.js'', [''@nestjs/common'', ''@nestjs/core'',
       ''./context/current-request-context.decorator.js'',
       ''./exception/insufficient-permission.exception.js'', ''./exception/unauthenticated.exception.js'',
       ''./auth/require-permission.decorator.js'']),
     (''./auth/index.js'', [''./auth/access-token.service.js'', ''./auth/auth-module-options.interface.js'',
       ''./auth/auth.guard.js'', ''./auth/auth.module.js'',
       ''./auth/authenticated-request-context.interface.js'', ''./auth/permission.guard.js'',
       ''./auth/public.decorator.js'', ''./auth/require-permission.decorator.js''])]"

definition health_modules :: import_table where
  "health_modules =
    [(''./health/database-readiness.check.js'', [''@nestjs/common'', ''@nestjs/typeorm'', ''typeorm'']),
     (''./health/health-check.interface.js'', []),
     (''./health/health.constant.js'', [''@nestjs/common'']),
     (''./health/health.controller.js'', [''@nestjs/common'', ''@nestjs/swagger'',
       ''./auth/public.decorator.js'', ''./health/dto/liveness-response.dto.js'',
       ''./health/dto/readiness-response.dto.js'', ''./health/dto/startup-response.dto.js'',
       ''./health/health-check.interface.js'', ''./health/health.constant.js'']),
     (''./health/health.module.js'', [''@nestjs/common'', ''./health/health-check.interface.js'',
       ''./health/health.controller.js'']),
     (''./health/index.js'', [''./health/database-readiness.check.js'', ''./health/dto/index.js'',
       ''./health/health-check.interface.js'', ''./health/health.constant.js'',
       ''./health/health.controller.js'', ''./health/health.module.js''])]"

definition encryption_modules :: import_table where
  "encryption_modules =
    [(''./encryption/encryption.constant.js'', []),
     (''./encryption/encryption.service.js'', [''node:crypto'', ''@nestjs/common'', ''@nestjs/config'',
       ''./exception/internal.exception.js'', ''./encryption/encryption.constant.js'']),
     (''./encryption/index.js'', [''./encryption/encryption.constant.js'',
       ''./encryption/encryption.service.js''])]"

definition metrics_leaf_modules :: import_table where
  "metrics_leaf_modules =
    [(''./observability/metrics/metric-source.interface.js'', []),
     (''./observability/metrics/metrics-module-options.interface.js'', []),
     (''./observability/metrics/metrics.constant.js'', [''@nestjs/common'',
       ''./constant/infrastructure-route.constant.js'']),
     (''./observability/metrics/metrics.service.js'', [''@nestjs/common'', ''@prometheus-io/client'',
       ''./observability/metrics/metrics.constant.js'']),
     (''./observability/metrics/database-pool.metric-source.js'', [''@nestjs/common'', ''@nestjs/typeorm'',
       ''typeorm'', ''./observability/metrics/metrics.constant.js'',
       ''./observability/metrics/metrics.service.js'']),
     (''./observability/metrics/metrics.controller.js'', [''@nestjs/common'', ''@nestjs/swagger'',
       ''./auth/public.decorator.js'', ''./observability/metrics/metrics.constant.js'',
       ''./observability/metrics/metrics.service.js'']),
     (''./observability/metrics/queue-depth-collector.interface.js'', []),
     (''./observability/metrics/retention-sweep.metrics.js'', [''@nestjs/common'',
       ''./observability/metrics/metrics.constant.js'', ''./observability/metrics/metrics.service.js''])]"

definition observability_leaf_modules :: import_table where
  "observability_leaf_modules =
    [(''./observability/route-pattern.util.js'', [])]"

definition metrics_modules :: import_table where
  "metrics_modules =
    [(''./observability/metrics/http-metrics.middleware.js'', [''@nestjs/common'',
       ''./constant/infrastructure-route.constant.js'', ''./observability/route-pattern.util.js'',
       ''./observability/metrics/metrics.constant.js'', ''./observability/metrics/metrics.service.js'']),
     (''./observability/metrics/metrics.module.js'', [''@nestjs/common'',
       ''./observability/metrics/http-metrics.middleware.js'', ''./observability/metrics/metrics.constant.js'',
       ''./observability/metrics/metrics.controller.js'', ''./observability/metrics/metrics.service.js'',
       ''./observability/metrics/retention-sweep.metrics.js'']),
     (''./observability/metrics/index.js'', [''./observability/metrics/database-pool.metric-source.js'',
       ''./observability/metrics/http-metrics.middleware.js'',
       ''./observability/metrics/metric-source.interface.js'',
       ''./observability/metrics/metrics-module-options.interface.js'',
       ''./observability/metrics/metrics.constant.js'', ''./observability/metrics/metrics.controller.js'',
       ''./observability/metrics/metrics.module.js'', ''./observability/metrics/metrics.service.js'',
       ''./observability/metrics/queue-depth-collector.interface.js'',
       ''./observability/metrics/retention-sweep.metrics.js''])]"

definition exception_modules :: import_table where
  "exception_modules =
    [(''./exception/global-exception.filter.js'', [''@iveri/contracts'', ''@nestjs/common'',
       ''./constant/header-key.constant.js'', ''./constant/infrastructure-route.constant.js'',
       ''./context/assign-correlation-id.util.js'', ''./context/current-request-context.decorator.js'',
       ''./observability/route-pattern.util.js'', ''./exception/domain.exception.js'']),
     (''./exception/index.js'', [''./exception/domain.exception.js'',
       ''./exception/external-service.exception.js'', ''./exception/forbidden-action.exception.js'',
       ''./exception/global-exception.filter.js'', ''./exception/insufficient-permission.exception.js'',
       ''./exception/internal.exception.js'', ''./exception/invalid-credentials.exception.js'',
       ''./exception/rate-limit-exceeded.exception.js'', ''./exception/resource-already-exists.exception.js'',
       ''./exception/resource-conflict.exception.js'', ''./exception/resource-not-found.exception.js'',
       ''./exception/service-unavailable.exception.js'', ''./exception/tenant-mismatch.exception.js'',
       ''./exception/token-expired.exception.js'', ''./exception/unauthenticated.exception.js'',
       ''./exception/unprocessable-entity.exception.js'', ''./exception/validation-failed.exception.js''])]"

definition observability_modules :: import_table where
  "observability_modules =
    [(''./observability/index.js'', [''./observability/error/index.js'', ''./observability/metrics/index.js'',
       ''./observability/route-pattern.util.js''])]"

definition root_modules :: import_table where
  "root_modules =
    [(''./index.js'', [''./auth/index.js'', ''./config/index.js'', ''./constant/index.js'',
       ''./context/index.js'', ''./encryption/index.js'', ''./entity/index.js'', ''./exception/index.js'',
       ''./health/index.js'', ''./observability/index.js'', ''./outbox/index.js'', ''./rate-limit/index.js'',
       ''./redis/index.js'', ''./repository/index.js'', ''./socket/index.js'', ''./swagger/index.js''])]"

subsection \<open>The other entry points\<close>

definition e2e_modules :: import_table where
  "e2e_modules =
    [(''./e2e/e2e-containers-options.interface.js'', []),
     (''./e2e/e2e-context.js'', [''vitest'']),
     (''./e2e/e2e.constant.js'', []),
     (''./e2e/e2e-containers.js'', [''@testcontainers/postgresql'', ''typeorm'', ''./e2e/e2e.constant.js'']),
     (''./e2e/truncate-all-tables.util.js'', [''./e2e/e2e.constant.js'']),
     (''./e2e/index.js'', [''./e2e/e2e-containers-options.interface.js'', ''./e2e/e2e-containers.js'',
       ''./e2e/e2e-context.js'', ''./e2e/e2e.constant.js'', ''./e2e/truncate-all-tables.util.js''])]"

definition service_token_modules :: import_table where
  "service_token_modules =
    [(''./service-token/service-token-module-options.interface.js'', []),
     (''./service-token/service-token.constant.js'', []),
     (''./service-token/service-token.service.js'', [''@nestjs/axios'', ''@nestjs/common'', ''rxjs'',
       ''./exception/index.js'', ''./service-token/service-token.constant.js'']),
     (''./service-token/service-token.module.js'', [''@nestjs/axios'', ''@nestjs/common'',
       ''./service-token/service-token.constant.js'', ''./service-token/service-token.service.js'']),
     (''./service-token/index.js'', [''./service-token/service-token-module-options.interface.js'',
       ''./service-token/service-token.constant.js'', ''./service-token/service-token.module.js'',
       ''./service-token/service-token.service.js''])]"

definition storage_modules :: import_table where
  "storage_modules =
    [(''./storage/object-storage-module-options.interface.js'', []),
     (''./storage/object-storage.constant.js'', []),
     (''./storage/object-storage.service.js'', [''@aws-sdk/client-s3'', ''@nestjs/common'',
       ''./storage/object-storage.constant.js'']),
     (''./storage/object-storage.module.js'', [''@nestjs/common'', ''./storage/object-storage.constant.js'',
       ''./storage/object-storage.service.js'']),
     (''./storage/index.js'', [''./storage/object-storage-module-options.interface.js'',
       ''./storage/object-storage.constant.js'', ''./storage/object-storage.module.js'',
       ''./storage/object-storage.service.js''])]"

definition testing_modules :: import_table where
  "testing_modules =
    [(''./testing/registered-route.js'', [''@nestjs/common'', ''@nestjs/common/constants'', ''@nestjs/core'',
       ''./auth/public.decorator.js'', ''./auth/require-permission.decorator.js'']),
     (''./testing/index.js'', [''./testing/registered-route.js''])]"

definition reached_modules :: import_table where
  "reached_modules =
     config_modules @ health_dto_modules @ redis_modules @ rate_limit_modules @ repository_modules @
     constant_modules @ error_reporting_modules @ entity_modules @ outbox_modules @ socket_modules @
     swagger_modules @ exception_leaf_modules @ context_modules @ auth_modules @ health_modules @
     encryption_modules @ metrics_leaf_modules @ observability_leaf_modules @ metrics_modules @
     exception_modules @ observability_modules @ root_modules"

definition module_graph :: import_table where
  "module_graph = reached_modules @ e2e_modules @ service_token_modules @ storage_modules @ testing_modules"

subsection \<open>Tables in order\<close>

text \<open>A package or a module of the runtime, which no relative path names.\<close>

definition external :: "string \<Rightarrow> bool" where
  "external d \<longleftrightarrow> (case d of [] \<Rightarrow> True | c # _ \<Rightarrow> c \<noteq> CHR ''.'')"

text \<open>A table as the list of its modules, the last first.\<close>

definition before :: "import_table \<Rightarrow> string list" where
  "before t = rev (map fst t)"

text \<open>Each module imports modules before it, or packages of the list.\<close>

fun in_order :: "string list \<Rightarrow> string list \<Rightarrow> import_table \<Rightarrow> bool" where
  "in_order packages seen [] = True"
| "in_order packages seen ((m, ds) # rest) =
     (\<not> external m \<and> list_all (\<lambda>d. d \<in> set (if external d then packages else seen)) ds \<and>
      in_order packages (m # seen) rest)"

lemma in_order_append:
  "in_order packages seen (as @ bs) \<longleftrightarrow> in_order packages seen as \<and> in_order packages (before as @ seen) bs"
  by (induction packages seen as rule: in_order.induct) (auto simp: before_def)

lemma in_order_mono:
  "in_order ps seen t \<Longrightarrow> set ps \<subseteq> set ps' \<Longrightarrow> set seen \<subseteq> set seen' \<Longrightarrow> in_order ps' seen' t"
proof (induction ps seen t arbitrary: seen' rule: in_order.induct)
  case (2 ps seen m ds rest)
  have "set (m # seen) \<subseteq> set (m # seen')" using "2.prems"(3) by auto
  then have "in_order ps' (m # seen') rest" using 2 by simp
  then show ?case using "2.prems" by (auto simp: list_all_iff split: if_splits)
qed simp

text \<open>The packages the root reaches; the rest are for the other entry points.\<close>

definition packages :: "string list" where
  "packages = [''@nestjs/common'', ''@nestjs/swagger'', ''class-transformer'', ''class-validator'', ''ioredis'',
     ''node:crypto'', ''node:async_hooks'', ''typeorm'', ''@sentry/node'', ''@iveri/contracts'',
     ''@iveri/contracts/identity'', ''@nestjs/config'', ''@nestjs/core'', ''@nestjs/jwt'', ''@nestjs/typeorm'',
     ''@prometheus-io/client'']"

definition all_packages :: "string list" where
  "all_packages = packages @ [''@testcontainers/postgresql'', ''vitest'', ''@nestjs/axios'', ''rxjs'',
     ''@aws-sdk/client-s3'', ''@nestjs/common/constants'']"

text \<open>Table by table: what it imports is in it, in the tables before it, or a package.\<close>

lemma config_modules_ordered:
  "in_order packages ([]) config_modules"
  by code_simp

lemma health_dto_modules_ordered:
  "in_order packages (before config_modules) health_dto_modules"
  by code_simp

lemma redis_modules_ordered:
  "in_order packages (before health_dto_modules @ before config_modules) redis_modules"
  by code_simp

lemma rate_limit_modules_ordered:
  "in_order packages (before redis_modules @ before health_dto_modules @ before config_modules) rate_limit_modules"
  by code_simp

lemma repository_modules_ordered:
  "in_order packages (before rate_limit_modules @ before redis_modules @ before health_dto_modules @
     before config_modules) repository_modules"
  by code_simp

lemma constant_modules_ordered:
  "in_order packages (before repository_modules @ before rate_limit_modules @ before redis_modules @
     before health_dto_modules @ before config_modules) constant_modules"
  by code_simp

lemma error_reporting_modules_ordered:
  "in_order packages (before constant_modules @ before repository_modules @ before rate_limit_modules @
     before redis_modules @ before health_dto_modules @ before config_modules) error_reporting_modules"
  by code_simp

lemma entity_modules_ordered:
  "in_order packages (before error_reporting_modules @ before constant_modules @ before repository_modules @
     before rate_limit_modules @ before redis_modules @ before health_dto_modules @ before config_modules) entity_modules"
  by code_simp

lemma outbox_modules_ordered:
  "in_order packages (before entity_modules @ before error_reporting_modules @ before constant_modules @
     before repository_modules @ before rate_limit_modules @ before redis_modules @ before health_dto_modules @
     before config_modules) outbox_modules"
  by code_simp

lemma socket_modules_ordered:
  "in_order packages (before outbox_modules @ before entity_modules @ before error_reporting_modules @
     before constant_modules @ before repository_modules @ before rate_limit_modules @ before redis_modules @
     before health_dto_modules @ before config_modules) socket_modules"
  by code_simp

lemma swagger_modules_ordered:
  "in_order packages (before socket_modules @ before outbox_modules @ before entity_modules @
     before error_reporting_modules @ before constant_modules @ before repository_modules @
     before rate_limit_modules @ before redis_modules @ before health_dto_modules @ before config_modules) swagger_modules"
  by code_simp

lemma exception_leaf_modules_ordered:
  "in_order packages (before swagger_modules @ before socket_modules @ before outbox_modules @
     before entity_modules @ before error_reporting_modules @ before constant_modules @
     before repository_modules @ before rate_limit_modules @ before redis_modules @ before health_dto_modules @
     before config_modules) exception_leaf_modules"
  by code_simp

lemma context_modules_ordered:
  "in_order packages (before exception_leaf_modules @ before swagger_modules @ before socket_modules @
     before outbox_modules @ before entity_modules @ before error_reporting_modules @ before constant_modules @
     before repository_modules @ before rate_limit_modules @ before redis_modules @ before health_dto_modules @
     before config_modules) context_modules"
  by code_simp

lemma auth_modules_ordered:
  "in_order packages (before context_modules @ before exception_leaf_modules @ before swagger_modules @
     before socket_modules @ before outbox_modules @ before entity_modules @ before error_reporting_modules @
     before constant_modules @ before repository_modules @ before rate_limit_modules @ before redis_modules @
     before health_dto_modules @ before config_modules) auth_modules"
  by code_simp

lemma health_modules_ordered:
  "in_order packages (before auth_modules @ before context_modules @ before exception_leaf_modules @
     before swagger_modules @ before socket_modules @ before outbox_modules @ before entity_modules @
     before error_reporting_modules @ before constant_modules @ before repository_modules @
     before rate_limit_modules @ before redis_modules @ before health_dto_modules @ before config_modules) health_modules"
  by code_simp

lemma encryption_modules_ordered:
  "in_order packages (before health_modules @ before auth_modules @ before context_modules @
     before exception_leaf_modules @ before swagger_modules @ before socket_modules @ before outbox_modules @
     before entity_modules @ before error_reporting_modules @ before constant_modules @
     before repository_modules @ before rate_limit_modules @ before redis_modules @ before health_dto_modules @
     before config_modules) encryption_modules"
  by code_simp

lemma metrics_leaf_modules_ordered:
  "in_order packages (before encryption_modules @ before health_modules @ before auth_modules @
     before context_modules @ before exception_leaf_modules @ before swagger_modules @ before socket_modules @
     before outbox_modules @ before entity_modules @ before error_reporting_modules @ before constant_modules @
     before repository_modules @ before rate_limit_modules @ before redis_modules @ before health_dto_modules @
     before config_modules) metrics_leaf_modules"
  by code_simp

lemma observability_leaf_modules_ordered:
  "in_order packages (before metrics_leaf_modules @ before encryption_modules @ before health_modules @
     before auth_modules @ before context_modules @ before exception_leaf_modules @ before swagger_modules @
     before socket_modules @ before outbox_modules @ before entity_modules @ before error_reporting_modules @
     before constant_modules @ before repository_modules @ before rate_limit_modules @ before redis_modules @
     before health_dto_modules @ before config_modules) observability_leaf_modules"
  by code_simp

lemma metrics_modules_ordered:
  "in_order packages (before observability_leaf_modules @ before metrics_leaf_modules @
     before encryption_modules @ before health_modules @ before auth_modules @ before context_modules @
     before exception_leaf_modules @ before swagger_modules @ before socket_modules @ before outbox_modules @
     before entity_modules @ before error_reporting_modules @ before constant_modules @
     before repository_modules @ before rate_limit_modules @ before redis_modules @ before health_dto_modules @
     before config_modules) metrics_modules"
  by code_simp

lemma exception_modules_ordered:
  "in_order packages (before metrics_modules @ before observability_leaf_modules @
     before metrics_leaf_modules @ before encryption_modules @ before health_modules @ before auth_modules @
     before context_modules @ before exception_leaf_modules @ before swagger_modules @ before socket_modules @
     before outbox_modules @ before entity_modules @ before error_reporting_modules @ before constant_modules @
     before repository_modules @ before rate_limit_modules @ before redis_modules @ before health_dto_modules @
     before config_modules) exception_modules"
  by code_simp

lemma observability_modules_ordered:
  "in_order packages (before exception_modules @ before metrics_modules @ before observability_leaf_modules @
     before metrics_leaf_modules @ before encryption_modules @ before health_modules @ before auth_modules @
     before context_modules @ before exception_leaf_modules @ before swagger_modules @ before socket_modules @
     before outbox_modules @ before entity_modules @ before error_reporting_modules @ before constant_modules @
     before repository_modules @ before rate_limit_modules @ before redis_modules @ before health_dto_modules @
     before config_modules) observability_modules"
  by code_simp

lemma root_modules_ordered:
  "in_order packages (before observability_modules @ before exception_modules @ before metrics_modules @
     before observability_leaf_modules @ before metrics_leaf_modules @ before encryption_modules @
     before health_modules @ before auth_modules @ before context_modules @ before exception_leaf_modules @
     before swagger_modules @ before socket_modules @ before outbox_modules @ before entity_modules @
     before error_reporting_modules @ before constant_modules @ before repository_modules @
     before rate_limit_modules @ before redis_modules @ before health_dto_modules @ before config_modules) root_modules"
  by code_simp

lemmas tables_ordered = config_modules_ordered health_dto_modules_ordered redis_modules_ordered
  rate_limit_modules_ordered repository_modules_ordered constant_modules_ordered
  error_reporting_modules_ordered entity_modules_ordered outbox_modules_ordered socket_modules_ordered
  swagger_modules_ordered exception_leaf_modules_ordered context_modules_ordered auth_modules_ordered
  health_modules_ordered encryption_modules_ordered metrics_leaf_modules_ordered
  observability_leaf_modules_ordered metrics_modules_ordered exception_modules_ordered
  observability_modules_ordered root_modules_ordered

lemma reached_ordered: "in_order packages [] reached_modules"
  unfolding reached_modules_def in_order_append using tables_ordered by simp

lemma others_ordered:
  "in_order all_packages [] e2e_modules"
  "in_order all_packages (before exception_modules) service_token_modules"
  "in_order all_packages [] storage_modules"
  "in_order all_packages (before auth_modules) testing_modules"
  by code_simp+

lemma graph_ordered: "in_order all_packages [] module_graph"
proof -
  have "set (before exception_modules) \<subseteq> set (before reached_modules)"
    "set (before auth_modules) \<subseteq> set (before reached_modules)"
    by (auto simp: reached_modules_def before_def)
  moreover have "set packages \<subseteq> set all_packages" by (auto simp: all_packages_def)
  ultimately show ?thesis
    unfolding module_graph_def in_order_append append_Nil2
    by (intro conjI in_order_mono [OF reached_ordered] others_ordered(1) [THEN in_order_mono]
        others_ordered(2) [THEN in_order_mono] others_ordered(3) [THEN in_order_mono]
        others_ordered(4) [THEN in_order_mono]) auto
qed

subsection \<open>From the source to what is emitted\<close>

text \<open>The compiler puts a module of the source's root directory under \<open>./dist\<close>, at the same path.\<close>

definition to_dist :: "string \<Rightarrow> string" where
  "to_dist d = (if external d then d else ''./dist'' @ tl d)"

definition emitted_graph :: import_table where
  "emitted_graph = map (\<lambda>(m, ds). (to_dist m, map to_dist ds)) module_graph"

definition emitted_modules :: "string list" where
  "emitted_modules = map fst emitted_graph"

definition emitted_imports :: "string \<Rightarrow> string list" where
  "emitted_imports m = nullish (map_of emitted_graph m) []"

lemma external_dist [simp]: "external (to_dist d) = external d"
  by (simp add: to_dist_def external_def)

lemma path_begins: "\<not> external a \<Longrightarrow> \<exists>x. a = CHR ''.'' # x"
  by (cases a) (auto simp: external_def)

lemma to_dist_inj: "to_dist a = to_dist b \<longleftrightarrow> a = b" if "\<not> external a" "\<not> external b"
  using path_begins [OF that(1)] path_begins [OF that(2)] by (auto simp: to_dist_def external_def)

lemma in_order_internal: "in_order ps seen t \<Longrightarrow> (m, ds) \<in> set t \<Longrightarrow> \<not> external m"
  by (induction ps seen t rule: in_order.induct) auto

lemma map_of_emitted:
  "\<not> external n \<Longrightarrow> list_all (\<lambda>(m, _). \<not> external m) t \<Longrightarrow>
   map_of (map (\<lambda>(m, ds). (to_dist m, map to_dist ds)) t) (to_dist n) = map_option (map to_dist) (map_of t n)"
  by (induction t) (auto simp: to_dist_inj)

lemma emitted_imports_of:
  assumes "\<not> external n"
  shows "emitted_imports (to_dist n) = map to_dist (nullish (map_of module_graph n) [])"
proof -
  have "list_all (\<lambda>(m, _). \<not> external m) module_graph"
    using in_order_internal [OF graph_ordered] by (auto simp: list_all_iff)
  then show ?thesis
    using map_of_emitted [OF assms] by (cases "map_of module_graph n") (simp_all add: emitted_imports_def emitted_graph_def)
qed

lemma in_order_closed:
  "in_order ps seen t \<Longrightarrow> (m, ds) \<in> set t \<Longrightarrow> d \<in> set ds \<Longrightarrow>
   if external d then d \<in> set ps else d \<in> set seen \<union> fst ` set t"
  by (induction ps seen t rule: in_order.induct) (auto simp: list_all_iff split: if_splits)

text \<open>Where a module stands in a table.\<close>

definition position :: "import_table \<Rightarrow> string \<Rightarrow> nat" where
  "position t m = length (takeWhile (\<lambda>e. fst e \<noteq> m) t)"

lemma in_order_position:
  "in_order ps seen t \<Longrightarrow> map_of t m = Some ds \<Longrightarrow> d \<in> set ds \<Longrightarrow> \<not> external d \<Longrightarrow> d \<notin> set seen \<Longrightarrow>
   position t d < position t m"
  by (induction ps seen t rule: in_order.induct) (auto simp: position_def list_all_iff split: if_splits)

subsection \<open>No package the root loads is refused\<close>

lemma packages_not_blocked: "list_all (\<lambda>p. \<not> blocks (optionalPeers package_manifest) p) packages"
  by code_simp

lemma paths_not_blocked:
  assumes "\<not> external m" shows "\<not> blocks (optionalPeers package_manifest) m"
proof -
  obtain x where "m = CHR ''.'' # x" using path_begins [OF assms] by blast
  then show ?thesis by (auto simp: blocks_def optionalPeers_def package_manifest_def starts_with_def)
qed

definition root_loads :: "string set" where
  "root_loads = to_dist ` fst ` set reached_modules \<union> set packages"

lemma root_linked_whole:
  assumes "\<forall>m. set (deps m) \<subseteq> set (emitted_imports m)"
  shows "linked_whole emitted_modules deps (blocks (optionalPeers package_manifest)) root_loads"
  unfolding linked_whole_def
proof (intro ballI conjI allI impI)
  fix m k
  assume m: "m \<in> root_loads"
  show "\<not> blocks (optionalPeers package_manifest) m"
    using m packages_not_blocked paths_not_blocked in_order_internal [OF reached_ordered]
    by (fastforce simp: root_loads_def list_all_iff)
  assume "imports_of emitted_modules deps m k"
  then have mem: "m \<in> set emitted_modules" and k: "k \<in> set (emitted_imports m)"
    using assms by (auto simp: imports_of_def)
  have "\<not> external m"
    using mem in_order_internal [OF graph_ordered] by (auto simp: emitted_modules_def emitted_graph_def)
  moreover have "\<forall>p \<in> set packages. external p" by (simp add: packages_def external_def)
  ultimately obtain n where n: "m = to_dist n" "n \<in> fst ` set reached_modules" "\<not> external n"
    using m by (force simp: root_loads_def)
  then obtain ds where ds: "map_of reached_modules n = Some ds"
    by (metis (no_types) not_None_eq map_of_eq_None_iff)
  then have "map_of module_graph n = Some ds" by (simp add: module_graph_def)
  then obtain d where d: "k = to_dist d" "d \<in> set ds" using k emitted_imports_of [OF n(3)] n(1) by auto
  have "if external d then d \<in> set packages else d \<in> fst ` set reached_modules"
    using in_order_closed [OF reached_ordered map_of_SomeD [OF ds] d(2)] by (auto split: if_splits)
  then show "k \<in> root_loads" by (auto simp: root_loads_def d(1) to_dist_def split: if_splits)
qed

subsection \<open>No cycles\<close>

definition of_dist :: "string \<Rightarrow> string" where
  "of_dist m = CHR ''.'' # drop 6 m"

lemma of_dist_to_dist [simp]: "\<not> external n \<Longrightarrow> of_dist (to_dist n) = n"
  by (auto simp: of_dist_def to_dist_def dest: path_begins)

lemma import_descends:
  assumes "\<forall>m. set (deps m) \<subseteq> set (emitted_imports m)" and "imports_of emitted_modules deps m k"
    and "k \<in> set emitted_modules"
  shows "position module_graph (of_dist k) < position module_graph (of_dist m)"
proof -
  have int: "\<exists>n. x = to_dist n \<and> n \<in> fst ` set module_graph \<and> \<not> external n" if "x \<in> set emitted_modules" for x
    using that in_order_internal [OF graph_ordered] by (force simp: emitted_modules_def emitted_graph_def)
  obtain n where n: "m = to_dist n" "\<not> external n" using int assms(2) by (auto simp: imports_of_def)
  obtain d where d: "k = to_dist d" "\<not> external d" using int [OF assms(3)] by blast
  have "to_dist d \<in> set (emitted_imports (to_dist n))"
    using assms(1,2) by (auto simp: imports_of_def n d)
  then have "to_dist d \<in> set (map to_dist (nullish (map_of module_graph n) []))"
    unfolding emitted_imports_of [OF n(2)] .
  then obtain ds d' where ds: "map_of module_graph n = Some ds" "d' \<in> set ds" "to_dist d = to_dist d'"
    by (cases "map_of module_graph n") auto
  moreover have "\<not> external d'" using d(2) ds(3) external_dist by metis
  ultimately have "d' = d" using d(2) by (simp add: to_dist_inj)
  then show ?thesis using in_order_position [OF graph_ordered ds(1) ds(2)] d n by simp
qed

lemma import_chain_descends:
  assumes "\<forall>m. set (deps m) \<subseteq> set (emitted_imports m)"
  shows "(imports_of emitted_modules deps)\<^sup>+\<^sup>+ m k \<Longrightarrow> k \<in> set emitted_modules \<Longrightarrow>
    position module_graph (of_dist k) < position module_graph (of_dist m)"
proof (induction rule: tranclp_induct)
  case (step y z)
  have "y \<in> set emitted_modules" using step.hyps(2) by (simp add: imports_of_def)
  then show ?case using step.IH import_descends [OF assms step.hyps(2) step.prems] by simp
qed (rule import_descends [OF assms])

subsection \<open>Properties\<close>

text \<open>
  C18: the package passes its own check.  With the imports the source writes, or fewer, once every
  entry point is emitted and loads where everything is installed, the root reaches none of the six optional peers
  through any of the 109 modules it links, so the script that ends the build passes; and the root links for a
  consumer that has left out any of the peers.
\<close>

theorem root_needs_no_optional_peer:
  assumes "\<forall>m. set (deps m) \<subseteq> set (emitted_imports m)"
    and "list_all (good_entry exists_file loads package_manifest) (mf_exports package_manifest)"
    and "set missing \<subseteq> set (optionalPeers package_manifest)"
  shows "is_ok (verify_entry_points exists_file loads emitted_modules deps package_manifest) \<and>
    links emitted_modules deps (blocks missing) [] [''./dist/index.js'']"
proof -
  have root: "root_default package_manifest = Some ''./dist/index.js''"
    by (simp add: root_default_def package_manifest_def)
  have "''./dist/index.js'' = to_dist ''./index.js''" by (simp add: to_dist_def external_def)
  then have "''./dist/index.js'' \<in> root_loads"
    by (force simp: root_loads_def reached_modules_def root_modules_def)
  then have free: "\<not> blocks (optionalPeers package_manifest) k"
    if "(imports_of emitted_modules deps)\<^sup>*\<^sup>* ''./dist/index.js'' k" for k
    using linked_whole_reaches [OF that root_linked_whole [OF assms(1)]] root_linked_whole [OF assms(1)]
    by (simp add: linked_whole_def)
  have "is_ok (check_fields package_manifest legacy_fields)"
    by (simp add: check_fields_ok legacy_fields_def package_manifest_def)
  then have "is_ok (verify_entry_points exists_file loads emitted_modules deps package_manifest)"
    using check_exports_ok [of exists_file loads package_manifest "mf_exports package_manifest"] assms(2) free
    by (auto simp: verify_entry_points_def is_ok_bind links_iff root split: sum.split)
  then show ?thesis using free blocks_mono [OF assms(3)] by (auto simp: links_iff)
qed

lemma root_needs_no_optional_peer_witness:
  "is_ok (verify_entry_points (\<lambda>_. True) (\<lambda>_. True) emitted_modules emitted_imports package_manifest) \<and>
   links emitted_modules emitted_imports (blocks [''axios'', ''vitest'']) [] [''./dist/index.js'']"
proof (rule root_needs_no_optional_peer)
  show "list_all (good_entry (\<lambda>_. True) (\<lambda>_. True) package_manifest) (mf_exports package_manifest)"
    by (simp add: package_manifest_def good_entry_def)
  show "set [''axios'', ''vitest''] \<subseteq> set (optionalPeers package_manifest)"
    by (simp add: optionalPeers_def package_manifest_def)
qed simp

text \<open>
  No module waits for itself: the import graph has no cycle, so that every module is evaluated after all it imports
  and never meets a binding that is not initialised.
\<close>

lemma imports_acyclic:
  assumes "\<forall>m. set (deps m) \<subseteq> set (emitted_imports m)"
  shows "\<not> (imports_of emitted_modules deps)\<^sup>+\<^sup>+ m m"
proof
  assume "(imports_of emitted_modules deps)\<^sup>+\<^sup>+ m m"
  moreover from this have "m \<in> set emitted_modules"
    by (auto simp: imports_of_def dest: tranclpD)
  ultimately show False using import_chain_descends [OF assms] by blast
qed

end
