(* ===== verification/Spec2Isabelle.thy ===== *)
theory Spec2Isabelle
  imports RequestLife Scrub OutboxSpec RateLimitSkew ServiceToken Encryption Redis Health Storage
    RouteMatrix Config Socket Containers NestModules Scrape Stylesheet ImportGraph TenantIsolation
begin

text \<open>
  A verification development for the Iveri Nest SDK, the TypeScript package the services of the fleet
  share.  File names below are relative to \<^verbatim>\<open>src/\<close>, the package's source directory.

  \<^bold>\<open>The program.\<close>  A request enters through middleware that gives it a correlation id and counts it, is
  admitted by an authentication and a permission guard, and reaches a handler that works on a
  tenant-scoped repository; whatever is thrown on the way is turned into a response, a log line and
  perhaps an error report by one exception filter.  Beside the request path, a processor drains an
  outbox table that several replicas share, a rate limiter keeps token buckets in Redis, a client
  caches the token it calls other services with, fields are encrypted in an envelope, health probes
  and a metrics endpoint answer the orchestrator and the scraper.

  \<^bold>\<open>Theories and the code they model.\<close>
  \<^item> \<open>Prelude\<close>: JavaScript values, strings, objects, thrown results; no file of its own.
  \<^item> \<open>Http\<close>: \<^verbatim>\<open>constant/\<close>, \<^verbatim>\<open>observability/route-pattern.util.ts\<close>, the request contexts.
  \<^item> \<open>Correlation\<close>: \<^verbatim>\<open>context/\<close>: assigning the id, the ambient store, middleware and decorator.
  \<^item> \<open>Exceptions\<close>, \<open>ErrorReporter\<close>, \<open>ExceptionFilter\<close>: \<^verbatim>\<open>exception/\<close> and
    \<^verbatim>\<open>observability/error/error-reporter.*\<close>; \<open>Scrub\<close>: \<^verbatim>\<open>observability/error/scrub-event.util.ts\<close>, on a
    heap that may be cyclic.
  \<^item> \<open>TenantScope\<close>, and \<open>TenantIsolation\<close> for several tenants on one table: \<^verbatim>\<open>repository/\<close> and
    \<^verbatim>\<open>entity/base.entity.ts\<close>.
  \<^item> \<open>Auth\<close>: \<^verbatim>\<open>auth/\<close>; \<open>RouteMatrix\<close>: \<^verbatim>\<open>testing/registered-route.ts\<close>.
  \<^item> \<open>Outbox\<close> (storage), \<open>OutboxProcessor\<close> (the loop), \<open>OutboxSystem\<close> (replicas that race and die),
    \<open>OutboxSpec\<close> (the abstract outbox, and progress): \<^verbatim>\<open>outbox/\<close>.
  \<^item> \<open>RateLimit\<close>, and \<open>RateLimitSkew\<close> for clocks that disagree: \<^verbatim>\<open>rate-limit/\<close>; \<open>Redis\<close>: \<^verbatim>\<open>redis/redis.service.ts\<close>.
  \<^item> \<open>ServiceToken\<close>: \<^verbatim>\<open>service-token/\<close>; \<open>Base64\<close> and \<open>Encryption\<close>: \<^verbatim>\<open>encryption/\<close>.
  \<^item> \<open>Metrics\<close>, \<open>MetricsScope\<close> (labels) and \<open>Scrape\<close> (scrapes that overlap): \<^verbatim>\<open>observability/metrics/\<close>; \<open>Health\<close>: \<^verbatim>\<open>health/\<close>.
  \<^item> \<open>Storage\<close>: \<^verbatim>\<open>storage/\<close>; \<open>Config\<close>: \<^verbatim>\<open>config/\<close>; \<open>Socket\<close>: \<^verbatim>\<open>socket/\<close>; \<open>E2e\<close> and
    \<open>Containers\<close>: \<^verbatim>\<open>e2e/\<close>.
  \<^item> \<open>NestModules\<close>: the \<^verbatim>\<open>*.module.ts\<close> files and the constructors of what they provide.
  \<^item> \<open>SwaggerUi\<close>, \<open>Cascade\<close> and \<open>Stylesheet\<close>: \<^verbatim>\<open>swagger/index.ts\<close>, the script as steps of a page; as much of CSS as
    the file writes; and its style sheet, rule by rule.
  \<^item> \<open>EntryPoints\<close> and \<open>ImportGraph\<close>: \<^verbatim>\<open>../scripts/verify-entry-points.mjs\<close>, the manifest, and the imports of
    every module of the package.
  \<^item> \<open>RequestFlow\<close>: the guards, the repository and the filter composed in the documented order;
    \<open>RequestLife\<close>: the correlation middleware and the metrics around them and any handler.

  A class is a record of its fields and one definition per method, named after it, with the class in
  front where two classes share a name; an exception is the left summand of a result; an enum is a
  datatype.  A call into a library, the clock, randomness and \<open>randomUUID\<close> are arguments.  Where a
  method awaits and others may run in between, its parts are separate definitions and a step
  relation interleaves them: \<open>token_step\<close>, \<open>probe_step\<close>, \<open>middleware_step\<close>, \<open>scrape_step\<close>,
  \<open>outbox_step\<close>, \<open>page_step\<close>.  SQL, the Lua script of the limiter and the browser
  script are translated to functions on the table, the keys and the page.

  \<^bold>\<open>Interfaces.\<close>  Each place where one part relies on the laws of another is a locale, interpreted on
  the definitions of the part that provides them: the tenant scope the repository builds on
  (\<open>ts\<close>), the correlation ids the filter quotes (\<open>cr\<close>), the reporter the filter drives (\<open>reporter\<close>), the
  token verifier behind the guard (\<open>av\<close>), the store behind the processor (\<open>rs\<close>), the metered bucket
  (\<open>tb\<close>), the field codec of the envelope (\<open>b64\<close>), the depth reader a scrape asks (\<open>outbox_depth\<close>),
  the operations of the repository as moves of separate parties (\<open>repo\<close>).

  \<^bold>\<open>What the lemmas show.\<close>
  \<^item> Tenancy: scoping a query forces the tenant into every clause; reads, updates, soft deletes and
    restores stay within it; \<open>save\<close> does not (\<open>saveOne_takes_over_row\<close>).  But for that, each tenant works as on a table of its
    own, whatever the others do in between.  \<open>RequestFlow\<close> carries this from
    the verified token to the rows a handler sees and changes, given that the handler passes on the tenant of its context.
  \<^item> Access: what the context of a request takes from its token; what the guards admit and refuse, exactly; an empty report of undeclared routes means no
    route is open by omission, except where a handler overrides its class with an empty list.
  \<^item> Failures: what a caller is told, what is logged and what is reported, on every branch of the filter;
    nothing of an unexpected error leaks unless asked for; refusals are never reported; from the handler to the
    report everything said of a request carries one id.
  \<^item> Outbox: claims are exclusive, a terminal write lands once, the table's invariant holds in every
    interleaving, no row leaves the table, every run refines the abstract life of an event, and cycles with a working database
    finish every event: as many as the attempts of all events together are enough.
  \<^item> Limiter: the script answers each caller as a textbook bucket that never expires would, never grants
    more than the policy, and gives exact hints; also when the replicas' clocks run up to half a second
    ahead of Redis's, behind it or backwards.
  \<^item> Encryption: the round trip, and that nothing decrypts but what was sealed.
  \<^item> Metrics and health: one count per request in any order of events; a failing collector leaves a gap
    and nothing else, though a scrape that overlaps another may lose depths too; the startup probe latches
    under overlapping probes.  A failure is counted as what the caller was told; labels are the declared
    ones, and say nothing of a tenant.
  \<^item> Wiring: every module provides what it exports and leaves open only what is documented to come from
    elsewhere; each service is made with the options its factory makes, or not at all.
  \<^item> Packaging: the check of the entry points passes exactly when it should, and the package's own import graph
    passes it and has no cycle.
  \<^item> The Swagger page: one theme toggle that says the truth; the colour of a method is on its verb alone, in
    the page's theme; three texts that keep the colours of the light theme in the dark one.
  \<^item> The rest: single flight of the token exchange, the throttled Redis
    log, the report of an invalid environment, the truncation statement read back, the calls of an end-to-end
    setup and its failures.

  \<^bold>\<open>Bounds.\<close>  Strings are of code units below 256, numbers are exact rationals or integers: rounding,
  \<open>NaN\<close> and infinities are left out, but for the one division by zero the limiter can reach.  All
  recursion is total; the scrubber recurses on its depth bound, at most seven levels, whatever the
  heap.  No fuel is used.  Progress of the outbox is stated for clocks at which what is scheduled is due,
  a processor that runs alone and a batch of at least one row; the bound on the cycles is the sum over the events of their attempts,
  at least one each.

  \<^bold>\<open>Parameters.\<close>  TypeORM, the JWT library, AES-GCM, the Redis, S3 and Prometheus clients, Sentry, the
  validator and Nest's reflector and exceptions are arguments; what is relied on of them is a named
  predicate (\<open>reads_documented\<close>, \<open>writes_documented\<close>, \<open>crypto_documented\<close>, \<open>crypto_authentic\<close>,
  \<open>reflects_documented\<close>, \<open>unavailable_documented\<close>, \<open>injector_documented\<close>, \<open>send_documented\<close>,
  \<open>writes_none_of\<close>, \<open>local_orm\<close>, \<open>yields_on\<close> of the styles of Swagger UI), each shown to hold of a concrete
  instance.

  \<^bold>\<open>Not modelled.\<close>  The OpenAPI decorators and the response classes that only document the probes;
  of CSS, shorthands against longhands, and what Swagger UI's own styles say; the registration of middleware
  on routes, which is the framework's; the rendering of the registry as text, which is the Prometheus
  client's; the evaluation of a module's body when it is loaded.
\<close>

end
